(* ===== verification/Psc_Prelude.thy ===== *)
theory Psc_Prelude
  imports Main "HOL-Library.Word" "HOL-Library.State_Monad"
begin

text \<open>
  Shared vocabulary of the development.

  \<^item> The machine integers of the firmware (\<open>u8\<close>, \<open>u16\<close>, \<open>u32\<close>, \<open>s32\<close> read through
    \<open>sint\<close>) and byte strings.
  \<^item> Byte order: the Zynq processing system is little-endian, the PSC wire format is
    big-endian. \<open>byte_codec\<close> is the contract of a fixed-width encoding; every encoding used
    by the firmware is an interpretation of it.
  \<^item> Effects: a C function is a computation of the library's state monad. \<open>io_preorder\<close> is
    the contract of a relation between the state before and after a computation that
    sequential composition keeps (frames, invariants, "only these events are added"); its
    lemmas are the structural rules with which such facts are proved of whole handlers.
\<close>

unbundle bit_operations_syntax

type_synonym u8 = "8 word"
type_synonym u16 = "16 word"
type_synonym u32 = "32 word"
type_synonym u64 = "64 word"
type_synonym byte = "8 word"

named_theorems run_simps \<open>equations that run a computation of the state monad\<close>
named_theorems io_rules \<open>structural rules for relations kept by computations\<close>

section \<open>Byte order\<close>

definition be16 :: "u16 \<Rightarrow> byte list" where
  "be16 w = [ucast (drop_bit 8 w), ucast w]"

definition be32 :: "u32 \<Rightarrow> byte list" where
  "be32 w = [ucast (drop_bit 24 w), ucast (drop_bit 16 w), ucast (drop_bit 8 w), ucast w]"

definition le32 :: "u32 \<Rightarrow> byte list" where
  "le32 w = rev (be32 w)"

fun of_be16 :: "byte list \<Rightarrow> u16" where
  "of_be16 [a, b] = (push_bit 8 (ucast a) OR ucast b)"
| "of_be16 _ = 0"

fun of_be32 :: "byte list \<Rightarrow> u32" where
  "of_be32 [a, b, c, d] =
     (push_bit 24 (ucast a) OR push_bit 16 (ucast b) OR push_bit 8 (ucast c) OR ucast d)"
| "of_be32 _ = 0"

definition of_le32 :: "byte list \<Rightarrow> u32" where
  "of_le32 bs = of_be32 (rev bs)"

text \<open>
  \<open>htonl\<close> and \<open>ntohl\<close> exchange the byte order of a word on a little-endian machine.
\<close>

definition htonl :: "u32 \<Rightarrow> u32" where
  "htonl w = of_be32 (le32 w)"

text \<open>A load of the \<open>i\<close>-th 32-bit word of a byte buffer, in the machine's byte order.\<close>

definition load32 :: "byte list \<Rightarrow> nat \<Rightarrow> u32" where
  "load32 buf i = of_le32 (take 4 (drop (4 * i) buf))"

text \<open>Bytes stored at the start of a buffer.\<close>

definition overwrite :: "byte list \<Rightarrow> byte list \<Rightarrow> byte list" where
  "overwrite bs buf = bs @ drop (length bs) buf"

lemma of_be16_be16: "of_be16 (be16 w) = w"
proof (rule bit_word_eqI)
  fix n assume "n < LENGTH(16)"
  then show "bit (of_be16 (be16 w)) n = bit w n"
    by (cases "n < 8") (auto simp: be16_def bit_simps)
qed

lemma of_be32_be32: "of_be32 (be32 w) = w"
proof (rule bit_word_eqI)
  fix n assume n: "n < LENGTH(32)"
  consider "n < 8" | "8 \<le> n" "n < 16" | "16 \<le> n" "n < 24" | "24 \<le> n" by linarith
  then show "bit (of_be32 (be32 w)) n = bit w n"
    using n by cases (auto simp: be32_def bit_simps)
qed

lemma length_be16 [simp]: "length (be16 w) = 2"
  by (simp add: be16_def)

lemma length_be32 [simp]: "length (be32 w) = 4"
  by (simp add: be32_def)

lemma length_le32 [simp]: "length (le32 w) = 4"
  by (simp add: le32_def)

lemma of_le32_le32: "of_le32 (le32 w) = w"
  by (simp add: of_le32_def le32_def of_be32_be32)

text \<open>The contract of a fixed-width byte encoding, and what it gives its clients.\<close>

locale byte_codec =
  fixes enc :: "'a \<Rightarrow> byte list"
    and dec :: "byte list \<Rightarrow> 'a"
    and width :: nat
  assumes enc_length: "length (enc x) = width"
    and dec_enc: "dec (enc x) = x"
begin

lemma enc_inject: "enc x = enc y \<longleftrightarrow> x = y"
  by (metis dec_enc)

lemma dec_take: "dec (take width (enc x @ rest)) = x"
  by (simp add: enc_length dec_enc)

lemma drop_enc: "drop width (enc x @ rest) = rest"
  by (simp add: enc_length)

lemma enc_append_inject: "enc x @ r = enc y @ r' \<longleftrightarrow> x = y \<and> r = r'"
  by (simp add: enc_length enc_inject)

lemma concat_length: "length (concat (map enc xs)) = width * length xs"
  by (induction xs) (simp_all add: enc_length)

lemma nth_chunk:
  "i < length xs \<Longrightarrow> take width (drop (width * i) (concat (map enc xs) @ r)) = enc (xs ! i)"
proof (induction xs arbitrary: i)
  case Nil
  then show ?case by simp
next
  case (Cons x xs)
  show ?case
  proof (cases i)
    case 0
    then show ?thesis by (simp add: enc_length)
  next
    case (Suc j)
    have "drop (width * i) (concat (map enc (x # xs)) @ r) =
        drop (width * j) (drop width (enc x @ concat (map enc xs) @ r))"
      by (simp only: Suc drop_drop mult_Suc_right concat.simps list.map append_assoc add.commute)
    also have "\<dots> = drop (width * j) (concat (map enc xs) @ r)"
      by (simp only: drop_enc)
    finally show ?thesis
      using Cons Suc by simp
  qed
qed

lemma dec_nth: "i < length xs \<Longrightarrow> dec (take width (drop (width * i) (concat (map enc xs) @ r))) = xs ! i"
  by (simp only: nth_chunk dec_enc)

end

interpretation be16: byte_codec be16 of_be16 2
  by unfold_locales (simp_all add: of_be16_be16)

interpretation be32: byte_codec be32 of_be32 4
  by unfold_locales (simp_all add: of_be32_be32)

interpretation le32: byte_codec le32 of_le32 4
  by unfold_locales (simp_all add: of_le32_le32)

lemma be32_of_be32: "be32 (of_be32 [a, b, c, d]) = [a, b, c, d]"
proof -
  let ?w = "of_be32 [a, b, c, d]"
  have "ucast (drop_bit 24 ?w) = a" "ucast (drop_bit 16 ?w) = b"
    and "ucast (drop_bit 8 ?w) = c" "ucast ?w = d"
    by (rule bit_word_eqI; auto simp: bit_simps dest: bit_imp_le_length)+
  then show ?thesis by (simp only: be32_def)
qed

lemma htonl_le32: "le32 (htonl w) = be32 w"
proof -
  obtain a b c d where w: "be32 w = [a, b, c, d]"
    by (simp add: be32_def)
  have "be32 (htonl w) = [d, c, b, a]"
    unfolding htonl_def le32_def w by (simp add: be32_of_be32 del: of_be32.simps)
  then show ?thesis
    by (simp add: le32_def w)
qed

lemma htonl_htonl [simp]: "htonl (htonl w) = w"
  using of_be32_be32 [of w] by (simp add: htonl_def [of "htonl w"] htonl_le32)

lemma load32_words:
  "i < length ws \<Longrightarrow> load32 (concat (map le32 ws) @ r) i = ws ! i"
  by (simp only: load32_def le32.dec_nth)

lemma load32_be: "i < length ws \<Longrightarrow> htonl (load32 (concat (map be32 ws) @ r) i) = ws ! i"
proof -
  assume i: "i < length ws"
  have "concat (map be32 ws) = concat (map le32 (map htonl ws))"
    by (simp add: comp_def htonl_le32)
  then have "load32 (concat (map be32 ws) @ r) i = map htonl ws ! i"
    using i by (simp only: load32_words length_map)
  with i show ?thesis by simp
qed

lemma unat_less_2p: "unat (w :: 'a :: len word) < 2 ^ LENGTH('a)"
  by (rule unsigned_less)

section \<open>Computations\<close>

text \<open>Helpers of the state monad: an update of the state, and a loop over a list.\<close>

definition gets :: "('s \<Rightarrow> 'a) \<Rightarrow> ('s, 'a) state" where
  "gets f = State (\<lambda>s. (f s, s))"

definition modify :: "('s \<Rightarrow> 's) \<Rightarrow> ('s, unit) state" where
  "modify f = State (\<lambda>s. ((), f s))"

definition skip :: "('s, unit) state" where
  "skip = State_Monad.return ()"

fun for_each :: "('a \<Rightarrow> ('s, unit) state) \<Rightarrow> 'a list \<Rightarrow> ('s, unit) state" where
  "for_each f [] = skip"
| "for_each f (x # xs) = do { f x; for_each f xs }"

fun map_each :: "('a \<Rightarrow> ('s, 'b) state) \<Rightarrow> 'a list \<Rightarrow> ('s, 'b list) state" where
  "map_each f [] = State_Monad.return []"
| "map_each f (x # xs) = do { y \<leftarrow> f x; ys \<leftarrow> map_each f xs; State_Monad.return (y # ys) }"

definition exec :: "('s, 'a) state \<Rightarrow> 's \<Rightarrow> 's" where
  "exec m s = snd (run_state m s)"

definition result :: "('s, 'a) state \<Rightarrow> 's \<Rightarrow> 'a" where
  "result m s = fst (run_state m s)"

lemma run_gets [simp]: "run_state (gets f) s = (f s, s)"
  by (simp add: gets_def)

lemma run_modify [simp]: "run_state (modify f) s = ((), f s)"
  by (simp add: modify_def)

lemma run_skip [simp]: "run_state skip s = ((), s)"
  by (simp add: skip_def)

lemma exec_bind [run_simps]: "exec (State_Monad.bind m f) s = exec (f (result m s)) (exec m s)"
  by (simp add: exec_def result_def split_beta)

lemma result_bind [run_simps]: "result (State_Monad.bind m f) s = result (f (result m s)) (exec m s)"
  by (simp add: exec_def result_def split_beta)

lemma exec_return [run_simps]: "exec (State_Monad.return a) s = s"
  by (simp add: exec_def)

lemma result_return [run_simps]: "result (State_Monad.return a) s = a"
  by (simp add: result_def)

lemma exec_gets [run_simps]: "exec (gets f) s = s"
  by (simp add: exec_def)

lemma result_gets [run_simps]: "result (gets f) s = f s"
  by (simp add: result_def)

lemma exec_modify [run_simps]: "exec (modify f) s = f s"
  by (simp add: exec_def)

lemma exec_skip [run_simps]: "exec skip s = s"
  by (simp add: exec_def)

lemma exec_for_each_append [run_simps]:
  "exec (for_each f (xs @ ys)) s = exec (for_each f ys) (exec (for_each f xs) s)"
  by (induction xs arbitrary: s) (simp_all add: run_simps)

section \<open>Relations kept by computations\<close>

text \<open>
  A reflexive and transitive relation between the states before and after holds of a
  computation as soon as it holds of its steps.
\<close>

locale io_preorder =
  fixes R :: "'s \<Rightarrow> 's \<Rightarrow> bool"
  assumes R_refl: "R s s"
    and R_trans: "R s t \<Longrightarrow> R t u \<Longrightarrow> R s u"
begin

lemma io_return: "state_io_rel R (State_Monad.return a)"
  by (simp add: state_io_rel_def R_refl)

lemma io_gets: "state_io_rel R (gets f)"
  by (simp add: state_io_rel_def R_refl)

lemma io_skip: "state_io_rel R skip"
  by (simp add: state_io_rel_def R_refl)

lemma io_bind:
  assumes "state_io_rel R m" and "\<And>a. state_io_rel R (f a)"
  shows "state_io_rel R (State_Monad.bind m f)"
  using assms by (auto simp: state_io_rel_def split_beta intro: R_trans)

lemma io_if:
  "(b \<Longrightarrow> state_io_rel R m) \<Longrightarrow> (\<not> b \<Longrightarrow> state_io_rel R n) \<Longrightarrow> state_io_rel R (if b then m else n)"
  by simp

lemma io_modify: "(\<And>s. R s (f s)) \<Longrightarrow> state_io_rel R (modify f)"
  by (simp add: state_io_rel_def)

lemma io_for_each: "(\<And>x. state_io_rel R (f x)) \<Longrightarrow> state_io_rel R (for_each f xs)"
  by (induction xs) (simp_all add: io_skip io_bind)

lemma io_for_each_in: "(\<And>x. x \<in> set xs \<Longrightarrow> state_io_rel R (f x)) \<Longrightarrow> state_io_rel R (for_each f xs)"
  by (induction xs) (simp_all add: io_skip io_bind)

lemma io_map_each: "(\<And>x. state_io_rel R (f x)) \<Longrightarrow> state_io_rel R (map_each f xs)"
  by (induction xs) (simp_all add: io_return io_bind)

lemma io_case_option:
  "(x = None \<Longrightarrow> state_io_rel R m) \<Longrightarrow> (\<And>a. x = Some a \<Longrightarrow> state_io_rel R (f a)) \<Longrightarrow>
   state_io_rel R (case x of None \<Rightarrow> m | Some a \<Rightarrow> f a)"
  by (cases x) simp_all

lemma io_case_sum:
  "(\<And>a. x = Inl a \<Longrightarrow> state_io_rel R (f a)) \<Longrightarrow> (\<And>b. x = Inr b \<Longrightarrow> state_io_rel R (g b)) \<Longrightarrow>
   state_io_rel R (case x of Inl a \<Rightarrow> f a | Inr b \<Rightarrow> g b)"
  by (cases x) simp_all

lemma io_case_prod:
  "(\<And>a b. x = (a, b) \<Longrightarrow> state_io_rel R (f a b)) \<Longrightarrow> state_io_rel R (case x of (a, b) \<Rightarrow> f a b)"
  by (cases x) simp

lemma io_let: "state_io_rel R (f a) \<Longrightarrow> state_io_rel R (let x = a in f x)"
  by simp

lemmas io_structure =
  io_return io_gets io_skip io_bind io_if io_for_each io_map_each io_case_option io_case_sum
  io_case_prod io_let

end

lemma io_exec: "state_io_rel R m \<Longrightarrow> R s (exec m s)"
  by (simp add: state_io_rel_def exec_def)

lemma io_of_exec: "(\<And>s. R s (exec m s)) \<Longrightarrow> state_io_rel R m"
  by (simp add: state_io_rel_def exec_def)

text \<open>Two such relations: a component that does not change, an invariant that is kept.\<close>

definition unchanged :: "('s \<Rightarrow> 'a) \<Rightarrow> 's \<Rightarrow> 's \<Rightarrow> bool" where
  "unchanged f s t \<longleftrightarrow> f t = f s"

definition keeps :: "('s \<Rightarrow> bool) \<Rightarrow> 's \<Rightarrow> 's \<Rightarrow> bool" where
  "keeps I s t \<longleftrightarrow> (I s \<longrightarrow> I t)"

lemma unchanged_exec: "state_io_rel (unchanged f) m \<Longrightarrow> f (exec m s) = f s"
  by (simp add: state_io_rel_def exec_def unchanged_def)

lemma keeps_exec: "state_io_rel (keeps I) m \<Longrightarrow> I s \<Longrightarrow> I (exec m s)"
  by (simp add: state_io_rel_def exec_def keeps_def)

interpretation frame: io_preorder "unchanged f" for f
  by unfold_locales (simp_all add: unchanged_def)

interpretation inv: io_preorder "keeps I" for I
  by unfold_locales (simp_all add: keeps_def)

end
