(* ===== verification/Platform.thy ===== *)
theory Platform
  imports Psc_Prelude
begin

text \<open>
  The boundary of the firmware: what it calls but does not contain.

  The FPGA register bus, the lwIP sockets, the FreeRTOS tick, the DDR memory behind the
  snapshot DMA and the QSPI flash controller are not part of the C sources. They are a
  parameter \<open>P\<close> of every definition that uses them: a record of functions over an arbitrary
  world type \<open>'w\<close>. Nothing is assumed of them here; a theorem that needs more than that
  names the documented behaviour it uses as a hypothesis on \<open>P\<close>.

  \<open>core\<close> is the part of the program state every component extends: the world, and the trace
  of the externally visible actions in the order in which they happened. The trace is what
  the theorems speak about: which registers were written with what, which bytes went out on
  which socket, which sockets were opened and closed, and whether the C code went into
  undefined behaviour (\<open>UB\<close>: an index out of bounds or a division by zero).
\<close>

datatype errno = EIO | ENOTCONN | EMSGSIZE | EINTR | Errno int

datatype io =
    Rd u32 u32             \<comment> \<open>\<open>Xil_In32\<close> of an address and the value it returned\<close>
  | Wr u32 u32             \<comment> \<open>\<open>Xil_Out32\<close> of a value to an address\<close>
  | Tx int "byte list"     \<comment> \<open>bytes a \<open>send\<close> took for a socket\<close>
  | Rx int "byte list"     \<comment> \<open>bytes a \<open>recv\<close> delivered from a socket\<close>
  | Acc int                \<comment> \<open>\<open>accept\<close> returned this socket\<close>
  | Cls int                \<comment> \<open>\<open>shutdown\<close> and \<open>close\<close> of a socket\<close>
  | Qspi "byte list"       \<comment> \<open>a transfer to the flash controller\<close>
  | UB                     \<comment> \<open>undefined behaviour of the C code\<close>

text \<open>
  Socket options as \<open>setsockopt\<close> takes them. A timeout is a number of milliseconds or a
  \<open>struct timeval\<close> of seconds and microseconds, as lwIP is configured.
\<close>

datatype timeout = Millis u32 | Timeval u32 u32

datatype sockopt = TCP_NODELAY u32 | SO_SNDTIMEO timeout | SO_RCVTIMEO timeout

record 'w platform =
  XPAR_M_AXI_BASEADDR :: u32
  plat_In32 :: "u32 \<Rightarrow> 'w \<Rightarrow> u32 \<times> 'w"
  plat_Out32 :: "u32 \<Rightarrow> u32 \<Rightarrow> 'w \<Rightarrow> 'w"
  plat_send :: "int \<Rightarrow> byte list \<Rightarrow> int \<Rightarrow> 'w \<Rightarrow> (errno + nat) \<times> 'w"
  plat_recv :: "int \<Rightarrow> nat \<Rightarrow> int \<Rightarrow> 'w \<Rightarrow> (errno + byte list) \<times> 'w"
  plat_calloc :: "nat \<Rightarrow> 'w \<Rightarrow> bool \<times> 'w"
  plat_socket :: "'w \<Rightarrow> int \<times> 'w"
  plat_bind :: "int \<Rightarrow> u16 \<Rightarrow> 'w \<Rightarrow> int \<times> 'w"
  plat_listen :: "int \<Rightarrow> 'w \<Rightarrow> int \<times> 'w"
  plat_accept :: "int \<Rightarrow> 'w \<Rightarrow> (int \<times> (u32 \<times> u16)) \<times> 'w"
  plat_select :: "int list \<Rightarrow> u32 \<Rightarrow> 'w \<Rightarrow> (errno + int list) \<times> 'w"
  plat_close :: "int \<Rightarrow> 'w \<Rightarrow> 'w"
  plat_setsockopt :: "int \<Rightarrow> sockopt \<Rightarrow> 'w \<Rightarrow> int \<times> 'w"
  LWIP_SO_SNDRCVTIMEO_NONSTANDARD :: bool
  plat_msleep :: "u32 \<Rightarrow> 'w \<Rightarrow> 'w"
  plat_ticks :: "'w \<Rightarrow> u32 \<times> 'w"
  pdMS_TO_TICKS :: "u32 \<Rightarrow> u32"
  plat_mem32 :: "u32 \<Rightarrow> 'w \<Rightarrow> u32"
  plat_stack :: "nat \<Rightarrow> 'w \<Rightarrow> byte"
  plat_qspi :: "byte list \<Rightarrow> nat \<Rightarrow> 'w \<Rightarrow> byte list \<times> 'w"

record 'w core =
  world :: 'w
  trace :: "io list"

section \<open>The calls of the firmware into the platform\<close>

definition emit :: "io \<Rightarrow> (('w, 'x) core_scheme, unit) state" where
  "emit e = modify (\<lambda>s. s\<lparr>trace := trace s @ [e]\<rparr>)"

text \<open>A call that changes the world only and leaves no event.\<close>

definition silently :: "('w \<Rightarrow> 'w) \<Rightarrow> (('w, 'x) core_scheme, unit) state" where
  "silently f = modify (\<lambda>s. s\<lparr>world := f (world s)\<rparr>)"

text \<open>A call that changes the world, returns a value and leaves the given events.\<close>

definition call :: "('w \<Rightarrow> 'a \<times> 'w) \<Rightarrow> ('a \<Rightarrow> io list) \<Rightarrow> (('w, 'x) core_scheme, 'a) state" where
  "call f ev = State (\<lambda>s. case f (world s) of (r, w) \<Rightarrow>
     (r, s\<lparr>world := w, trace := trace s @ ev r\<rparr>))"

definition Xil_In32 :: "'w platform \<Rightarrow> u32 \<Rightarrow> (('w, 'x) core_scheme, u32) state" where
  "Xil_In32 P a = call (plat_In32 P a) (\<lambda>v. [Rd a v])"

definition Xil_Out32 :: "'w platform \<Rightarrow> u32 \<Rightarrow> u32 \<Rightarrow> (('w, 'x) core_scheme, unit) state" where
  "Xil_Out32 P a v = do { silently (plat_Out32 P a v); emit (Wr a v) }"

definition sk_send ::
  "'w platform \<Rightarrow> int \<Rightarrow> byte list \<Rightarrow> int \<Rightarrow> (('w, 'x) core_scheme, errno + nat) state" where
  "sk_send P sock buf flags =
     call (plat_send P sock buf flags)
       (\<lambda>r. case r of Inl _ \<Rightarrow> [] | Inr n \<Rightarrow> [Tx sock (take n buf)])"

definition sk_recv ::
  "'w platform \<Rightarrow> int \<Rightarrow> nat \<Rightarrow> int \<Rightarrow> (('w, 'x) core_scheme, errno + byte list) state" where
  "sk_recv P sock n flags =
     call (plat_recv P sock n flags) (\<lambda>r. case r of Inl _ \<Rightarrow> [] | Inr bs \<Rightarrow> [Rx sock bs])"

definition sk_accept ::
  "'w platform \<Rightarrow> int \<Rightarrow> (('w, 'x) core_scheme, int \<times> (u32 \<times> u16)) state" where
  "sk_accept P lsock =
     call (plat_accept P lsock) (\<lambda>(c, _). if c < 0 then [] else [Acc c])"

definition sk_select ::
  "'w platform \<Rightarrow> int list \<Rightarrow> u32 \<Rightarrow> (('w, 'x) core_scheme, errno + int list) state" where
  "sk_select P fds ms = call (plat_select P fds ms) (\<lambda>_. [])"

definition sk_close :: "'w platform \<Rightarrow> int \<Rightarrow> (('w, 'x) core_scheme, unit) state" where
  "sk_close P sock = do { silently (plat_close P sock); emit (Cls sock) }"

definition xTaskGetTickCount :: "'w platform \<Rightarrow> (('w, 'x) core_scheme, u32) state" where
  "xTaskGetTickCount P = call (plat_ticks P) (\<lambda>_. [])"

definition mem32 :: "'w platform \<Rightarrow> u32 \<Rightarrow> (('w, 'x) core_scheme, u32) state" where
  "mem32 P a = gets (\<lambda>s. plat_mem32 P a (world s))"

definition qspi_transfer ::
  "'w platform \<Rightarrow> byte list \<Rightarrow> nat \<Rightarrow> (('w, 'x) core_scheme, byte list) state" where
  "qspi_transfer P tx n = call (plat_qspi P tx n) (\<lambda>_. [Qspi tx])"

text \<open>The content of an automatic array of the C code that nothing has written yet.\<close>

definition stack_bytes :: "'w platform \<Rightarrow> nat \<Rightarrow> (('w, 'x) core_scheme, byte list) state" where
  "stack_bytes P n = gets (\<lambda>s. map (\<lambda>i. plat_stack P i (world s)) [0..<n])"

lemmas platform_defs =
  Xil_In32_def Xil_Out32_def sk_send_def sk_recv_def sk_accept_def sk_select_def sk_close_def
  xTaskGetTickCount_def mem32_def qspi_transfer_def

lemma exec_emit [run_simps]: "exec (emit e) s = s\<lparr>trace := trace s @ [e]\<rparr>"
  by (simp add: emit_def exec_modify)

lemma exec_silently [run_simps]: "exec (silently f) s = s\<lparr>world := f (world s)\<rparr>"
  by (simp add: silently_def exec_modify)

lemma exec_call [run_simps]:
  "exec (call f ev) s =
     s\<lparr>world := snd (f (world s)), trace := trace s @ ev (fst (f (world s)))\<rparr>"
  by (simp add: call_def exec_def split_beta)

lemma result_call [run_simps]: "result (call f ev) s = fst (f (world s))"
  by (simp add: call_def result_def split_beta)

lemma exec_Xil_Out32 [run_simps]:
  "exec (Xil_Out32 P a v) s =
     s\<lparr>world := plat_Out32 P a v (world s), trace := trace s @ [Wr a v]\<rparr>"
  by (simp add: Xil_Out32_def run_simps)

lemma exec_Xil_In32 [run_simps]:
  "exec (Xil_In32 P a) s =
     s\<lparr>world := snd (plat_In32 P a (world s)),
       trace := trace s @ [Rd a (fst (plat_In32 P a (world s)))]\<rparr>"
  by (simp add: Xil_In32_def run_simps)

lemma result_Xil_In32 [run_simps]: "result (Xil_In32 P a) s = fst (plat_In32 P a (world s))"
  by (simp add: Xil_In32_def run_simps)

lemma exec_sk_close [run_simps]:
  "exec (sk_close P c) s = s\<lparr>world := plat_close P c (world s), trace := trace s @ [Cls c]\<rparr>"
  by (simp add: sk_close_def run_simps)

section \<open>What computations add to the trace\<close>

text \<open>
  \<open>emits p\<close> relates two states when the later one has the same trace followed by events that
  all satisfy \<open>p\<close>.
\<close>

definition emits :: "(io \<Rightarrow> bool) \<Rightarrow> ('w, 'x) core_scheme \<Rightarrow> ('w, 'x) core_scheme \<Rightarrow> bool" where
  "emits p s t \<longleftrightarrow> (\<exists>es. trace t = trace s @ es \<and> list_all p es)"

interpretation em: io_preorder "emits p" for p
proof unfold_locales
  fix s :: "('a, 'b) core_scheme"
  show "emits p s s" by (auto simp: emits_def intro: exI [of _ "[]"])
next
  fix s t u :: "('a, 'b) core_scheme"
  assume "emits p s t" and "emits p t u"
  then obtain es fs where "trace t = trace s @ es" "list_all p es"
    and "trace u = trace t @ fs" "list_all p fs"
    by (auto simp: emits_def)
  then show "emits p s u"
    by (auto simp: emits_def intro: exI [of _ "es @ fs"])
qed

lemma emitsD: "emits p s t \<Longrightarrow> e \<in> set (trace t) \<Longrightarrow> e \<in> set (trace s) \<or> p e"
  by (auto simp: emits_def list_all_iff)

lemma emits_mono: "(\<And>e. p e \<Longrightarrow> q e) \<Longrightarrow> emits p s t \<Longrightarrow> emits q s t"
  by (auto simp: emits_def list_all_iff)

lemma io_emits_mono:
  "(\<And>e. p e \<Longrightarrow> q e) \<Longrightarrow> state_io_rel (emits p) m \<Longrightarrow> state_io_rel (emits q) m"
  by (auto simp: state_io_rel_def intro: emits_mono)

lemma emits_emit: "p e \<Longrightarrow> state_io_rel (emits p) (emit e)"
  by (rule io_of_exec) (auto simp: emits_def run_simps)

lemma emits_silently: "state_io_rel (emits p) (silently f)"
  by (rule io_of_exec) (auto simp: emits_def run_simps)

lemma emits_call: "(\<And>r. list_all p (ev r)) \<Longrightarrow> state_io_rel (emits p) (call f ev)"
  by (rule io_of_exec) (auto simp: emits_def run_simps)

lemma emits_modify: "(\<And>s. trace (f s) = trace s) \<Longrightarrow> state_io_rel (emits p) (modify f)"
  by (rule io_of_exec) (auto simp: emits_def run_simps)

lemma emits_In32: "(\<And>v. p (Rd a v)) \<Longrightarrow> state_io_rel (emits p) (Xil_In32 P a)"
  by (simp add: Xil_In32_def emits_call)

lemma emits_Out32: "p (Wr a v) \<Longrightarrow> state_io_rel (emits p) (Xil_Out32 P a v)"
  by (simp add: Xil_Out32_def em.io_bind emits_silently emits_emit)

lemma emits_send: "(\<And>bs. p (Tx c bs)) \<Longrightarrow> state_io_rel (emits p) (sk_send P c buf flags)"
  by (auto simp: sk_send_def intro!: emits_call split: sum.splits)

lemma emits_recv: "(\<And>bs. p (Rx c bs)) \<Longrightarrow> state_io_rel (emits p) (sk_recv P c n flags)"
  by (auto simp: sk_recv_def intro!: emits_call split: sum.splits)

lemma emits_close: "p (Cls c) \<Longrightarrow> state_io_rel (emits p) (sk_close P c)"
  by (simp add: sk_close_def em.io_bind emits_silently emits_emit)

lemma emits_ticks: "state_io_rel (emits p) (xTaskGetTickCount P)"
  by (simp add: xTaskGetTickCount_def emits_call)

lemma emits_mem32: "state_io_rel (emits p) (mem32 P a)"
  by (simp add: mem32_def em.io_gets)

lemma emits_stack: "state_io_rel (emits p) (stack_bytes P n)"
  by (simp add: stack_bytes_def em.io_gets)

lemma emits_qspi: "p (Qspi tx) \<Longrightarrow> state_io_rel (emits p) (qspi_transfer P tx n)"
  by (simp add: qspi_transfer_def emits_call)

lemmas emits_intros =
  em.io_structure emits_emit emits_silently emits_modify emits_In32 emits_Out32 emits_send
  emits_recv emits_close emits_ticks emits_mem32 emits_qspi emits_stack

section \<open>Frames\<close>

text \<open>A part of the state the platform calls do not touch.\<close>

definition core_indep :: "(('w, 'x) core_scheme \<Rightarrow> 'a) \<Rightarrow> bool" where
  "core_indep f \<longleftrightarrow> (\<forall>s w tr. f (s\<lparr>world := w, trace := tr\<rparr>) = f s)"

lemma core_indepD: "core_indep f \<Longrightarrow> f (s\<lparr>world := w, trace := tr\<rparr>) = f s"
  by (simp add: core_indep_def)

lemma core_indep_world: "core_indep f \<Longrightarrow> f (s\<lparr>world := w\<rparr>) = f s"
  using core_indepD [where f = f and s = s and w = w and tr = "trace s"] by simp

lemma core_indep_trace: "core_indep f \<Longrightarrow> f (s\<lparr>trace := tr\<rparr>) = f s"
  using core_indepD [where f = f and s = s and w = "world s" and tr = tr] by simp

lemma frame_emit: "core_indep f \<Longrightarrow> state_io_rel (unchanged f) (emit e)"
  by (rule io_of_exec) (simp add: unchanged_def run_simps core_indep_trace)

lemma frame_silently: "core_indep f \<Longrightarrow> state_io_rel (unchanged f) (silently g)"
  by (rule io_of_exec) (simp add: unchanged_def run_simps core_indep_world)

lemma frame_call: "core_indep f \<Longrightarrow> state_io_rel (unchanged f) (call g ev)"
  by (rule io_of_exec) (simp add: unchanged_def run_simps core_indepD)

lemma frame_In32: "core_indep f \<Longrightarrow> state_io_rel (unchanged f) (Xil_In32 P a)"
  by (simp add: Xil_In32_def frame_call)

lemma frame_Out32: "core_indep f \<Longrightarrow> state_io_rel (unchanged f) (Xil_Out32 P a v)"
  by (simp add: Xil_Out32_def frame.io_bind frame_silently frame_emit)

lemma frame_send: "core_indep f \<Longrightarrow> state_io_rel (unchanged f) (sk_send P c buf flags)"
  by (simp add: sk_send_def frame_call)

lemma frame_recv: "core_indep f \<Longrightarrow> state_io_rel (unchanged f) (sk_recv P c n flags)"
  by (simp add: sk_recv_def frame_call)

lemma frame_close: "core_indep f \<Longrightarrow> state_io_rel (unchanged f) (sk_close P c)"
  by (simp add: sk_close_def frame.io_bind frame_silently frame_emit)

lemma frame_ticks: "core_indep f \<Longrightarrow> state_io_rel (unchanged f) (xTaskGetTickCount P)"
  by (simp add: xTaskGetTickCount_def frame_call)

lemma frame_mem32: "state_io_rel (unchanged f) (mem32 P a)"
  by (simp add: mem32_def frame.io_gets)

lemma frame_stack: "state_io_rel (unchanged f) (stack_bytes P n)"
  by (simp add: stack_bytes_def frame.io_gets)

lemma frame_qspi: "core_indep f \<Longrightarrow> state_io_rel (unchanged f) (qspi_transfer P tx n)"
  by (simp add: qspi_transfer_def frame_call)

lemma frame_modify: "(\<And>s. f (g s) = f s) \<Longrightarrow> state_io_rel (unchanged f) (modify g)"
  by (rule io_of_exec) (simp add: unchanged_def run_simps)

lemmas frame_intros =
  frame.io_structure frame_emit frame_silently frame_In32 frame_Out32 frame_send frame_recv
  frame_close frame_ticks frame_mem32 frame_qspi frame_stack frame_modify

section \<open>Views of a trace\<close>

fun reg_write :: "io \<Rightarrow> (u32 \<times> u32) option" where
  "reg_write (Wr a v) = Some (a, v)"
| "reg_write _ = None"

definition writes :: "io list \<Rightarrow> (u32 \<times> u32) list" where
  "writes es = List.map_filter reg_write es"

fun sent_on :: "int \<Rightarrow> io \<Rightarrow> byte list" where
  "sent_on c (Tx d bs) = (if d = c then bs else [])"
| "sent_on _ _ = []"

definition sent :: "int \<Rightarrow> io list \<Rightarrow> byte list" where
  "sent c es = concat (map (sent_on c) es)"

lemma writes_simps [simp]:
  "writes [] = []" "writes (es @ fs) = writes es @ writes fs"
  "writes (e # es) = (case reg_write e of None \<Rightarrow> writes es | Some w \<Rightarrow> w # writes es)"
  by (simp_all add: writes_def List.map_filter_def split: option.splits)

lemma sent_simps [simp]:
  "sent c [] = []" "sent c (es @ fs) = sent c es @ sent c fs"
  "sent c (e # es) = sent_on c e @ sent c es"
  by (simp_all add: sent_def)

end
