(* ===== verification/PscMsg.thy ===== *)
theory PscMsg
  imports Platform
begin

text \<open>
  The PSC message layer (pscmsg.c): framing of messages on a TCP socket.

  A message is the eight-byte header 'P' 'S', a big-endian 16-bit message id and a
  big-endian 32-bit length, followed by the body. \<open>psc_sendall\<close> and \<open>psc_recvall\<close> loop over
  partial sends and receives. A C function that returns 0 or an \<open>errno\<close> returns \<open>None\<close> or
  \<open>Some\<close> error here; \<open>psc_recvall\<close> also returns the bytes it has stored in the caller's
  buffer when it stops.

  The lemmas show that a successful send puts exactly the frame on the socket and a failed
  one a proper prefix of it, that both loops end, and that the receiver recovers every
  message from the bytes of the sender however TCP cuts them into segments.
\<close>

section \<open>Sending\<close>

function psc_sendall ::
  "'w platform \<Rightarrow> int \<Rightarrow> byte list \<Rightarrow> int \<Rightarrow> (('w, 'x) core_scheme, errno option) state" where
  "psc_sendall P sock buf flags =
     (if buf = [] then State_Monad.return None
      else do {
        ret \<leftarrow> sk_send P sock buf flags;
        case ret of
          Inl e \<Rightarrow> State_Monad.return (Some e)
        | Inr n \<Rightarrow>
            (if n = 0 then State_Monad.return (Some ENOTCONN)
             else psc_sendall P sock (drop n buf) flags)
      })"
  by pat_completeness auto
termination
  by (relation "measure (\<lambda>(P, sock, buf, flags). length buf)") auto

declare psc_sendall.simps [simp del]

definition psc_header :: "u16 \<Rightarrow> u32 \<Rightarrow> byte list" where
  "psc_header msgid msglen = [of_char CHR ''P'', of_char CHR ''S''] @ be16 msgid @ be32 msglen"

definition psc_sendhead ::
  "'w platform \<Rightarrow> int \<Rightarrow> u16 \<Rightarrow> u32 \<Rightarrow> int \<Rightarrow> (('w, 'x) core_scheme, errno option) state" where
  "psc_sendhead P sock msgid msglen flags = psc_sendall P sock (psc_header msgid msglen) flags"

text \<open>\<open>psc_sendmsg\<close> sends \<open>msglen\<close> bytes of the caller's buffer \<open>buf\<close>.\<close>

definition psc_sendmsg ::
  "'w platform \<Rightarrow> int \<Rightarrow> u16 \<Rightarrow> byte list \<Rightarrow> u32 \<Rightarrow> int \<Rightarrow>
     (('w, 'x) core_scheme, errno option) state" where
  "psc_sendmsg P sock msgid buf msglen flags = do {
     ret \<leftarrow> psc_sendhead P sock msgid msglen flags;
     case ret of
       Some e \<Rightarrow> State_Monad.return (Some e)
     | None \<Rightarrow> psc_sendall P sock (take (unat msglen) buf) flags
   }"

definition psc_sendmsgsingle ::
  "'w platform \<Rightarrow> int \<Rightarrow> u16 \<Rightarrow> u32 \<Rightarrow> byte list \<Rightarrow> u32 \<Rightarrow> int \<Rightarrow>
     (('w, 'x) core_scheme, errno option) state" where
  "psc_sendmsgsingle P sock msgid regid buf msglen flags = do {
     ret \<leftarrow> psc_sendhead P sock msgid (msglen + 4) 0;
     case ret of
       Some e \<Rightarrow> State_Monad.return (Some e)
     | None \<Rightarrow> do {
         ret \<leftarrow> psc_sendall P sock (be32 regid) 0;
         case ret of
           Some e \<Rightarrow> State_Monad.return (Some e)
         | None \<Rightarrow> psc_sendall P sock (take (unat msglen) buf) 0
       }
   }"

section \<open>Receiving\<close>

function psc_recvall ::
  "'w platform \<Rightarrow> int \<Rightarrow> nat \<Rightarrow> int \<Rightarrow>
     (('w, 'x) core_scheme, errno option \<times> byte list) state" where
  "psc_recvall P sock n flags =
     (if n = 0 then State_Monad.return (None, [])
      else do {
        ret \<leftarrow> sk_recv P sock n flags;
        case ret of
          Inl e \<Rightarrow> State_Monad.return (Some e, [])
        | Inr bs \<Rightarrow>
            (if bs = [] then State_Monad.return (Some ENOTCONN, [])
             else do {
               r \<leftarrow> psc_recvall P sock (n - length bs) flags;
               State_Monad.return (fst r, bs @ snd r)
             })
      })"
  by pat_completeness auto
termination
  by (relation "measure (\<lambda>(P, sock, n, flags). n)") auto

declare psc_recvall.simps [simp del]

text \<open>
  \<open>psc_recvskip\<close> drops the input in pieces of 128 bytes; as in the C code, an error in a
  piece ends the loop and the rest is asked for once more, which runs over the buffer of 128
  bytes when more than that arrives.
\<close>

function psc_recvskip ::
  "'w platform \<Rightarrow> int \<Rightarrow> nat \<Rightarrow> int \<Rightarrow> (('w, 'x) core_scheme, errno option) state" where
  "psc_recvskip P sock len flags =
     (if len > 128 then do {
        r \<leftarrow> psc_recvall P sock 128 flags;
        case fst r of
          None \<Rightarrow> psc_recvskip P sock (len - 128) flags
        | Some _ \<Rightarrow> do {
            r' \<leftarrow> psc_recvall P sock len flags;
            (if length (snd r') > 128 then emit UB else skip);
            State_Monad.return (fst r')
          }
      }
      else do { r \<leftarrow> psc_recvall P sock len flags; State_Monad.return (fst r) })"
  by pat_completeness auto
termination
  by (relation "measure (\<lambda>(P, sock, len, flags). len)") auto

declare psc_recvskip.simps [simp del]

definition psc_recvhead ::
  "'w platform \<Rightarrow> int \<Rightarrow> int \<Rightarrow> (('w, 'x) core_scheme, errno + u16 \<times> u32) state" where
  "psc_recvhead P sock flags = do {
     r \<leftarrow> psc_recvall P sock 8 flags;
     State_Monad.return
       (case fst r of
          Some e \<Rightarrow> Inl e
        | None \<Rightarrow>
            (let B = snd r in
             if B ! 0 \<noteq> of_char CHR ''P'' \<or> B ! 1 \<noteq> of_char CHR ''S'' then Inl EIO
             else Inr (of_be16 (take 2 (drop 2 B)), of_be32 (take 4 (drop 4 B)))))
   }"

text \<open>
  The result of \<open>psc_recvmsg\<close>: the return code, the values of the out parameters \<open>msgid\<close> and
  \<open>msglen\<close> when they are set, and the bytes stored at the start of the caller's buffer.
\<close>

record recv_result =
  rr_ret :: "errno option"
  rr_head :: "(u16 \<times> u32) option"
  rr_body :: "byte list"

definition psc_recvmsg ::
  "'w platform \<Rightarrow> int \<Rightarrow> u32 \<Rightarrow> int \<Rightarrow> (('w, 'x) core_scheme, recv_result) state" where
  "psc_recvmsg P sock maxlen flags = do {
     h \<leftarrow> psc_recvhead P sock flags;
     case h of
       Inl e \<Rightarrow> State_Monad.return \<lparr>rr_ret = Some e, rr_head = None, rr_body = []\<rparr>
     | Inr (mid, mlen) \<Rightarrow>
         (if mlen > maxlen
          then State_Monad.return \<lparr>rr_ret = Some EMSGSIZE, rr_head = Some (mid, mlen), rr_body = []\<rparr>
          else do {
            r \<leftarrow> psc_recvall P sock (unat mlen) flags;
            State_Monad.return
              \<lparr>rr_ret = fst r, rr_head = (if fst r = None then Some (mid, mlen) else None),
               rr_body = snd r\<rparr>
          })
   }"

section \<open>What a send puts on the wire\<close>

text \<open>
  \<open>transmits c bs\<close>: between two states only bytes for socket \<open>c\<close> went out, and together they
  are \<open>bs\<close>.
\<close>

fun is_tx :: "int \<Rightarrow> io \<Rightarrow> bool" where
  "is_tx c (Tx d _) = (d = c)"
| "is_tx _ _ = False"

definition transmits ::
  "int \<Rightarrow> byte list \<Rightarrow> ('w, 'x) core_scheme \<Rightarrow> ('w, 'x) core_scheme \<Rightarrow> bool" where
  "transmits c bs s t \<longleftrightarrow>
     (\<exists>es. trace t = trace s @ es \<and> list_all (is_tx c) es \<and> sent c es = bs)"

lemma transmits_refl [simp]: "transmits c [] s s"
  by (auto simp: transmits_def intro: exI [of _ "[]"])

lemma transmits_trans:
  "transmits c as s t \<Longrightarrow> transmits c bs t u \<Longrightarrow> transmits c (as @ bs) s u"
  unfolding transmits_def
  by (elim exE conjE, rule_tac x = "es @ esa" in exI) simp

lemma sk_send_transmits:
  "case result (sk_send P c buf flags) s of
     Inl e \<Rightarrow> transmits c [] s (exec (sk_send P c buf flags) s)
   | Inr n \<Rightarrow> transmits c (take n buf) s (exec (sk_send P c buf flags) s)"
  by (auto simp: sk_send_def run_simps transmits_def split: sum.splits)

text \<open>
  A successful \<open>psc_sendall\<close> sends the whole buffer in order; a failed one a proper prefix.
\<close>

lemma psc_sendall_transmits:
  "case result (psc_sendall P c buf flags) s of
     None \<Rightarrow> transmits c buf s (exec (psc_sendall P c buf flags) s)
   | Some e \<Rightarrow> \<exists>k<length buf. transmits c (take k buf) s (exec (psc_sendall P c buf flags) s)"
proof (induction P c buf flags arbitrary: s rule: psc_sendall.induct)
  case (1 P c buf flags)
  let ?t = "exec (sk_send P c buf flags) s"
  show ?case
  proof (cases "buf = []")
    case True
    then show ?thesis by (subst (1 2 3) psc_sendall.simps) (simp add: run_simps)
  next
    case False
    note unf = psc_sendall.simps [of P c buf flags]
    note snd = sk_send_transmits [where P = P and c = c and buf = buf and flags = flags and s = s]
    show ?thesis
    proof (cases "result (sk_send P c buf flags) s")
      case (Inl e)
      then have "transmits c [] s ?t" using snd by simp
      then have "\<exists>k<length buf. transmits c (take k buf) s ?t"
        using False by (intro exI [of _ 0]) simp
      with Inl False show ?thesis by (simp add: unf run_simps)
    next
      case (Inr n)
      then have t: "transmits c (take n buf) s ?t" using snd by simp
      show ?thesis
      proof (cases "n = 0")
        case True
        with t False have "\<exists>k<length buf. transmits c (take k buf) s ?t"
          by (intro exI [of _ 0]) simp
        with Inr True False show ?thesis by (simp add: unf run_simps)
      next
        case n: False
        let ?m = "psc_sendall P c (drop n buf) flags"
        have eq: "result (psc_sendall P c buf flags) s = result ?m ?t"
          "exec (psc_sendall P c buf flags) s = exec ?m ?t"
          using False Inr n by (simp_all add: unf run_simps)
        have IH: "case result ?m ?t of
            None \<Rightarrow> transmits c (drop n buf) ?t (exec ?m ?t)
          | Some e \<Rightarrow> \<exists>k<length (drop n buf). transmits c (take k (drop n buf)) ?t (exec ?m ?t)"
          by (rule "1.IH" [OF False n])
        show ?thesis
        proof (cases "result ?m ?t")
          case None
          with IH have "transmits c (take n buf @ drop n buf) s (exec ?m ?t)"
            by (intro transmits_trans [OF t]) simp
          with None show ?thesis by (simp add: eq)
        next
          case (Some e)
          with IH obtain k where k: "k < length buf - n"
            and tk: "transmits c (take k (drop n buf)) ?t (exec ?m ?t)" by auto
          from t tk have "transmits c (take n buf @ take k (drop n buf)) s (exec ?m ?t)"
            by (rule transmits_trans)
          then have "transmits c (take (n + k) buf) s (exec ?m ?t)"
            by (simp add: take_add)
          with k Some show ?thesis by (auto simp: eq intro!: exI [of _ "n + k"])
        qed
      qed
    qed
  qed
qed

lemma psc_sendall_ok:
  "result (psc_sendall P c buf flags) s = None \<Longrightarrow>
   transmits c buf s (exec (psc_sendall P c buf flags) s)"
  using psc_sendall_transmits [where P = P and c = c and buf = buf and flags = flags and s = s] by simp

lemma psc_sendall_err:
  "result (psc_sendall P c buf flags) s = Some e \<Longrightarrow>
   \<exists>k<length buf. transmits c (take k buf) s (exec (psc_sendall P c buf flags) s)"
  using psc_sendall_transmits [where P = P and c = c and buf = buf and flags = flags and s = s] by simp

definition psc_frame :: "u16 \<Rightarrow> byte list \<Rightarrow> u32 \<Rightarrow> byte list" where
  "psc_frame msgid buf msglen = psc_header msgid msglen @ take (unat msglen) buf"

lemma length_psc_header [simp]: "length (psc_header mid mlen) = 8"
  by (simp add: psc_header_def)

lemma psc_sendmsg_ok:
  assumes "result (psc_sendmsg P c mid buf mlen flags) s = None"
  shows "transmits c (psc_frame mid buf mlen) s (exec (psc_sendmsg P c mid buf mlen flags) s)"
proof -
  let ?h = "psc_sendhead P c mid mlen flags"
  have h: "result ?h s = None"
    using assms by (auto simp: psc_sendmsg_def run_simps split: option.splits)
  then have "transmits c (psc_header mid mlen) s (exec ?h s)"
    by (simp add: psc_sendhead_def psc_sendall_ok)
  moreover have "transmits c (take (unat mlen) buf) (exec ?h s)
      (exec (psc_sendall P c (take (unat mlen) buf) flags) (exec ?h s))"
    using assms h by (intro psc_sendall_ok) (simp add: psc_sendmsg_def run_simps)
  ultimately show ?thesis
    using h by (simp add: psc_sendmsg_def psc_frame_def run_simps transmits_trans)
qed

lemma psc_sendmsg_err:
  assumes "result (psc_sendmsg P c mid buf mlen flags) s = Some e"
  shows "\<exists>k<length (psc_frame mid buf mlen).
    transmits c (take k (psc_frame mid buf mlen)) s (exec (psc_sendmsg P c mid buf mlen flags) s)"
proof -
  let ?h = "psc_sendhead P c mid mlen flags" and ?b = "take (unat mlen) buf"
  show ?thesis
  proof (cases "result ?h s")
    case (Some e')
    then obtain k where "k < 8" "transmits c (take k (psc_header mid mlen)) s (exec ?h s)"
      using psc_sendall_err [of P c "psc_header mid mlen" flags s e']
      by (auto simp: psc_sendhead_def)
    then show ?thesis
      using Some by (intro exI [of _ k]) (simp add: psc_sendmsg_def psc_frame_def run_simps)
  next
    case None
    then have t: "transmits c (psc_header mid mlen) s (exec ?h s)"
      by (simp add: psc_sendhead_def psc_sendall_ok)
    from assms None have "result (psc_sendall P c ?b flags) (exec ?h s) = Some e"
      by (simp add: psc_sendmsg_def run_simps)
    from psc_sendall_err [OF this] obtain k where k: "k < length ?b"
      and "transmits c (take k ?b) (exec ?h s) (exec (psc_sendall P c ?b flags) (exec ?h s))"
      by blast
    with t have "transmits c (psc_header mid mlen @ take k ?b) s
        (exec (psc_sendall P c ?b flags) (exec ?h s))"
      by (blast intro: transmits_trans)
    with None k show ?thesis
      by (intro exI [of _ "8 + k"]) (simp add: psc_sendmsg_def psc_frame_def run_simps)
  qed
qed

section \<open>Receiving from a byte stream\<close>

text \<open>
  The documented behaviour of \<open>recv\<close> on a connected stream socket, with \<open>pending w\<close> the bytes
  that have arrived and are not read yet: it delivers a non-empty prefix of them that is no
  longer than asked for, and they are then gone. How much it delivers is up to TCP.
\<close>

definition stream_recv :: "'w platform \<Rightarrow> int \<Rightarrow> ('w \<Rightarrow> byte list) \<Rightarrow> bool" where
  "stream_recv P c pending \<longleftrightarrow>
     (\<forall>w n flags. 0 < n \<longrightarrow> pending w \<noteq> [] \<longrightarrow>
        (\<exists>k. 0 < k \<and> k \<le> n \<and> k \<le> length (pending w) \<and>
             fst (plat_recv P c n flags w) = Inr (take k (pending w)) \<and>
             pending (snd (plat_recv P c n flags w)) = drop k (pending w)))"

lemma psc_recvall_stream:
  assumes "stream_recv P c pending" and "n \<le> length (pending (world s))"
  shows "result (psc_recvall P c n flags) s = (None, take n (pending (world s))) \<and>
    pending (world (exec (psc_recvall P c n flags) s)) = drop n (pending (world s))"
  using assms(2)
proof (induction n arbitrary: s rule: less_induct)
  case (less n)
  let ?w = "world s" and ?t = "exec (sk_recv P c n flags) s"
  show ?case
  proof (cases "n = 0")
    case True
    then show ?thesis by (simp add: psc_recvall.simps run_simps)
  next
    case False
    with less.prems have "0 < n" "pending ?w \<noteq> []" by auto
    with assms(1) obtain k where k: "0 < k" "k \<le> n" "k \<le> length (pending ?w)"
      and r: "fst (plat_recv P c n flags ?w) = Inr (take k (pending ?w))"
      and w': "pending (snd (plat_recv P c n flags ?w)) = drop k (pending ?w)"
      unfolding stream_recv_def by blast
    have t: "result (sk_recv P c n flags) s = Inr (take k (pending ?w))"
      "pending (world ?t) = drop k (pending ?w)"
      using r w' by (simp_all add: sk_recv_def run_simps)
    have len: "length (take k (pending ?w)) = k" "take k (pending ?w) \<noteq> []"
      using k by auto
    have "result (psc_recvall P c (n - k) flags) ?t = (None, take (n - k) (pending (world ?t))) \<and>
        pending (world (exec (psc_recvall P c (n - k) flags) ?t)) = drop (n - k) (pending (world ?t))"
      using k less.prems False t by (intro less.IH) auto
    moreover have "take k (pending ?w) @ take (n - k) (drop k (pending ?w)) = take n (pending ?w)"
      using k by (metis le_add_diff_inverse take_add)
    ultimately show ?thesis
      using False t len k by (subst (1 2) psc_recvall.simps) (simp add: run_simps)
  qed
qed

lemma psc_recvhead_stream:
  assumes "stream_recv P c pending" and "pending (world s) = psc_header mid mlen @ rest"
  shows "result (psc_recvhead P c flags) s = Inr (mid, mlen)"
    and "pending (world (exec (psc_recvhead P c flags) s)) = rest"
proof -
  have "8 \<le> length (pending (world s))" using assms(2) by simp
  from psc_recvall_stream [OF assms(1) this, of flags]
  have r: "result (psc_recvall P c 8 flags) s = (None, psc_header mid mlen)"
    "pending (world (exec (psc_recvall P c 8 flags) s)) = rest"
    using assms(2) by simp_all
  have B: "psc_header mid mlen ! 0 = of_char CHR ''P''" "psc_header mid mlen ! 1 = of_char CHR ''S''"
    "take 2 (drop 2 (psc_header mid mlen)) = be16 mid" "take 4 (drop 4 (psc_header mid mlen)) = be32 mlen"
    by (simp_all add: psc_header_def)
  show "result (psc_recvhead P c flags) s = Inr (mid, mlen)"
    using r(1) B [simplified] by (simp add: psc_recvhead_def run_simps Let_def be16.dec_enc be32.dec_enc)
  show "pending (world (exec (psc_recvhead P c flags) s)) = rest"
    using r(2) by (simp add: psc_recvhead_def run_simps)
qed

text \<open>A message of the sender is recovered by the receiver, whatever the segmentation.\<close>

lemma psc_recvmsg_stream:
  assumes "stream_recv P c pending"
    and "pending (world s) = psc_frame mid body mlen @ rest"
    and "length body = unat mlen" and "mlen \<le> maxlen"
  shows "result (psc_recvmsg P c maxlen flags) s =
      \<lparr>rr_ret = None, rr_head = Some (mid, mlen), rr_body = body\<rparr>"
    and "pending (world (exec (psc_recvmsg P c maxlen flags) s)) = rest"
proof -
  have p: "pending (world s) = psc_header mid mlen @ (body @ rest)"
    using assms(2,3) by (simp add: psc_frame_def)
  note h = psc_recvhead_stream [OF assms(1) p, of flags]
  let ?t = "exec (psc_recvhead P c flags) s"
  have "unat mlen \<le> length (pending (world ?t))" using h(2) assms(3) by simp
  from psc_recvall_stream [OF assms(1) this, of flags] h(2) assms(3)
  have b: "result (psc_recvall P c (unat mlen) flags) ?t = (None, body)"
    "pending (world (exec (psc_recvall P c (unat mlen) flags) ?t)) = rest"
    by auto
  from assms(4) have "\<not> mlen > maxlen" by simp
  then show "result (psc_recvmsg P c maxlen flags) s =
      \<lparr>rr_ret = None, rr_head = Some (mid, mlen), rr_body = body\<rparr>"
    and "pending (world (exec (psc_recvmsg P c maxlen flags) s)) = rest"
    using h(1) b by (simp_all add: psc_recvmsg_def run_simps)
qed

lemma psc_recvmsg_oversize:
  assumes "stream_recv P c pending"
    and "pending (world s) = psc_header mid mlen @ rest" and "maxlen < mlen"
  shows "result (psc_recvmsg P c maxlen flags) s =
      \<lparr>rr_ret = Some EMSGSIZE, rr_head = Some (mid, mlen), rr_body = []\<rparr>"
    and "pending (world (exec (psc_recvmsg P c maxlen flags) s)) = rest"
  using psc_recvhead_stream [OF assms(1,2), of flags] assms(3)
  by (simp_all add: psc_recvmsg_def run_simps)

text \<open>A sequence of messages is received one by one, in the order in which it was sent.\<close>

fun recv_msgs ::
  "'w platform \<Rightarrow> int \<Rightarrow> u32 \<Rightarrow> nat \<Rightarrow> (('w, 'x) core_scheme, recv_result list) state" where
  "recv_msgs P c maxlen 0 = State_Monad.return []"
| "recv_msgs P c maxlen (Suc n) = do {
     r \<leftarrow> psc_recvmsg P c maxlen 0;
     rs \<leftarrow> recv_msgs P c maxlen n;
     State_Monad.return (r # rs)
   }"

definition frame_msg :: "u16 \<times> byte list \<Rightarrow> byte list" where
  "frame_msg m = psc_frame (fst m) (snd m) (of_nat (length (snd m)))"

lemma recv_msgs_stream:
  assumes "stream_recv P c pending"
    and "\<forall>m\<in>set ms. length (snd m) \<le> unat maxlen"
    and "pending (world s) = concat (map frame_msg ms) @ rest"
  shows "result (recv_msgs P c maxlen (length ms)) s =
      map (\<lambda>(mid, body). \<lparr>rr_ret = None, rr_head = Some (mid, of_nat (length body)), rr_body = body\<rparr>) ms"
  using assms(2,3)
proof (induction ms arbitrary: s)
  case Nil
  then show ?case by (simp add: run_simps)
next
  case (Cons m ms)
  obtain mid body where m: "m = (mid, body)" by (cases m)
  let ?n = "of_nat (length body) :: u32"
  have len: "length body \<le> unat maxlen" using Cons.prems(1) m by simp
  have un: "unat ?n = length body"
    using len unat_less_2p [of maxlen] by (simp add: unat_of_nat take_bit_nat_eq_self)
  have le: "?n \<le> maxlen"
    using len un by (simp add: word_le_nat_alt)
  have p: "pending (world s) = psc_frame mid body ?n @ (concat (map frame_msg ms) @ rest)"
    using Cons.prems(2) by (simp add: m frame_msg_def [of "(mid, body)"])
  note r = psc_recvmsg_stream [OF assms(1) p un [symmetric] le, of 0]
  have "result (recv_msgs P c maxlen (length ms)) (exec (psc_recvmsg P c maxlen 0) s) =
      map (\<lambda>(mid, body). \<lparr>rr_ret = None, rr_head = Some (mid, of_nat (length body)), rr_body = body\<rparr>) ms"
    using Cons.prems(1) r(2) by (intro Cons.IH) simp_all
  then show ?case using r(1) m by (simp add: run_simps)
qed

section \<open>Bounds\<close>

text \<open>The documented bound of \<open>recv\<close>: it never stores more than it was asked for.\<close>

definition recv_bounded :: "'w platform \<Rightarrow> bool" where
  "recv_bounded P \<longleftrightarrow>
     (\<forall>c n flags w bs. fst (plat_recv P c n flags w) = Inr bs \<longrightarrow> length bs \<le> n)"

lemma psc_recvall_bounded:
  assumes "recv_bounded P"
  shows "length (snd (result (psc_recvall P c n flags) s)) \<le> n"
proof (induction n arbitrary: s rule: less_induct)
  case (less n)
  let ?r = "result (sk_recv P c n flags) s" and ?t = "exec (sk_recv P c n flags) s"
  show ?case
  proof (cases "n = 0 \<or> (\<exists>e. ?r = Inl e) \<or> ?r = Inr []")
    case True
    then show ?thesis by (subst psc_recvall.simps) (auto simp: run_simps)
  next
    case False
    then obtain bs where bs: "?r = Inr bs" "bs \<noteq> []" and n: "n \<noteq> 0"
      by (cases ?r) auto
    then have "fst (plat_recv P c n flags (world s)) = Inr bs"
      by (simp add: sk_recv_def run_simps)
    with assms have "length bs \<le> n" by (auto simp: recv_bounded_def)
    moreover have "length (snd (result (psc_recvall P c (n - length bs) flags) ?t)) \<le> n - length bs"
      using bs n by (intro less.IH) simp
    ultimately show ?thesis
      using bs n by (subst psc_recvall.simps) (simp add: run_simps)
  qed
qed

lemma psc_recvmsg_bounded:
  assumes "recv_bounded P"
  shows "length (rr_body (result (psc_recvmsg P c maxlen flags) s)) \<le> unat maxlen"
proof -
  have "length (snd (result (psc_recvall P c (unat n) flags) t)) \<le> unat maxlen" if "n \<le> maxlen" for n t
    using psc_recvall_bounded [OF assms] that by (meson order_trans word_le_nat_alt)
  then show ?thesis
    by (auto simp: psc_recvmsg_def run_simps not_less split: sum.splits)
qed

section \<open>Events and frames of the message layer\<close>

lemma emits_sendall:
  "(\<And>bs. p (Tx c bs)) \<Longrightarrow> state_io_rel (emits p) (psc_sendall P c buf flags)"
  by (induction P c buf flags rule: psc_sendall.induct)
     (subst psc_sendall.simps, auto intro!: emits_intros)

lemma emits_sendmsg:
  "(\<And>bs. p (Tx c bs)) \<Longrightarrow> state_io_rel (emits p) (psc_sendmsg P c mid buf mlen flags)"
  by (auto simp: psc_sendmsg_def psc_sendhead_def intro!: emits_intros emits_sendall)

lemma emits_recvall:
  "(\<And>bs. p (Rx c bs)) \<Longrightarrow> state_io_rel (emits p) (psc_recvall P c n flags)"
  by (induction P c n flags rule: psc_recvall.induct)
     (subst psc_recvall.simps, auto intro!: emits_intros)

lemma emits_recvmsg:
  "(\<And>bs. p (Rx c bs)) \<Longrightarrow> state_io_rel (emits p) (psc_recvmsg P c maxlen flags)"
  by (auto simp: psc_recvmsg_def psc_recvhead_def intro!: emits_intros emits_recvall)

lemma frame_sendall:
  "core_indep f \<Longrightarrow> state_io_rel (unchanged f) (psc_sendall P c buf flags)"
  by (induction P c buf flags rule: psc_sendall.induct)
     (subst psc_sendall.simps, auto intro!: frame_intros)

lemma frame_sendmsg:
  "core_indep f \<Longrightarrow> state_io_rel (unchanged f) (psc_sendmsg P c mid buf mlen flags)"
  by (auto simp: psc_sendmsg_def psc_sendhead_def intro!: frame_intros frame_sendall)

lemma frame_recvall:
  "core_indep f \<Longrightarrow> state_io_rel (unchanged f) (psc_recvall P c n flags)"
  by (induction P c n flags rule: psc_recvall.induct)
     (subst psc_recvall.simps, auto intro!: frame_intros)

lemma frame_recvmsg:
  "core_indep f \<Longrightarrow> state_io_rel (unchanged f) (psc_recvmsg P c maxlen flags)"
  by (auto simp: psc_recvmsg_def psc_recvhead_def intro!: frame_intros frame_recvall)


text \<open>A relation kept by every \<open>send\<close> and \<open>recv\<close> is kept by the message layer.\<close>

locale msg_io = io_preorder R
  for R :: "('w, 'x) core_scheme \<Rightarrow> ('w, 'x) core_scheme \<Rightarrow> bool" +
  fixes P :: "'w platform"
  assumes send_step: "state_io_rel R (sk_send P c buf flags)"
    and recv_step: "state_io_rel R (sk_recv P c n flags)"
begin

lemma sendall_rel: "state_io_rel R (psc_sendall P c buf flags)"
proof (induction "length buf" arbitrary: buf rule: less_induct)
  case less
  show ?case
  proof (cases "buf = []")
    case False
    then show ?thesis
      by (subst psc_sendall.simps) (auto intro!: io_structure send_step less)
  qed (subst psc_sendall.simps, simp add: io_return)
qed

lemma sendmsg_rel: "state_io_rel R (psc_sendmsg P c mid buf mlen flags)"
  by (auto simp: psc_sendmsg_def psc_sendhead_def intro!: io_structure sendall_rel)

lemma recvall_rel: "state_io_rel R (psc_recvall P c n flags)"
proof (induction n rule: less_induct)
  case (less n)
  show ?case
    by (subst psc_recvall.simps) (auto intro!: io_structure recv_step less)
qed

lemma recvmsg_rel: "state_io_rel R (psc_recvmsg P c maxlen flags)"
  by (auto simp: psc_recvmsg_def psc_recvhead_def intro!: io_structure recvall_rel)

end

end
