(* ===== verification/Listener.thy ===== *)
theory Listener
  imports PscMsg
begin

text \<open>
  The single-client PSC server (listener.c).

  \<open>psc_run\<close> owns the listening socket and the one client socket. Each turn of its endless
  loop waits in \<open>select\<close>, accepts a new client (which supersedes the old one), receives one
  message, drops a client that has been silent for too long and runs the periodic work. The
  turn is \<open>psc_turn\<close>; \<open>psc_loop n\<close> is \<open>n\<close> turns, so that a statement for every \<open>n\<close> is a
  statement about the endless loop. A callback that does not come back (a flash chip that
  never gets ready) makes the turn return \<open>None\<close>.

  The callbacks the server is configured with are an interface: \<open>psc_callbacks\<close> states what
  the server needs of them, and the invariants of the loop are proved from that.
\<close>

datatype psc_event = PSC_CONN | PSC_DIS

record 'w net = "'w core" +
  the_server :: bool              \<comment> \<open>whether the caller's \<open>key\<close> is set\<close>
  listen_sock :: int
  client_sock :: int
  peeraddr :: "u32 \<times> u16"
  last_rx_tick :: u32
  rxbuf :: "byte list"

record 's psc_config =
  port :: u16
  conn :: "(psc_event \<Rightarrow> ('s, unit) state) option"
  recv_cb :: "(u16 \<Rightarrow> u32 \<Rightarrow> ('s, unit option) state) option"
  start :: "('s, unit) state option"

definition PSC_SELECT_MS :: u32 where "PSC_SELECT_MS = 20"
definition PSC_RX_TIMEOUT_MS :: u32 where "PSC_RX_TIMEOUT_MS = 5000"
definition PSC_TX_TIMEOUT_MS :: u32 where "PSC_TX_TIMEOUT_MS = 1000"
definition PSC_HEARTBEAT_TIMEOUT_MS :: u32 where "PSC_HEARTBEAT_TIMEOUT_MS = 5000"
definition PSC_MAX_RX_MSG_LEN :: nat where "PSC_MAX_RX_MSG_LEN = 200000"

section \<open>Clients coming and going\<close>

text \<open>The calls through the function pointers of the configuration, which may be \<open>NULL\<close>.\<close>

definition notify :: "'s psc_config \<Rightarrow> psc_event \<Rightarrow> ('s, unit) state" where
  "notify conf ev = (case conn conf of None \<Rightarrow> skip | Some f \<Rightarrow> f ev)"

definition deliver :: "'s psc_config \<Rightarrow> u16 \<Rightarrow> u32 \<Rightarrow> ('s, unit option) state" where
  "deliver conf msgid msglen =
     (case recv_cb conf of None \<Rightarrow> State_Monad.return (Some ()) | Some f \<Rightarrow> f msgid msglen)"

definition disconnect_client ::
  "'w platform \<Rightarrow> ('w, 'x) net_scheme psc_config \<Rightarrow> (('w, 'x) net_scheme, unit) state" where
  "disconnect_client P conf = do {
     sock \<leftarrow> gets client_sock;
     if sock < 0 then skip
     else do {
       modify (\<lambda>s. s\<lparr>client_sock := -1\<rparr>);
       sk_close P sock;
       notify conf PSC_DIS
     }
   }"

text \<open>
  The options of a client's socket. The build sets \<open>LWIP_SO_SNDTIMEO\<close> and \<open>LWIP_SO_RCVTIMEO\<close>; the
  form of a timeout depends on the configuration of lwIP. A failure is only logged.
\<close>

definition set_sockopt :: "'w platform \<Rightarrow> int \<Rightarrow> sockopt \<Rightarrow> (('w, 'x) core_scheme, unit) state" where
  "set_sockopt P sock opt = silently (\<lambda>w. snd (plat_setsockopt P sock opt w))"

definition timeout_value :: "'w platform \<Rightarrow> u32 \<Rightarrow> timeout" where
  "timeout_value P ms = (if LWIP_SO_SNDRCVTIMEO_NONSTANDARD P then Millis ms
     else Timeval (ms div 1000) ((ms mod 1000) * 1000))"

definition configure_client_socket :: "'w platform \<Rightarrow> int \<Rightarrow> (('w, 'x) core_scheme, unit) state" where
  "configure_client_socket P sock = do {
     set_sockopt P sock (TCP_NODELAY 1);
     set_sockopt P sock (SO_SNDTIMEO (timeout_value P PSC_TX_TIMEOUT_MS));
     set_sockopt P sock (SO_RCVTIMEO (timeout_value P PSC_RX_TIMEOUT_MS))
   }"

definition accept_client ::
  "'w platform \<Rightarrow> ('w, 'x) net_scheme psc_config \<Rightarrow> (('w, 'x) net_scheme, unit) state" where
  "accept_client P conf = do {
     lsock \<leftarrow> gets listen_sock;
     (sock, caddr) \<leftarrow> sk_accept P lsock;
     if sock < 0 then skip
     else do {
       old \<leftarrow> gets client_sock;
       (if old \<ge> 0 then disconnect_client P conf else skip);
       configure_client_socket P sock;
       now \<leftarrow> xTaskGetTickCount P;
       modify (\<lambda>s. s\<lparr>client_sock := sock, peeraddr := caddr, last_rx_tick := now\<rparr>);
       notify conf PSC_CONN
     }
   }"

definition psc_send ::
  "'w platform \<Rightarrow> ('w, 'x) net_scheme psc_config \<Rightarrow> u16 \<Rightarrow> u32 \<Rightarrow> byte list \<Rightarrow>
     (('w, 'x) net_scheme, unit) state" where
  "psc_send P conf msgid msglen msg = do {
     sock \<leftarrow> gets client_sock;
     if sock < 0 then skip
     else do {
       ret \<leftarrow> psc_sendmsg P sock msgid msg msglen 0;
       case ret of
         None \<Rightarrow> skip
       | Some e \<Rightarrow> do {
           c \<leftarrow> gets client_sock;
           if c = sock then disconnect_client P conf else skip
         }
     }
   }"

text \<open>The client key of a callback always names this server.\<close>

definition psc_send_one ::
  "'w platform \<Rightarrow> ('w, 'x) net_scheme psc_config \<Rightarrow> u16 \<Rightarrow> u32 \<Rightarrow> byte list \<Rightarrow>
     (('w, 'x) net_scheme, unit) state" where
  "psc_send_one P conf msgid msglen msg = psc_send P conf msgid msglen msg"

section \<open>The server loop\<close>

definition recv_store :: "'w platform \<Rightarrow> int \<Rightarrow> (('w, 'x) net_scheme, recv_result) state" where
  "recv_store P sock = do {
     rr \<leftarrow> psc_recvmsg P sock (of_nat PSC_MAX_RX_MSG_LEN) 0;
     modify (\<lambda>s. s\<lparr>rxbuf := overwrite (rr_body rr) (rxbuf s)\<rparr>);
     State_Monad.return rr
   }"

definition receive_client ::
  "'w platform \<Rightarrow> ('w, 'x) net_scheme psc_config \<Rightarrow> int \<Rightarrow>
     (('w, 'x) net_scheme, unit option) state" where
  "receive_client P conf sock = do {
     rr \<leftarrow> recv_store P sock;
     case (rr_ret rr, rr_head rr) of
       (None, Some (msgid, msglen)) \<Rightarrow> do {
         now \<leftarrow> xTaskGetTickCount P;
         modify (\<lambda>s. s\<lparr>last_rx_tick := now\<rparr>);
         deliver conf msgid msglen
       }
     | _ \<Rightarrow> do { disconnect_client P conf; State_Monad.return (Some ()) }
   }"

definition heartbeat_check ::
  "'w platform \<Rightarrow> ('w, 'x) net_scheme psc_config \<Rightarrow> (('w, 'x) net_scheme, unit) state" where
  "heartbeat_check P conf = do {
     sock \<leftarrow> gets client_sock;
     if sock \<ge> 0 then do {
       now \<leftarrow> xTaskGetTickCount P;
       last \<leftarrow> gets last_rx_tick;
       if now - last \<ge> pdMS_TO_TICKS P PSC_HEARTBEAT_TIMEOUT_MS
       then disconnect_client P conf else skip
     }
     else skip
   }"

definition service_sockets ::
  "'w platform \<Rightarrow> ('w, 'x) net_scheme psc_config \<Rightarrow> int \<Rightarrow> int list \<Rightarrow>
     (('w, 'x) net_scheme, unit option) state" where
  "service_sockets P conf selected ready = do {
     lsock \<leftarrow> gets listen_sock;
     (if lsock \<in> set ready then accept_client P conf else skip);
     c \<leftarrow> gets client_sock;
     if selected \<ge> 0 \<and> c = selected \<and> selected \<in> set ready
     then receive_client P conf selected
     else State_Monad.return (Some ())
   }"

definition psc_turn ::
  "'w platform \<Rightarrow> ('w, 'x) net_scheme psc_config \<Rightarrow> (('w, 'x) net_scheme, unit) state \<Rightarrow>
     (('w, 'x) net_scheme, unit option) state" where
  "psc_turn P conf pscdata_poll = do {
     lsock \<leftarrow> gets listen_sock;
     selected \<leftarrow> gets client_sock;
     ret \<leftarrow> sk_select P (lsock # (if selected \<ge> 0 then [selected] else [])) PSC_SELECT_MS;
     done \<leftarrow> (case ret of
         Inl e \<Rightarrow> do { silently (plat_msleep P PSC_SELECT_MS); State_Monad.return (Some ()) }
       | Inr ready \<Rightarrow> service_sockets P conf selected ready);
     case done of
       None \<Rightarrow> State_Monad.return None
     | Some _ \<Rightarrow> do {
         heartbeat_check P conf;
         pscdata_poll;
         State_Monad.return (Some ())
       }
   }"

fun psc_loop ::
  "'w platform \<Rightarrow> ('w, 'x) net_scheme psc_config \<Rightarrow> (('w, 'x) net_scheme, unit) state \<Rightarrow>
     nat \<Rightarrow> (('w, 'x) net_scheme, unit option) state" where
  "psc_loop P conf poll 0 = State_Monad.return (Some ())"
| "psc_loop P conf poll (Suc n) = do {
     r \<leftarrow> psc_turn P conf poll;
     case r of None \<Rightarrow> State_Monad.return None | Some _ \<Rightarrow> psc_loop P conf poll n
   }"

text \<open>
  The part of \<open>psc_run\<close> before its loop. It returns \<open>False\<close> where the C function returns early
  with a message on the console.
\<close>

definition psc_setup ::
  "'w platform \<Rightarrow> ('w, 'x) net_scheme psc_config \<Rightarrow> nat \<Rightarrow> (('w, 'x) net_scheme, bool) state" where
  "psc_setup P conf keysize = do {
     set_already \<leftarrow> gets the_server;
     if set_already then State_Monad.return False
     else do {
       ok \<leftarrow> call (plat_calloc P keysize) (\<lambda>_. []);
       if \<not> ok then State_Monad.return False
       else do {
         modify (\<lambda>s. s\<lparr>listen_sock := -1, client_sock := -1, peeraddr := (0, 0), last_rx_tick := 0,
                       rxbuf := replicate PSC_MAX_RX_MSG_LEN 0\<rparr>);
         ls \<leftarrow> call (plat_socket P) (\<lambda>_. []);
         modify (\<lambda>s. s\<lparr>listen_sock := ls\<rparr>);
         if ls < 0 then State_Monad.return False
         else do {
           b \<leftarrow> call (plat_bind P ls (port conf)) (\<lambda>_. []);
           if b < 0 then State_Monad.return False
           else do {
             l \<leftarrow> call (plat_listen P ls) (\<lambda>_. []);
             if l < 0 then State_Monad.return False
             else do {
               modify (\<lambda>s. s\<lparr>the_server := True\<rparr>);
               (case start conf of None \<Rightarrow> skip | Some f \<Rightarrow> f);
               State_Monad.return True
             }
           }
         }
       }
     }
   }"

definition psc_run ::
  "'w platform \<Rightarrow> ('w, 'x) net_scheme psc_config \<Rightarrow> (('w, 'x) net_scheme, unit) state \<Rightarrow>
     nat \<Rightarrow> nat \<Rightarrow> (('w, 'x) net_scheme, unit option) state" where
  "psc_run P conf poll keysize turns = do {
     ok \<leftarrow> psc_setup P conf keysize;
     if ok then psc_loop P conf poll turns else State_Monad.return (Some ())
   }"

section \<open>Accounting of client sockets\<close>

text \<open>
  \<open>open_count c\<close> is how often socket \<open>c\<close> was accepted minus how often it was closed.
  \<open>leak c\<close> compares this with the socket the server believes to own. It is the quantity every
  operation of the server keeps: nothing is closed twice and nothing is left open.
\<close>

fun sock_delta :: "int \<Rightarrow> io \<Rightarrow> int" where
  "sock_delta c (Acc d) = (if d = c then 1 else 0)"
| "sock_delta c (Cls d) = (if d = c then -1 else 0)"
| "sock_delta _ _ = 0"

definition open_count :: "int \<Rightarrow> io list \<Rightarrow> int" where
  "open_count c es = sum_list (map (sock_delta c) es)"

definition owned :: "int \<Rightarrow> ('w, 'x) net_scheme \<Rightarrow> int" where
  "owned c s = (if client_sock s = c \<and> 0 \<le> c then 1 else 0)"

definition leak :: "int \<Rightarrow> ('w, 'x) net_scheme \<Rightarrow> int" where
  "leak c s = open_count c (trace s) - owned c s"

lemma open_count_simps [simp]:
  "open_count c [] = 0" "open_count c (e # es) = sock_delta c e + open_count c es"
  "open_count c (es @ fs) = open_count c es + open_count c fs"
  by (simp_all add: open_count_def)

lemma leak_cong: "trace t = trace s \<Longrightarrow> client_sock t = client_sock s \<Longrightarrow> leak c t = leak c s"
  by (simp add: leak_def owned_def)

definition neutral :: "io \<Rightarrow> bool" where
  "neutral e \<longleftrightarrow> (\<forall>c. sock_delta c e = 0)"

lemma neutral_simps [simp]:
  "neutral (Rd a v)" "neutral (Wr a v)" "neutral (Tx d bs)" "neutral (Rx d bs)"
  "neutral (Qspi bs)" "neutral UB"
  by (simp_all add: neutral_def)

lemma open_count_neutral: "list_all neutral es \<Longrightarrow> open_count c es = 0"
  by (induction es) (auto simp: neutral_def)

text \<open>Whatever only adds neutral events and does not touch the client socket keeps \<open>leak\<close>.\<close>

lemma leak_neutral:
  assumes "state_io_rel (emits neutral) m" and "state_io_rel (unchanged client_sock) m"
  shows "state_io_rel (unchanged (leak c)) m"
proof (rule io_of_exec)
  fix s
  from io_exec [OF assms(1)] obtain es where "trace (exec m s) = trace s @ es" "list_all neutral es"
    by (auto simp: emits_def)
  moreover have "client_sock (exec m s) = client_sock s"
    using io_exec [OF assms(2), of s] by (simp add: unchanged_def)
  ultimately show "unchanged (leak c) s (exec m s)"
    by (simp add: unchanged_def leak_def owned_def open_count_neutral)
qed

lemma core_indep_net [simp]:
  "core_indep client_sock" "core_indep listen_sock" "core_indep rxbuf" "core_indep last_rx_tick"
  by (simp_all add: core_indep_def)

lemma leak_modify:
  "(\<And>s. trace (f s) = trace s) \<Longrightarrow> (\<And>s. client_sock (f s) = client_sock s) \<Longrightarrow>
   state_io_rel (unchanged (leak c)) (modify f)"
  by (rule io_of_exec) (simp add: unchanged_def exec_modify leak_def owned_def)

lemma leak_silently: "state_io_rel (unchanged (leak c)) (silently f)"
  by (rule io_of_exec) (simp add: unchanged_def run_simps leak_def owned_def)

lemma leak_call:
  "(\<And>r. list_all neutral (ev r)) \<Longrightarrow> state_io_rel (unchanged (leak c)) (call f ev)"
  by (rule leak_neutral) (auto intro!: emits_call frame_call)

lemma leak_Out32: "state_io_rel (unchanged (leak c)) (Xil_Out32 P a v)"
  by (rule leak_neutral) (auto intro!: emits_intros frame_intros)

lemma leak_In32: "state_io_rel (unchanged (leak c)) (Xil_In32 P a)"
  by (rule leak_neutral) (auto intro!: emits_intros frame_intros)

lemma leak_sendmsg: "state_io_rel (unchanged (leak c)) (psc_sendmsg P d mid buf mlen flags)"
  by (rule leak_neutral) (auto intro!: emits_sendmsg frame_sendmsg)

lemma leak_recvmsg: "state_io_rel (unchanged (leak c)) (psc_recvmsg P d maxlen flags)"
  by (rule leak_neutral) (auto intro!: emits_recvmsg frame_recvmsg)

lemma leak_ticks: "state_io_rel (unchanged (leak c)) (xTaskGetTickCount P)"
  by (simp add: xTaskGetTickCount_def leak_call)

lemma leak_select: "state_io_rel (unchanged (leak c)) (sk_select P fds ms)"
  by (simp add: sk_select_def leak_call)

lemmas leak_intros =
  frame.io_structure leak_modify leak_silently leak_Out32 leak_In32 leak_sendmsg leak_recvmsg
  leak_ticks leak_select

text \<open>
  What the server asks of the callbacks of its configuration and of the periodic work: they
  do not lose or invent a client socket.
\<close>

locale psc_callbacks =
  fixes P :: "'w platform"
    and conf :: "('w, 'x) net_scheme psc_config"
    and poll :: "(('w, 'x) net_scheme, unit) state"
  assumes conn_leak: "conn conf = Some f \<Longrightarrow> state_io_rel (unchanged (leak c)) (f ev)"
    and recv_leak: "recv_cb conf = Some g \<Longrightarrow> state_io_rel (unchanged (leak c)) (g mid mlen)"
    and conn_stays: "conn conf = Some f \<Longrightarrow> state_io_rel (keeps (\<lambda>s. client_sock s < 0)) (f PSC_DIS)"
    and poll_leak: "state_io_rel (unchanged (leak c)) poll"
begin

lemma notify_leak: "state_io_rel (unchanged (leak c)) (notify conf ev)"
  by (cases "conn conf") (simp_all add: notify_def frame.io_skip conn_leak)

lemma notify_stays: "state_io_rel (keeps (\<lambda>s. client_sock s < 0)) (notify conf PSC_DIS)"
  by (cases "conn conf") (simp_all add: notify_def inv.io_skip conn_stays)

lemma deliver_leak: "state_io_rel (unchanged (leak c)) (deliver conf mid mlen)"
  by (cases "recv_cb conf") (simp_all add: deliver_def frame.io_return recv_leak)

lemma disconnect_leak: "state_io_rel (unchanged (leak c)) (disconnect_client P conf)"
proof (rule io_of_exec)
  fix s :: "('w, 'x) net_scheme"
  let ?d = "client_sock s"
  let ?t = "s\<lparr>client_sock := -1, world := plat_close P ?d (world s), trace := trace s @ [Cls ?d]\<rparr>"
  show "unchanged (leak c) s (exec (disconnect_client P conf) s)"
  proof (cases "?d < 0")
    case True
    then show ?thesis by (simp add: disconnect_client_def run_simps unchanged_def)
  next
    case False
    have "leak c ?t = leak c s"
      using False by (auto simp: leak_def owned_def)
    moreover have "exec (disconnect_client P conf) s = exec (notify conf PSC_DIS) ?t"
      using False by (simp add: disconnect_client_def run_simps)
    ultimately show ?thesis by (simp add: unchanged_def unchanged_exec [OF notify_leak])
  qed
qed

lemma send_leak: "state_io_rel (unchanged (leak c)) (psc_send P conf mid mlen msg)"
  by (auto simp: psc_send_def intro!: leak_intros disconnect_leak)

lemma disconnect_sock: "client_sock (exec (disconnect_client P conf) s) < 0"
proof (cases "client_sock s < 0")
  case True
  then show ?thesis by (simp add: disconnect_client_def run_simps)
next
  case False
  then show ?thesis
    by (simp add: disconnect_client_def run_simps keeps_exec [OF notify_stays])
qed

text \<open>After the old client is gone, the accepted socket becomes the client.\<close>

lemma accept_leak: "state_io_rel (unchanged (leak c)) (accept_client P conf)"
proof (rule io_of_exec)
  fix s :: "('w, 'x) net_scheme"
  let ?a = "sk_accept P (listen_sock s)"
  obtain sock caddr where r: "result ?a s = (sock, caddr)" by (cases "result ?a s")
  let ?s1 = "exec ?a s"
  show "unchanged (leak c) s (exec (accept_client P conf) s)"
  proof (cases "sock < 0")
    case True
    with r show ?thesis
      by (simp add: accept_client_def run_simps unchanged_def sk_accept_def leak_def owned_def)
  next
    case False
    define s2 where "s2 = exec (if client_sock ?s1 \<ge> 0 then disconnect_client P conf else skip) ?s1"
    define s3 where "s3 = exec (xTaskGetTickCount P) (exec (configure_client_socket P sock) s2)"
    define s4 where "s4 = s3\<lparr>client_sock := sock, peeraddr := caddr,
        last_rx_tick := result (xTaskGetTickCount P) (exec (configure_client_socket P sock) s2)\<rparr>"
    have e: "exec (accept_client P conf) s =
        exec (notify conf PSC_CONN) s4"
      using r False by (simp add: accept_client_def run_simps s2_def s3_def s4_def)
    have l1: "leak c ?s1 = leak c s + (if sock = c then 1 else 0)"
      using r False by (simp add: sk_accept_def run_simps leak_def owned_def)
    have l2: "leak c s2 = leak c ?s1"
      by (simp add: s2_def run_simps unchanged_exec [OF disconnect_leak])
    have s3: "trace s3 = trace s2"
      by (simp add: s3_def xTaskGetTickCount_def configure_client_socket_def set_sockopt_def run_simps)
    have "client_sock s2 < 0"
      using disconnect_sock by (simp add: s2_def run_simps)
    then have "owned c s2 = 0" by (auto simp: owned_def)
    moreover have "owned c s4 = (if sock = c then 1 else 0)"
      using False by (auto simp: owned_def s4_def)
    moreover have "trace s4 = trace s2" by (simp add: s4_def s3)
    ultimately have "leak c s4 = leak c s"
      using l1 l2 by (auto simp: leak_def)
    then show ?thesis by (simp add: e unchanged_def unchanged_exec [OF notify_leak])
  qed
qed

lemma receive_leak: "state_io_rel (unchanged (leak c)) (receive_client P conf d)"
  by (auto simp: receive_client_def recv_store_def intro!: leak_intros deliver_leak disconnect_leak split: option.split)

lemma heartbeat_leak: "state_io_rel (unchanged (leak c)) (heartbeat_check P conf)"
  by (auto simp: heartbeat_check_def intro!: leak_intros disconnect_leak)

lemma turn_leak: "state_io_rel (unchanged (leak c)) (psc_turn P conf poll)"
  by (auto simp: psc_turn_def service_sockets_def
      intro!: leak_intros accept_leak receive_leak heartbeat_leak poll_leak)

lemma loop_leak: "state_io_rel (unchanged (leak c)) (psc_loop P conf poll n)"
  by (induction n) (auto intro!: leak_intros turn_leak)

end

text \<open>
  The contract for relations that every single step of the server and its callbacks keeps:
  then the whole loop keeps them.
\<close>

locale psc_steps = io_preorder R
  for R :: "('w, 'x) net_scheme \<Rightarrow> ('w, 'x) net_scheme \<Rightarrow> bool" +
  fixes P :: "'w platform"
    and conf :: "('w, 'x) net_scheme psc_config"
    and poll :: "(('w, 'x) net_scheme, unit) state"
  assumes sel: "state_io_rel R (sk_select P fds ms)"
    and acc: "state_io_rel R (sk_accept P l)"
    and cls: "state_io_rel R (sk_close P c)"
    and tick: "state_io_rel R (xTaskGetTickCount P)"
    and opt: "state_io_rel R (set_sockopt P c opt)"
    and sleep: "state_io_rel R (silently (plat_msleep P n))"
    and gone: "state_io_rel R (modify (\<lambda>s. s\<lparr>client_sock := x\<rparr>))"
    and came: "state_io_rel R (modify (\<lambda>s. s\<lparr>client_sock := x, peeraddr := y, last_rx_tick := z\<rparr>))"
    and heard: "state_io_rel R (modify (\<lambda>s. s\<lparr>last_rx_tick := z\<rparr>))"
    and store: "state_io_rel R (recv_store P c)"
    and note_rel: "state_io_rel R (notify conf ev)"
    and deliver_rel: "state_io_rel R (deliver conf mid mlen)"
    and poll_rel: "state_io_rel R poll"
begin

lemmas server_steps =
  io_structure sel acc cls tick opt sleep gone came heard store note_rel deliver_rel poll_rel

lemma disconnect_rel: "state_io_rel R (disconnect_client P conf)"
  unfolding disconnect_client_def by (intro server_steps)

lemma accept_rel: "state_io_rel R (accept_client P conf)"
  unfolding accept_client_def configure_client_socket_def by (intro server_steps disconnect_rel)

lemma receive_rel: "state_io_rel R (receive_client P conf c)"
  by (auto simp: receive_client_def intro!: server_steps disconnect_rel split: option.split)

lemma turn_rel: "state_io_rel R (psc_turn P conf poll)"
  unfolding psc_turn_def service_sockets_def heartbeat_check_def
  by (intro server_steps accept_rel receive_rel disconnect_rel)

lemma loop_rel: "state_io_rel R (psc_loop P conf poll n)"
proof (induction n)
  case (Suc n)
  show ?case unfolding psc_loop.simps by (intro io_structure turn_rel Suc)
qed (simp add: io_return)

end

section \<open>The heartbeat\<close>

text \<open>
  The check reads the tick counter once. The client stays exactly if its last message is
  less than the heartbeat period old; otherwise its socket is closed.
\<close>

lemma heartbeat_check_cases:
  fixes s :: "('w, 'x) net_scheme" and P :: "'w platform"
  assumes "client_sock s \<ge> 0"
  defines "age \<equiv> fst (plat_ticks P (world s)) - last_rx_tick s"
  shows "age < pdMS_TO_TICKS P PSC_HEARTBEAT_TIMEOUT_MS \<Longrightarrow>
      exec (heartbeat_check P conf) s = s\<lparr>world := snd (plat_ticks P (world s))\<rparr>"
    and "pdMS_TO_TICKS P PSC_HEARTBEAT_TIMEOUT_MS \<le> age \<Longrightarrow>
      exec (heartbeat_check P conf) s =
        exec (disconnect_client P conf) (s\<lparr>world := snd (plat_ticks P (world s))\<rparr>)"
  using assms(1)
  by (auto simp: heartbeat_check_def run_simps xTaskGetTickCount_def age_def not_le)

section \<open>The receive buffer\<close>

lemma length_overwrite: "length bs \<le> length buf \<Longrightarrow> length (overwrite bs buf) = length buf"
  by (simp add: overwrite_def)


section \<open>What a send does\<close>

text \<open>
  The outcome of a send to a connected client: the whole frame goes out and the client stays,
  or only a proper prefix of it went out and the socket is closed right after.
\<close>

definition sends_frame ::
  "int \<Rightarrow> byte list \<Rightarrow> ('w, 'x) net_scheme \<Rightarrow> ('w, 'x) net_scheme \<Rightarrow> bool" where
  "sends_frame c frame s t \<longleftrightarrow>
     transmits c frame s t \<and> client_sock t = c \<or>
     (\<exists>k<length frame. \<exists>es. trace t = trace s @ es @ [Cls c] \<and> list_all (is_tx c) es \<and>
        sent c es = take k frame \<and> client_sock t = -1)"

lemma psc_send_frame:
  fixes s :: "('w, 'x) net_scheme" and P :: "'w platform"
  assumes "client_sock s = c" and "0 \<le> c" and quiet: "notify conf PSC_DIS = skip"
  shows "sends_frame c (psc_frame mid msg mlen) s (exec (psc_send P conf mid mlen msg) s)"
proof -
  let ?m = "psc_sendmsg P c mid msg mlen 0 :: (('w, 'x) net_scheme, errno option) state"
  have cs: "client_sock (exec ?m s) = c"
    using assms(1) by (simp add: unchanged_exec [OF frame_sendmsg])
  show ?thesis
  proof (cases "result ?m s")
    case None
    with assms cs show ?thesis
      by (simp add: psc_send_def run_simps sends_frame_def psc_sendmsg_ok)
  next
    case (Some e)
    then obtain k es where "k < length (psc_frame mid msg mlen)"
      and "trace (exec ?m s) = trace s @ es" "list_all (is_tx c) es"
      and "sent c es = take k (psc_frame mid msg mlen)"
      using psc_sendmsg_err [OF Some] by (auto simp: transmits_def)
    with Some assms cs show ?thesis
      by (auto simp: psc_send_def run_simps sends_frame_def disconnect_client_def quiet)
  qed
qed

lemma psc_send_unconnected:
  "client_sock s < 0 \<Longrightarrow> exec (psc_send P conf mid mlen msg) s = s"
  by (simp add: psc_send_def run_simps)

text \<open>A send touches nothing but the connection.\<close>

lemma frame_psc_send:
  assumes "core_indep f" and "\<And>s. f (s\<lparr>client_sock := -1\<rparr>) = f s" and "notify conf PSC_DIS = skip"
  shows "state_io_rel (unchanged f) (psc_send P conf mid mlen msg)"
  unfolding psc_send_def disconnect_client_def assms(3)
  by (intro frame_intros frame_sendmsg assms)

end
