(* ===== verification/CFloat.thy ===== *)
theory CFloat
  imports Psc_Prelude
begin

text \<open>
  The floating-point arithmetic of the firmware.

  A C \<open>float\<close> in memory is its 32-bit pattern (so that copies, byte swaps and unions keep
  every bit), a value in a computation is an \<open>fp\<close>: not a number, an infinity, or a sign and a
  magnitude \<open>m * 2 ^ e\<close> with integers \<open>m \<ge> 0\<close> and \<open>e\<close>. Every operation computes the exact
  result as a fraction of integers and rounds it once to the nearest value of its format, ties
  to even, with gradual underflow and overflow to infinity, as IEEE 754 and the Cortex-A9
  floating-point unit do in their default mode. Usual arithmetic conversions are explicit:
  \<open>f32\<close> operations round to \<open>single\<close>, operations with a \<open>double\<close> operand to \<open>double\<close>.

  Conversions to integers truncate towards zero. Where ISO C leaves them undefined (the value
  does not fit, or is not a number) they have the result of the \<open>VCVT\<close> instruction the
  compiler emits for them: the nearest value of the integer type, and 0 for a NaN.
\<close>

type_synonym f32 = "32 word"

datatype fp = FNaN | FInf bool | FFin bool int int

record fp_format =
  precision :: nat
  ulp_min :: int      \<comment> \<open>exponent of the smallest subnormal\<close>
  exp_max :: int      \<comment> \<open>finite values are below \<open>2 ^ exp_max\<close>\<close>

definition single :: fp_format where
  "single = \<lparr>precision = 24, ulp_min = -149, exp_max = 128\<rparr>"

definition double :: fp_format where
  "double = \<lparr>precision = 53, ulp_min = -1074, exp_max = 1024\<rparr>"

section \<open>Rounding\<close>

function ilog2 :: "int \<Rightarrow> int" where
  "ilog2 n = (if n < 2 then 0 else 1 + ilog2 (n div 2))"
  by pat_completeness auto
termination
  by (relation "measure nat") auto

declare ilog2.simps [simp del]

text \<open>The fraction \<open>n / d\<close> rounded to an integer, ties to even.\<close>

definition round_div :: "int \<Rightarrow> int \<Rightarrow> int" where
  "round_div n d =
     (let q = n div d; r = n mod d in
      if 2 * r > d \<or> (2 * r = d \<and> odd q) then q + 1 else q)"

text \<open>\<open>n / d * 2 ^ e\<close> as a fraction of integers, and the exponent of its leading bit.\<close>

definition frac_num :: "int \<Rightarrow> int \<Rightarrow> int" where
  "frac_num n e = (if e \<ge> 0 then n * 2 ^ nat e else n)"

definition frac_den :: "int \<Rightarrow> int \<Rightarrow> int" where
  "frac_den d e = (if e \<ge> 0 then d else d * 2 ^ nat (- e))"

definition frac_log :: "int \<Rightarrow> int \<Rightarrow> int" where
  "frac_log n d =
     (let l = ilog2 n - ilog2 d in
      if frac_num n (- l) \<ge> frac_den d (- l) then l else l - 1)"

definition fp_round :: "fp_format \<Rightarrow> bool \<Rightarrow> int \<Rightarrow> int \<Rightarrow> int \<Rightarrow> fp" where
  "fp_round F neg n d e =
     (if n = 0 then FFin neg 0 (ulp_min F)
      else
        let x = max (ulp_min F) (frac_log n d + e - int (precision F) + 1);
            m = round_div (frac_num n (e - x)) (frac_den d (e - x))
        in if ilog2 m + x \<ge> exp_max F \<and> m \<noteq> 0 then FInf neg else FFin neg m x)"

section \<open>Arithmetic\<close>

fun fp_neg :: "fp \<Rightarrow> fp" where
  "fp_neg FNaN = FNaN"
| "fp_neg (FInf s) = FInf (\<not> s)"
| "fp_neg (FFin s m e) = FFin (\<not> s) m e"

fun fp_abs :: "fp \<Rightarrow> fp" where
  "fp_abs FNaN = FNaN"
| "fp_abs (FInf s) = FInf False"
| "fp_abs (FFin s m e) = FFin False m e"

fun fp_mul :: "fp_format \<Rightarrow> fp \<Rightarrow> fp \<Rightarrow> fp" where
  "fp_mul F FNaN _ = FNaN"
| "fp_mul F _ FNaN = FNaN"
| "fp_mul F (FInf s) (FInf t) = FInf (s \<noteq> t)"
| "fp_mul F (FInf s) (FFin t m e) = (if m = 0 then FNaN else FInf (s \<noteq> t))"
| "fp_mul F (FFin s m e) (FInf t) = (if m = 0 then FNaN else FInf (s \<noteq> t))"
| "fp_mul F (FFin s m e) (FFin t n f) = fp_round F (s \<noteq> t) (m * n) 1 (e + f)"

fun fp_div :: "fp_format \<Rightarrow> fp \<Rightarrow> fp \<Rightarrow> fp" where
  "fp_div F FNaN _ = FNaN"
| "fp_div F _ FNaN = FNaN"
| "fp_div F (FInf s) (FInf t) = FNaN"
| "fp_div F (FInf s) (FFin t m e) = FInf (s \<noteq> t)"
| "fp_div F (FFin s m e) (FInf t) = FFin (s \<noteq> t) 0 (ulp_min F)"
| "fp_div F (FFin s m e) (FFin t n f) =
     (if n = 0 then (if m = 0 then FNaN else FInf (s \<noteq> t))
      else fp_round F (s \<noteq> t) m n (e - f))"

text \<open>A signed magnitude at a common exponent, for sums and comparisons.\<close>

definition scaled :: "bool \<Rightarrow> int \<Rightarrow> int \<Rightarrow> int \<Rightarrow> int" where
  "scaled s m e x = (if s then - 1 else 1) * m * 2 ^ nat (e - x)"

fun fp_add :: "fp_format \<Rightarrow> fp \<Rightarrow> fp \<Rightarrow> fp" where
  "fp_add F FNaN _ = FNaN"
| "fp_add F _ FNaN = FNaN"
| "fp_add F (FInf s) (FInf t) = (if s = t then FInf s else FNaN)"
| "fp_add F (FInf s) (FFin t m e) = FInf s"
| "fp_add F (FFin s m e) (FInf t) = FInf t"
| "fp_add F (FFin s m e) (FFin t n f) =
     (let x = min e f; v = scaled s m e x + scaled t n f x
      in if v = 0 then FFin (s \<and> t) 0 (ulp_min F)
         else fp_round F (v < 0) \<bar>v\<bar> 1 x)"

definition fp_sub :: "fp_format \<Rightarrow> fp \<Rightarrow> fp \<Rightarrow> fp" where
  "fp_sub F a b = fp_add F a (fp_neg b)"

fun fp_lt :: "fp \<Rightarrow> fp \<Rightarrow> bool" where
  "fp_lt FNaN _ = False"
| "fp_lt _ FNaN = False"
| "fp_lt (FInf s) (FInf t) = (s \<and> \<not> t)"
| "fp_lt (FInf s) (FFin t m e) = s"
| "fp_lt (FFin s m e) (FInf t) = (\<not> t)"
| "fp_lt (FFin s m e) (FFin t n f) =
     (let x = min e f in scaled s m e x < scaled t n f x)"

section \<open>Conversions\<close>

definition fp_of_int :: "fp_format \<Rightarrow> int \<Rightarrow> fp" where
  "fp_of_int F i = fp_round F (i < 0) \<bar>i\<bar> 1 0"

text \<open>A decimal literal \<open>n / d\<close> of the source.\<close>

definition fp_lit :: "fp_format \<Rightarrow> int \<Rightarrow> int \<Rightarrow> fp" where
  "fp_lit F n d = fp_round F False n d 0"

fun fp_cast :: "fp_format \<Rightarrow> fp \<Rightarrow> fp" where
  "fp_cast F FNaN = FNaN"
| "fp_cast F (FInf s) = FInf s"
| "fp_cast F (FFin s m e) = fp_round F s m 1 e"

definition fp_trunc :: "bool \<Rightarrow> int \<Rightarrow> int \<Rightarrow> int" where
  "fp_trunc s m e =
     (let t = frac_num m e div frac_den 1 e in if s then - t else t)"

fun fp_to_int :: "int \<Rightarrow> int \<Rightarrow> fp \<Rightarrow> int" where
  "fp_to_int lo hi FNaN = 0"
| "fp_to_int lo hi (FInf s) = (if s then lo else hi)"
| "fp_to_int lo hi (FFin s m e) = max lo (min hi (fp_trunc s m e))"

definition s32_of_fp :: "fp \<Rightarrow> int" where
  "s32_of_fp x = fp_to_int (- (2 ^ 31)) (2 ^ 31 - 1) x"

definition u32_of_fp :: "fp \<Rightarrow> u32" where
  "u32_of_fp x = of_int (fp_to_int 0 (2 ^ 32 - 1) x)"

section \<open>Bit patterns of single precision\<close>

definition f32_val :: "f32 \<Rightarrow> fp" where
  "f32_val w =
     (let neg = bit w 31; ex = uint (take_bit 8 (drop_bit 23 w)); fr = uint (take_bit 23 w)
      in if ex = 255 then (if fr = 0 then FInf neg else FNaN)
         else if ex = 0 then FFin neg fr (- 149)
         else FFin neg (fr + 2 ^ 23) (ex - 150))"

fun f32_bits :: "fp \<Rightarrow> f32" where
  "f32_bits FNaN = 0x7FC00000"
| "f32_bits (FInf s) = (if s then 0xFF800000 else 0x7F800000)"
| "f32_bits (FFin s m e) =
     (if s then 0x80000000 else 0) +
     (if m < 2 ^ 23 then of_int m
      else if m = 2 ^ 24 then of_int ((e + 151) * 2 ^ 23)
      else of_int ((e + 149) * 2 ^ 23) + of_int m)"

section \<open>Facts\<close>

lemma s32_of_fp_range: "- (2 ^ 31) \<le> s32_of_fp x" "s32_of_fp x \<le> 2 ^ 31 - 1"
  by (cases x; simp add: s32_of_fp_def)+

lemma fp_round_sign: "fp_round F s n d e = FInf s \<or> (\<exists>m x. fp_round F s n d e = FFin s m x)"
  by (simp add: fp_round_def Let_def)

text \<open>
  Well-formed values have a non-negative magnitude; every operation yields one. A value
  without a sign bit converts to a non-negative integer.
\<close>

fun fp_wf :: "fp \<Rightarrow> bool" where
  "fp_wf (FFin s m e) = (0 \<le> m)"
| "fp_wf _ = True"

fun fp_nonneg :: "fp \<Rightarrow> bool" where
  "fp_nonneg FNaN = True"
| "fp_nonneg (FInf s) = (\<not> s)"
| "fp_nonneg (FFin s m e) = (\<not> s \<and> 0 \<le> m)"

lemma round_div_nonneg: "0 \<le> n \<Longrightarrow> 0 < d \<Longrightarrow> 0 \<le> round_div n d"
  by (simp add: round_div_def Let_def pos_imp_zdiv_nonneg_iff)

lemma frac_num_nonneg: "0 \<le> n \<Longrightarrow> 0 \<le> frac_num n e"
  by (simp add: frac_num_def)

lemma frac_den_pos: "0 < d \<Longrightarrow> 0 < frac_den d e"
  by (simp add: frac_den_def)

lemma fp_wf_round: "0 \<le> n \<Longrightarrow> 0 < d \<Longrightarrow> fp_wf (fp_round F s n d e)"
  by (simp add: fp_round_def Let_def round_div_nonneg frac_num_nonneg frac_den_pos)

lemma fp_wf_mul: "fp_wf a \<Longrightarrow> fp_wf b \<Longrightarrow> fp_wf (fp_mul F a b)"
  by (cases a; cases b) (simp_all add: fp_wf_round)

lemma fp_wf_div: "fp_wf a \<Longrightarrow> fp_wf b \<Longrightarrow> fp_wf (fp_div F a b)"
  by (cases a; cases b) (simp_all add: fp_wf_round)

lemma fp_wf_cast: "fp_wf a \<Longrightarrow> fp_wf (fp_cast F a)"
  by (cases a) (simp_all add: fp_wf_round)

lemma fp_wf_f32_val: "fp_wf (f32_val w)"
  by (simp add: f32_val_def Let_def)

lemma fp_wf_lit: "0 \<le> n \<Longrightarrow> 0 < d \<Longrightarrow> fp_wf (fp_lit F n d)"
  by (simp add: fp_lit_def fp_wf_round)

lemma fp_nonneg_round: "0 \<le> n \<Longrightarrow> 0 < d \<Longrightarrow> fp_nonneg (fp_round F False n d e)"
  by (simp add: fp_round_def Let_def round_div_nonneg frac_num_nonneg frac_den_pos)

lemma fp_nonneg_abs: "fp_wf x \<Longrightarrow> fp_nonneg (fp_abs x)"
  by (cases x) simp_all

lemma fp_nonneg_div: "fp_nonneg x \<Longrightarrow> fp_nonneg y \<Longrightarrow> fp_nonneg (fp_div F x y)"
  by (cases x; cases y) (simp_all add: fp_nonneg_round)

lemma s32_of_fp_nonneg: "fp_nonneg x \<Longrightarrow> 0 \<le> s32_of_fp x"
proof (cases x)
  case (FFin s m e)
  assume "fp_nonneg x"
  with FFin have "\<not> s" "0 \<le> m" by simp_all
  then have "0 \<le> fp_trunc s m e"
    by (simp add: fp_trunc_def Let_def frac_num_nonneg frac_den_pos pos_imp_zdiv_nonneg_iff)
  with FFin show ?thesis by (simp add: s32_of_fp_def)
qed (simp_all add: s32_of_fp_def)

section \<open>Integers that are exact\<close>

lemma halves:
  "p \<le> q \<Longrightarrow> q < 2 * p \<Longrightarrow> 0 \<le> r \<Longrightarrow> r < 2 \<Longrightarrow> 2 * p \<le> 2 * q + r \<and> 2 * q + r < 4 * p" for p q r :: int
  by linarith

lemma ilog2_bounds: "0 < n \<Longrightarrow> 0 \<le> ilog2 n \<and> 2 ^ nat (ilog2 n) \<le> n \<and> n < 2 ^ nat (ilog2 n + 1)"
proof (induction n rule: ilog2.induct)
  case (1 n)
  show ?case
  proof (cases "n < 2")
    case True
    with 1(2) show ?thesis by (simp add: ilog2.simps [of n])
  next
    case False
    then have "0 < n div 2" by simp
    with 1(1) False have IH: "0 \<le> ilog2 (n div 2)" "2 ^ nat (ilog2 (n div 2)) \<le> n div 2"
      "n div 2 < 2 ^ nat (ilog2 (n div 2) + 1)" by simp_all
    have n: "ilog2 n = 1 + ilog2 (n div 2)" using False by (simp add: ilog2.simps [of n])
    let ?p = "(2 :: int) ^ nat (ilog2 (n div 2))"
    have "(2 :: int) ^ nat (ilog2 (n div 2) + 1) = 2 * ?p" "(2 :: int) ^ nat (ilog2 n) = 2 * ?p"
      "(2 :: int) ^ nat (ilog2 n + 1) = 4 * ?p"
      using IH(1) by (simp_all add: n nat_add_distrib)
    moreover from this IH have "2 * ?p \<le> 2 * (n div 2) + n mod 2 \<and> 2 * (n div 2) + n mod 2 < 4 * ?p"
      by (intro halves) simp_all
    ultimately show ?thesis using IH(1) n by (simp only: mult_div_mod_eq) simp
  qed
qed

lemma round_div_1 [simp]: "round_div n 1 = n"
  by (simp add: round_div_def)

lemma ilog2_less: "0 < n \<Longrightarrow> n < 2 ^ k \<Longrightarrow> ilog2 n < int k"
proof -
  assume n: "0 < n" "n < 2 ^ k"
  with ilog2_bounds [of n] have "(2 :: int) ^ nat (ilog2 n) < 2 ^ k" "0 \<le> ilog2 n" by linarith+
  then have "nat (ilog2 n) < k" by (simp add: power_strict_increasing_iff)
  then show ?thesis using \<open>0 \<le> ilog2 n\<close> by linarith
qed

text \<open>A format represents every integer of at most as many bits as its precision.\<close>

definition int_format :: "fp_format \<Rightarrow> bool" where
  "int_format F \<longleftrightarrow> 0 < precision F \<and> ulp_min F \<le> 1 - int (precision F) \<and> int (precision F) < exp_max F"

lemma fp_of_int_exact:
  assumes "int_format F" and "0 < k" and "k < 2 ^ precision F"
  shows "\<exists>j. fp_of_int F k = FFin False (k * 2 ^ j) (- int j)"
proof -
  let ?l = "ilog2 k"
  have l: "0 \<le> ?l" "2 ^ nat ?l \<le> k" "?l < int (precision F)"
    using ilog2_bounds [OF assms(2)] ilog2_less [OF assms(2,3)] by auto
  have "frac_log k 1 = ?l"
    using l(1,2) by (auto simp: frac_log_def ilog2.simps [of 1] frac_num_def frac_den_def Let_def)
  moreover define j where "j = nat (int (precision F) - 1 - ?l)"
  have j: "int j = int (precision F) - 1 - ?l" using l(3) by (simp add: j_def)
  have "max (ulp_min F) (?l + 0 - int (precision F) + 1) = - int j"
    using assms(1) j l(1) by (simp add: int_format_def)
  moreover have "frac_num k (int j) = k * 2 ^ j" "frac_den 1 (int j) = 1"
    by (simp_all add: frac_num_def frac_den_def)
  moreover have "ilog2 (k * 2 ^ j) + (- int j) < exp_max F"
  proof -
    have "k * 2 ^ j < 2 ^ nat (?l + 1) * 2 ^ j"
      using ilog2_bounds [OF assms(2)] by simp
    also have "\<dots> = 2 ^ precision F"
      using j l(1,3) by (simp add: power_add [symmetric] nat_add_distrib [symmetric])
    finally have "ilog2 (k * 2 ^ j) < int (precision F)"
      using assms(2) by (intro ilog2_less) simp_all
    then show ?thesis using assms(1) by (simp add: int_format_def)
  qed
  ultimately show ?thesis
    using assms(2) by (intro exI [of _ j]) (simp add: fp_of_int_def fp_round_def Let_def)
qed

lemma fp_trunc_exact: "fp_trunc False (k * 2 ^ j) (- int j) = k"
  by (cases "j = 0") (simp_all add: fp_trunc_def frac_num_def frac_den_def)

lemma u32_of_int_exact:
  assumes "int_format F" and "0 \<le> k" and "k < 2 ^ precision F" and "k < 2 ^ 32"
  shows "u32_of_fp (fp_of_int F k) = of_int k"
proof (cases "k = 0")
  case True
  then show ?thesis by (simp add: u32_of_fp_def fp_of_int_def fp_round_def fp_trunc_def frac_num_def)
next
  case False
  with assms obtain j where "fp_of_int F k = FFin False (k * 2 ^ j) (- int j)"
    using fp_of_int_exact [of F k] by auto
  with assms show ?thesis by (simp add: u32_of_fp_def fp_trunc_exact)
qed

lemma int_formats: "int_format single" "int_format double"
  by (simp_all add: int_format_def single_def double_def)

end
