(* ===== verification/Regs.thy ===== *)
theory Regs
  imports Platform
begin

text \<open>
  The register map of the FPGA fabric (pl_regs.h) and the message numbers of the control
  protocol (control.h), one constant per macro of the source. \<open>glob_regs\<close>, \<open>chan_regs\<close> and
  \<open>snap_regs\<close> list the registers of the three address blocks; the lemmas show that the map is
  sound: word-aligned, no two registers of a block at one address, the blocks of the four
  channels apart from each other and from the global and snapshot blocks.
\<close>

named_theorems reg_defs \<open>values of the register offsets\<close>
named_theorems msg_defs \<open>values of the message numbers\<close>

section \<open>Global registers\<close>

definition CHBASEADDR :: u32 where [reg_defs]: "CHBASEADDR = 0x200"

definition FPGAVER_REG :: u32 where [reg_defs]: "FPGAVER_REG = 0x0"
definition LEDS_REG :: u32 where [reg_defs]: "LEDS_REG = 0x4"
definition RESOLUTION_REG :: u32 where [reg_defs]: "RESOLUTION_REG = 0x8"
definition NUMCHANS_REG :: u32 where [reg_defs]: "NUMCHANS_REG = 0xC"
definition BANDWIDTH_REG :: u32 where [reg_defs]: "BANDWIDTH_REG = 0x10"
definition POLARITY_REG :: u32 where [reg_defs]: "POLARITY_REG = 0x14"
definition NCO_STEPSIZE_REG :: u32 where [reg_defs]: "NCO_STEPSIZE_REG = 0x18"
definition TENKHZ_FREQ_REG :: u32 where [reg_defs]: "TENKHZ_FREQ_REG = 0x1C"
definition EVR_INJ_EVENTNUM_REG :: u32 where [reg_defs]: "EVR_INJ_EVENTNUM_REG = 0x20"
definition EVR_PM_EVENTNUM_REG :: u32 where [reg_defs]: "EVR_PM_EVENTNUM_REG = 0x24"
definition EVR_1HZ_EVENTNUM_REG :: u32 where [reg_defs]: "EVR_1HZ_EVENTNUM_REG = 0x28"
definition EVR_10HZ_EVENTNUM_REG :: u32 where [reg_defs]: "EVR_10HZ_EVENTNUM_REG = 0x2C"
definition EVR_10KHZ_EVENTNUM_REG :: u32 where [reg_defs]: "EVR_10KHZ_EVENTNUM_REG = 0x30"
definition ONEHZ_FREQ_REG :: u32 where [reg_defs]: "ONEHZ_FREQ_REG = 0x34"
definition EVR_TS_S_REG :: u32 where [reg_defs]: "EVR_TS_S_REG = 0x40"
definition EVR_TS_NS_REG :: u32 where [reg_defs]: "EVR_TS_NS_REG = 0x44"
definition EVR_RESET_REG :: u32 where [reg_defs]: "EVR_RESET_REG = 0x48"
definition IOC_ACCESS_REG :: u32 where [reg_defs]: "IOC_ACCESS_REG = 0x50"
definition TENHZ_DATASEND_REG :: u32 where [reg_defs]: "TENHZ_DATASEND_REG = 0x54"
definition FOFB_IPADDR_REG :: u32 where [reg_defs]: "FOFB_IPADDR_REG = 0x60"
definition FOFB_PACKETS_RCVD_REG :: u32 where [reg_defs]: "FOFB_PACKETS_RCVD_REG = 0x64"
definition FOFB_COMMAND_REG :: u32 where [reg_defs]: "FOFB_COMMAND_REG = 0x68"
definition FOFB_NONCE_REG :: u32 where [reg_defs]: "FOFB_NONCE_REG = 0x6C"
definition CH34_DUALMODE_REG :: u32 where [reg_defs]: "CH34_DUALMODE_REG = 0x70"
definition MAIN_DIPOLE_MODE_REG :: u32 where [reg_defs]: "MAIN_DIPOLE_MODE_REG = 0x74"
definition SMOOTHRAMP_TYPE_REG :: u32 where [reg_defs]: "SMOOTHRAMP_TYPE_REG = 0x78"
definition LIVE_TIME_REG :: u32 where [reg_defs]: "LIVE_TIME_REG = 0x80"
definition TENHZ_LIVE_TIME_REG :: u32 where [reg_defs]: "TENHZ_LIVE_TIME_REG = 0x84"

section \<open>Channel registers\<close>

definition DCCT1_REG :: u32 where [reg_defs]: "DCCT1_REG = 0x0"
definition DCCT2_REG :: u32 where [reg_defs]: "DCCT2_REG = 0x4"
definition DACMON_REG :: u32 where [reg_defs]: "DACMON_REG = 0x8"
definition VOLT_REG :: u32 where [reg_defs]: "VOLT_REG = 0xC"
definition GND_REG :: u32 where [reg_defs]: "GND_REG = 0x10"
definition SPARE_REG :: u32 where [reg_defs]: "SPARE_REG = 0x14"
definition REG_REG :: u32 where [reg_defs]: "REG_REG = 0x18"
definition ERR_REG :: u32 where [reg_defs]: "ERR_REG = 0x1C"
definition DAC_SETPT_OFFSET_REG :: u32 where [reg_defs]: "DAC_SETPT_OFFSET_REG = 0x20"
definition DAC_SETPT_GAIN_REG :: u32 where [reg_defs]: "DAC_SETPT_GAIN_REG = 0x24"
definition DAC_SETPT_REG :: u32 where [reg_defs]: "DAC_SETPT_REG = 0x28"
definition DAC_OPMODE_REG :: u32 where [reg_defs]: "DAC_OPMODE_REG = 0x2C"
definition DAC_CNTRL_REG :: u32 where [reg_defs]: "DAC_CNTRL_REG = 0x30"
definition DAC_RESET_REG :: u32 where [reg_defs]: "DAC_RESET_REG = 0x34"
definition DAC_RAMPLEN_REG :: u32 where [reg_defs]: "DAC_RAMPLEN_REG = 0x38"
definition DAC_RAMPADDR_REG :: u32 where [reg_defs]: "DAC_RAMPADDR_REG = 0x3C"
definition DAC_RAMPDATA_REG :: u32 where [reg_defs]: "DAC_RAMPDATA_REG = 0x40"
definition DAC_RUNRAMP_REG :: u32 where [reg_defs]: "DAC_RUNRAMP_REG = 0x44"
definition DAC_RAMPACTIVE_REG :: u32 where [reg_defs]: "DAC_RAMPACTIVE_REG = 0x48"
definition DAC_CURRSETPT_REG :: u32 where [reg_defs]: "DAC_CURRSETPT_REG = 0x4C"
definition DCCT1_OFFSET_REG :: u32 where [reg_defs]: "DCCT1_OFFSET_REG = 0x50"
definition DCCT1_GAIN_REG :: u32 where [reg_defs]: "DCCT1_GAIN_REG = 0x54"
definition DCCT2_OFFSET_REG :: u32 where [reg_defs]: "DCCT2_OFFSET_REG = 0x58"
definition DCCT2_GAIN_REG :: u32 where [reg_defs]: "DCCT2_GAIN_REG = 0x5C"
definition DACMON_OFFSET_REG :: u32 where [reg_defs]: "DACMON_OFFSET_REG = 0x60"
definition DACMON_GAIN_REG :: u32 where [reg_defs]: "DACMON_GAIN_REG = 0x64"
definition VOLT_OFFSET_REG :: u32 where [reg_defs]: "VOLT_OFFSET_REG = 0x68"
definition VOLT_GAIN_REG :: u32 where [reg_defs]: "VOLT_GAIN_REG = 0x6C"
definition GND_OFFSET_REG :: u32 where [reg_defs]: "GND_OFFSET_REG = 0x70"
definition GND_GAIN_REG :: u32 where [reg_defs]: "GND_GAIN_REG = 0x74"
definition SPARE_OFFSET_REG :: u32 where [reg_defs]: "SPARE_OFFSET_REG = 0x78"
definition SPARE_GAIN_REG :: u32 where [reg_defs]: "SPARE_GAIN_REG = 0x7C"
definition REG_OFFSET_REG :: u32 where [reg_defs]: "REG_OFFSET_REG = 0x80"
definition REG_GAIN_REG :: u32 where [reg_defs]: "REG_GAIN_REG = 0x84"
definition ERR_OFFSET_REG :: u32 where [reg_defs]: "ERR_OFFSET_REG = 0x88"
definition ERR_GAIN_REG :: u32 where [reg_defs]: "ERR_GAIN_REG = 0x8C"
definition OVC1_THRESH_REG :: u32 where [reg_defs]: "OVC1_THRESH_REG = 0x90"
definition OVC2_THRESH_REG :: u32 where [reg_defs]: "OVC2_THRESH_REG = 0x94"
definition OVV_THRESH_REG :: u32 where [reg_defs]: "OVV_THRESH_REG = 0x98"
definition ERR1_THRESH_REG :: u32 where [reg_defs]: "ERR1_THRESH_REG = 0x9C"
definition ERR2_THRESH_REG :: u32 where [reg_defs]: "ERR2_THRESH_REG = 0xA0"
definition IGND_THRESH_REG :: u32 where [reg_defs]: "IGND_THRESH_REG = 0xA4"
definition OVC1_CNTLIM_REG :: u32 where [reg_defs]: "OVC1_CNTLIM_REG = 0xA8"
definition OVC2_CNTLIM_REG :: u32 where [reg_defs]: "OVC2_CNTLIM_REG = 0xAC"
definition OVV_CNTLIM_REG :: u32 where [reg_defs]: "OVV_CNTLIM_REG = 0xB0"
definition ERR1_CNTLIM_REG :: u32 where [reg_defs]: "ERR1_CNTLIM_REG = 0xB4"
definition ERR2_CNTLIM_REG :: u32 where [reg_defs]: "ERR2_CNTLIM_REG = 0xB8"
definition IGND_CNTLIM_REG :: u32 where [reg_defs]: "IGND_CNTLIM_REG = 0xBC"
definition DCCT_CNTLIM_REG :: u32 where [reg_defs]: "DCCT_CNTLIM_REG = 0xC0"
definition FLT1_CNTLIM_REG :: u32 where [reg_defs]: "FLT1_CNTLIM_REG = 0xC4"
definition FLT2_CNTLIM_REG :: u32 where [reg_defs]: "FLT2_CNTLIM_REG = 0xC8"
definition FLT3_CNTLIM_REG :: u32 where [reg_defs]: "FLT3_CNTLIM_REG = 0xCC"
definition ON_CNTLIM_REG :: u32 where [reg_defs]: "ON_CNTLIM_REG = 0xD0"
definition FAULT_CLEAR_REG :: u32 where [reg_defs]: "FAULT_CLEAR_REG = 0xD4"
definition FAULT_MASK_REG :: u32 where [reg_defs]: "FAULT_MASK_REG = 0xD8"
definition HEARTBEAT_CNTLIM_REG :: u32 where [reg_defs]: "HEARTBEAT_CNTLIM_REG = 0xDC"
definition DIGOUT_ON1_REG :: u32 where [reg_defs]: "DIGOUT_ON1_REG = 0xE0"
definition DIGOUT_ON2_REG :: u32 where [reg_defs]: "DIGOUT_ON2_REG = 0xE4"
definition DIGOUT_RESET_REG :: u32 where [reg_defs]: "DIGOUT_RESET_REG = 0xE8"
definition DIGOUT_SPARE_REG :: u32 where [reg_defs]: "DIGOUT_SPARE_REG = 0xEC"
definition DIGOUT_PARK_REG :: u32 where [reg_defs]: "DIGOUT_PARK_REG = 0xF0"
definition DIGIN_REG :: u32 where [reg_defs]: "DIGIN_REG = 0xF4"
definition FAULTS_LIVE_REG :: u32 where [reg_defs]: "FAULTS_LIVE_REG = 0xF8"
definition FAULTS_LAT_REG :: u32 where [reg_defs]: "FAULTS_LAT_REG = 0xFC"
definition AVEMODE_REG :: u32 where [reg_defs]: "AVEMODE_REG = 0x100"
definition SMOOTH_PHASEINC_REG :: u32 where [reg_defs]: "SMOOTH_PHASEINC_REG = 0x104"
definition DIGOUT_ON2_PULSEENB_REG :: u32 where [reg_defs]: "DIGOUT_ON2_PULSEENB_REG = 0x108"
definition FOFB_FASTADDR_REG :: u32 where [reg_defs]: "FOFB_FASTADDR_REG = 0x120"
definition FOFB_DACSETPT_REG :: u32 where [reg_defs]: "FOFB_DACSETPT_REG = 0x124"
definition FOFB_SCALEFACTOR_REG :: u32 where [reg_defs]: "FOFB_SCALEFACTOR_REG = 0x128"
definition SMOOTH_LINEAR_LEN_REG :: u32 where [reg_defs]: "SMOOTH_LINEAR_LEN_REG = 0x150"
definition SMOOTH_CURVED_LEN_REG :: u32 where [reg_defs]: "SMOOTH_CURVED_LEN_REG = 0x154"
definition SMOOTH_DY_HI_REG :: u32 where [reg_defs]: "SMOOTH_DY_HI_REG = 0x158"
definition SMOOTH_DY_LO_REG :: u32 where [reg_defs]: "SMOOTH_DY_LO_REG = 0x15C"
definition SMOOTH_DY_PER_PT_HI_REG :: u32 where [reg_defs]: "SMOOTH_DY_PER_PT_HI_REG = 0x160"
definition SMOOTH_DY_PER_PT_LO_REG :: u32 where [reg_defs]: "SMOOTH_DY_PER_PT_LO_REG = 0x164"
definition MANCH_FIFO_RESET_REG :: u32 where [reg_defs]: "MANCH_FIFO_RESET_REG = 0x180"
definition MANCH_FIFO_DATA_REG :: u32 where [reg_defs]: "MANCH_FIFO_DATA_REG = 0x184"
definition MANCH_FIFO_WDCNT_REG :: u32 where [reg_defs]: "MANCH_FIFO_WDCNT_REG = 0x188"

section \<open>Snapshot and identification registers\<close>

definition SNAPSHOT_ADDRPTR :: u32 where [reg_defs]: "SNAPSHOT_ADDRPTR = 0xA00"
definition SNAPSHOT_TOTALTRIGS :: u32 where [reg_defs]: "SNAPSHOT_TOTALTRIGS = 0xA04"
definition SOFTTRIG :: u32 where [reg_defs]: "SOFTTRIG = 0xA08"
definition TESTTRIG :: u32 where [reg_defs]: "TESTTRIG = 0xA0C"
definition USR1TRIG_BUFPTR :: u32 where [reg_defs]: "USR1TRIG_BUFPTR = 0xA20"
definition USR1TRIG_TS_S :: u32 where [reg_defs]: "USR1TRIG_TS_S = 0xA24"
definition USR1TRIG_TS_NS :: u32 where [reg_defs]: "USR1TRIG_TS_NS = 0xA28"
definition USR2TRIG_BUFPTR :: u32 where [reg_defs]: "USR2TRIG_BUFPTR = 0xA30"
definition USR2TRIG_TS_S :: u32 where [reg_defs]: "USR2TRIG_TS_S = 0xA34"
definition USR2TRIG_TS_NS :: u32 where [reg_defs]: "USR2TRIG_TS_NS = 0xA38"
definition USR3TRIG_BUFPTR :: u32 where [reg_defs]: "USR3TRIG_BUFPTR = 0xA40"
definition USR3TRIG_TS_S :: u32 where [reg_defs]: "USR3TRIG_TS_S = 0xA44"
definition USR3TRIG_TS_NS :: u32 where [reg_defs]: "USR3TRIG_TS_NS = 0xA48"
definition USR4TRIG_BUFPTR :: u32 where [reg_defs]: "USR4TRIG_BUFPTR = 0xA50"
definition USR4TRIG_TS_S :: u32 where [reg_defs]: "USR4TRIG_TS_S = 0xA54"
definition USR4TRIG_TS_NS :: u32 where [reg_defs]: "USR4TRIG_TS_NS = 0xA58"
definition FLT1TRIG_BUFPTR :: u32 where [reg_defs]: "FLT1TRIG_BUFPTR = 0xA60"
definition FLT1TRIG_TS_S :: u32 where [reg_defs]: "FLT1TRIG_TS_S = 0xA64"
definition FLT1TRIG_TS_NS :: u32 where [reg_defs]: "FLT1TRIG_TS_NS = 0xA68"
definition FLT2TRIG_BUFPTR :: u32 where [reg_defs]: "FLT2TRIG_BUFPTR = 0xA70"
definition FLT2TRIG_TS_S :: u32 where [reg_defs]: "FLT2TRIG_TS_S = 0xA74"
definition FLT2TRIG_TS_NS :: u32 where [reg_defs]: "FLT2TRIG_TS_NS = 0xA78"
definition FLT3TRIG_BUFPTR :: u32 where [reg_defs]: "FLT3TRIG_BUFPTR = 0xA80"
definition FLT3TRIG_TS_S :: u32 where [reg_defs]: "FLT3TRIG_TS_S = 0xA84"
definition FLT3TRIG_TS_NS :: u32 where [reg_defs]: "FLT3TRIG_TS_NS = 0xA88"
definition FLT4TRIG_BUFPTR :: u32 where [reg_defs]: "FLT4TRIG_BUFPTR = 0xA90"
definition FLT4TRIG_TS_S :: u32 where [reg_defs]: "FLT4TRIG_TS_S = 0xA94"
definition FLT4TRIG_TS_NS :: u32 where [reg_defs]: "FLT4TRIG_TS_NS = 0xA98"
definition ERR1TRIG_BUFPTR :: u32 where [reg_defs]: "ERR1TRIG_BUFPTR = 0xAA0"
definition ERR1TRIG_TS_S :: u32 where [reg_defs]: "ERR1TRIG_TS_S = 0xAA4"
definition ERR1TRIG_TS_NS :: u32 where [reg_defs]: "ERR1TRIG_TS_NS = 0xAA8"
definition ERR2TRIG_BUFPTR :: u32 where [reg_defs]: "ERR2TRIG_BUFPTR = 0xAB0"
definition ERR2TRIG_TS_S :: u32 where [reg_defs]: "ERR2TRIG_TS_S = 0xAB4"
definition ERR2TRIG_TS_NS :: u32 where [reg_defs]: "ERR2TRIG_TS_NS = 0xAB8"
definition ERR3TRIG_BUFPTR :: u32 where [reg_defs]: "ERR3TRIG_BUFPTR = 0xAC0"
definition ERR3TRIG_TS_S :: u32 where [reg_defs]: "ERR3TRIG_TS_S = 0xAC4"
definition ERR3TRIG_TS_NS :: u32 where [reg_defs]: "ERR3TRIG_TS_NS = 0xAC8"
definition ERR4TRIG_BUFPTR :: u32 where [reg_defs]: "ERR4TRIG_BUFPTR = 0xAD0"
definition ERR4TRIG_TS_S :: u32 where [reg_defs]: "ERR4TRIG_TS_S = 0xAD4"
definition ERR4TRIG_TS_NS :: u32 where [reg_defs]: "ERR4TRIG_TS_NS = 0xAD8"
definition INJ1TRIG_BUFPTR :: u32 where [reg_defs]: "INJ1TRIG_BUFPTR = 0xAE0"
definition INJ1TRIG_TS_S :: u32 where [reg_defs]: "INJ1TRIG_TS_S = 0xAE4"
definition INJ1TRIG_TS_NS :: u32 where [reg_defs]: "INJ1TRIG_TS_NS = 0xAE8"
definition INJ2TRIG_BUFPTR :: u32 where [reg_defs]: "INJ2TRIG_BUFPTR = 0xAF0"
definition INJ2TRIG_TS_S :: u32 where [reg_defs]: "INJ2TRIG_TS_S = 0xAF4"
definition INJ2TRIG_TS_NS :: u32 where [reg_defs]: "INJ2TRIG_TS_NS = 0xAF8"
definition INJ3TRIG_BUFPTR :: u32 where [reg_defs]: "INJ3TRIG_BUFPTR = 0xB00"
definition INJ3TRIG_TS_S :: u32 where [reg_defs]: "INJ3TRIG_TS_S = 0xB04"
definition INJ3TRIG_TS_NS :: u32 where [reg_defs]: "INJ3TRIG_TS_NS = 0xB08"
definition INJ4TRIG_BUFPTR :: u32 where [reg_defs]: "INJ4TRIG_BUFPTR = 0xB10"
definition INJ4TRIG_TS_S :: u32 where [reg_defs]: "INJ4TRIG_TS_S = 0xB14"
definition INJ4TRIG_TS_NS :: u32 where [reg_defs]: "INJ4TRIG_TS_NS = 0xB18"
definition EVRTRIG_BUFPTR :: u32 where [reg_defs]: "EVRTRIG_BUFPTR = 0xB20"
definition EVRTRIG_TS_S :: u32 where [reg_defs]: "EVRTRIG_TS_S = 0xB24"
definition EVRTRIG_TS_NS :: u32 where [reg_defs]: "EVRTRIG_TS_NS = 0xB28"
definition ID_REG :: u32 where [reg_defs]: "ID_REG = 0xC00"
definition VERSION_REG :: u32 where [reg_defs]: "VERSION_REG = 0xC04"
definition PRJ_ID :: u32 where [reg_defs]: "PRJ_ID = 0xC08"
definition PRJ_VERSION :: u32 where [reg_defs]: "PRJ_VERSION = 0xC0C"
definition PRJ_SHASUM :: u32 where [reg_defs]: "PRJ_SHASUM = 0xC10"
definition PRJ_TIMESTAMP :: u32 where [reg_defs]: "PRJ_TIMESTAMP = 0xC14"

section \<open>Message numbers and DAC modes\<close>

definition DAC_SMOOTH :: u32 where [msg_defs]: "DAC_SMOOTH = 0x0"
definition DAC_RAMP :: u32 where [msg_defs]: "DAC_RAMP = 0x1"
definition DAC_FOFB :: u32 where [msg_defs]: "DAC_FOFB = 0x2"
definition DAC_JUMP :: u32 where [msg_defs]: "DAC_JUMP = 0x3"
definition SOFT_TRIG_MSG :: u32 where [msg_defs]: "SOFT_TRIG_MSG = 0x0"
definition TEST_TRIG_MSG :: u32 where [msg_defs]: "TEST_TRIG_MSG = 0x4"
definition FP_LED_MSG :: u32 where [msg_defs]: "FP_LED_MSG = 0x8"
definition EVR_RESET_MSG :: u32 where [msg_defs]: "EVR_RESET_MSG = 0x10"
definition EVR_INJ_EVENTNUM_MSG :: u32 where [msg_defs]: "EVR_INJ_EVENTNUM_MSG = 0x14"
definition EVR_PM_EVENTNUM_MSG :: u32 where [msg_defs]: "EVR_PM_EVENTNUM_MSG = 0x18"
definition EVR_1HZ_EVENTNUM_MSG :: u32 where [msg_defs]: "EVR_1HZ_EVENTNUM_MSG = 0x1C"
definition EVR_10HZ_EVENTNUM_MSG :: u32 where [msg_defs]: "EVR_10HZ_EVENTNUM_MSG = 0x20"
definition EVR_10KHZ_EVENTNUM_MSG :: u32 where [msg_defs]: "EVR_10KHZ_EVENTNUM_MSG = 0x24"
definition FOFB_IPADDR_MSG :: u32 where [msg_defs]: "FOFB_IPADDR_MSG = 0x32"
definition DAC_OPMODE_MSG :: u32 where [msg_defs]: "DAC_OPMODE_MSG = 0x64"
definition DAC_SETPT_MSG :: u32 where [msg_defs]: "DAC_SETPT_MSG = 0x68"
definition DAC_RUNRAMP_MSG :: u32 where [msg_defs]: "DAC_RUNRAMP_MSG = 0x6C"
definition DAC_RAMPLEN_MSG :: u32 where [msg_defs]: "DAC_RAMPLEN_MSG = 0x70"
definition DAC_SETPT_GAIN_MSG :: u32 where [msg_defs]: "DAC_SETPT_GAIN_MSG = 0x74"
definition DAC_SETPT_OFFSET_MSG :: u32 where [msg_defs]: "DAC_SETPT_OFFSET_MSG = 0x78"
definition DCCT1_OFFSET_MSG :: u32 where [msg_defs]: "DCCT1_OFFSET_MSG = 0x7C"
definition DCCT1_GAIN_MSG :: u32 where [msg_defs]: "DCCT1_GAIN_MSG = 0x80"
definition DCCT2_OFFSET_MSG :: u32 where [msg_defs]: "DCCT2_OFFSET_MSG = 0x84"
definition DCCT2_GAIN_MSG :: u32 where [msg_defs]: "DCCT2_GAIN_MSG = 0x88"
definition DACMON_OFFSET_MSG :: u32 where [msg_defs]: "DACMON_OFFSET_MSG = 0x8C"
definition DACMON_GAIN_MSG :: u32 where [msg_defs]: "DACMON_GAIN_MSG = 0x90"
definition VOLT_OFFSET_MSG :: u32 where [msg_defs]: "VOLT_OFFSET_MSG = 0x94"
definition VOLT_GAIN_MSG :: u32 where [msg_defs]: "VOLT_GAIN_MSG = 0x98"
definition GND_OFFSET_MSG :: u32 where [msg_defs]: "GND_OFFSET_MSG = 0x9C"
definition GND_GAIN_MSG :: u32 where [msg_defs]: "GND_GAIN_MSG = 0xA0"
definition SPARE_OFFSET_MSG :: u32 where [msg_defs]: "SPARE_OFFSET_MSG = 0xA4"
definition SPARE_GAIN_MSG :: u32 where [msg_defs]: "SPARE_GAIN_MSG = 0xA8"
definition REG_OFFSET_MSG :: u32 where [msg_defs]: "REG_OFFSET_MSG = 0xAC"
definition REG_GAIN_MSG :: u32 where [msg_defs]: "REG_GAIN_MSG = 0xB0"
definition ERR_OFFSET_MSG :: u32 where [msg_defs]: "ERR_OFFSET_MSG = 0xB4"
definition ERR_GAIN_MSG :: u32 where [msg_defs]: "ERR_GAIN_MSG = 0xB8"
definition OVC1_THRESH_MSG :: u32 where [msg_defs]: "OVC1_THRESH_MSG = 0xBC"
definition OVC2_THRESH_MSG :: u32 where [msg_defs]: "OVC2_THRESH_MSG = 0xC0"
definition OVV_THRESH_MSG :: u32 where [msg_defs]: "OVV_THRESH_MSG = 0xC4"
definition ERR1_THRESH_MSG :: u32 where [msg_defs]: "ERR1_THRESH_MSG = 0xC8"
definition ERR2_THRESH_MSG :: u32 where [msg_defs]: "ERR2_THRESH_MSG = 0xCC"
definition IGND_THRESH_MSG :: u32 where [msg_defs]: "IGND_THRESH_MSG = 0xD0"
definition OVC1_CNTLIM_MSG :: u32 where [msg_defs]: "OVC1_CNTLIM_MSG = 0xD4"
definition OVC2_CNTLIM_MSG :: u32 where [msg_defs]: "OVC2_CNTLIM_MSG = 0xD8"
definition OVV_CNTLIM_MSG :: u32 where [msg_defs]: "OVV_CNTLIM_MSG = 0xDC"
definition ERR1_CNTLIM_MSG :: u32 where [msg_defs]: "ERR1_CNTLIM_MSG = 0xE0"
definition ERR2_CNTLIM_MSG :: u32 where [msg_defs]: "ERR2_CNTLIM_MSG = 0xE4"
definition IGND_CNTLIM_MSG :: u32 where [msg_defs]: "IGND_CNTLIM_MSG = 0xE8"
definition DCCT_CNTLIM_MSG :: u32 where [msg_defs]: "DCCT_CNTLIM_MSG = 0xEC"
definition FLT1_CNTLIM_MSG :: u32 where [msg_defs]: "FLT1_CNTLIM_MSG = 0xF0"
definition FLT2_CNTLIM_MSG :: u32 where [msg_defs]: "FLT2_CNTLIM_MSG = 0xF4"
definition FLT3_CNTLIM_MSG :: u32 where [msg_defs]: "FLT3_CNTLIM_MSG = 0xF8"
definition ON_CNTLIM_MSG :: u32 where [msg_defs]: "ON_CNTLIM_MSG = 0xFC"
definition HEART_CNTLIM_MSG :: u32 where [msg_defs]: "HEART_CNTLIM_MSG = 0x100"
definition FAULT_CLEAR_MSG :: u32 where [msg_defs]: "FAULT_CLEAR_MSG = 0x104"
definition FAULT_MASK_MSG :: u32 where [msg_defs]: "FAULT_MASK_MSG = 0x108"
definition DIGOUT_ON1_MSG :: u32 where [msg_defs]: "DIGOUT_ON1_MSG = 0x10C"
definition DIGOUT_ON2_MSG :: u32 where [msg_defs]: "DIGOUT_ON2_MSG = 0x110"
definition DIGOUT_RESET_MSG :: u32 where [msg_defs]: "DIGOUT_RESET_MSG = 0x114"
definition DIGOUT_SPARE_MSG :: u32 where [msg_defs]: "DIGOUT_SPARE_MSG = 0x118"
definition DIGOUT_PARK_MSG :: u32 where [msg_defs]: "DIGOUT_PARK_MSG = 0x11C"
definition SF_AMPS_PER_SEC_MSG :: u32 where [msg_defs]: "SF_AMPS_PER_SEC_MSG = 0x12C"
definition SF_DAC_DCCTS_MSG :: u32 where [msg_defs]: "SF_DAC_DCCTS_MSG = 0x130"
definition SF_VOUT_MSG :: u32 where [msg_defs]: "SF_VOUT_MSG = 0x134"
definition SF_IGND_MSG :: u32 where [msg_defs]: "SF_IGND_MSG = 0x138"
definition SF_SPARE_MSG :: u32 where [msg_defs]: "SF_SPARE_MSG = 0x13C"
definition SF_REGULATOR_MSG :: u32 where [msg_defs]: "SF_REGULATOR_MSG = 0x140"
definition SF_ERROR_MSG :: u32 where [msg_defs]: "SF_ERROR_MSG = 0x144"
definition FOFB_FASTADDR_MSG :: u32 where [msg_defs]: "FOFB_FASTADDR_MSG = 0x14A"
definition USR_TRIG_MSG :: u32 where [msg_defs]: "USR_TRIG_MSG = 0x154"
definition AVE_MODE_MSG :: u32 where [msg_defs]: "AVE_MODE_MSG = 0x15E"
definition WRITE_QSPI_MSG :: u32 where [msg_defs]: "WRITE_QSPI_MSG = 0x190"
definition READ_QSPI_MSG :: u32 where [msg_defs]: "READ_QSPI_MSG = 0x194"
definition DUMP_ADCS_MSG :: u32 where [msg_defs]: "DUMP_ADCS_MSG = 0x1F4"
definition WRITE_RAMPTABLE_MSG :: u32 where [msg_defs]: "WRITE_RAMPTABLE_MSG = 0x3E8"

section \<open>Soundness of the register map\<close>

definition glob_regs :: "u32 list" where
  "glob_regs = [
      FPGAVER_REG, LEDS_REG, RESOLUTION_REG, NUMCHANS_REG, BANDWIDTH_REG, POLARITY_REG,
      NCO_STEPSIZE_REG, TENKHZ_FREQ_REG, EVR_INJ_EVENTNUM_REG, EVR_PM_EVENTNUM_REG,
      EVR_1HZ_EVENTNUM_REG, EVR_10HZ_EVENTNUM_REG, EVR_10KHZ_EVENTNUM_REG, ONEHZ_FREQ_REG,
      EVR_TS_S_REG, EVR_TS_NS_REG, EVR_RESET_REG, IOC_ACCESS_REG, TENHZ_DATASEND_REG,
      FOFB_IPADDR_REG, FOFB_PACKETS_RCVD_REG, FOFB_COMMAND_REG, FOFB_NONCE_REG,
      CH34_DUALMODE_REG, MAIN_DIPOLE_MODE_REG, SMOOTHRAMP_TYPE_REG, LIVE_TIME_REG,
      TENHZ_LIVE_TIME_REG]"

definition chan_regs :: "u32 list" where
  "chan_regs = [
      DCCT1_REG, DCCT2_REG, DACMON_REG, VOLT_REG, GND_REG, SPARE_REG, REG_REG, ERR_REG,
      DAC_SETPT_OFFSET_REG, DAC_SETPT_GAIN_REG, DAC_SETPT_REG, DAC_OPMODE_REG, DAC_CNTRL_REG,
      DAC_RESET_REG, DAC_RAMPLEN_REG, DAC_RAMPADDR_REG, DAC_RAMPDATA_REG, DAC_RUNRAMP_REG,
      DAC_RAMPACTIVE_REG, DAC_CURRSETPT_REG, DCCT1_OFFSET_REG, DCCT1_GAIN_REG,
      DCCT2_OFFSET_REG, DCCT2_GAIN_REG, DACMON_OFFSET_REG, DACMON_GAIN_REG, VOLT_OFFSET_REG,
      VOLT_GAIN_REG, GND_OFFSET_REG, GND_GAIN_REG, SPARE_OFFSET_REG, SPARE_GAIN_REG,
      REG_OFFSET_REG, REG_GAIN_REG, ERR_OFFSET_REG, ERR_GAIN_REG, OVC1_THRESH_REG,
      OVC2_THRESH_REG, OVV_THRESH_REG, ERR1_THRESH_REG, ERR2_THRESH_REG, IGND_THRESH_REG,
      OVC1_CNTLIM_REG, OVC2_CNTLIM_REG, OVV_CNTLIM_REG, ERR1_CNTLIM_REG, ERR2_CNTLIM_REG,
      IGND_CNTLIM_REG, DCCT_CNTLIM_REG, FLT1_CNTLIM_REG, FLT2_CNTLIM_REG, FLT3_CNTLIM_REG,
      ON_CNTLIM_REG, FAULT_CLEAR_REG, FAULT_MASK_REG, HEARTBEAT_CNTLIM_REG, DIGOUT_ON1_REG,
      DIGOUT_ON2_REG, DIGOUT_RESET_REG, DIGOUT_SPARE_REG, DIGOUT_PARK_REG, DIGIN_REG,
      FAULTS_LIVE_REG, FAULTS_LAT_REG, AVEMODE_REG, SMOOTH_PHASEINC_REG,
      DIGOUT_ON2_PULSEENB_REG, FOFB_FASTADDR_REG, FOFB_DACSETPT_REG, FOFB_SCALEFACTOR_REG,
      SMOOTH_LINEAR_LEN_REG, SMOOTH_CURVED_LEN_REG, SMOOTH_DY_HI_REG, SMOOTH_DY_LO_REG,
      SMOOTH_DY_PER_PT_HI_REG, SMOOTH_DY_PER_PT_LO_REG, MANCH_FIFO_RESET_REG,
      MANCH_FIFO_DATA_REG, MANCH_FIFO_WDCNT_REG]"

definition snap_regs :: "u32 list" where
  "snap_regs = [
      SNAPSHOT_ADDRPTR, SNAPSHOT_TOTALTRIGS, SOFTTRIG, TESTTRIG, USR1TRIG_BUFPTR,
      USR1TRIG_TS_S, USR1TRIG_TS_NS, USR2TRIG_BUFPTR, USR2TRIG_TS_S, USR2TRIG_TS_NS,
      USR3TRIG_BUFPTR, USR3TRIG_TS_S, USR3TRIG_TS_NS, USR4TRIG_BUFPTR, USR4TRIG_TS_S,
      USR4TRIG_TS_NS, FLT1TRIG_BUFPTR, FLT1TRIG_TS_S, FLT1TRIG_TS_NS, FLT2TRIG_BUFPTR,
      FLT2TRIG_TS_S, FLT2TRIG_TS_NS, FLT3TRIG_BUFPTR, FLT3TRIG_TS_S, FLT3TRIG_TS_NS,
      FLT4TRIG_BUFPTR, FLT4TRIG_TS_S, FLT4TRIG_TS_NS, ERR1TRIG_BUFPTR, ERR1TRIG_TS_S,
      ERR1TRIG_TS_NS, ERR2TRIG_BUFPTR, ERR2TRIG_TS_S, ERR2TRIG_TS_NS, ERR3TRIG_BUFPTR,
      ERR3TRIG_TS_S, ERR3TRIG_TS_NS, ERR4TRIG_BUFPTR, ERR4TRIG_TS_S, ERR4TRIG_TS_NS,
      INJ1TRIG_BUFPTR, INJ1TRIG_TS_S, INJ1TRIG_TS_NS, INJ2TRIG_BUFPTR, INJ2TRIG_TS_S,
      INJ2TRIG_TS_NS, INJ3TRIG_BUFPTR, INJ3TRIG_TS_S, INJ3TRIG_TS_NS, INJ4TRIG_BUFPTR,
      INJ4TRIG_TS_S, INJ4TRIG_TS_NS, EVRTRIG_BUFPTR, EVRTRIG_TS_S, EVRTRIG_TS_NS]"

definition chan_msgs :: "u32 list" where
  "chan_msgs = [
      DAC_OPMODE_MSG, DAC_SETPT_MSG, DAC_RUNRAMP_MSG, DAC_RAMPLEN_MSG, DAC_SETPT_GAIN_MSG,
      DAC_SETPT_OFFSET_MSG, DCCT1_OFFSET_MSG, DCCT1_GAIN_MSG, DCCT2_OFFSET_MSG,
      DCCT2_GAIN_MSG, DACMON_OFFSET_MSG, DACMON_GAIN_MSG, VOLT_OFFSET_MSG, VOLT_GAIN_MSG,
      GND_OFFSET_MSG, GND_GAIN_MSG, SPARE_OFFSET_MSG, SPARE_GAIN_MSG, REG_OFFSET_MSG,
      REG_GAIN_MSG, ERR_OFFSET_MSG, ERR_GAIN_MSG, OVC1_THRESH_MSG, OVC2_THRESH_MSG,
      OVV_THRESH_MSG, ERR1_THRESH_MSG, ERR2_THRESH_MSG, IGND_THRESH_MSG, OVC1_CNTLIM_MSG,
      OVC2_CNTLIM_MSG, OVV_CNTLIM_MSG, ERR1_CNTLIM_MSG, ERR2_CNTLIM_MSG, IGND_CNTLIM_MSG,
      DCCT_CNTLIM_MSG, FLT1_CNTLIM_MSG, FLT2_CNTLIM_MSG, FLT3_CNTLIM_MSG, ON_CNTLIM_MSG,
      HEART_CNTLIM_MSG, FAULT_CLEAR_MSG, FAULT_MASK_MSG, DIGOUT_ON1_MSG, DIGOUT_ON2_MSG,
      DIGOUT_RESET_MSG, DIGOUT_SPARE_MSG, DIGOUT_PARK_MSG, SF_AMPS_PER_SEC_MSG,
      SF_DAC_DCCTS_MSG, SF_VOUT_MSG, SF_IGND_MSG, SF_SPARE_MSG, SF_REGULATOR_MSG,
      SF_ERROR_MSG, FOFB_FASTADDR_MSG, USR_TRIG_MSG, AVE_MODE_MSG, WRITE_QSPI_MSG,
      READ_QSPI_MSG, DUMP_ADCS_MSG]"

definition reg_offsets :: "u32 list" where
  "reg_offsets =
     glob_regs @
     concat (map (\<lambda>chan. map (\<lambda>r. r + chan * CHBASEADDR) chan_regs) [1, 2, 3, 4]) @
     snap_regs"

text \<open>The address of a global or snapshot register, and of a register of a channel.\<close>

definition reg_addr :: "'w platform \<Rightarrow> u32 \<Rightarrow> u32" where
  "reg_addr P r = XPAR_M_AXI_BASEADDR P + r"

definition chan_addr :: "'w platform \<Rightarrow> u32 \<Rightarrow> u32 \<Rightarrow> u32" where
  "chan_addr P chan r = XPAR_M_AXI_BASEADDR P + r + chan * CHBASEADDR"

lemma sorted_adjacent:
  "sorted_wrt (<) (x # y # xs) \<longleftrightarrow> x < y \<and> sorted_wrt (<) (y # xs)" for x :: "'a :: order"
  by (auto dest: less_trans)

fun ascending :: "u32 list \<Rightarrow> bool" where
  "ascending (x # y # xs) = (x < y \<and> ascending (y # xs))"
| "ascending _ = True"

lemma ascending_sorted: "ascending xs \<Longrightarrow> sorted_wrt (<) xs"
  by (induction xs rule: ascending.induct) (auto simp: sorted_adjacent sorted_wrt1 simp del: sorted_wrt.simps(2))

lemma reg_offsets_sorted: "sorted_wrt (<) reg_offsets"
proof (rule ascending_sorted)
  show "ascending reg_offsets" by code_simp
qed

lemma reg_offsets_aligned: "list_all (\<lambda>r. r AND 3 = 0) reg_offsets"
  by code_simp

lemma distinct_offset: "distinct (map (\<lambda>r. b + r) rs) = distinct (rs :: u32 list)"
  by (simp add: distinct_map inj_on_def)

text \<open>
  The register map is sound: the addresses of all registers (global, of the four
  channels, snapshot) are pairwise different for every base address of the AXI window.
\<close>

theorem reg_map_distinct: "distinct (map (reg_addr P) reg_offsets)"
proof -
  have "distinct reg_offsets"
    using reg_offsets_sorted by (simp only: strict_sorted_iff)
  then show ?thesis by (simp add: reg_addr_def [abs_def] distinct_offset)
qed

end
