(* ===== verification/Globals.thy ===== *)
theory Globals
  imports Listener CFloat Regs
begin

text \<open>
  The global variables of main.c and i2c.c that the settings, the read-back and the snapshot
  code share, and the conversion constants of local.h.

  \<open>scalefactors[chan - 1]\<close> is an access to an array of four elements with a channel number
  that is not checked; an index outside the array is undefined behaviour of the C code and
  leaves the event \<open>UB\<close>.
\<close>

record ScaleFactorType =
  ampspersec :: f32
  dac_dccts :: f32
  vout :: f32
  ignd :: f32
  spare :: f32
  regulator :: f32
  error_sf :: f32

record 'w ctl = "'w net" +
  scalefactors :: "ScaleFactorType list"
  CONVVOLTSTODACBITS :: f32
  CONVDACBITSTOVOLTS :: f32
  smoothramp_type :: u8
  smoothramp_percentcurved :: u8

definition GAIN20BITFRACT :: fp where "GAIN20BITFRACT = fp_lit double 1048575 1"
definition CONVVOLTSTO16BITS :: fp where "CONVVOLTSTO16BITS = fp_lit double 32768 10"
definition CONV16BITSTOVOLTS :: fp where
  "CONV16BITSTOVOLTS = fp_div double (fp_lit double 1 1) CONVVOLTSTO16BITS"
definition CONVVOLTSTO18BITS :: fp where "CONVVOLTSTO18BITS = fp_lit double 131072 10"
definition CONV18BITSTOVOLTS :: fp where
  "CONV18BITSTOVOLTS = fp_div double (fp_lit double 1 1) CONVVOLTSTO18BITS"
definition CONVVOLTSTO20BITS :: fp where "CONVVOLTSTO20BITS = fp_lit double 524288 10"
definition CONV20BITSTOVOLTS :: fp where
  "CONV20BITSTOVOLTS = fp_div double (fp_lit double 1 1) CONVVOLTSTO20BITS"
definition SAMPLERATE :: fp where "SAMPLERATE = fp_lit double 10000 1"

text \<open>A floating point number in network byte order: its bits, exchanged.\<close>

definition htonf :: "f32 \<Rightarrow> u32" where
  "htonf f = htonl f"

definition sf_zero :: ScaleFactorType where
  "sf_zero = \<lparr>ampspersec = 0, dac_dccts = 0, vout = 0, ignd = 0, spare = 0, regulator = 0,
     error_sf = 0\<rparr>"

definition sf_read :: "u32 \<Rightarrow> (('w, 'x) ctl_scheme, ScaleFactorType) state" where
  "sf_read chan = do {
     sfs \<leftarrow> gets scalefactors;
     let i = unat (chan - 1);
     if i < length sfs then State_Monad.return (sfs ! i)
     else do { emit UB; State_Monad.return sf_zero }
   }"

definition sf_write ::
  "u32 \<Rightarrow> (ScaleFactorType \<Rightarrow> ScaleFactorType) \<Rightarrow> (('w, 'x) ctl_scheme, unit) state" where
  "sf_write chan f = do {
     sfs \<leftarrow> gets scalefactors;
     let i = unat (chan - 1);
     if i < length sfs then modify (\<lambda>s. s\<lparr>scalefactors := (scalefactors s)[i := f (sfs ! i)]\<rparr>)
     else emit UB
   }"

text \<open>The invariant of the array: it has one entry per channel.\<close>

definition sf_ok :: "('w, 'x) ctl_scheme \<Rightarrow> bool" where
  "sf_ok s \<longleftrightarrow> length (scalefactors s) = 4"

definition valid_chan :: "u32 \<Rightarrow> bool" where
  "valid_chan chan \<longleftrightarrow> 1 \<le> chan \<and> chan \<le> 4"

lemma valid_chan_cases: "valid_chan chan \<Longrightarrow> chan = 1 \<or> chan = 2 \<or> chan = 3 \<or> chan = 4"
  unfolding valid_chan_def by unat_arith

lemma valid_chan_index: "valid_chan chan \<Longrightarrow> unat (chan - 1) < 4"
  by (auto dest!: valid_chan_cases)

lemma emits_sf_read: "p UB \<Longrightarrow> state_io_rel (emits p) (sf_read chan)"
  by (auto simp: sf_read_def Let_def intro!: emits_intros)

lemma emits_sf_write: "p UB \<Longrightarrow> state_io_rel (emits p) (sf_write chan f)"
  by (auto simp: sf_write_def Let_def intro!: emits_intros)

text \<open>For a valid channel the array accesses are defined.\<close>

lemma sf_read_valid [run_simps]:
  assumes "sf_ok s" and "valid_chan chan"
  shows "exec (sf_read chan) s = s" "result (sf_read chan) s = scalefactors s ! unat (chan - 1)"
  using assms valid_chan_index [OF assms(2)] by (simp_all add: sf_read_def run_simps Let_def sf_ok_def)

lemma sf_write_valid [run_simps]:
  assumes "sf_ok s" and "valid_chan chan"
  shows "exec (sf_write chan f) s =
    s\<lparr>scalefactors := (scalefactors s)[unat (chan - 1) := f (scalefactors s ! unat (chan - 1))]\<rparr>"
  using assms valid_chan_index [OF assms(2)] by (simp add: sf_write_def run_simps Let_def sf_ok_def)

lemma core_indep_ctl [simp]:
  "core_indep scalefactors" "core_indep CONVVOLTSTODACBITS" "core_indep CONVDACBITSTOVOLTS"
  "core_indep sf_ok" "core_indep smoothramp_type" "core_indep smoothramp_percentcurved"
  by (simp_all add: core_indep_def sf_ok_def)

end
