(* ===== verification/Snapshots.thy ===== *)
theory Snapshots
  imports Globals
begin

text \<open>
  Snapshots (snapshots.c, snapshot.h).

  The fabric writes one sample of 40 words every 100 microseconds into a circular buffer in
  memory and latches the buffer address of each trigger. For each of the 20 trigger sources
  (five kinds, four channels) the firmware waits until enough samples have been taken after
  the trigger, copies the samples around it out of the circular buffer, scaled to physical
  units, and sends them to the client.

  \<open>mem32\<close> is the processor's view of the circular buffer; cache maintenance is not modelled.
\<close>

section \<open>Data\<close>

record TriggerInfo =
  trig_addr :: u32
  addr_last :: u32
  pretrigpts :: u32
  posttrigpts :: u32
  active :: u32
  postdlycnt :: u32
  sendbuf :: u32
  msgID :: u32
  channum :: u32
  trigcnt :: u32

record TriggerTypes =
  trig_usr :: "TriggerInfo list"
  trig_flt :: "TriggerInfo list"
  trig_err :: "TriggerInfo list"
  trig_inj :: "TriggerInfo list"
  trig_evr :: "TriggerInfo list"

record 'w snap = "'w ctl" +
  snapshot_trig :: TriggerTypes
  msgUsr_buf :: "byte list list"
  msgFlt_buf :: "byte list list"
  msgErr_buf :: "byte list list"
  msgInj_buf :: "byte list list"
  msgWfmStats_buf :: "byte list"

text \<open>The five kinds of trigger, and the element of each array they name.\<close>

datatype trig_kind = Usr | Flt | Err | Inj | Evr

fun trig_array :: "trig_kind \<Rightarrow> TriggerTypes \<Rightarrow> TriggerInfo list" where
  "trig_array Usr t = trig_usr t"
| "trig_array Flt t = trig_flt t"
| "trig_array Err t = trig_err t"
| "trig_array Inj t = trig_inj t"
| "trig_array Evr t = trig_evr t"

definition trig_get :: "trig_kind \<Rightarrow> nat \<Rightarrow> TriggerTypes \<Rightarrow> TriggerInfo" where
  "trig_get k i t = trig_array k t ! i"

fun trig_set :: "trig_kind \<Rightarrow> nat \<Rightarrow> TriggerInfo \<Rightarrow> TriggerTypes \<Rightarrow> TriggerTypes" where
  "trig_set Usr i x t = t\<lparr>trig_usr := (trig_usr t)[i := x]\<rparr>"
| "trig_set Flt i x t = t\<lparr>trig_flt := (trig_flt t)[i := x]\<rparr>"
| "trig_set Err i x t = t\<lparr>trig_err := (trig_err t)[i := x]\<rparr>"
| "trig_set Inj i x t = t\<lparr>trig_inj := (trig_inj t)[i := x]\<rparr>"
| "trig_set Evr i x t = t\<lparr>trig_evr := (trig_evr t)[i := x]\<rparr>"

definition MSGWFMSTATS :: u16 where "MSGWFMSTATS = 50"
definition MSGWFMSTATSLEN :: u32 where "MSGWFMSTATSLEN = 500"
definition MSGUSRCH1 :: u32 where "MSGUSRCH1 = 60"
definition MSGFLTCH1 :: u32 where "MSGFLTCH1 = 70"
definition MSGERRCH1 :: u32 where "MSGERRCH1 = 80"
definition MSGINJCH1 :: u32 where "MSGINJCH1 = 90"
definition MSGINJCH2 :: u32 where "MSGINJCH2 = 91"
definition MSGINJCH3 :: u32 where "MSGINJCH3 = 92"
definition MSGINJCH4 :: u32 where "MSGINJCH4 = 93"
definition MSGEVRCH1 :: u32 where "MSGEVRCH1 = 100"
definition MSGWFMLEN :: u32 where "MSGWFMLEN = 4000000"
definition MSGINJWFMLEN :: u32 where "MSGINJWFMLEN = 40000"

section \<open>Byte order of the messages\<close>

text \<open>
  \<open>hton_conv\<close> reverses the bytes within each group of four of the first \<open>len\<close> bytes; a last
  group that starts before \<open>len\<close> is converted as a whole.
\<close>

fun hton_conv :: "byte list \<Rightarrow> nat \<Rightarrow> byte list" where
  "hton_conv (a # b # c # d # rest) len =
     (if len = 0 then a # b # c # d # rest else d # c # b # a # hton_conv rest (len - 4))"
| "hton_conv bs len = bs"

section \<open>Statistics\<close>

text \<open>One \<open>SnapTrigData\<close>: the latched address, whether the trigger is active, and its time.\<close>

definition stats_entry ::
  "'w platform \<Rightarrow> u32 \<Rightarrow> u32 \<Rightarrow> u32 \<Rightarrow> u32 \<Rightarrow> TriggerInfo \<Rightarrow> (('w, 'x) core_scheme, u32 list) state" where
  "stats_entry P ptr ts_s ts_ns off t = do {
     lataddr \<leftarrow> Xil_In32 P (reg_addr P (ptr + off));
     s \<leftarrow> Xil_In32 P (reg_addr P (ts_s + off));
     ns \<leftarrow> Xil_In32 P (reg_addr P (ts_ns + off));
     State_Monad.return [lataddr, active t, s, ns]
   }"

definition stats_row ::
  "'w platform \<Rightarrow> TriggerTypes \<Rightarrow> nat \<Rightarrow> (('w, 'x) core_scheme, u32 list list) state" where
  "stats_row P trig i = do {
     let off = of_nat i * 0x10;
     usr \<leftarrow> stats_entry P USR1TRIG_BUFPTR USR1TRIG_TS_S USR1TRIG_TS_NS off (trig_get Usr i trig);
     flt \<leftarrow> stats_entry P FLT1TRIG_BUFPTR FLT1TRIG_TS_S FLT1TRIG_TS_NS off (trig_get Flt i trig);
     err \<leftarrow> stats_entry P ERR1TRIG_BUFPTR ERR1TRIG_TS_S ERR1TRIG_TS_NS off (trig_get Err i trig);
     inj \<leftarrow> stats_entry P INJ1TRIG_BUFPTR INJ1TRIG_TS_S INJ1TRIG_TS_NS off (trig_get Inj i trig);
     State_Monad.return [usr, flt, err, inj, [0, 0, 0, 0]]
   }"

text \<open>The \<open>SnapStatsMsg\<close> has the four entries of a kind next to each other.\<close>

definition stats_words :: "u32 \<Rightarrow> u32 \<Rightarrow> u32 list list list \<Rightarrow> u32 list" where
  "stats_words cur facnt rows =
     cur # facnt # concat (map (\<lambda>k. concat (map (\<lambda>row. row ! k) rows)) [0..<5])"

definition SendSnapShotStats ::
  "'w platform \<Rightarrow> ('w, 'x) snap_scheme psc_config \<Rightarrow> (('w, 'x) snap_scheme, unit) state" where
  "SendSnapShotStats P conf = do {
     trig \<leftarrow> gets snapshot_trig;
     cur_bufaddr \<leftarrow> Xil_In32 P (reg_addr P SNAPSHOT_ADDRPTR);
     totalfacnt \<leftarrow> Xil_In32 P (reg_addr P SNAPSHOT_TOTALTRIGS);
     rows \<leftarrow> map_each (stats_row P trig) [0..<4];
     let snapstats = concat (map le32 (stats_words cur_bufaddr totalfacnt rows));
     modify (\<lambda>s. s\<lparr>msgWfmStats_buf :=
       hton_conv (overwrite snapstats (msgWfmStats_buf s)) (length snapstats)\<rparr>);
     msg \<leftarrow> gets msgWfmStats_buf;
     psc_send P conf MSGWFMSTATS MSGWFMSTATSLEN msg
   }"

section \<open>Copying out of the circular buffer\<close>

definition BUFSTART :: u32 where "BUFSTART = 0x10000000"
definition BUFLEN :: u32 where "BUFLEN = 0x01E84800"
definition BUFSTEPBYTES :: u32 where "BUFSTEPBYTES = 0xA0"
definition BUFSTEPWORDS :: u32 where "BUFSTEPWORDS = BUFSTEPBYTES div 4"
definition WORDSPERSAMPLE :: u32 where "WORDSPERSAMPLE = 40"

text \<open>The offset of a channel's eight readings within a sample.\<close>

fun chan_offset :: "u32 \<Rightarrow> u32 option" where
  "chan_offset chan =
     (if chan = 1 then Some 2 else if chan = 2 then Some 10 else if chan = 3 then Some 18
      else if chan = 4 then Some 26 else None)"

definition dac_reading :: "f32 \<Rightarrow> f32 \<Rightarrow> u32 \<Rightarrow> f32" where
  "dac_reading conv sf w =
     f32_bits (fp_mul single (fp_mul single (fp_of_int single (sint w)) (f32_val conv)) (f32_val sf))"

definition mon_reading :: "f32 \<Rightarrow> u32 \<Rightarrow> f32" where
  "mon_reading sf w =
     f32_bits (fp_cast single
       (fp_mul double (fp_mul double (fp_of_int single (sint w)) CONV16BITSTOVOLTS) (f32_val sf)))"

definition count_reading :: "u32 \<Rightarrow> f32" where
  "count_reading w = f32_bits (fp_of_int single (uint w))"

text \<open>The ten floats of one sample, for the readings at \<open>buf_data\<close>.\<close>

definition sample_floats :: "f32 \<Rightarrow> ScaleFactorType \<Rightarrow> (u32 \<Rightarrow> u32) \<Rightarrow> u32 \<Rightarrow> u32 \<Rightarrow> f32 list" where
  "sample_floats conv sf rd buf_data o1 =
     (let w = (\<lambda>i. rd (buf_data + 4 * i)) in
      [count_reading (w 0), count_reading (w 1),
       dac_reading conv (dac_dccts sf) (w o1), dac_reading conv (dac_dccts sf) (w (o1 + 1)),
       mon_reading (dac_dccts sf) (w (o1 + 2)), mon_reading (vout sf) (w (o1 + 3)),
       mon_reading (ignd sf) (w (o1 + 4)), mon_reading (spare sf) (w (o1 + 5)),
       mon_reading (regulator sf) (w (o1 + 6)), mon_reading (error_sf sf) (w (o1 + 7))])"

text \<open>
  \<open>CopyDataChan\<close> returns the floats it stores through the message pointer. Its loop counts in
  steps of a sample, so that a rest of less than a sample counts as one.
\<close>

definition CopyDataChan ::
  "'w platform \<Rightarrow> u32 \<Rightarrow> u32 \<Rightarrow> u32 \<Rightarrow> (('w, 'x) ctl_scheme, f32 list) state" where
  "CopyDataChan P buf_data numwords chan = (case chan_offset chan of
     None \<Rightarrow> State_Monad.return []
   | Some o1 \<Rightarrow> do {
       conv \<leftarrow> gets CONVDACBITSTOVOLTS;
       sf \<leftarrow> sf_read chan;
       w \<leftarrow> gets world;
       State_Monad.return (concat (map (\<lambda>k.
         sample_floats conv sf (\<lambda>a. plat_mem32 P a w) (buf_data + of_nat k * 160) o1)
         [0..<(unat numwords + 39) div 40]))
     })"

definition ReadDMABuf ::
  "'w platform \<Rightarrow> TriggerInfo \<Rightarrow> (('w, 'x) ctl_scheme, f32 list) state" where
  "ReadDMABuf P trig = do {
     let startaddr = trig_addr trig - pretrigpts trig * BUFSTEPBYTES;
     let stopaddr = trig_addr trig + posttrigpts trig * BUFSTEPBYTES;
     if startaddr < 0x10000000 then do {
       let presecnumwords = drop_bit 2 (trig_addr trig - BUFSTART);
       let prefirstnumwords = pretrigpts trig * WORDSPERSAMPLE - presecnumwords;
       let startaddr = BUFSTART + BUFLEN - prefirstnumwords * 4;
       a \<leftarrow> CopyDataChan P startaddr prefirstnumwords (channum trig);
       b \<leftarrow> CopyDataChan P BUFSTART presecnumwords (channum trig);
       c \<leftarrow> CopyDataChan P (trig_addr trig) (posttrigpts trig * BUFSTEPWORDS) (channum trig);
       State_Monad.return (a @ b @ c)
     }
     else if stopaddr > BUFSTART + BUFLEN then do {
       let postfirstnumwords = drop_bit 2 (BUFSTART + BUFLEN - trig_addr trig);
       let postsecnumwords = posttrigpts trig * WORDSPERSAMPLE - postfirstnumwords;
       a \<leftarrow> CopyDataChan P startaddr (pretrigpts trig * BUFSTEPWORDS) (channum trig);
       b \<leftarrow> CopyDataChan P (trig_addr trig) postfirstnumwords (channum trig);
       c \<leftarrow> CopyDataChan P BUFSTART postsecnumwords (channum trig);
       State_Monad.return (a @ b @ c)
     }
     else CopyDataChan P startaddr ((pretrigpts trig + posttrigpts trig) * BUFSTEPWORDS) (channum trig)
   }"

section \<open>Sending a waveform\<close>

fun buf_array :: "trig_kind \<Rightarrow> ('w, 'x) snap_scheme \<Rightarrow> byte list list" where
  "buf_array Usr s = msgUsr_buf s"
| "buf_array Flt s = msgFlt_buf s"
| "buf_array Err s = msgErr_buf s"
| "buf_array Inj s = msgInj_buf s"
| "buf_array Evr s = []"

fun buf_set :: "trig_kind \<Rightarrow> nat \<Rightarrow> byte list \<Rightarrow> ('w, 'x) snap_scheme \<Rightarrow> ('w, 'x) snap_scheme" where
  "buf_set Usr i x s = s\<lparr>msgUsr_buf := (msgUsr_buf s)[i := x]\<rparr>"
| "buf_set Flt i x s = s\<lparr>msgFlt_buf := (msgFlt_buf s)[i := x]\<rparr>"
| "buf_set Err i x s = s\<lparr>msgErr_buf := (msgErr_buf s)[i := x]\<rparr>"
| "buf_set Inj i x s = s\<lparr>msgInj_buf := (msgInj_buf s)[i := x]\<rparr>"
| "buf_set Evr i x s = s"

definition set_trig :: "trig_kind \<Rightarrow> nat \<Rightarrow> TriggerInfo \<Rightarrow> (('w, 'x) snap_scheme, unit) state" where
  "set_trig k i t = modify (\<lambda>s. s\<lparr>snapshot_trig := trig_set k i t (snapshot_trig s)\<rparr>)"

text \<open>
  The message length depends on the kind: injection snapshots are cut to 1000 points. Floats
  beyond the end of the message buffer would be undefined behaviour.
\<close>

definition wfm_len :: "u32 \<Rightarrow> u32" where
  "wfm_len msgid =
     (if msgid = MSGINJCH1 \<or> msgid = MSGINJCH2 \<or> msgid = MSGINJCH3 \<or> msgid = MSGINJCH4
      then MSGINJWFMLEN else MSGWFMLEN)"

definition SendWfmData ::
  "'w platform \<Rightarrow> ('w, 'x) snap_scheme psc_config \<Rightarrow> trig_kind \<Rightarrow> nat \<Rightarrow> (('w, 'x) snap_scheme, unit) state" where
  "SendWfmData P conf k i = do {
     trig \<leftarrow> gets (\<lambda>s. trig_get k i (snapshot_trig s));
     set_trig k i (trig\<lparr>sendbuf := 0, active := 0\<rparr>);
     floats \<leftarrow> ReadDMABuf P trig;
     msg \<leftarrow> gets (\<lambda>s. buf_array k s ! i);
     let bytes = concat (map le32 floats);
     (if length bytes > length msg then emit UB else skip);
     set_trig k i (trig\<lparr>sendbuf := 0, active := 0, trigcnt := trigcnt trig + 1\<rparr>);
     let len = wfm_len (msgID trig);
     let msg = hton_conv (overwrite bytes msg) (unat len);
     modify (buf_set k i msg);
     psc_send P conf (ucast (msgID trig)) len msg
   }"

section \<open>Triggers\<close>

definition ProcessTrigger :: "TriggerInfo \<Rightarrow> TriggerInfo" where
  "ProcessTrigger trig = (
     let trig = (if trig_addr trig \<noteq> addr_last trig \<and> active trig = 0
                 then trig\<lparr>active := 1, addr_last := trig_addr trig, postdlycnt := 0\<rparr> else trig)
     in if active trig = 1 then
          (if postdlycnt trig < posttrigpts trig div 1000
           then trig\<lparr>postdlycnt := postdlycnt trig + 1\<rparr>
           else trig\<lparr>sendbuf := 1\<rparr>)
        else trig)"

definition check_trigger ::
  "'w platform \<Rightarrow> trig_kind \<Rightarrow> nat \<Rightarrow> u32 \<Rightarrow> (('w, 'x) snap_scheme, unit) state" where
  "check_trigger P k i r = do {
     trig \<leftarrow> gets (\<lambda>s. trig_get k i (snapshot_trig s));
     trig \<leftarrow> (if active trig = 0
       then do { a \<leftarrow> Xil_In32 P (reg_addr P r); State_Monad.return (trig\<lparr>trig_addr := a\<rparr>) }
       else State_Monad.return trig);
     set_trig k i (ProcessTrigger trig)
   }"

definition trig_sources :: "(trig_kind \<times> nat \<times> u32) list" where
  "trig_sources =
     [(Usr, 0, USR1TRIG_BUFPTR), (Usr, 1, USR2TRIG_BUFPTR), (Usr, 2, USR3TRIG_BUFPTR), (Usr, 3, USR4TRIG_BUFPTR),
      (Flt, 0, FLT1TRIG_BUFPTR), (Flt, 1, FLT2TRIG_BUFPTR), (Flt, 2, FLT3TRIG_BUFPTR), (Flt, 3, FLT4TRIG_BUFPTR),
      (Err, 0, ERR1TRIG_BUFPTR), (Err, 1, ERR2TRIG_BUFPTR), (Err, 2, ERR3TRIG_BUFPTR), (Err, 3, ERR4TRIG_BUFPTR),
      (Inj, 0, INJ1TRIG_BUFPTR), (Inj, 1, INJ2TRIG_BUFPTR), (Inj, 2, INJ3TRIG_BUFPTR), (Inj, 3, INJ4TRIG_BUFPTR),
      (Evr, 0, EVRTRIG_BUFPTR), (Evr, 1, EVRTRIG_BUFPTR), (Evr, 2, EVRTRIG_BUFPTR), (Evr, 3, EVRTRIG_BUFPTR)]"

definition CheckforTriggers :: "'w platform \<Rightarrow> (('w, 'x) snap_scheme, unit) state" where
  "CheckforTriggers P = for_each (\<lambda>(k, i, r). check_trigger P k i r) trig_sources"

text \<open>\<open>InitTriggerInfo\<close>: all sources keep their trigger count but the injection ones.\<close>

definition init_trigger :: "u32 \<Rightarrow> u32 \<Rightarrow> u32 \<Rightarrow> nat \<Rightarrow> TriggerInfo \<Rightarrow> TriggerInfo" where
  "init_trigger pre post msgid i t =
     t\<lparr>addr_last := 0, trig_addr := 0, active := 0, sendbuf := 0, postdlycnt := 0,
       pretrigpts := pre, posttrigpts := post, channum := of_nat i + 1, msgID := msgid + of_nat i\<rparr>"

definition init_array :: "(nat \<Rightarrow> TriggerInfo \<Rightarrow> TriggerInfo) \<Rightarrow> TriggerInfo list \<Rightarrow> TriggerInfo list" where
  "init_array f ts = map (\<lambda>(i, t). if i \<le> 3 then f i t else t) (List.enumerate 0 ts)"

definition InitTriggerInfo :: "TriggerTypes \<Rightarrow> TriggerTypes" where
  "InitTriggerInfo trig = trig\<lparr>
     trig_usr := init_array (init_trigger 50000 50000 MSGUSRCH1) (trig_usr trig),
     trig_flt := init_array (init_trigger 50000 50000 MSGFLTCH1) (trig_flt trig),
     trig_err := init_array (init_trigger 50000 50000 MSGERRCH1) (trig_err trig),
     trig_inj := init_array (\<lambda>i t. (init_trigger 0 8000 MSGINJCH1 i t)\<lparr>trigcnt := 0\<rparr>) (trig_inj trig),
     trig_evr := init_array (init_trigger 50000 50000 MSGEVRCH1) (trig_evr trig)\<rparr>"

definition snapshot_init :: "(('w, 'x) snap_scheme, unit) state" where
  "snapshot_init = modify (\<lambda>s. s\<lparr>snapshot_trig := InitTriggerInfo (snapshot_trig s)\<rparr>)"

definition send_ready ::
  "'w platform \<Rightarrow> ('w, 'x) snap_scheme psc_config \<Rightarrow> trig_kind \<Rightarrow> nat \<Rightarrow> (('w, 'x) snap_scheme, unit) state" where
  "send_ready P conf k i = do {
     trig \<leftarrow> gets (\<lambda>s. trig_get k i (snapshot_trig s));
     if sendbuf trig = 1 then SendWfmData P conf k i else skip
   }"

definition snapshot_process ::
  "'w platform \<Rightarrow> ('w, 'x) snap_scheme psc_config \<Rightarrow> (('w, 'x) snap_scheme, unit) state" where
  "snapshot_process P conf = do {
     CheckforTriggers P;
     for_each (\<lambda>i. do {
         send_ready P conf Usr i;
         send_ready P conf Flt i;
         send_ready P conf Err i;
         send_ready P conf Inj i
       }) [0..<4];
     SendSnapShotStats P conf
   }"

end
