(* ===== verification/Qspi.thy ===== *)
theory Qspi
  imports Globals
begin

text \<open>
  The per-channel settings in the QSPI flash (qspi_flash.c).

  \<open>QspiData_t\<close> is a packed struct of 45 words: a header, one word per settings register in the
  order of \<open>qspi_fields\<close>, and the seven scale factors. A transfer to the flash starts with a
  four-byte command that occupies the place of the header. \<open>wait_flash\<close> polls the status of
  the chip until it is ready; it returns \<open>None\<close> if that never happens.
\<close>

definition FLASH_WRITE_CMD :: byte where "FLASH_WRITE_CMD = 0x02"
definition FLASH_READ_CMD :: byte where "FLASH_READ_CMD = 0x03"
definition FLASH_SECTOR_ERASE_CMD :: byte where "FLASH_SECTOR_ERASE_CMD = 0xD8"
definition FLASH_SECTOR_ERASE_SIZE :: nat where "FLASH_SECTOR_ERASE_SIZE = 4"
definition FLASH_WRITE_ENABLE_CMD :: byte where "FLASH_WRITE_ENABLE_CMD = 0x06"
definition FLASH_READ_STATUS_CMD :: byte where "FLASH_READ_STATUS_CMD = 0x05"
definition FLASH_SECTOR_SIZE :: u32 where "FLASH_SECTOR_SIZE = 0x10000"
definition FLASH_PAGE_SIZE :: nat where "FLASH_PAGE_SIZE = 256"

section \<open>Transfers\<close>

text \<open>The command byte and the 24-bit address at the start of a transfer.\<close>

definition flash_command :: "byte \<Rightarrow> u32 \<Rightarrow> byte list" where
  "flash_command cmd address =
     [cmd, ucast (drop_bit 16 (address AND 0xFF0000)), ucast (drop_bit 8 (address AND 0xFF00)),
      ucast (address AND 0xFF)]"

text \<open>
  \<open>QspiFlashRead\<close> hands the driver a send buffer of four bytes with a count of \<open>ByteCount\<close>: the
  bytes it shifts out after the command are whatever follows the buffer on the stack.
\<close>

definition QspiFlashRead ::
  "'w platform \<Rightarrow> u32 \<Rightarrow> nat \<Rightarrow> (('w, 'x) core_scheme, byte list) state" where
  "QspiFlashRead P address bytecount = do {
     beyond \<leftarrow> stack_bytes P (bytecount - 4);
     qspi_transfer P (flash_command FLASH_READ_CMD address @ beyond) bytecount
   }"

partial_function (option) wait_ready ::
  "'w platform \<Rightarrow> ('w, 'x) core_scheme \<Rightarrow> ('w, 'x) core_scheme option" where
  "wait_ready plat s =
     (let m = qspi_transfer plat [FLASH_READ_STATUS_CMD, 0] 2 in
      if (result m s ! 1) AND 0x01 = 0 then Some (exec m s)
      else wait_ready plat (exec m s))"

definition wait_flash :: "'w platform \<Rightarrow> (('w, 'x) core_scheme, unit option) state" where
  "wait_flash P = State (\<lambda>s. case wait_ready P s of None \<Rightarrow> (None, s) | Some t \<Rightarrow> (Some (), t))"

text \<open>\<open>QspiFlashWrite\<close> overwrites the first four bytes of the caller's buffer.\<close>

definition QspiFlashWrite ::
  "'w platform \<Rightarrow> u32 \<Rightarrow> nat \<Rightarrow> byte list \<Rightarrow> (('w, 'x) core_scheme, byte list option) state" where
  "QspiFlashWrite P address bytecount writebuf = do {
     qspi_transfer P [FLASH_WRITE_ENABLE_CMD] 0;
     let writebuf = overwrite (flash_command FLASH_WRITE_CMD address) writebuf;
     qspi_transfer P (take bytecount writebuf) 0;
     r \<leftarrow> wait_flash P;
     State_Monad.return (map_option (\<lambda>_. writebuf) r)
   }"

definition QspiFlashEraseSect :: "'w platform \<Rightarrow> u32 \<Rightarrow> (('w, 'x) core_scheme, unit option) state" where
  "QspiFlashEraseSect P sector = do {
     let address = sector * FLASH_SECTOR_SIZE;
     qspi_transfer P [FLASH_WRITE_ENABLE_CMD] 0;
     qspi_transfer P (take FLASH_SECTOR_ERASE_SIZE
       [FLASH_SECTOR_ERASE_CMD, ucast (drop_bit 16 address AND 0xFF),
        ucast (drop_bit 8 address AND 0xFF), ucast (address AND 0xFF)]) 0;
     wait_flash P
   }"

section \<open>The settings record\<close>

definition qspi_fields :: "u32 list" where
  "qspi_fields = [
     DAC_SETPT_OFFSET_REG, DAC_SETPT_GAIN_REG,
     DCCT1_OFFSET_REG, DCCT1_GAIN_REG, DCCT2_OFFSET_REG, DCCT2_GAIN_REG,
     DACMON_OFFSET_REG, DACMON_GAIN_REG, VOLT_OFFSET_REG, VOLT_GAIN_REG,
     GND_OFFSET_REG, GND_GAIN_REG, SPARE_OFFSET_REG, SPARE_GAIN_REG,
     REG_OFFSET_REG, REG_GAIN_REG, ERR_OFFSET_REG, ERR_GAIN_REG,
     OVC1_THRESH_REG, OVC2_THRESH_REG, OVV_THRESH_REG, ERR1_THRESH_REG, ERR2_THRESH_REG,
     IGND_THRESH_REG,
     OVC1_CNTLIM_REG, OVC2_CNTLIM_REG, OVV_CNTLIM_REG, ERR1_CNTLIM_REG, ERR2_CNTLIM_REG,
     IGND_CNTLIM_REG, DCCT_CNTLIM_REG, FLT1_CNTLIM_REG, FLT2_CNTLIM_REG, FLT3_CNTLIM_REG,
     ON_CNTLIM_REG, HEARTBEAT_CNTLIM_REG, FAULT_MASK_REG]"

definition sf_words :: "ScaleFactorType \<Rightarrow> u32 list" where
  "sf_words sf = [ampspersec sf, dac_dccts sf, vout sf, ignd sf, spare sf, regulator sf, error_sf sf]"

definition sf_of_words :: "u32 list \<Rightarrow> ScaleFactorType" where
  "sf_of_words ws = \<lparr>ampspersec = ws ! 0, dac_dccts = ws ! 1, vout = ws ! 2, ignd = ws ! 3,
     spare = ws ! 4, regulator = ws ! 5, error_sf = ws ! 6\<rparr>"

definition qspi_words :: nat where
  "qspi_words = 45"

definition QspiGatherData ::
  "'w platform \<Rightarrow> u32 \<Rightarrow> byte list \<Rightarrow> (('w, 'x) ctl_scheme, byte list) state" where
  "QspiGatherData P chan writebuf = do {
     header \<leftarrow> stack_bytes P 4;
     vals \<leftarrow> map_each (\<lambda>r. Xil_In32 P (chan_addr P chan r)) qspi_fields;
     sf \<leftarrow> sf_read chan;
     State_Monad.return (overwrite (header @ concat (map le32 (vals @ sf_words sf))) writebuf)
   }"

definition QspiDisperseData ::
  "'w platform \<Rightarrow> u32 \<Rightarrow> byte list \<Rightarrow> (('w, 'x) ctl_scheme, unit) state" where
  "QspiDisperseData P chan readbuf = do {
     let qspidata = map (load32 readbuf) [0..<qspi_words];
     for_each (\<lambda>(r, v). Xil_Out32 P (chan_addr P chan r) v)
       (zip qspi_fields (take (length qspi_fields) (drop 1 qspidata)));
     sf_write chan (\<lambda>_. sf_of_words (drop (1 + length qspi_fields) qspidata))
   }"

definition InitSettingsfromQspi :: "'w platform \<Rightarrow> (('w, 'x) ctl_scheme, unit) state" where
  "InitSettingsfromQspi P = do {
     Xil_Out32 P (reg_addr P EVR_INJ_EVENTNUM_REG) 10;
     Xil_Out32 P (reg_addr P EVR_PM_EVENTNUM_REG) 10;
     for_each (\<lambda>chan. do {
         readbuf \<leftarrow> QspiFlashRead P (chan * FLASH_SECTOR_SIZE) FLASH_PAGE_SIZE;
         QspiDisperseData P chan readbuf
       }) [1, 2, 3, 4]
   }"

section \<open>Relations the flash operations keep\<close>

text \<open>
  A relation kept by a read of the status is kept by the polling loop, however often it polls;
  one kept by every transfer is kept by every flash operation.
\<close>

locale poll_io = io_preorder R
  for R :: "('w, 'x) core_scheme \<Rightarrow> ('w, 'x) core_scheme \<Rightarrow> bool" +
  fixes P :: "'w platform"
  assumes status: "state_io_rel R (qspi_transfer P [FLASH_READ_STATUS_CMD, 0] 2)"
begin

lemma wait_ready_rel:
  assumes "wait_ready P s = Some t"
  shows "R s t"
proof -
  have "Q = P \<longrightarrow> R s t" if "wait_ready Q s = Some t" for Q s t
  proof (rule wait_ready.raw_induct [where P = "\<lambda>Q s t. Q = P \<longrightarrow> R s t", OF _ that])
    fix f :: "'w platform \<Rightarrow> ('w, 'x) core_scheme \<Rightarrow> ('w, 'x) core_scheme option"
      and Q :: "'w platform" and s t :: "('w, 'x) core_scheme"
    let ?m = "qspi_transfer Q [FLASH_READ_STATUS_CMD, 0] 2 :: (('w, 'x) core_scheme, byte list) state"
    assume IH: "\<And>Q s t. f Q s = Some t \<Longrightarrow> Q = P \<longrightarrow> R s t"
      and eq: "(let m = ?m in if result m s ! 1 AND 1 = 0 then Some (exec m s) else f Q (exec m s)) = Some t"
    show "Q = P \<longrightarrow> R s t"
    proof
      assume "Q = P"
      then have "R s (exec ?m s)"
        by (simp add: io_exec [OF status])
      moreover have "t = exec ?m s \<or> R (exec ?m s) t"
        using eq IH \<open>Q = P\<close> by (auto simp: Let_def split: if_splits)
      ultimately show "R s t"
        by (auto intro: R_trans)
    qed
  qed
  with assms show ?thesis by blast
qed

lemma wait_flash_rel: "state_io_rel R (wait_flash P)"
  by (rule io_of_exec) (auto simp: wait_flash_def exec_def R_refl wait_ready_rel split: option.split)

end

locale flash_io = io_preorder R
  for R :: "('w, 'x) core_scheme \<Rightarrow> ('w, 'x) core_scheme \<Rightarrow> bool" +
  fixes P :: "'w platform"
  assumes flash: "state_io_rel R (qspi_transfer P tx n)"

sublocale flash_io \<subseteq> poll_io
  by unfold_locales (rule flash)

context flash_io
begin

lemma stack_rel: "state_io_rel R (stack_bytes P n)"
  by (simp add: stack_bytes_def io_gets)

lemma flash_read_rel: "state_io_rel R (QspiFlashRead P a n)"
  by (auto simp: QspiFlashRead_def intro!: io_structure stack_rel flash)

lemma flash_write_rel: "state_io_rel R (QspiFlashWrite P a n buf)"
  by (auto simp: QspiFlashWrite_def Let_def intro!: io_structure flash wait_flash_rel)

lemma erase_rel: "state_io_rel R (QspiFlashEraseSect P a)"
  by (auto simp: QspiFlashEraseSect_def Let_def intro!: io_structure flash wait_flash_rel)

end

text \<open>
  The polling loop comes back as soon as the chip reports ready: if the \<open>k\<close>-th status read has
  its busy bit clear, the loop ends.
\<close>

definition poll_once :: "'w platform \<Rightarrow> (('w, 'x) core_scheme, byte list) state" where
  "poll_once P = qspi_transfer P [FLASH_READ_STATUS_CMD, 0] 2"

lemma wait_ready_returns:
  assumes "(result (poll_once P) ((exec (poll_once P) ^^ k) s) ! 1) AND 1 = 0"
  shows "\<exists>t. wait_ready P s = Some t"
  using assms
proof (induction k arbitrary: s)
  case 0
  then show ?case by (subst wait_ready.simps) (simp add: poll_once_def Let_def)
next
  case (Suc k)
  then obtain t where "wait_ready P (exec (poll_once P) s) = Some t"
    by (simp only: funpow_Suc_right comp_def) blast
  then show ?case by (subst wait_ready.simps) (simp add: poll_once_def Let_def)
qed

lemma qspi_fields_chan: "set qspi_fields \<subseteq> set chan_regs"
  by (simp add: qspi_fields_def chan_regs_def)

lemma length_qspi_fields [simp]: "length qspi_fields = 37"
  by (simp add: qspi_fields_def)

end
