(* ===== verification/Control.thy ===== *)
theory Control
  imports Qspi
begin

text \<open>
  The control messages of the IOC (control.c): setpoints, ramps, gains and offsets, fault
  thresholds, digital outputs, scale factors, and the settings kept in flash.

  A message carries two big-endian words, a message number and a datum that is read either as
  an unsigned integer or, through \<open>MsgUnion\<close>, as a \<open>float\<close>. \<open>chan_settings\<close> is one long
  \<open>switch\<close>; its cases are modelled in groups, each a function that falls through to the next
  group (the argument \<open>other\<close>) when no case of its own matches. \<open>Some ()\<close> is a normal return,
  \<open>None\<close> that the flash chip never becomes ready.

  Console output is not modelled; where its arguments index an array the access is.
\<close>

section \<open>Helpers\<close>

abbreviation cwr :: "'w platform \<Rightarrow> u32 \<Rightarrow> u32 \<Rightarrow> u32 \<Rightarrow> (('w, 'x) core_scheme, unit) state" where
  "cwr P chan r v \<equiv> Xil_Out32 P (chan_addr P chan r) v"

abbreviation crd :: "'w platform \<Rightarrow> u32 \<Rightarrow> u32 \<Rightarrow> (('w, 'x) core_scheme, u32) state" where
  "crd P chan r \<equiv> Xil_In32 P (chan_addr P chan r)"

abbreviation gwr :: "'w platform \<Rightarrow> u32 \<Rightarrow> u32 \<Rightarrow> (('w, 'x) core_scheme, unit) state" where
  "gwr P r v \<equiv> Xil_Out32 P (reg_addr P r) v"

abbreviation grd :: "'w platform \<Rightarrow> u32 \<Rightarrow> (('w, 'x) core_scheme, u32) state" where
  "grd P r \<equiv> Xil_In32 P (reg_addr P r)"

text \<open>
  \<open>abs\<close> of a C \<open>int\<close>: the negation of the least value wraps. \<open>wrap32\<close> is the value an \<open>s32\<close>
  takes.
\<close>

definition wrap32 :: "int \<Rightarrow> int" where
  "wrap32 i = sint (of_int i :: u32)"

definition c_abs :: "int \<Rightarrow> int" where
  "c_abs i = wrap32 \<bar>i\<bar>"

text \<open>Volts or amperes to DAC bits, and to the 16-bit monitor scale, with a scale factor.\<close>

definition dac_bits :: "fp \<Rightarrow> f32 \<Rightarrow> f32 \<Rightarrow> int" where
  "dac_bits x conv sf = s32_of_fp (fp_div single (fp_mul single x (f32_val conv)) (f32_val sf))"

definition mon_bits :: "fp \<Rightarrow> f32 \<Rightarrow> int" where
  "mon_bits x sf = s32_of_fp (fp_div double (fp_mul double x CONVVOLTSTO16BITS) (f32_val sf))"

definition dac_thresh :: "fp \<Rightarrow> f32 \<Rightarrow> f32 \<Rightarrow> int" where
  "dac_thresh x conv sf =
     s32_of_fp (fp_div double (fp_abs (fp_mul single x (f32_val conv))) (fp_abs (f32_val sf)))"

definition mon_thresh :: "fp \<Rightarrow> f32 \<Rightarrow> int" where
  "mon_thresh x sf =
     s32_of_fp (fp_div double (fp_abs (fp_mul double x CONVVOLTSTO16BITS)) (fp_abs (f32_val sf)))"

definition gain_bits :: "fp \<Rightarrow> u32" where
  "gain_bits x = u32_of_fp (fp_mul double x GAIN20BITFRACT)"

definition cnt_samples :: "fp \<Rightarrow> int" where
  "cnt_samples x = s32_of_fp (fp_mul double x SAMPLERATE)"

text \<open>The factor from amperes to DAC bits for the fast orbit feedback.\<close>

definition fofb_scale :: "f32 \<Rightarrow> f32 \<Rightarrow> f32" where
  "fofb_scale sf conv =
     f32_bits (fp_mul single (fp_div single (fp_of_int single 1) (f32_val sf)) (f32_val conv))"

section \<open>LEDs, triggers and the ramp table\<close>

definition set_fpleds :: "'w platform \<Rightarrow> u32 \<Rightarrow> (('w, 'x) core_scheme, unit) state" where
  "set_fpleds P msgVal = gwr P LEDS_REG msgVal"

definition soft_trig :: "'w platform \<Rightarrow> u32 \<Rightarrow> (('w, 'x) core_scheme, unit) state" where
  "soft_trig P msgVal = do { gwr P SOFTTRIG msgVal; gwr P SOFTTRIG 0 }"

text \<open>\<open>ReadAccumSA\<close> of sadata.c: a monitor register as the average its mode asks for.\<close>

definition accum_value :: "u32 \<Rightarrow> u32 \<Rightarrow> fp" where
  "accum_value raw ave_mode =
     (if ave_mode = 0 then fp_of_int single (sint raw)
      else if ave_mode = 1
        then fp_cast single (fp_div double (fp_of_int double (sint raw)) (fp_lit double 167 1))
      else if ave_mode = 2
        then fp_cast single (fp_div double (fp_of_int double (sint raw)) (fp_lit double 500 1))
      else FNaN)"

definition ReadAccumSA :: "'w platform \<Rightarrow> u32 \<Rightarrow> u32 \<Rightarrow> (('w, 'x) core_scheme, fp) state" where
  "ReadAccumSA P ra ave_mode = do {
     raw \<leftarrow> Xil_In32 P ra;
     State_Monad.return (accum_value raw ave_mode)
   }"

text \<open>\<open>dump_adcs\<close> prints the readings of a channel: it reads registers and scale factors only.\<close>

definition dump_adcs :: "'w platform \<Rightarrow> u32 \<Rightarrow> (('w, 'x) ctl_scheme, unit) state" where
  "dump_adcs P chan = do {
     ave_mode \<leftarrow> crd P chan AVEMODE_REG;
     for_each (\<lambda>r. do { ReadAccumSA P (chan_addr P chan r) ave_mode; sf_read chan; skip })
       [DCCT1_REG, DCCT2_REG, DACMON_REG, VOLT_REG, GND_REG, SPARE_REG, REG_REG, ERR_REG];
     crd P chan DAC_CURRSETPT_REG;
     crd P chan DAC_CURRSETPT_REG;
     sf_read chan;
     skip
   }"

definition ramp_saturate :: "u32 \<Rightarrow> int \<Rightarrow> int" where
  "ramp_saturate psc_resolution scaled_val =
     (if psc_resolution = 1 \<and> c_abs scaled_val > 2 ^ 20
      then (if scaled_val > 0 then 2 ^ 20 - 1 else - (2 ^ 20))
      else if psc_resolution = 0 \<and> c_abs scaled_val > 2 ^ 18
      then (if scaled_val > 0 then 2 ^ 18 - 1 else - (2 ^ 18))
      else scaled_val)"

definition write_ramptable ::
  "'w platform \<Rightarrow> u32 \<Rightarrow> byte list \<Rightarrow> u32 \<Rightarrow> (('w, 'x) ctl_scheme, unit) state" where
  "write_ramptable P chan msg msglen = do {
     let ramp_len = msglen div 4;
     if ramp_len > 50000 then skip
     else do {
       cwr P chan DAC_RAMPLEN_REG ramp_len;
       psc_resolution \<leftarrow> grd P RESOLUTION_REG;
       sf_read chan;
       for_each (\<lambda>i. do {
           conv \<leftarrow> gets CONVVOLTSTODACBITS;
           sf \<leftarrow> sf_read chan;
           let x = f32_val (htonl (load32 msg i));
           let scaled_val = ramp_saturate psc_resolution (dac_bits x conv (dac_dccts sf));
           cwr P chan DAC_RAMPADDR_REG (of_nat i);
           cwr P chan DAC_RAMPDATA_REG (of_int scaled_val)
         }) [0..<unat ramp_len]
     }
   }"

section \<open>Setpoints and smooth ramps\<close>

text \<open>The duration of a ramp in seconds: at least two seconds for the main dipole.\<close>

definition ramp_rate :: "ScaleFactorType \<Rightarrow> f32 \<Rightarrow> fp" where
  "ramp_rate sf conv =
     fp_mul single (fp_div single (f32_val (ampspersec sf)) (f32_val (dac_dccts sf))) (f32_val conv)"

definition ramp_duration :: "int \<Rightarrow> int \<Rightarrow> fp \<Rightarrow> u32 \<Rightarrow> fp" where
  "ramp_duration new_setpt cur_setpt rate maindipole_mode =
     (let d = fp_div single (fp_of_int single (c_abs (wrap32 (new_setpt - cur_setpt)))) rate;
          two = fp_of_int single 2
      in if fp_lt d two \<and> maindipole_mode = 1 then two else d)"

definition CORDIC_INIT_PHASE :: u32 where
  "CORDIC_INIT_PHASE = 421657300"

definition Calc_WriteRaisedCosineSmooth ::
  "'w platform \<Rightarrow> u32 \<Rightarrow> int \<Rightarrow> (('w, 'x) ctl_scheme, unit) state" where
  "Calc_WriteRaisedCosineSmooth P chan new_setpt = do {
     cur \<leftarrow> crd P chan DAC_CURRSETPT_REG;
     sf \<leftarrow> sf_read chan;
     conv \<leftarrow> gets CONVVOLTSTODACBITS;
     maindipole_mode \<leftarrow> grd P MAIN_DIPOLE_MODE_REG;
     let duration = ramp_duration new_setpt (sint cur) (ramp_rate sf conv) maindipole_mode;
     let num_samples = u32_of_fp (fp_mul double duration SAMPLERATE);
     (if num_samples = 0 then emit UB else skip);
     let phase_inc = fp_of_int single (uint (CORDIC_INIT_PHASE div num_samples));
     cwr P chan SMOOTH_PHASEINC_REG (u32_of_fp phase_inc);
     cwr P chan DAC_SETPT_REG (of_int new_setpt)
   }"

text \<open>\<open>llroundf\<close>: to the nearest integer, halves away from zero, kept in 64 bits.\<close>

fun fp_llround :: "fp \<Rightarrow> int" where
  "fp_llround FNaN = 0"
| "fp_llround (FInf s) = (if s then - (2 ^ 63) else 2 ^ 63 - 1)"
| "fp_llround (FFin s m e) =
     (let n = frac_num m e; d = frac_den 1 e; r = (2 * n + d) div (2 * d)
      in max (- (2 ^ 63)) (min (2 ^ 63 - 1) (if s then - r else r)))"

text \<open>
  A step size in the Q16.48 format of the ramp generator. A step of more than 511 bits is
  replaced by 0; the comparison converts the step to an \<open>int\<close> first. The product with \<open>2 ^ 48\<close>
  is passed to \<open>llroundf\<close> as a \<open>float\<close>.
\<close>

definition q16_48 :: "fp \<Rightarrow> int" where
  "q16_48 dy =
     (let dy = (if c_abs (s32_of_fp dy) > 511 then fp_of_int double 0 else dy)
      in fp_llround (fp_cast single (fp_mul double dy (fp_lit double (2 ^ 48) 1))))"

definition Calc_WriteLinearSmooth ::
  "'w platform \<Rightarrow> u32 \<Rightarrow> int \<Rightarrow> (('w, 'x) ctl_scheme, unit) state" where
  "Calc_WriteLinearSmooth P chan new_setpt = do {
     pc \<leftarrow> gets smoothramp_percentcurved;
     let percent_curved = fp_cast single (fp_div double (fp_of_int single (uint pc)) (fp_lit double 100 1));
     cur \<leftarrow> crd P chan DAC_CURRSETPT_REG;
     sf \<leftarrow> sf_read chan;
     conv \<leftarrow> gets CONVVOLTSTODACBITS;
     maindipole_mode \<leftarrow> grd P MAIN_DIPOLE_MODE_REG;
     let duration = ramp_duration new_setpt (sint cur) (ramp_rate sf conv) maindipole_mode;
     let linear_part = fp_sub single (fp_of_int single 1)
           (fp_mul single (fp_of_int single 2) percent_curved);
     let linear_pts = u32_of_fp (fp_mul double (fp_mul single linear_part duration) SAMPLERATE);
     let curved_pts = u32_of_fp (fp_mul double (fp_mul single percent_curved duration) SAMPLERATE);
     let dy = fp_div double (fp_of_int double (wrap32 (new_setpt - sint cur)))
           (fp_of_int double (uint (curved_pts + linear_pts)));
     let dy_per_curve_pt = fp_div double dy (fp_of_int double (uint curved_pts));
     cwr P chan SMOOTH_LINEAR_LEN_REG linear_pts;
     cwr P chan SMOOTH_CURVED_LEN_REG curved_pts;
     let dy_q16_48 = (of_int (q16_48 dy) :: u64);
     cwr P chan SMOOTH_DY_LO_REG (ucast dy_q16_48);
     cwr P chan SMOOTH_DY_HI_REG (ucast (drop_bit 32 dy_q16_48));
     let dy_per_pt_q16_48 = (of_int (q16_48 dy_per_curve_pt) :: u64);
     cwr P chan SMOOTH_DY_PER_PT_LO_REG (ucast dy_per_pt_q16_48);
     cwr P chan SMOOTH_DY_PER_PT_HI_REG (ucast (drop_bit 32 dy_per_pt_q16_48));
     cwr P chan DAC_SETPT_REG (of_int new_setpt)
   }"

definition Set_dacOpmode :: "'w platform \<Rightarrow> u32 \<Rightarrow> u32 \<Rightarrow> (('w, 'x) ctl_scheme, unit) state" where
  "Set_dacOpmode P chan new_opmode = do {
     (if new_opmode = DAC_JUMP then cwr P chan DAC_OPMODE_REG DAC_JUMP else skip);
     (if new_opmode = DAC_FOFB then do {
        sf \<leftarrow> sf_read chan;
        conv \<leftarrow> gets CONVVOLTSTODACBITS;
        cwr P chan FOFB_SCALEFACTOR_REG (fofb_scale (dac_dccts sf) conv);
        cwr P chan DAC_OPMODE_REG DAC_FOFB
      } else skip);
     (if new_opmode = DAC_SMOOTH \<or> new_opmode = DAC_RAMP
      then cwr P chan DAC_OPMODE_REG new_opmode else skip)
   }"

text \<open>The setpoint in amperes, kept within the range of the DAC.\<close>

definition saturate_amps :: "fp \<Rightarrow> f32 \<Rightarrow> fp" where
  "saturate_amps amps sf =
     (let hi = fp_mul double (fp_lit double 99999 10000) (f32_val sf);
          lo = fp_mul single (fp_of_int single (- 10)) (f32_val sf)
      in if fp_lt hi amps then fp_cast single hi
         else if fp_lt amps lo then lo
         else amps)"

definition polarity_bit :: "u32 \<Rightarrow> u32 \<Rightarrow> u32" where
  "polarity_bit polarity_reg chan = drop_bit (unat chan) polarity_reg AND 1"

definition new_setpoint :: "fp \<Rightarrow> f32 \<Rightarrow> f32 \<Rightarrow> u32 \<Rightarrow> int" where
  "new_setpoint amps conv sf polarity =
     (let new_setpt = dac_bits (saturate_amps amps sf) conv sf
      in if polarity = 1 \<and> new_setpt < 0 then 0 else new_setpt)"

definition Set_dac :: "'w platform \<Rightarrow> u32 \<Rightarrow> fp \<Rightarrow> (('w, 'x) ctl_scheme, unit) state" where
  "Set_dac P chan new_setpt_amps = do {
     dac_mode \<leftarrow> crd P chan DAC_OPMODE_REG;
     polarity_reg \<leftarrow> grd P POLARITY_REG;
     sf \<leftarrow> sf_read chan;
     conv \<leftarrow> gets CONVVOLTSTODACBITS;
     let new_setpt = new_setpoint new_setpt_amps conv (dac_dccts sf) (polarity_bit polarity_reg chan);
     ramp_type \<leftarrow> gets smoothramp_type;
     if dac_mode = DAC_SMOOTH then
       (if ramp_type = 1 then Calc_WriteRaisedCosineSmooth P chan new_setpt
        else Calc_WriteLinearSmooth P chan new_setpt)
     else if dac_mode = DAC_JUMP then cwr P chan DAC_SETPT_REG (of_int new_setpt)
     else skip
   }"

section \<open>Global settings\<close>

definition msg_addr :: "byte list \<Rightarrow> u32" where
  "msg_addr msg = htonl (load32 msg 0)"

definition msg_data :: "byte list \<Rightarrow> u32" where
  "msg_data msg = htonl (load32 msg 1)"

definition glob_settings :: "'w platform \<Rightarrow> byte list \<Rightarrow> (('w, 'x) ctl_scheme, unit) state" where
  "glob_settings P msg = (let addr = msg_addr msg; u = msg_data msg in
     if addr = SOFT_TRIG_MSG then soft_trig P u
     else if addr = TEST_TRIG_MSG then do { gwr P TESTTRIG u; gwr P TESTTRIG 0 }
     else if addr = FP_LED_MSG then set_fpleds P u
     else if addr = EVR_RESET_MSG then gwr P EVR_RESET_REG (if u = 1 then 0xFF else 0)
     else if addr = EVR_INJ_EVENTNUM_MSG then gwr P EVR_INJ_EVENTNUM_REG u
     else if addr = EVR_PM_EVENTNUM_MSG then gwr P EVR_PM_EVENTNUM_REG u
     else if addr = EVR_1HZ_EVENTNUM_MSG then gwr P EVR_1HZ_EVENTNUM_REG u
     else if addr = EVR_10HZ_EVENTNUM_MSG then gwr P EVR_10HZ_EVENTNUM_REG u
     else if addr = EVR_10KHZ_EVENTNUM_MSG then gwr P EVR_10KHZ_EVENTNUM_REG u
     else if addr = FOFB_IPADDR_MSG then gwr P FOFB_IPADDR_REG u
     else skip)"

section \<open>Channel settings\<close>

text \<open>A write of a scaled value, with the conversion factor and the channel's scale factors.\<close>

definition write_scaled ::
  "'w platform \<Rightarrow> u32 \<Rightarrow> u32 \<Rightarrow> (f32 \<Rightarrow> ScaleFactorType \<Rightarrow> int) \<Rightarrow> (('w, 'x) ctl_scheme, unit) state" where
  "write_scaled P chan r f = do {
     conv \<leftarrow> gets CONVVOLTSTODACBITS;
     sf \<leftarrow> sf_read chan;
     cwr P chan r (of_int (f conv sf))
   }"

text \<open>The saturation of the 16-bit thresholds.\<close>

definition sat16 :: "int \<Rightarrow> int" where
  "sat16 v = (if v \<ge> 32767 then 32767 else v)"

definition ok :: "('s, unit) state \<Rightarrow> ('s, unit option) state" where
  "ok m = do { m; State_Monad.return (Some ()) }"

definition dac_cases ::
  "'w platform \<Rightarrow> u32 \<Rightarrow> u32 \<Rightarrow> u32 \<Rightarrow> (('w, 'x) ctl_scheme, unit option) state \<Rightarrow>
     (('w, 'x) ctl_scheme, unit option) state" where
  "dac_cases P chan addr u other = (let f = f32_val u in
     if addr = DAC_OPMODE_MSG then ok (Set_dacOpmode P chan u)
     else if addr = DAC_SETPT_MSG then ok (do { sf_read chan; Set_dac P chan f })
     else if addr = DAC_RAMPLEN_MSG then ok (cwr P chan DAC_RAMPLEN_REG u)
     else if addr = DAC_RUNRAMP_MSG then ok (cwr P chan DAC_RUNRAMP_REG u)
     else if addr = DAC_SETPT_GAIN_MSG then ok (cwr P chan DAC_SETPT_GAIN_REG (gain_bits f))
     else if addr = DAC_SETPT_OFFSET_MSG then
       ok (write_scaled P chan DAC_SETPT_OFFSET_REG (\<lambda>conv sf. dac_bits f conv (dac_dccts sf)))
     else other)"

definition adc_cases ::
  "'w platform \<Rightarrow> u32 \<Rightarrow> u32 \<Rightarrow> u32 \<Rightarrow> (('w, 'x) ctl_scheme, unit option) state \<Rightarrow>
     (('w, 'x) ctl_scheme, unit option) state" where
  "adc_cases P chan addr u other = (let f = f32_val u in
     if addr = DCCT1_GAIN_MSG then ok (cwr P chan DCCT1_GAIN_REG (gain_bits f))
     else if addr = DCCT1_OFFSET_MSG then
       ok (write_scaled P chan DCCT1_OFFSET_REG (\<lambda>conv sf. dac_bits f conv (dac_dccts sf)))
     else if addr = DCCT2_GAIN_MSG then ok (cwr P chan DCCT2_GAIN_REG (gain_bits f))
     else if addr = DCCT2_OFFSET_MSG then
       ok (write_scaled P chan DCCT2_OFFSET_REG (\<lambda>conv sf. dac_bits f conv (dac_dccts sf)))
     else if addr = DACMON_GAIN_MSG then ok (cwr P chan DACMON_GAIN_REG (gain_bits f))
     else if addr = DACMON_OFFSET_MSG then
       ok (write_scaled P chan DACMON_OFFSET_REG (\<lambda>conv sf. mon_bits f (dac_dccts sf)))
     else if addr = VOLT_GAIN_MSG then ok (cwr P chan VOLT_GAIN_REG (gain_bits f))
     else if addr = VOLT_OFFSET_MSG then
       ok (write_scaled P chan VOLT_OFFSET_REG (\<lambda>conv sf. mon_bits f (vout sf)))
     else if addr = GND_GAIN_MSG then ok (cwr P chan GND_GAIN_REG (gain_bits f))
     else if addr = GND_OFFSET_MSG then
       ok (write_scaled P chan GND_OFFSET_REG (\<lambda>conv sf. mon_bits f (ignd sf)))
     else if addr = SPARE_GAIN_MSG then ok (cwr P chan SPARE_GAIN_REG (gain_bits f))
     else if addr = SPARE_OFFSET_MSG then
       ok (write_scaled P chan SPARE_OFFSET_REG (\<lambda>conv sf. mon_bits f (spare sf)))
     else if addr = REG_GAIN_MSG then ok (cwr P chan REG_GAIN_REG (gain_bits f))
     else if addr = REG_OFFSET_MSG then
       ok (write_scaled P chan REG_OFFSET_REG (\<lambda>conv sf. mon_bits f (regulator sf)))
     else if addr = ERR_GAIN_MSG then ok (cwr P chan ERR_GAIN_REG (gain_bits f))
     else if addr = ERR_OFFSET_MSG then
       ok (write_scaled P chan ERR_OFFSET_REG (\<lambda>conv sf. mon_bits f (error_sf sf)))
     else other)"

definition thresh_cases ::
  "'w platform \<Rightarrow> u32 \<Rightarrow> u32 \<Rightarrow> u32 \<Rightarrow> (('w, 'x) ctl_scheme, unit option) state \<Rightarrow>
     (('w, 'x) ctl_scheme, unit option) state" where
  "thresh_cases P chan addr u other = (let f = f32_val u in
     if addr = OVC1_THRESH_MSG then
       ok (write_scaled P chan OVC1_THRESH_REG (\<lambda>conv sf. dac_thresh f conv (dac_dccts sf)))
     else if addr = OVC2_THRESH_MSG then
       ok (write_scaled P chan OVC2_THRESH_REG (\<lambda>conv sf. dac_thresh f conv (dac_dccts sf)))
     else if addr = OVV_THRESH_MSG then
       ok (write_scaled P chan OVV_THRESH_REG (\<lambda>conv sf. sat16 (mon_thresh f (vout sf))))
     else if addr = ERR1_THRESH_MSG then
       ok (write_scaled P chan ERR1_THRESH_REG (\<lambda>conv sf. sat16 (mon_thresh f (error_sf sf))))
     else if addr = ERR2_THRESH_MSG then
       ok (write_scaled P chan ERR2_THRESH_REG (\<lambda>conv sf. sat16 (mon_thresh f (error_sf sf))))
     else if addr = IGND_THRESH_MSG then
       ok (write_scaled P chan IGND_THRESH_REG (\<lambda>conv sf. sat16 (mon_thresh f (ignd sf))))
     else other)"

definition cntlim_cases ::
  "'w platform \<Rightarrow> u32 \<Rightarrow> u32 \<Rightarrow> u32 \<Rightarrow> (('w, 'x) ctl_scheme, unit option) state \<Rightarrow>
     (('w, 'x) ctl_scheme, unit option) state" where
  "cntlim_cases P chan addr u other = (let n = of_int (cnt_samples (f32_val u)) in
     if addr = OVC1_CNTLIM_MSG then ok (cwr P chan OVC1_CNTLIM_REG n)
     else if addr = OVC2_CNTLIM_MSG then ok (cwr P chan OVC2_CNTLIM_REG n)
     else if addr = OVV_CNTLIM_MSG then ok (cwr P chan OVV_CNTLIM_REG n)
     else if addr = ERR1_CNTLIM_MSG then ok (cwr P chan ERR1_CNTLIM_REG n)
     else if addr = ERR2_CNTLIM_MSG then ok (cwr P chan ERR2_CNTLIM_REG n)
     else if addr = IGND_CNTLIM_MSG then ok (cwr P chan IGND_CNTLIM_REG n)
     else if addr = DCCT_CNTLIM_MSG then ok (cwr P chan DCCT_CNTLIM_REG n)
     else if addr = FLT1_CNTLIM_MSG then ok (cwr P chan FLT1_CNTLIM_REG n)
     else if addr = FLT2_CNTLIM_MSG then ok (cwr P chan FLT2_CNTLIM_REG n)
     else if addr = FLT3_CNTLIM_MSG then ok (cwr P chan FLT3_CNTLIM_REG n)
     else if addr = ON_CNTLIM_MSG then ok (cwr P chan ON_CNTLIM_REG n)
     else if addr = HEART_CNTLIM_MSG then ok (cwr P chan HEARTBEAT_CNTLIM_REG n)
     else other)"

definition fault_clear :: "'w platform \<Rightarrow> u32 \<Rightarrow> u32 \<Rightarrow> (('w, 'x) core_scheme, unit) state" where
  "fault_clear P chan u = do {
     val \<leftarrow> grd P MAIN_DIPOLE_MODE_REG;
     if val = 1 then do {
       cwr P 1 FAULT_CLEAR_REG u;
       cwr P 2 FAULT_CLEAR_REG u;
       cwr P 3 FAULT_CLEAR_REG u;
       cwr P 4 FAULT_CLEAR_REG u
     }
     else cwr P chan FAULT_CLEAR_REG u
   }"

definition digital_cases ::
  "'w platform \<Rightarrow> u32 \<Rightarrow> u32 \<Rightarrow> u32 \<Rightarrow> (('w, 'x) ctl_scheme, unit option) state \<Rightarrow>
     (('w, 'x) ctl_scheme, unit option) state" where
  "digital_cases P chan addr u other = (
     if addr = FAULT_CLEAR_MSG then ok (fault_clear P chan u)
     else if addr = FAULT_MASK_MSG then ok (cwr P chan FAULT_MASK_REG u)
     else if addr = DIGOUT_ON1_MSG then ok (cwr P chan DIGOUT_ON1_REG u)
     else if addr = DIGOUT_ON2_MSG then ok (cwr P chan DIGOUT_ON2_REG u)
     else if addr = DIGOUT_RESET_MSG then ok (cwr P chan DIGOUT_RESET_REG u)
     else if addr = DIGOUT_SPARE_MSG then ok (cwr P chan DIGOUT_SPARE_REG u)
     else if addr = DIGOUT_PARK_MSG then ok (cwr P chan DIGOUT_PARK_REG u)
     else other)"

definition scale_cases ::
  "'w platform \<Rightarrow> u32 \<Rightarrow> u32 \<Rightarrow> u32 \<Rightarrow> (('w, 'x) ctl_scheme, unit option) state \<Rightarrow>
     (('w, 'x) ctl_scheme, unit option) state" where
  "scale_cases P chan addr u other = (
     if addr = SF_AMPS_PER_SEC_MSG then ok (sf_write chan (\<lambda>sf. sf\<lparr>ampspersec := u\<rparr>))
     else if addr = SF_DAC_DCCTS_MSG then ok (do {
       sf_write chan (\<lambda>sf. sf\<lparr>dac_dccts := u\<rparr>);
       conv \<leftarrow> gets CONVVOLTSTODACBITS;
       cwr P chan FOFB_SCALEFACTOR_REG (fofb_scale u conv)
     })
     else if addr = SF_VOUT_MSG then ok (sf_write chan (\<lambda>sf. sf\<lparr>vout := u\<rparr>))
     else if addr = SF_IGND_MSG then ok (sf_write chan (\<lambda>sf. sf\<lparr>ignd := u\<rparr>))
     else if addr = SF_SPARE_MSG then ok (sf_write chan (\<lambda>sf. sf\<lparr>spare := u\<rparr>))
     else if addr = SF_REGULATOR_MSG then ok (sf_write chan (\<lambda>sf. sf\<lparr>regulator := u\<rparr>))
     else if addr = SF_ERROR_MSG then ok (sf_write chan (\<lambda>sf. sf\<lparr>error_sf := u\<rparr>))
     else other)"

definition write_qspi :: "'w platform \<Rightarrow> u32 \<Rightarrow> (('w, 'x) ctl_scheme, unit option) state" where
  "write_qspi P chan = do {
     qspibuf \<leftarrow> stack_bytes P FLASH_PAGE_SIZE;
     e \<leftarrow> QspiFlashEraseSect P chan;
     case e of
       None \<Rightarrow> State_Monad.return None
     | Some _ \<Rightarrow> do {
         qspibuf \<leftarrow> QspiGatherData P chan qspibuf;
         w \<leftarrow> QspiFlashWrite P (chan * FLASH_SECTOR_SIZE) FLASH_PAGE_SIZE qspibuf;
         case w of
           None \<Rightarrow> State_Monad.return None
         | Some _ \<Rightarrow> do {
             qspibuf \<leftarrow> QspiFlashRead P (chan * FLASH_SECTOR_SIZE) FLASH_PAGE_SIZE;
             ok (QspiDisperseData P chan qspibuf)
           }
       }
   }"

definition read_qspi :: "'w platform \<Rightarrow> u32 \<Rightarrow> (('w, 'x) ctl_scheme, unit) state" where
  "read_qspi P chan = do {
     qspibuf \<leftarrow> QspiFlashRead P (chan * FLASH_SECTOR_SIZE) FLASH_PAGE_SIZE;
     QspiDisperseData P chan qspibuf
   }"

definition misc_cases ::
  "'w platform \<Rightarrow> u32 \<Rightarrow> u32 \<Rightarrow> u32 \<Rightarrow> (('w, 'x) ctl_scheme, unit option) state \<Rightarrow>
     (('w, 'x) ctl_scheme, unit option) state" where
  "misc_cases P chan addr u other = (
     if addr = FOFB_FASTADDR_MSG then ok (cwr P chan FOFB_FASTADDR_REG u)
     else if addr = USR_TRIG_MSG then
       ok (if u = 1 then soft_trig P (push_bit (unat (chan - 1)) 1) else skip)
     else if addr = AVE_MODE_MSG then ok (cwr P chan AVEMODE_REG u)
     else if addr = WRITE_QSPI_MSG then
       (if u = 1 then write_qspi P chan else State_Monad.return (Some ()))
     else if addr = READ_QSPI_MSG then ok (if u = 1 then read_qspi P chan else skip)
     else if addr = DUMP_ADCS_MSG then ok (dump_adcs P chan)
     else other)"

definition chan_settings ::
  "'w platform \<Rightarrow> u32 \<Rightarrow> byte list \<Rightarrow> u32 \<Rightarrow> (('w, 'x) ctl_scheme, unit option) state" where
  "chan_settings P chan msg msglen = (let addr = msg_addr msg; u = msg_data msg in
     dac_cases P chan addr u
      (adc_cases P chan addr u
        (thresh_cases P chan addr u
          (cntlim_cases P chan addr u
            (digital_cases P chan addr u
              (scale_cases P chan addr u
                (misc_cases P chan addr u
                  (State_Monad.return (Some ())))))))))"

end
