(* ===== verification/Periodic.thy ===== *)
theory Periodic
  imports Snapshots Control
begin

text \<open>
  The periodic work of the network thread: slow acquisition data (sadata.c), beam position
  controller data (bpc.c), system statistics (lstats.c) and their schedule (pscdata.c).

  What the statistics report about the operating system, the network stack and the sensors
  comes from a parameter, \<open>sysinfo\<close>. The fields of a C struct that no statement assigns have
  whatever the stack held.
\<close>

record 'w sched = "'w snap" +
  sadata_msg :: "byte list"
  bpc_msg :: "u32 list"
  last_fast :: u32
  last_slow :: u32
  bpc_enabled :: bool
  xmon_IsReady :: bool
  git_hash :: u32

record 'w sysinfo =
  uxTaskGetNumberOfTasks :: "'w \<Rightarrow> u32"
  lwip_link_stats :: "'w \<Rightarrow> u32 list"
  lwip_mem_stats :: "'w \<Rightarrow> u32 list"
  heap_available :: "'w \<Rightarrow> u32"
  heap_minimum :: "'w \<Rightarrow> u32"
  heap_largest :: "'w \<Rightarrow> u32"
  heap_allocations :: "'w \<Rightarrow> u32"
  heap_frees :: "'w \<Rightarrow> u32"
  XSysMon_temp :: "'w \<Rightarrow> f32"
  XSysMon_vccint :: "'w \<Rightarrow> f32"
  XSysMon_vccaux :: "'w \<Rightarrow> f32"
  XSysMon_setup :: "'w \<Rightarrow> bool \<times> 'w"
  inet_ntoa_server :: "'w \<Rightarrow> byte list"
  sys_thread_console :: "'w \<Rightarrow> 'w"

section \<open>Slow acquisition data\<close>

definition sa_gain :: "u32 \<Rightarrow> f32" where
  "sa_gain w = f32_bits (fp_cast single (fp_div double (fp_of_int double (sint w)) GAIN20BITFRACT))"

definition sa_dac :: "fp \<Rightarrow> f32 \<Rightarrow> f32 \<Rightarrow> f32" where
  "sa_dac x conv sf = f32_bits (fp_mul single (fp_mul single x (f32_val conv)) (f32_val sf))"

definition sa_mon :: "fp \<Rightarrow> f32 \<Rightarrow> f32" where
  "sa_mon x sf =
     f32_bits (fp_cast single (fp_mul double (fp_mul double x CONV16BITSTOVOLTS) (f32_val sf)))"

definition sa_dac_thresh :: "u32 \<Rightarrow> f32 \<Rightarrow> f32 \<Rightarrow> f32" where
  "sa_dac_thresh w conv sf =
     f32_bits (fp_cast single
       (fp_mul double (fp_mul single (fp_of_int single (sint w)) (f32_val conv)) (fp_abs (f32_val sf))))"

definition sa_mon_thresh :: "u32 \<Rightarrow> f32 \<Rightarrow> f32" where
  "sa_mon_thresh w sf =
     f32_bits (fp_cast single
       (fp_mul double (fp_mul double (fp_of_int double (uint w)) CONV16BITSTOVOLTS) (fp_abs (f32_val sf))))"

definition sa_cntlim :: "u32 \<Rightarrow> f32" where
  "sa_cntlim w = f32_bits (fp_cast single (fp_div double (fp_of_int double (uint w)) SAMPLERATE))"

definition sa_freq :: "u32 \<Rightarrow> f32" where
  "sa_freq w =
     f32_bits (fp_cast single (fp_div double (fp_of_int double 1)
       (fp_mul double (fp_of_int single (uint w)) (fp_lit double 10 1000000000))))"

text \<open>The first 25 words of the message; \<open>stk\<close> is the struct before any assignment.\<close>

definition sa_header :: "'w platform \<Rightarrow> byte list \<Rightarrow> (('w, 'x) core_scheme, u32 list) state" where
  "sa_header P stk = do {
     resolution \<leftarrow> grd P RESOLUTION_REG;
     numchans \<leftarrow> grd P NUMCHANS_REG;
     polarity \<leftarrow> grd P POLARITY_REG;
     bandwidth \<leftarrow> grd P BANDWIDTH_REG;
     ch34_dualmode \<leftarrow> grd P CH34_DUALMODE_REG;
     main_dipole_mode \<leftarrow> grd P MAIN_DIPOLE_MODE_REG;
     git_shasum \<leftarrow> grd P PRJ_SHASUM;
     evr_ts_s \<leftarrow> grd P EVR_TS_S_REG;
     evr_ts_ns \<leftarrow> grd P EVR_TS_NS_REG;
     fofb_pktsrcvd \<leftarrow> grd P FOFB_PACKETS_RCVD_REG;
     fofb_command \<leftarrow> grd P FOFB_COMMAND_REG;
     fofb_nonce \<leftarrow> grd P FOFB_NONCE_REG;
     tenkhz \<leftarrow> grd P TENKHZ_FREQ_REG;
     onehz \<leftarrow> grd P ONEHZ_FREQ_REG;
     State_Monad.return
       ([numchans, evr_ts_ns, evr_ts_s, resolution, git_shasum,
         load32 stk 5, load32 stk 6, load32 stk 7, bandwidth, polarity,
         fofb_pktsrcvd, fofb_command, fofb_nonce, sa_freq tenkhz, sa_freq onehz,
         ch34_dualmode, main_dipole_mode] @ map (load32 stk) [17..<25])
   }"

text \<open>A monitored quantity with its offset and gain, for the DAC scale and for the 16-bit scale.\<close>

definition sa_dac_triple ::
  "'w platform \<Rightarrow> u32 \<Rightarrow> u32 \<Rightarrow> u32 \<Rightarrow> u32 \<Rightarrow> u32 \<Rightarrow> (('w, 'x) ctl_scheme, u32 list) state" where
  "sa_dac_triple P chan ave_mode r ro rg = do {
     v \<leftarrow> ReadAccumSA P (chan_addr P chan r) ave_mode;
     conv \<leftarrow> gets CONVDACBITSTOVOLTS;
     sf \<leftarrow> sf_read chan;
     off \<leftarrow> crd P chan ro;
     g \<leftarrow> crd P chan rg;
     State_Monad.return [sa_dac v conv (dac_dccts sf),
       sa_dac (fp_of_int single (sint off)) conv (dac_dccts sf), sa_gain g]
   }"

definition sa_mon_triple ::
  "'w platform \<Rightarrow> u32 \<Rightarrow> u32 \<Rightarrow> (ScaleFactorType \<Rightarrow> f32) \<Rightarrow> u32 \<Rightarrow> u32 \<Rightarrow> u32 \<Rightarrow>
     (('w, 'x) ctl_scheme, u32 list) state" where
  "sa_mon_triple P chan ave_mode sel r ro rg = do {
     v \<leftarrow> ReadAccumSA P (chan_addr P chan r) ave_mode;
     sf \<leftarrow> sf_read chan;
     off \<leftarrow> crd P chan ro;
     g \<leftarrow> crd P chan rg;
     State_Monad.return [sa_mon v (sel sf), sa_mon (fp_of_int double (sint off)) (sel sf), sa_gain g]
   }"

definition sa_monitors :: "'w platform \<Rightarrow> u32 \<Rightarrow> (('w, 'x) ctl_scheme, u32 list) state" where
  "sa_monitors P chan = do {
     ave_mode \<leftarrow> crd P chan AVEMODE_REG;
     dcct1 \<leftarrow> sa_dac_triple P chan ave_mode DCCT1_REG DCCT1_OFFSET_REG DCCT1_GAIN_REG;
     dcct2 \<leftarrow> sa_dac_triple P chan ave_mode DCCT2_REG DCCT2_OFFSET_REG DCCT2_GAIN_REG;
     dacmon \<leftarrow> sa_mon_triple P chan ave_mode dac_dccts DACMON_REG DACMON_OFFSET_REG DACMON_GAIN_REG;
     volt \<leftarrow> sa_mon_triple P chan ave_mode vout VOLT_REG VOLT_OFFSET_REG VOLT_GAIN_REG;
     gnd \<leftarrow> sa_mon_triple P chan ave_mode ignd GND_REG GND_OFFSET_REG GND_GAIN_REG;
     spr \<leftarrow> sa_mon_triple P chan ave_mode spare SPARE_REG SPARE_OFFSET_REG SPARE_GAIN_REG;
     reg \<leftarrow> sa_mon_triple P chan ave_mode regulator REG_REG REG_OFFSET_REG REG_GAIN_REG;
     er \<leftarrow> sa_mon_triple P chan ave_mode error_sf ERR_REG ERR_OFFSET_REG ERR_GAIN_REG;
     State_Monad.return (dcct1 @ dcct2 @ dacmon @ volt @ gnd @ spr @ reg @ er)
   }"

text \<open>The 75 words of a channel. The raw setpoint is read early and stored near the end.\<close>

definition sa_channel ::
  "'w platform \<Rightarrow> byte list \<Rightarrow> nat \<Rightarrow> (('w, 'x) ctl_scheme, u32 list) state" where
  "sa_channel P stk n = do {
     let chan = of_nat n + 1;
     monitors \<leftarrow> sa_monitors P chan;
     conv \<leftarrow> gets CONVDACBITSTOVOLTS;
     sf \<leftarrow> sf_read chan;
     setpt \<leftarrow> crd P chan DAC_CURRSETPT_REG;
     setpt_raw \<leftarrow> crd P chan DAC_CURRSETPT_REG;
     setpt_offset \<leftarrow> crd P chan DAC_SETPT_OFFSET_REG;
     setpt_gain \<leftarrow> crd P chan DAC_SETPT_GAIN_REG;
     rampactive \<leftarrow> crd P chan DAC_RAMPACTIVE_REG;
     ovc1 \<leftarrow> crd P chan OVC1_THRESH_REG;
     ovc2 \<leftarrow> crd P chan OVC2_THRESH_REG;
     ovv \<leftarrow> crd P chan OVV_THRESH_REG;
     err1 \<leftarrow> crd P chan ERR1_THRESH_REG;
     err2 \<leftarrow> crd P chan ERR2_THRESH_REG;
     gndt \<leftarrow> crd P chan IGND_THRESH_REG;
     cntlims \<leftarrow> map_each (\<lambda>r. crd P chan r)
       [OVC1_CNTLIM_REG, OVC2_CNTLIM_REG, OVV_CNTLIM_REG, ERR1_CNTLIM_REG, ERR2_CNTLIM_REG,
        IGND_CNTLIM_REG, DCCT_CNTLIM_REG, FLT1_CNTLIM_REG, FLT2_CNTLIM_REG, FLT3_CNTLIM_REG,
        ON_CNTLIM_REG, HEARTBEAT_CNTLIM_REG];
     digital \<leftarrow> map_each (\<lambda>r. crd P chan r)
       [FAULT_CLEAR_REG, FAULT_MASK_REG, DIGOUT_ON1_REG, DIGOUT_ON1_REG, DIGOUT_ON1_REG,
        DIGOUT_RESET_REG, DIGOUT_PARK_REG, DIGIN_REG, FAULTS_LIVE_REG, FAULTS_LAT_REG];
     fofb_dacsetpt \<leftarrow> crd P chan FOFB_DACSETPT_REG;
     State_Monad.return
       (monitors @
        [sa_dac (fp_of_int single (sint setpt)) conv (dac_dccts sf),
         sa_dac (fp_of_int single (sint setpt_offset)) conv (dac_dccts sf),
         sa_gain setpt_gain, rampactive,
         sa_dac_thresh ovc1 conv (dac_dccts sf), sa_dac_thresh ovc2 conv (dac_dccts sf),
         sa_mon_thresh ovv (vout sf), sa_mon_thresh err1 (error_sf sf),
         sa_mon_thresh err2 (error_sf sf), sa_mon_thresh gndt (ignd sf)] @
        map sa_cntlim cntlims @ digital @
        [ampspersec sf, dac_dccts sf, vout sf, ignd sf, spare sf, regulator sf, error_sf sf,
         setpt_raw, fofb_dacsetpt] @
        map (\<lambda>i. load32 stk (25 + 75 * n + i)) [65..<75])
   }"

definition SADATA_SIZE :: nat where
  "SADATA_SIZE = 1300"

definition sadata_send ::
  "'w platform \<Rightarrow> ('w, 'x) sched_scheme psc_config \<Rightarrow> (('w, 'x) sched_scheme, unit) state" where
  "sadata_send P conf = do {
     gwr P TENHZ_DATASEND_REG 1;
     gwr P TENHZ_DATASEND_REG 0;
     stk \<leftarrow> stack_bytes P SADATA_SIZE;
     header \<leftarrow> sa_header P stk;
     ps \<leftarrow> map_each (sa_channel P stk) [0..<4];
     let sadata = concat (map le32 (header @ concat ps));
     modify (\<lambda>s. s\<lparr>sadata_msg := hton_conv (overwrite sadata (sadata_msg s)) (length sadata)\<rparr>);
     msg \<leftarrow> gets sadata_msg;
     psc_send P conf 31 1400 msg
   }"

section \<open>Beam position controller data\<close>

definition bpc_init :: "'w platform \<Rightarrow> (('w, 'x) core_scheme, unit) state" where
  "bpc_init P = do {
     crd P 1 MANCH_FIFO_WDCNT_REG;
     crd P 1 MANCH_FIFO_DATA_REG;
     cwr P 1 MANCH_FIFO_RESET_REG 1;
     cwr P 1 MANCH_FIFO_RESET_REG 0
   }"

definition bpc_send ::
  "'w platform \<Rightarrow> ('w, 'x) sched_scheme psc_config \<Rightarrow> (('w, 'x) sched_scheme, unit) state" where
  "bpc_send P conf = do {
     numwords \<leftarrow> crd P 1 MANCH_FIFO_WDCNT_REG;
     (if numwords \<ge> 62 then do {
        data \<leftarrow> map_each (\<lambda>_. crd P 1 MANCH_FIFO_DATA_REG) [0..<62::nat];
        modify (\<lambda>s. s\<lparr>bpc_msg := map htonf (drop 2 data)\<rparr>);
        cwr P 1 MANCH_FIFO_RESET_REG 1;
        cwr P 1 MANCH_FIFO_RESET_REG 0
      } else skip);
     msg \<leftarrow> gets bpc_msg;
     psc_send P conf 15 240 (concat (map le32 msg))
   }"

section \<open>Statistics\<close>

definition lstats_words :: "'w sysinfo \<Rightarrow> u32 \<Rightarrow> ('w, 'x) sched_scheme \<Rightarrow> u32 list" where
  "lstats_words S uptime s =
     (let w = world s in
      [count_reading uptime, uxTaskGetNumberOfTasks S w] @ lwip_link_stats S w @ lwip_mem_stats S w @
      (if xmon_IsReady s then [XSysMon_temp S w, XSysMon_vccint S w, XSysMon_vccaux S w] else [0, 0, 0]) @
      [heap_available S w, heap_largest S w, heap_minimum S w, heap_allocations S w - heap_frees S w])"

definition strncpy16 :: "byte list \<Rightarrow> byte list" where
  "strncpy16 txt = take 16 (takeWhile (\<lambda>b. b \<noteq> 0) txt @ replicate 16 0)"

definition lstats_send ::
  "'w platform \<Rightarrow> 'w sysinfo \<Rightarrow> ('w, 'x) sched_scheme psc_config \<Rightarrow> (('w, 'x) sched_scheme, unit) state" where
  "lstats_send P S conf = do {
     uptime \<leftarrow> grd P LIVE_TIME_REG;
     ws \<leftarrow> gets (lstats_words S uptime);
     ip_addr \<leftarrow> gets (\<lambda>s. strncpy16 (inet_ntoa_server S (world s)));
     psc_send P conf 11 16 ip_addr;
     psc_send P conf 10 84 (concat (map (\<lambda>w. le32 (htonl w)) ws))
   }"

definition lstats_init :: "'w sysinfo \<Rightarrow> (('w, 'x) sched_scheme, unit) state" where
  "lstats_init S = do {
     ready \<leftarrow> call (XSysMon_setup S) (\<lambda>_. []);
     modify (\<lambda>s. s\<lparr>xmon_IsReady := ready\<rparr>)
   }"

section \<open>The schedule\<close>

definition FAST_PERIOD_MS :: u32 where "FAST_PERIOD_MS = 100"
definition SLOW_PERIOD_MS :: u32 where "SLOW_PERIOD_MS = 500"

definition pscdata_init :: "'w platform \<Rightarrow> 'w sysinfo \<Rightarrow> (('w, 'x) sched_scheme, unit) state" where
  "pscdata_init P S = do {
     now \<leftarrow> xTaskGetTickCount P;
     modify (\<lambda>s. s\<lparr>last_fast := now, last_slow := now\<rparr>);
     lstats_init S;
     snapshot_init;
     polarity \<leftarrow> grd P POLARITY_REG;
     modify (\<lambda>s. s\<lparr>bpc_enabled := (polarity = 0)\<rparr>);
     en \<leftarrow> gets bpc_enabled;
     if en then bpc_init P else skip
   }"

definition slow_work ::
  "'w platform \<Rightarrow> 'w sysinfo \<Rightarrow> ('w, 'x) sched_scheme psc_config \<Rightarrow> (('w, 'x) sched_scheme, unit) state" where
  "slow_work P S conf = do {
     lstats_send P S conf;
     en \<leftarrow> gets bpc_enabled;
     if en then bpc_send P conf else skip
   }"

definition pscdata_poll ::
  "'w platform \<Rightarrow> 'w sysinfo \<Rightarrow> ('w, 'x) sched_scheme psc_config \<Rightarrow> (('w, 'x) sched_scheme, unit) state" where
  "pscdata_poll P S conf = do {
     now \<leftarrow> xTaskGetTickCount P;
     let fast_ticks = pdMS_TO_TICKS P FAST_PERIOD_MS;
     let slow_ticks = pdMS_TO_TICKS P SLOW_PERIOD_MS;
     fast \<leftarrow> gets last_fast;
     if now - fast < fast_ticks then skip
     else do {
       modify (\<lambda>s. s\<lparr>last_fast := now\<rparr>);
       sadata_send P conf;
       slow \<leftarrow> gets last_slow;
       (if now - slow \<ge> slow_ticks then do {
          modify (\<lambda>s. s\<lparr>last_slow := now\<rparr>);
          slow_work P S conf
        } else skip);
       snapshot_process P conf
     }
   }"

section \<open>Relations the periodic work keeps\<close>

text \<open>
  The contract for relations on the state of the periodic work: kept by register accesses,
  sends and the updates of its own variables, they are kept by all of it but the snapshots,
  which are an assumption here.
\<close>

locale periodic_io = io_preorder R
  for R :: "('w, 'x) sched_scheme \<Rightarrow> ('w, 'x) sched_scheme \<Rightarrow> bool" +
  fixes P :: "'w platform"
    and conf :: "('w, 'x) sched_scheme psc_config"
  assumes rd: "state_io_rel R (Xil_In32 P a)"
    and wr: "state_io_rel R (Xil_Out32 P a v)"
    and sfr: "valid_chan ch \<Longrightarrow> state_io_rel R (sf_read ch)"
    and snd_rel: "state_io_rel R (psc_send P conf mid mlen msg)"
    and tick: "state_io_rel R (xTaskGetTickCount P)"
    and own: "state_io_rel R (modify (\<lambda>s. s\<lparr>sadata_msg := g s\<rparr>))"
      "state_io_rel R (modify (\<lambda>s. s\<lparr>bpc_msg := ws\<rparr>))"
      "state_io_rel R (modify (\<lambda>s. s\<lparr>last_fast := v\<rparr>))"
      "state_io_rel R (modify (\<lambda>s. s\<lparr>last_slow := v\<rparr>))"
    and snaps: "state_io_rel R (snapshot_process P conf)"
begin

lemma stack_rel: "state_io_rel R (stack_bytes P n)"
  by (simp add: stack_bytes_def io_gets)

lemma accum_rel: "state_io_rel R (ReadAccumSA P a m)"
  unfolding ReadAccumSA_def by (intro io_structure rd)

lemmas sched_steps = io_structure rd wr snd_rel tick own stack_rel accum_rel sfr

lemma channel_rel: "n < 4 \<Longrightarrow> state_io_rel R (sa_channel P stk n)"
proof -
  assume "n < 4"
  then have "n = 0 \<or> n = 1 \<or> n = 2 \<or> n = 3" by linarith
  then have "valid_chan (of_nat n + 1)" by (auto simp: valid_chan_def)
  then show ?thesis
    unfolding sa_channel_def sa_monitors_def sa_dac_triple_def sa_mon_triple_def Let_def
    by (intro sched_steps)
qed

lemma channels_rel: "\<forall>n\<in>set ns. n < 4 \<Longrightarrow> state_io_rel R (map_each (sa_channel P stk) ns)"
  by (induction ns) (auto intro!: io_structure channel_rel)

lemma sadata_rel: "state_io_rel R (sadata_send P conf)"
  unfolding sadata_send_def sa_header_def Let_def
  by (intro sched_steps channels_rel) simp

lemma poll_rel: "state_io_rel R (pscdata_poll P S conf)"
  unfolding pscdata_poll_def slow_work_def lstats_send_def bpc_send_def Let_def
  by (intro sched_steps sadata_rel snaps)

end

end
