(* ===== verification/Control_Props.thy ===== *)
theory Control_Props
  imports Control
begin

text \<open>
  What the control messages do to the outside.

  \<open>chan_io\<close> is the contract between the handlers and the relations proved of them: a relation
  on states that holds of every primitive step a channel's handlers may take holds of every
  handler. Its interpretations give the confinement of the register writes, the absence of
  undefined behaviour, and the frames the server loop relies on.
\<close>

section \<open>Registers the handlers write\<close>

lemma handler_regs [simp]:
  "DAC_OPMODE_REG \<in> set chan_regs" "DAC_SETPT_REG \<in> set chan_regs"
  "DAC_RAMPLEN_REG \<in> set chan_regs" "DAC_RAMPADDR_REG \<in> set chan_regs"
  "DAC_RAMPDATA_REG \<in> set chan_regs" "DAC_RUNRAMP_REG \<in> set chan_regs"
  "FOFB_SCALEFACTOR_REG \<in> set chan_regs" "FOFB_FASTADDR_REG \<in> set chan_regs"
  "SMOOTH_PHASEINC_REG \<in> set chan_regs" "SMOOTH_LINEAR_LEN_REG \<in> set chan_regs"
  "SMOOTH_CURVED_LEN_REG \<in> set chan_regs" "SMOOTH_DY_LO_REG \<in> set chan_regs"
  "SMOOTH_DY_HI_REG \<in> set chan_regs" "SMOOTH_DY_PER_PT_LO_REG \<in> set chan_regs"
  "SMOOTH_DY_PER_PT_HI_REG \<in> set chan_regs" "AVEMODE_REG \<in> set chan_regs"
  "FAULT_CLEAR_REG \<in> set chan_regs" "DIGOUT_ON1_REG \<in> set chan_regs"
  "DIGOUT_ON2_REG \<in> set chan_regs" "DIGOUT_RESET_REG \<in> set chan_regs"
  "DIGOUT_SPARE_REG \<in> set chan_regs" "DIGOUT_PARK_REG \<in> set chan_regs"
  by (simp_all add: chan_regs_def)

lemma qspi_field_regs: "r \<in> set qspi_fields \<Longrightarrow> r \<in> set chan_regs"
  using qspi_fields_chan by auto

lemma qspi_field_reg [simp]:
  "DAC_SETPT_GAIN_REG \<in> set chan_regs" "DAC_SETPT_OFFSET_REG \<in> set chan_regs"
  "DCCT1_GAIN_REG \<in> set chan_regs" "DCCT1_OFFSET_REG \<in> set chan_regs"
  "DCCT2_GAIN_REG \<in> set chan_regs" "DCCT2_OFFSET_REG \<in> set chan_regs"
  "DACMON_GAIN_REG \<in> set chan_regs" "DACMON_OFFSET_REG \<in> set chan_regs"
  "VOLT_GAIN_REG \<in> set chan_regs" "VOLT_OFFSET_REG \<in> set chan_regs"
  "GND_GAIN_REG \<in> set chan_regs" "GND_OFFSET_REG \<in> set chan_regs"
  "SPARE_GAIN_REG \<in> set chan_regs" "SPARE_OFFSET_REG \<in> set chan_regs"
  "REG_GAIN_REG \<in> set chan_regs" "REG_OFFSET_REG \<in> set chan_regs"
  "ERR_GAIN_REG \<in> set chan_regs" "ERR_OFFSET_REG \<in> set chan_regs"
  "OVC1_THRESH_REG \<in> set chan_regs" "OVC2_THRESH_REG \<in> set chan_regs"
  "OVV_THRESH_REG \<in> set chan_regs" "ERR1_THRESH_REG \<in> set chan_regs"
  "ERR2_THRESH_REG \<in> set chan_regs" "IGND_THRESH_REG \<in> set chan_regs"
  "OVC1_CNTLIM_REG \<in> set chan_regs" "OVC2_CNTLIM_REG \<in> set chan_regs"
  "OVV_CNTLIM_REG \<in> set chan_regs" "ERR1_CNTLIM_REG \<in> set chan_regs"
  "ERR2_CNTLIM_REG \<in> set chan_regs" "IGND_CNTLIM_REG \<in> set chan_regs"
  "DCCT_CNTLIM_REG \<in> set chan_regs" "FLT1_CNTLIM_REG \<in> set chan_regs"
  "FLT2_CNTLIM_REG \<in> set chan_regs" "FLT3_CNTLIM_REG \<in> set chan_regs"
  "ON_CNTLIM_REG \<in> set chan_regs" "HEARTBEAT_CNTLIM_REG \<in> set chan_regs"
  "FAULT_MASK_REG \<in> set chan_regs"
  by (rule qspi_field_regs; simp add: qspi_fields_def)+

section \<open>The contract\<close>

locale chan_io = flash_io R P
  for R :: "('w, 'x) ctl_scheme \<Rightarrow> ('w, 'x) ctl_scheme \<Rightarrow> bool" and P :: "'w platform" +
  fixes chan :: u32
  assumes rd: "state_io_rel R (Xil_In32 P a)"
    and wr: "r \<in> set chan_regs \<Longrightarrow> state_io_rel R (Xil_Out32 P (chan_addr P chan r) v)"
    and clr: "valid_chan k \<Longrightarrow> state_io_rel R (Xil_Out32 P (chan_addr P k FAULT_CLEAR_REG) v)"
    and trig: "state_io_rel R (Xil_Out32 P (reg_addr P SOFTTRIG) v)"
    and sfr: "state_io_rel R (sf_read chan)"
    and sfw: "state_io_rel R (sf_write chan f)"
begin

lemma ok_rel: "state_io_rel R m \<Longrightarrow> state_io_rel R (ok m)"
  by (simp add: ok_def io_bind io_return)

lemmas steps = io_structure rd wr clr trig flash sfr sfw ok_rel stack_rel

lemma write_scaled_rel: "r \<in> set chan_regs \<Longrightarrow> state_io_rel R (write_scaled P chan r f)"
  by (auto simp: write_scaled_def intro!: steps)

lemma write_ramptable_rel: "state_io_rel R (write_ramptable P chan msg msglen)"
  by (auto simp: write_ramptable_def Let_def intro!: steps)

lemma linear_rel: "state_io_rel R (Calc_WriteLinearSmooth P chan x)"
  by (auto simp: Calc_WriteLinearSmooth_def Let_def intro!: steps)

lemma opmode_rel: "state_io_rel R (Set_dacOpmode P chan m)"
  by (auto simp: Set_dacOpmode_def intro!: steps)

lemma dump_rel: "state_io_rel R (dump_adcs P chan)"
  by (auto simp: dump_adcs_def ReadAccumSA_def intro!: steps)

lemma gather_rel: "state_io_rel R (QspiGatherData P chan buf)"
  by (auto simp: QspiGatherData_def intro!: steps)

lemma write_fields_rel:
  "set (map fst rvs) \<subseteq> set chan_regs \<Longrightarrow>
   state_io_rel R (for_each (\<lambda>(r, v). Xil_Out32 P (chan_addr P chan r) v) rvs)"
  by (induction rvs) (auto intro!: io_skip io_bind wr)

lemma disperse_rel: "state_io_rel R (QspiDisperseData P chan buf)"
proof -
  have "set (map fst (zip qspi_fields xs)) \<subseteq> set chan_regs" for xs :: "u32 list"
    using qspi_fields_chan by (auto dest: set_zip_leftD)
  then show ?thesis
    unfolding QspiDisperseData_def Let_def by (intro io_bind write_fields_rel sfw)
qed

lemmas handlers =
  write_scaled_rel linear_rel opmode_rel dump_rel flash_read_rel flash_write_rel erase_rel
  gather_rel disperse_rel

lemma fault_clear_rel: "valid_chan chan \<Longrightarrow> state_io_rel R (fault_clear P chan u)"
  by (auto simp: fault_clear_def valid_chan_def intro!: steps)

lemma dac_rel:
  assumes "state_io_rel R other" and "\<And>x. state_io_rel R (Set_dac P chan x)"
  shows "state_io_rel R (dac_cases P chan addr u other)"
  unfolding dac_cases_def Let_def by (intro steps handlers assms handler_regs qspi_field_reg)

lemma adc_rel: "state_io_rel R other \<Longrightarrow> state_io_rel R (adc_cases P chan addr u other)"
  unfolding adc_cases_def Let_def by (intro steps handlers handler_regs qspi_field_reg)

lemma thresh_rel: "state_io_rel R other \<Longrightarrow> state_io_rel R (thresh_cases P chan addr u other)"
  unfolding thresh_cases_def Let_def by (intro steps handlers handler_regs qspi_field_reg)

lemma cntlim_rel: "state_io_rel R other \<Longrightarrow> state_io_rel R (cntlim_cases P chan addr u other)"
  unfolding cntlim_cases_def Let_def by (intro steps handler_regs qspi_field_reg)

lemma scale_rel: "state_io_rel R other \<Longrightarrow> state_io_rel R (scale_cases P chan addr u other)"
  unfolding scale_cases_def by (intro steps handler_regs qspi_field_reg)

lemma misc_rel: "state_io_rel R other \<Longrightarrow> state_io_rel R (misc_cases P chan addr u other)"
  unfolding misc_cases_def soft_trig_def write_qspi_def read_qspi_def
  by (intro steps handlers handler_regs)

lemma digital_rel:
  "valid_chan chan \<Longrightarrow> state_io_rel R other \<Longrightarrow> state_io_rel R (digital_cases P chan addr u other)"
  unfolding digital_cases_def by (intro steps fault_clear_rel handler_regs qspi_field_reg)

lemma chan_settings_rel:
  assumes "valid_chan chan" and "\<And>x. state_io_rel R (Set_dac P chan x)"
  shows "state_io_rel R (chan_settings P chan msg msglen)"
  unfolding chan_settings_def Let_def
  by (intro dac_rel adc_rel thresh_rel cntlim_rel scale_rel misc_rel digital_rel assms io_return)

end

section \<open>Where a channel's messages can write\<close>

text \<open>
  The events a control message to channel \<open>chan\<close> may cause: register reads, flash transfers,
  writes to registers of its own channel, the soft trigger, the fault clear of the four
  channels (the main dipole clears them together), and undefined behaviour.
\<close>

fun chan_event :: "'w platform \<Rightarrow> u32 \<Rightarrow> io \<Rightarrow> bool" where
  "chan_event P chan (Rd a v) = True"
| "chan_event P chan (Qspi tx) = True"
| "chan_event P chan (Wr a v) =
     (a \<in> chan_addr P chan ` set chan_regs \<or> a = reg_addr P SOFTTRIG \<or>
      a \<in> (\<lambda>k. chan_addr P k FAULT_CLEAR_REG) ` {1, 2, 3, 4})"
| "chan_event P chan UB = True"
| "chan_event P chan _ = False"

lemma valid_chan_set: "valid_chan k \<Longrightarrow> k \<in> {1, 2, 3, 4}"
  by (auto dest: valid_chan_cases)

interpretation confined: chan_io "emits (chan_event P chan)" P chan for P chan
  by unfold_locales
     (auto intro!: emits_intros emits_sf_read emits_sf_write dest!: valid_chan_cases)

lemma confined_Set_dac: "state_io_rel (emits (chan_event P chan)) (Set_dac P chan x)"
  unfolding Set_dac_def Calc_WriteRaisedCosineSmooth_def Let_def
  by (intro confined.steps confined.handlers handler_regs emits_emit chan_event.simps(4) [THEN iffD2] TrueI)

text \<open>
  The relation of a handler that starts in an invariant: it keeps it and adds only the given
  events.
\<close>

definition under ::
  "(('w, 'x) core_scheme \<Rightarrow> bool) \<Rightarrow> (io \<Rightarrow> bool) \<Rightarrow> ('w, 'x) core_scheme \<Rightarrow> ('w, 'x) core_scheme \<Rightarrow> bool" where
  "under I p s t \<longleftrightarrow> (I s \<longrightarrow> I t \<and> emits p s t)"

interpretation un: io_preorder "under I p" for I p
  by unfold_locales (auto simp: under_def em.R_refl intro: em.R_trans)

lemma under_intro:
  "state_io_rel (unchanged I) m \<Longrightarrow> state_io_rel (emits p) m \<Longrightarrow> state_io_rel (under I p) m"
  by (auto simp: state_io_rel_def under_def unchanged_def)

lemma under_exec: "state_io_rel (under I p) m \<Longrightarrow> I s \<Longrightarrow> I (exec m s) \<and> emits p s (exec m s)"
  by (simp add: state_io_rel_def exec_def under_def)

lemma under_bind_value:
  assumes "state_io_rel (under I p) m" and "\<And>s. I s \<Longrightarrow> Q (result m s)"
    and "\<And>a. Q a \<Longrightarrow> state_io_rel (under I p) (f a)"
  shows "state_io_rel (under I p) (State_Monad.bind m f)"
proof (rule io_of_exec)
  fix s
  show "under I p s (exec (State_Monad.bind m f) s)"
  proof (cases "I s")
    case True
    then have "under I p s (exec m s)" and "under I p (exec m s) (exec (f (result m s)) (exec m s))"
      using assms by (auto intro: io_exec)
    then show ?thesis by (simp add: run_simps) (rule un.R_trans)
  qed (simp add: under_def)
qed

text \<open>
  The invariant under which a channel's messages are free of undefined behaviour: the channel
  exists, the scale factors have one entry per channel, and the ramp is not the raised cosine
  (whose division is treated below).
\<close>

definition ctl_ok :: "u32 \<Rightarrow> ('w, 'x) ctl_scheme \<Rightarrow> bool" where
  "ctl_ok chan s \<longleftrightarrow> valid_chan chan \<and> sf_ok s \<and> smoothramp_type s \<noteq> 1"

definition defined_event :: "'w platform \<Rightarrow> u32 \<Rightarrow> io \<Rightarrow> bool" where
  "defined_event P chan e \<longleftrightarrow> chan_event P chan e \<and> e \<noteq> UB"

lemma core_indep_ctl_ok [simp]: "core_indep (ctl_ok chan)"
  by (simp add: core_indep_def ctl_ok_def sf_ok_def)

lemma defined_sf_read: "state_io_rel (under (ctl_ok chan) p) (sf_read chan)"
  by (rule io_of_exec) (auto simp: under_def ctl_ok_def run_simps em.R_refl)

lemma defined_sf_write: "state_io_rel (under (ctl_ok chan) p) (sf_write chan f)"
  by (rule io_of_exec) (auto simp: under_def ctl_ok_def run_simps emits_def, simp add: sf_ok_def)

interpretation defd: chan_io "under (ctl_ok chan) (defined_event P chan)" P chan for P chan
proof unfold_locales
  show "state_io_rel (under (ctl_ok chan) (defined_event P chan)) (qspi_transfer P tx n)" for tx n
    by (intro under_intro frame_intros emits_intros core_indep_ctl_ok) (simp add: defined_event_def)
  show "state_io_rel (under (ctl_ok chan) (defined_event P chan)) (Xil_In32 P a)" for a
    by (intro under_intro frame_intros emits_intros core_indep_ctl_ok) (simp add: defined_event_def)
  show "state_io_rel (under (ctl_ok chan) (defined_event P chan)) (Xil_Out32 P (chan_addr P chan r) v)"
    if "r \<in> set chan_regs" for r v
    by (intro under_intro frame_intros emits_intros core_indep_ctl_ok)
       (simp add: defined_event_def that)
  show "state_io_rel (under (ctl_ok chan) (defined_event P chan))
      (Xil_Out32 P (chan_addr P k FAULT_CLEAR_REG) v)" if "valid_chan k" for k v
    using valid_chan_cases [OF that]
    by (intro under_intro frame_intros emits_intros core_indep_ctl_ok)
       (auto simp add: defined_event_def)
  show "state_io_rel (under (ctl_ok chan) (defined_event P chan)) (Xil_Out32 P (reg_addr P SOFTTRIG) v)" for v
    by (intro under_intro frame_intros emits_intros core_indep_ctl_ok) (simp add: defined_event_def)
qed (rule defined_sf_read defined_sf_write)+

lemma defined_Set_dac: "state_io_rel (under (ctl_ok chan) (defined_event P chan)) (Set_dac P chan x)"
  unfolding Set_dac_def Let_def
  by (rule un.io_bind [OF defd.rd], rule un.io_bind [OF defd.rd], rule un.io_bind [OF defd.sfr],
      rule un.io_bind [OF un.io_gets], rule under_bind_value [where Q = "\<lambda>ty. ty \<noteq> 1"])
     (auto simp: run_simps ctl_ok_def intro!: un.io_gets un.io_if un.io_skip defd.linear_rel defd.wr)

text \<open>The part of the state that belongs to the server, which no control message touches.\<close>

definition net_part :: "('w, 'x) net_scheme \<Rightarrow> bool \<times> int \<times> int \<times> (u32 \<times> u16) \<times> u32 \<times> byte list" where
  "net_part s = (the_server s, listen_sock s, client_sock s, peeraddr s, last_rx_tick s, rxbuf s)"

lemma core_indep_net_part [simp]: "core_indep net_part"
  by (simp add: core_indep_def net_part_def)

lemma net_sf_read: "state_io_rel (unchanged net_part) (sf_read chan)"
  unfolding sf_read_def Let_def by (intro frame_intros core_indep_net_part)

lemma net_sf_write: "state_io_rel (unchanged net_part) (sf_write chan f)"
  unfolding sf_write_def Let_def
  by (intro frame_intros core_indep_net_part) (simp add: net_part_def)

interpretation net: chan_io "unchanged net_part" P chan for P chan
  by unfold_locales (intro frame_intros core_indep_net_part net_sf_read net_sf_write)+

lemma net_Set_dac: "state_io_rel (unchanged net_part) (Set_dac P chan x)"
  unfolding Set_dac_def Calc_WriteRaisedCosineSmooth_def Let_def
  by (intro net.steps net.handlers handler_regs frame_emit core_indep_net_part)

lemma net_part_client: "state_io_rel (unchanged net_part) m \<Longrightarrow> state_io_rel (unchanged client_sock) m"
  by (auto simp: state_io_rel_def unchanged_def net_part_def)

lemma chan_event_neutral: "chan_event P chan e \<Longrightarrow> neutral e"
  by (cases e) simp_all

lemma leak_confined:
  assumes "state_io_rel (emits (chan_event P chan)) m" and "state_io_rel (unchanged net_part) m"
  shows "state_io_rel (unchanged (leak c)) m"
  by (rule leak_neutral [OF io_emits_mono [OF chan_event_neutral assms(1)] net_part_client [OF assms(2)]])

lemma leak_chan_settings:
  "valid_chan chan \<Longrightarrow> state_io_rel (unchanged (leak c)) (chan_settings P chan msg msglen)"
  by (intro leak_confined [where P = P and chan = chan] confined.chan_settings_rel
      net.chan_settings_rel confined_Set_dac net_Set_dac)

lemma leak_write_ramptable: "state_io_rel (unchanged (leak c)) (write_ramptable P chan msg msglen)"
  by (intro leak_confined [where P = P and chan = chan] confined.write_ramptable_rel
      net.write_ramptable_rel)

section \<open>Confinement\<close>

lemma emits_conj: "emits p s t \<and> emits q s t \<longleftrightarrow> emits (\<lambda>e. p e \<and> q e) s t"
  by (auto simp: emits_def list_all_iff)

text \<open>
  C6. A control message for one power supply channel acts on that channel only. Whatever its
  bytes, all register writes it causes go to the register block of its own channel, to the
  soft trigger, or to the fault-clear register of one of the four channels; nothing is sent,
  no socket is accepted or closed, and the state of the server is as before. In the settings
  with the linear ramp it is free of undefined behaviour, and leaves the invariant intact.
\<close>

theorem chan_settings_confined:
  fixes s :: "('w, 'x) ctl_scheme" and P :: "'w platform" and msg :: "byte list" and msglen :: u32
  assumes "valid_chan chan" and "sf_ok s"
  defines "t \<equiv> exec (chan_settings P chan msg msglen) s"
  shows "emits (chan_event P chan) s t \<and> net_part t = net_part s \<and>
    (smoothramp_type s \<noteq> 1 \<longrightarrow> sf_ok t \<and> emits (\<lambda>e. e \<noteq> UB) s t)"
proof -
  have "emits (chan_event P chan) s t"
    unfolding t_def by (rule io_exec [OF confined.chan_settings_rel [OF assms(1) confined_Set_dac]])
  moreover have "net_part t = net_part s"
    unfolding t_def by (rule unchanged_exec [OF net.chan_settings_rel [OF assms(1) net_Set_dac]])
  moreover have "sf_ok t \<and> emits (\<lambda>e. e \<noteq> UB) s t" if "smoothramp_type s \<noteq> 1"
  proof -
    have "ctl_ok chan s" using assms that by (simp add: ctl_ok_def)
    then have "ctl_ok chan t \<and> emits (defined_event P chan) s t"
      unfolding t_def by (rule under_exec [OF defd.chan_settings_rel [OF assms(1) defined_Set_dac]])
    then show ?thesis
      by (simp add: ctl_ok_def emits_conj [symmetric] defined_event_def [abs_def])
  qed
  ultimately show ?thesis by blast
qed

section \<open>The settings as a table\<close>

text \<open>
  The specification of the settings that are one register each: the message number, the
  register, and the value written for a datum, the volts-to-bits factor and the scale factors
  of the channel.
\<close>

definition raw_setting :: "u32 \<Rightarrow> f32 \<Rightarrow> ScaleFactorType \<Rightarrow> u32" where
  "raw_setting u conv sf = u"

definition gain_setting :: "u32 \<Rightarrow> f32 \<Rightarrow> ScaleFactorType \<Rightarrow> u32" where
  "gain_setting u conv sf = gain_bits (f32_val u)"

definition time_setting :: "u32 \<Rightarrow> f32 \<Rightarrow> ScaleFactorType \<Rightarrow> u32" where
  "time_setting u conv sf = of_int (cnt_samples (f32_val u))"

definition dac_offset :: "u32 \<Rightarrow> f32 \<Rightarrow> ScaleFactorType \<Rightarrow> u32" where
  "dac_offset u conv sf = of_int (dac_bits (f32_val u) conv (dac_dccts sf))"

definition mon_offset :: "(ScaleFactorType \<Rightarrow> f32) \<Rightarrow> u32 \<Rightarrow> f32 \<Rightarrow> ScaleFactorType \<Rightarrow> u32" where
  "mon_offset sel u conv sf = of_int (mon_bits (f32_val u) (sel sf))"

definition dac_limit :: "u32 \<Rightarrow> f32 \<Rightarrow> ScaleFactorType \<Rightarrow> u32" where
  "dac_limit u conv sf = of_int (dac_thresh (f32_val u) conv (dac_dccts sf))"

definition mon_limit :: "(ScaleFactorType \<Rightarrow> f32) \<Rightarrow> u32 \<Rightarrow> f32 \<Rightarrow> ScaleFactorType \<Rightarrow> u32" where
  "mon_limit sel u conv sf = of_int (sat16 (mon_thresh (f32_val u) (sel sf)))"

lemmas setting_defs =
  raw_setting_def gain_setting_def time_setting_def dac_offset_def mon_offset_def dac_limit_def
  mon_limit_def

definition raw_table :: "(u32 \<times> u32 \<times> (u32 \<Rightarrow> f32 \<Rightarrow> ScaleFactorType \<Rightarrow> u32)) list" where
  "raw_table = map (\<lambda>(m, r). (m, r, raw_setting))
     [(DAC_RAMPLEN_MSG, DAC_RAMPLEN_REG), (DAC_RUNRAMP_MSG, DAC_RUNRAMP_REG),
      (FAULT_MASK_MSG, FAULT_MASK_REG), (DIGOUT_ON1_MSG, DIGOUT_ON1_REG),
      (DIGOUT_ON2_MSG, DIGOUT_ON2_REG), (DIGOUT_RESET_MSG, DIGOUT_RESET_REG),
      (DIGOUT_SPARE_MSG, DIGOUT_SPARE_REG), (DIGOUT_PARK_MSG, DIGOUT_PARK_REG),
      (FOFB_FASTADDR_MSG, FOFB_FASTADDR_REG), (AVE_MODE_MSG, AVEMODE_REG)]"

definition adc_table :: "(u32 \<times> u32 \<times> (u32 \<Rightarrow> f32 \<Rightarrow> ScaleFactorType \<Rightarrow> u32)) list" where
  "adc_table =
     [(DAC_SETPT_GAIN_MSG, DAC_SETPT_GAIN_REG, gain_setting),
      (DAC_SETPT_OFFSET_MSG, DAC_SETPT_OFFSET_REG, dac_offset),
      (DCCT1_GAIN_MSG, DCCT1_GAIN_REG, gain_setting), (DCCT1_OFFSET_MSG, DCCT1_OFFSET_REG, dac_offset),
      (DCCT2_GAIN_MSG, DCCT2_GAIN_REG, gain_setting), (DCCT2_OFFSET_MSG, DCCT2_OFFSET_REG, dac_offset),
      (DACMON_GAIN_MSG, DACMON_GAIN_REG, gain_setting),
      (DACMON_OFFSET_MSG, DACMON_OFFSET_REG, mon_offset dac_dccts),
      (VOLT_GAIN_MSG, VOLT_GAIN_REG, gain_setting), (VOLT_OFFSET_MSG, VOLT_OFFSET_REG, mon_offset vout),
      (GND_GAIN_MSG, GND_GAIN_REG, gain_setting), (GND_OFFSET_MSG, GND_OFFSET_REG, mon_offset ignd),
      (SPARE_GAIN_MSG, SPARE_GAIN_REG, gain_setting),
      (SPARE_OFFSET_MSG, SPARE_OFFSET_REG, mon_offset spare),
      (REG_GAIN_MSG, REG_GAIN_REG, gain_setting), (REG_OFFSET_MSG, REG_OFFSET_REG, mon_offset regulator),
      (ERR_GAIN_MSG, ERR_GAIN_REG, gain_setting), (ERR_OFFSET_MSG, ERR_OFFSET_REG, mon_offset error_sf)]"

definition fault_table :: "(u32 \<times> u32 \<times> (u32 \<Rightarrow> f32 \<Rightarrow> ScaleFactorType \<Rightarrow> u32)) list" where
  "fault_table =
     [(OVC1_THRESH_MSG, OVC1_THRESH_REG, dac_limit), (OVC2_THRESH_MSG, OVC2_THRESH_REG, dac_limit),
      (OVV_THRESH_MSG, OVV_THRESH_REG, mon_limit vout),
      (ERR1_THRESH_MSG, ERR1_THRESH_REG, mon_limit error_sf),
      (ERR2_THRESH_MSG, ERR2_THRESH_REG, mon_limit error_sf),
      (IGND_THRESH_MSG, IGND_THRESH_REG, mon_limit ignd)] @
     map (\<lambda>(m, r). (m, r, time_setting))
     [(OVC1_CNTLIM_MSG, OVC1_CNTLIM_REG), (OVC2_CNTLIM_MSG, OVC2_CNTLIM_REG),
      (OVV_CNTLIM_MSG, OVV_CNTLIM_REG), (ERR1_CNTLIM_MSG, ERR1_CNTLIM_REG),
      (ERR2_CNTLIM_MSG, ERR2_CNTLIM_REG), (IGND_CNTLIM_MSG, IGND_CNTLIM_REG),
      (DCCT_CNTLIM_MSG, DCCT_CNTLIM_REG), (FLT1_CNTLIM_MSG, FLT1_CNTLIM_REG),
      (FLT2_CNTLIM_MSG, FLT2_CNTLIM_REG), (FLT3_CNTLIM_MSG, FLT3_CNTLIM_REG),
      (ON_CNTLIM_MSG, ON_CNTLIM_REG), (HEART_CNTLIM_MSG, HEARTBEAT_CNTLIM_REG)]"

definition setting_table :: "(u32 \<times> u32 \<times> (u32 \<Rightarrow> f32 \<Rightarrow> ScaleFactorType \<Rightarrow> u32)) list" where
  "setting_table = raw_table @ adc_table @ fault_table"

lemma exec_ok [run_simps]: "exec (ok m) s = exec m s"
  by (simp add: ok_def run_simps)

lemma result_ok [run_simps]: "result (ok m) s = Some ()"
  by (simp add: ok_def run_simps)

lemma exec_write_scaled [run_simps]:
  "sf_ok s \<Longrightarrow> valid_chan chan \<Longrightarrow>
   exec (write_scaled P chan r f) s =
     exec (cwr P chan r (of_int (f (CONVVOLTSTODACBITS s) (scalefactors s ! unat (chan - 1))))) s"
  by (simp add: write_scaled_def run_simps)

lemmas case_defs =
  dac_cases_def adc_cases_def thresh_cases_def cntlim_cases_def digital_cases_def scale_cases_def
  misc_cases_def

definition implements ::
  "'w platform \<Rightarrow> u32 \<Rightarrow> byte list \<Rightarrow> u32 \<Rightarrow> ('w, 'x) ctl_scheme \<Rightarrow>
     u32 \<times> u32 \<times> (u32 \<Rightarrow> f32 \<Rightarrow> ScaleFactorType \<Rightarrow> u32) \<Rightarrow> bool" where
  "implements P chan msg msglen s = (\<lambda>(m, r, f). msg_addr msg = m \<longrightarrow>
     result (chan_settings P chan msg msglen) s = Some () \<and>
     exec (chan_settings P chan msg msglen) s =
       exec (cwr P chan r (f (msg_data msg) (CONVVOLTSTODACBITS s) (scalefactors s ! unat (chan - 1)))) s)"

lemma implements_raw:
  "sf_ok s \<Longrightarrow> valid_chan chan \<Longrightarrow> list_all (implements P chan msg msglen s) raw_table"
  by (simp add: raw_table_def implements_def chan_settings_def case_defs msg_defs run_simps setting_defs)

lemma implements_adc:
  "sf_ok s \<Longrightarrow> valid_chan chan \<Longrightarrow> list_all (implements P chan msg msglen s) adc_table"
  by (simp add: adc_table_def implements_def chan_settings_def case_defs msg_defs run_simps setting_defs)

lemma implements_fault:
  "sf_ok s \<Longrightarrow> valid_chan chan \<Longrightarrow> list_all (implements P chan msg msglen s) fault_table"
  by (simp add: fault_table_def implements_def chan_settings_def case_defs msg_defs run_simps setting_defs)

lemma implements_table:
  assumes "sf_ok s" and "valid_chan chan" and "x \<in> set setting_table"
  shows "implements P chan msg msglen s x"
proof -
  have "list_all (implements P chan msg msglen s) setting_table"
    using assms(1,2) by (simp add: setting_table_def implements_raw implements_adc implements_fault)
  then show ?thesis using assms(3) by (auto simp: list_all_iff)
qed

text \<open>
  C5. The message switch implements the table of settings: a message whose number is in the
  table writes exactly one register, the one of the table in the block of the message's
  channel, with the value of the table, and changes nothing else.
\<close>

theorem chan_settings_table:
  assumes "sf_ok s" and "valid_chan chan" and "(m, r, f) \<in> set setting_table" and "msg_addr msg = m"
  shows "result (chan_settings P chan msg msglen) s = Some () \<and>
    exec (chan_settings P chan msg msglen) s =
      exec (cwr P chan r (f (msg_data msg) (CONVVOLTSTODACBITS s) (scalefactors s ! unat (chan - 1)))) s"
  using implements_table [OF assms(1-3), of P msg msglen] assms(4) by (simp add: implements_def)

end
