(* ===== verification/Control_Dac.thy ===== *)
theory Control_Dac
  imports Control_Props
begin

text \<open>
  Functional behaviour of the handlers that do more than one register write: setpoints and
  smooth ramps, operating modes, ramp tables, fault clear and scale factors.
\<close>

section \<open>Reading a run\<close>

text \<open>
  \<open>reads P a s v t\<close>: a read of register \<open>a\<close> in state \<open>s\<close> returns \<open>v\<close> and leads to \<open>t\<close>.
  The device behind the register is free to change with every access.
\<close>

abbreviation reg_now :: "'w platform \<Rightarrow> u32 \<Rightarrow> ('w, 'x) core_scheme \<Rightarrow> u32" where
  "reg_now P a s \<equiv> result (Xil_In32 P a) s"

abbreviation after_read :: "'w platform \<Rightarrow> u32 \<Rightarrow> ('w, 'x) core_scheme \<Rightarrow> ('w, 'x) core_scheme" where
  "after_read P a s \<equiv> exec (Xil_In32 P a) s"

text \<open>The register writes a computation adds.\<close>

definition new_writes :: "('w, 'x) core_scheme \<Rightarrow> ('w, 'x) core_scheme \<Rightarrow> (u32 \<times> u32) list" where
  "new_writes s t = drop (length (writes (trace s))) (writes (trace t))"

lemma sf_ok_update [simp]:
  "sf_ok (s\<lparr>world := w\<rparr>) = sf_ok s" "sf_ok (s\<lparr>trace := tr\<rparr>) = sf_ok s"
  by (simp_all add: sf_ok_def)

section \<open>Setpoints\<close>

text \<open>
  The setpoint a message asks for, given what the operating mode register and the polarity
  register hold when \<open>Set_dac\<close> reads them.
\<close>

definition setpoint_of ::
  "'w platform \<Rightarrow> u32 \<Rightarrow> fp \<Rightarrow> ('w, 'x) ctl_scheme \<Rightarrow> int" where
  "setpoint_of P chan amps s =
     (let s1 = after_read P (chan_addr P chan DAC_OPMODE_REG) s;
          pol = reg_now P (reg_addr P POLARITY_REG) s1
      in new_setpoint amps (CONVVOLTSTODACBITS s) (dac_dccts (scalefactors s ! unat (chan - 1)))
           (polarity_bit pol chan))"

definition smooth_regs :: "u32 list" where
  "smooth_regs = [SMOOTH_PHASEINC_REG, SMOOTH_LINEAR_LEN_REG, SMOOTH_CURVED_LEN_REG,
     SMOOTH_DY_LO_REG, SMOOTH_DY_HI_REG, SMOOTH_DY_PER_PT_LO_REG, SMOOTH_DY_PER_PT_HI_REG]"

text \<open>A list of writes that ends with the setpoint, after parameters of the ramp only.\<close>

definition kicks_off :: "'w platform \<Rightarrow> u32 \<Rightarrow> int \<Rightarrow> (u32 \<times> u32) list \<Rightarrow> bool" where
  "kicks_off P chan x ws \<longleftrightarrow>
     (\<exists>ps. ws = ps @ [(chan_addr P chan DAC_SETPT_REG, of_int x)] \<and>
        fst ` set ps \<subseteq> chan_addr P chan ` set smooth_regs)"

lemma kicks_offI:
  "fst ` set ps \<subseteq> chan_addr P chan ` set smooth_regs \<Longrightarrow>
   kicks_off P chan x (ps @ [(chan_addr P chan DAC_SETPT_REG, of_int x)])"
  by (auto simp: kicks_off_def)

lemma cosine_kicks_off:
  assumes "sf_ok s" and "valid_chan chan"
  shows "kicks_off P chan x (new_writes s (exec (Calc_WriteRaisedCosineSmooth P chan x) s))"
proof -
  have "\<exists>v. new_writes s (exec (Calc_WriteRaisedCosineSmooth P chan x) s) =
    [(chan_addr P chan SMOOTH_PHASEINC_REG, v)] @ [(chan_addr P chan DAC_SETPT_REG, of_int x)]"
    using assms by (auto simp: Calc_WriteRaisedCosineSmooth_def Let_def run_simps new_writes_def)
  then obtain v where "new_writes s (exec (Calc_WriteRaisedCosineSmooth P chan x) s) =
    [(chan_addr P chan SMOOTH_PHASEINC_REG, v)] @ [(chan_addr P chan DAC_SETPT_REG, of_int x)]"
    by blast
  then show ?thesis by (simp only:) (rule kicks_offI, simp add: smooth_regs_def)
qed

lemma linear_kicks_off:
  assumes "sf_ok s" and "valid_chan chan"
  shows "kicks_off P chan x (new_writes s (exec (Calc_WriteLinearSmooth P chan x) s))"
proof -
  have "\<exists>a b c d e f. new_writes s (exec (Calc_WriteLinearSmooth P chan x) s) =
     [(chan_addr P chan SMOOTH_LINEAR_LEN_REG, a), (chan_addr P chan SMOOTH_CURVED_LEN_REG, b),
      (chan_addr P chan SMOOTH_DY_LO_REG, c), (chan_addr P chan SMOOTH_DY_HI_REG, d),
      (chan_addr P chan SMOOTH_DY_PER_PT_LO_REG, e), (chan_addr P chan SMOOTH_DY_PER_PT_HI_REG, f)] @
     [(chan_addr P chan DAC_SETPT_REG, of_int x)]"
    using assms by (auto simp: Calc_WriteLinearSmooth_def Let_def run_simps new_writes_def)
  then obtain ps where "new_writes s (exec (Calc_WriteLinearSmooth P chan x) s) =
      ps @ [(chan_addr P chan DAC_SETPT_REG, of_int x)]"
    and "fst ` set ps \<subseteq> chan_addr P chan ` set smooth_regs"
    by (elim exE) (rule that, assumption, simp add: smooth_regs_def)
  then show ?thesis by (simp add: kicks_offI)
qed

lemma new_writes_refl [simp]: "new_writes s s = []"
  by (simp add: new_writes_def)

lemma set_dac_run:
  fixes P :: "'w platform" and s :: "('w, 'x) ctl_scheme"
  assumes "sf_ok s" and "valid_chan chan"
  defines "s1 \<equiv> after_read P (reg_addr P POLARITY_REG) (after_read P (chan_addr P chan DAC_OPMODE_REG) s)"
  shows "exec (Set_dac P chan amps) s =
    (if reg_now P (chan_addr P chan DAC_OPMODE_REG) s = DAC_SMOOTH then
       (if smoothramp_type s = 1 then exec (Calc_WriteRaisedCosineSmooth P chan (setpoint_of P chan amps s)) s1
        else exec (Calc_WriteLinearSmooth P chan (setpoint_of P chan amps s)) s1)
     else if reg_now P (chan_addr P chan DAC_OPMODE_REG) s = DAC_JUMP
       then exec (cwr P chan DAC_SETPT_REG (of_int (setpoint_of P chan amps s))) s1
     else s1)"
  using assms(1,2) by (simp add: s1_def Set_dac_def Let_def run_simps setpoint_of_def)


lemma new_writes_read [simp]: "new_writes s (exec m (after_read P a s)) = new_writes (after_read P a s) (exec m (after_read P a s))"
  by (simp add: new_writes_def run_simps)

lemma sf_ok_after_read [simp]: "sf_ok (after_read P a s) = sf_ok s"
  by (simp add: run_simps)

lemma chan_addr_cancel [simp]: "chan_addr P chan r = chan_addr P chan r' \<longleftrightarrow> r = r'"
  by (simp add: chan_addr_def)

lemma dac_bits_range: "- (2 ^ 31) \<le> dac_bits x conv sf \<and> dac_bits x conv sf < 2 ^ 31"
  using s32_of_fp_range [of "fp_div single (fp_mul single x (f32_val conv)) (f32_val sf)"]
  by (simp add: dac_bits_def)

lemma new_setpoint_range:
  "- (2 ^ 31) \<le> new_setpoint amps conv sf pol \<and> new_setpoint amps conv sf pol < 2 ^ 31"
  using dac_bits_range [of "saturate_amps amps sf" conv sf]
  by (simp add: new_setpoint_def Let_def)

lemma sint_of_int: "- (2 ^ 31) \<le> x \<Longrightarrow> x < 2 ^ 31 \<Longrightarrow> sint (of_int x :: u32) = x"
  by (simp add: signed_of_int signed_take_bit_int_eq_self)

lemma set_dac_kick_off:
  fixes P :: "'w platform" and s :: "('w, 'x) ctl_scheme" and amps :: fp
  assumes "sf_ok s" and "valid_chan chan"
  defines "mode \<equiv> reg_now P (chan_addr P chan DAC_OPMODE_REG) s"
    and "ws \<equiv> new_writes s (exec (Set_dac P chan amps) s)"
  shows "if mode = DAC_SMOOTH \<or> mode = DAC_JUMP then kicks_off P chan (setpoint_of P chan amps s) ws
    else ws = []"
proof -
  let ?s1 = "after_read P (reg_addr P POLARITY_REG) (after_read P (chan_addr P chan DAC_OPMODE_REG) s)"
  let ?x = "setpoint_of P chan amps s"
  have ok: "sf_ok ?s1" using assms(1) by simp
  have pre: "new_writes s (exec m ?s1) = new_writes ?s1 (exec m ?s1)"
    for m :: "(('w, 'x) ctl_scheme, unit) state"
    by (simp add: new_writes_def run_simps)
  have jump: "kicks_off P chan ?x (new_writes ?s1 (exec (cwr P chan DAC_SETPT_REG (of_int ?x)) ?s1))"
    by (simp add: new_writes_def run_simps kicks_off_def)
  have none: "new_writes s ?s1 = []" by (simp add: new_writes_def run_simps)
  show ?thesis
    using cosine_kicks_off [OF ok assms(2), of P ?x] linear_kicks_off [OF ok assms(2), of P ?x] jump none
    by (simp only: ws_def mode_def set_dac_run [OF assms(1,2)] pre split: if_split) simp
qed

text \<open>
  C27. A setpoint takes effect last and once: in the smooth and jump modes the handler writes
  the setpoint register exactly once, as its last register write, after the parameters of the
  ramp; in the other modes (ramp table and orbit feedback) it writes no register at all.
\<close>

theorem Set_dac_kick_off:
  fixes P :: "'w platform" and s :: "('w, 'x) ctl_scheme" and amps :: fp
  assumes "sf_ok s" and "valid_chan chan"
  defines "mode \<equiv> reg_now P (chan_addr P chan DAC_OPMODE_REG) s"
    and "ws \<equiv> new_writes s (exec (Set_dac P chan amps) s)"
  shows "if mode = DAC_SMOOTH \<or> mode = DAC_JUMP
    then \<exists>ps. ws = ps @ [(chan_addr P chan DAC_SETPT_REG, of_int (setpoint_of P chan amps s))] \<and>
           fst ` set ps \<subseteq> chan_addr P chan ` set smooth_regs
    else ws = []"
  using set_dac_kick_off [OF assms(1,2), of P amps] by (simp only: ws_def mode_def kicks_off_def)

lemma setpoint_not_smooth: "DAC_SETPT_REG \<notin> set smooth_regs"
  by (simp add: smooth_regs_def reg_defs)

lemma kicks_off_setpoint:
  "kicks_off P chan x ws \<Longrightarrow> (chan_addr P chan DAC_SETPT_REG, v) \<in> set ws \<Longrightarrow> v = of_int x"
  using setpoint_not_smooth by (force simp: kicks_off_def)


section \<open>The raised cosine\<close>

text \<open>
  The raised cosine ramp divides by the number of samples. With a finite non-zero ramp rate
  and outside the main dipole mode that number is 0 when the new setpoint is the current one.
\<close>

lemma ramp_duration_zero:
  assumes "cur = new" and "rate = FFin sg m e" and "m \<noteq> 0" and "mode \<noteq> 1"
  shows "u32_of_fp (fp_mul double (ramp_duration new cur rate mode) SAMPLERATE) = 0"
proof -
  have sr: "SAMPLERATE = FFin False (10000 * 2 ^ 39) (- 39)"
    by code_simp
  show ?thesis
    using assms by (simp add: ramp_duration_def c_abs_def wrap32_def fp_of_int_def fp_round_def
        sr u32_of_fp_def fp_trunc_def frac_num_def Let_def)
qed


text \<open>
  C29. A raised cosine ramp of more than 25 samples is set up without undefined behaviour and does
  not overshoot: the handler writes the phase increment and then the setpoint, and nothing else.
  The increment written is exactly the whole number of phase units per sample, so that the ramp's
  samples together stay within the half turn of the CORDIC, and one more unit per sample would not.
\<close>

theorem cosine_phase:
  fixes P :: "'w platform" and s :: "('w, 'x) ctl_scheme" and x :: int and chan :: u32
  assumes "sf_ok s" and "valid_chan chan"
  defines "cur \<equiv> reg_now P (chan_addr P chan DAC_CURRSETPT_REG) s"
    and "mode \<equiv> reg_now P (reg_addr P MAIN_DIPOLE_MODE_REG) (after_read P (chan_addr P chan DAC_CURRSETPT_REG) s)"
  defines "n \<equiv> u32_of_fp (fp_mul double (ramp_duration x (sint cur)
      (ramp_rate (scalefactors s ! unat (chan - 1)) (CONVVOLTSTODACBITS s)) mode) SAMPLERATE)"
    and "t \<equiv> exec (Calc_WriteRaisedCosineSmooth P chan x) s"
  defines "inc \<equiv> CORDIC_INIT_PHASE div n"
  assumes "25 < n"
  shows "new_writes s t = [(chan_addr P chan SMOOTH_PHASEINC_REG, inc), (chan_addr P chan DAC_SETPT_REG, of_int x)] \<and>
    (UB \<in> set (trace t) \<longleftrightarrow> UB \<in> set (trace s)) \<and>
    unat inc * unat n \<le> 421657300 \<and> 421657300 < (unat inc + 1) * unat n"
proof -
  have n: "25 < unat n" "n \<noteq> 0" using assms(8) by (auto simp: word_less_nat_alt)
  have phase: "unat CORDIC_INIT_PHASE = 421657300" by (simp add: CORDIC_INIT_PHASE_def)
  then have inc: "unat inc = 421657300 div unat n" by (simp add: inc_def unat_div_distrib)
  have "421657300 div unat n \<le> 421657300 div 26" using n(1) by (intro div_le_mono2) simp_all
  then have "uint inc < 2 ^ 24" using inc by (simp add: uint_nat del: of_nat_unat)
  then have exact: "u32_of_fp (fp_of_int single (uint inc)) = inc"
    by (subst u32_of_int_exact) (simp_all add: int_formats, simp add: single_def)
  have "new_writes s t = [(chan_addr P chan SMOOTH_PHASEINC_REG, inc), (chan_addr P chan DAC_SETPT_REG, of_int x)] \<and>
      (UB \<in> set (trace t) \<longleftrightarrow> UB \<in> set (trace s))"
    using assms(1,2) n(2) exact
    by (simp add: t_def Calc_WriteRaisedCosineSmooth_def Let_def run_simps new_writes_def n_def cur_def mode_def inc_def)
  moreover have "unat inc * unat n \<le> 421657300" unfolding inc by (metis div_times_less_eq_dividend)
  moreover have "421657300 < (unat inc + 1) * unat n"
    unfolding inc using n(1) dividend_less_div_times [of "unat n" 421657300] by (simp add: algebra_simps)
  ultimately show ?thesis by blast
qed

section \<open>Operating modes, faults and scale factors\<close>

text \<open>The setting of the orbit feedback scale comes before the mode that uses it.\<close>

lemma opmode_run:
  assumes "sf_ok s" and "valid_chan chan"
  shows "new_writes s (exec (Set_dacOpmode P chan m) s) =
    (if m = DAC_FOFB then
       [(chan_addr P chan FOFB_SCALEFACTOR_REG,
         fofb_scale (dac_dccts (scalefactors s ! unat (chan - 1))) (CONVVOLTSTODACBITS s)),
        (chan_addr P chan DAC_OPMODE_REG, m)]
     else if m \<in> {DAC_SMOOTH, DAC_RAMP, DAC_JUMP} then [(chan_addr P chan DAC_OPMODE_REG, m)]
     else [])"
  using assms by (simp add: Set_dacOpmode_def run_simps new_writes_def msg_defs)

text \<open>
  A mode message switches the operating mode register to the four known modes only; on
  the way into orbit feedback the scale from amperes to DAC bits is written first, from the
  current scale factor of the channel.
\<close>

theorem opmode_message:
  assumes "sf_ok s" and "valid_chan chan" and "msg_addr msg = DAC_OPMODE_MSG"
  shows "new_writes s (exec (chan_settings P chan msg msglen) s) =
    (let m = msg_data msg in
     if m = DAC_FOFB then
       [(chan_addr P chan FOFB_SCALEFACTOR_REG,
         fofb_scale (dac_dccts (scalefactors s ! unat (chan - 1))) (CONVVOLTSTODACBITS s)),
        (chan_addr P chan DAC_OPMODE_REG, m)]
     else if m \<in> {DAC_SMOOTH, DAC_RAMP, DAC_JUMP} then [(chan_addr P chan DAC_OPMODE_REG, m)]
     else [])"
  using assms by (simp add: chan_settings_def dac_cases_def Let_def run_simps opmode_run)

text \<open>
  Fault clear: in main dipole mode the message clears the faults of all four channels,
  in their order, otherwise only those of its own channel.
\<close>

theorem fault_clear_message:
  assumes "msg_addr msg = FAULT_CLEAR_MSG"
  shows "new_writes s (exec (chan_settings P chan msg msglen) s) =
    map (\<lambda>k. (chan_addr P k FAULT_CLEAR_REG, msg_data msg))
      (if reg_now P (reg_addr P MAIN_DIPOLE_MODE_REG) s = 1 then [1, 2, 3, 4] else [chan])"
  using assms
  by (simp add: chan_settings_def case_defs msg_defs Let_def run_simps fault_clear_def new_writes_def)

text \<open>The scale factor a message sets.\<close>

definition sf_table :: "(u32 \<times> (u32 \<Rightarrow> ScaleFactorType \<Rightarrow> ScaleFactorType)) list" where
  "sf_table =
     [(SF_AMPS_PER_SEC_MSG, \<lambda>u sf. sf\<lparr>ampspersec := u\<rparr>), (SF_DAC_DCCTS_MSG, \<lambda>u sf. sf\<lparr>dac_dccts := u\<rparr>),
      (SF_VOUT_MSG, \<lambda>u sf. sf\<lparr>vout := u\<rparr>), (SF_IGND_MSG, \<lambda>u sf. sf\<lparr>ignd := u\<rparr>),
      (SF_SPARE_MSG, \<lambda>u sf. sf\<lparr>spare := u\<rparr>), (SF_REGULATOR_MSG, \<lambda>u sf. sf\<lparr>regulator := u\<rparr>),
      (SF_ERROR_MSG, \<lambda>u sf. sf\<lparr>error_sf := u\<rparr>)]"

text \<open>
  A scale factor message updates the one factor of its own channel and no other; the DCCT
  factor also refreshes the orbit feedback scale in the fabric, so that the two agree.
\<close>

theorem scale_factor_message:
  assumes "sf_ok s" and "valid_chan chan" and "(m, upd) \<in> set sf_table" and "msg_addr msg = m"
  defines "i \<equiv> unat (chan - 1)"
  shows "scalefactors (exec (chan_settings P chan msg msglen) s) =
      (scalefactors s)[i := upd (msg_data msg) (scalefactors s ! i)] \<and>
    new_writes s (exec (chan_settings P chan msg msglen) s) =
      (if m = SF_DAC_DCCTS_MSG
       then [(chan_addr P chan FOFB_SCALEFACTOR_REG,
              fofb_scale (dac_dccts (upd (msg_data msg) (scalefactors s ! i))) (CONVVOLTSTODACBITS s))]
       else [])"
proof -
  let ?t = "exec (chan_settings P chan msg msglen) s"
  have "list_all (\<lambda>(m, upd). msg_addr msg = m \<longrightarrow>
      scalefactors ?t = (scalefactors s)[i := upd (msg_data msg) (scalefactors s ! i)] \<and>
      new_writes s ?t =
      (if m = SF_DAC_DCCTS_MSG
       then [(chan_addr P chan FOFB_SCALEFACTOR_REG,
              fofb_scale (dac_dccts (upd (msg_data msg) (scalefactors s ! i))) (CONVVOLTSTODACBITS s))]
       else [])) sf_table"
    using assms(1,2)
    by (simp add: sf_table_def i_def chan_settings_def case_defs msg_defs run_simps Let_def new_writes_def)
  with assms(3,4) show ?thesis by (auto simp: list_all_iff)
qed

section \<open>Thresholds\<close>

lemma mon_thresh_nonneg: "0 \<le> mon_thresh (f32_val u) sf"
proof -
  have "fp_wf CONVVOLTSTO16BITS" by (simp add: CONVVOLTSTO16BITS_def fp_wf_lit)
  then show ?thesis
    unfolding mon_thresh_def
    by (intro s32_of_fp_nonneg fp_nonneg_div fp_nonneg_abs fp_wf_mul fp_wf_f32_val)
qed

lemma mon_limit_range: "uint (mon_limit sel u conv sf) \<le> 32767"
proof -
  have "0 \<le> sat16 (mon_thresh (f32_val u) (sel sf))" "sat16 (mon_thresh (f32_val u) (sel sf)) \<le> 32767"
    using mon_thresh_nonneg [of u "sel sf"] by (simp_all add: sat16_def)
  then show ?thesis
    by (simp add: mon_limit_def take_bit_int_eq_self unsigned_of_int)
qed

text \<open>
  C35. The fault thresholds of the 16-bit monitors (overvoltage, regulation error and ground
  current) that reach the fabric lie between 0 and 32767 for every datum, negative and
  non-finite floats included, so that the comparison in the fabric never sees a negative
  threshold.
\<close>

theorem thresholds_bounded:
  assumes "sf_ok s" and "valid_chan chan"
    and "(msg_addr msg, r) \<in> {(OVV_THRESH_MSG, OVV_THRESH_REG), (ERR1_THRESH_MSG, ERR1_THRESH_REG),
           (ERR2_THRESH_MSG, ERR2_THRESH_REG), (IGND_THRESH_MSG, IGND_THRESH_REG)}"
  shows "\<exists>v. uint v \<le> 32767 \<and>
    new_writes s (exec (chan_settings P chan msg msglen) s) = [(chan_addr P chan r, v)]"
proof -
  have "\<exists>sel. (msg_addr msg, r, mon_limit sel) \<in> set fault_table"
    using assms(3) by (auto simp: fault_table_def)
  then obtain sel where "implements P chan msg msglen s (msg_addr msg, r, mon_limit sel)"
    using implements_fault [OF assms(1,2), of P msg msglen] by (auto simp: list_all_iff)
  then have "exec (chan_settings P chan msg msglen) s =
      exec (cwr P chan r (mon_limit sel (msg_data msg) (CONVVOLTSTODACBITS s)
        (scalefactors s ! unat (chan - 1)))) s"
    by (simp add: implements_def)
  then show ?thesis
    using mon_limit_range by (auto simp: run_simps new_writes_def)
qed

section \<open>Ramp tables\<close>

definition ramp_point :: "f32 \<Rightarrow> f32 \<Rightarrow> u32 \<Rightarrow> byte list \<Rightarrow> nat \<Rightarrow> int" where
  "ramp_point conv sf res msg i =
     ramp_saturate res (dac_bits (f32_val (htonl (load32 msg i))) conv sf)"

definition ramp_writes :: "'w platform \<Rightarrow> u32 \<Rightarrow> (nat \<Rightarrow> int) \<Rightarrow> nat list \<Rightarrow> (u32 \<times> u32) list" where
  "ramp_writes P chan v is = concat (map (\<lambda>i.
     [(chan_addr P chan DAC_RAMPADDR_REG, of_nat i), (chan_addr P chan DAC_RAMPDATA_REG, of_int (v i))]) is)"

lemma ramp_loop:
  fixes s :: "('w, 'x) ctl_scheme" and msg :: "byte list" and res :: u32
  assumes "sf_ok s" and "valid_chan chan"
  defines "v \<equiv> ramp_point (CONVVOLTSTODACBITS s) (dac_dccts (scalefactors s ! unat (chan - 1))) res msg"
  shows "writes (trace (exec (for_each (\<lambda>i. do {
           conv \<leftarrow> gets CONVVOLTSTODACBITS;
           sf \<leftarrow> sf_read chan;
           let x = f32_val (htonl (load32 msg i));
           let scaled_val = ramp_saturate res (dac_bits x conv (dac_dccts sf));
           cwr P chan DAC_RAMPADDR_REG (of_nat i);
           cwr P chan DAC_RAMPDATA_REG (of_int scaled_val)
         }) is) s)) = writes (trace s) @ ramp_writes P chan v is"
  using assms(1) unfolding v_def
proof (induction "is" arbitrary: s)
  case Nil
  then show ?case by (simp add: run_simps ramp_writes_def)
next
  case (Cons i "is")
  then show ?case
    using assms(2) by (simp add: run_simps Let_def ramp_writes_def ramp_point_def)
qed

lemma ramp_saturate_bound:
  assumes "- (2 ^ 31) < v" and "v < 2 ^ 31"
  shows "res = 1 \<Longrightarrow> \<bar>ramp_saturate res v\<bar> \<le> 2 ^ 20" and "res = 0 \<Longrightarrow> \<bar>ramp_saturate res v\<bar> \<le> 2 ^ 18"
proof -
  have "c_abs v = \<bar>v\<bar>"
    using assms by (simp add: c_abs_def wrap32_def sint_of_int)
  then show "res = 1 \<Longrightarrow> \<bar>ramp_saturate res v\<bar> \<le> 2 ^ 20" and "res = 0 \<Longrightarrow> \<bar>ramp_saturate res v\<bar> \<le> 2 ^ 18"
    by (auto simp: ramp_saturate_def)
qed

text \<open>
  C33. A ramp table message of at most 50000 points stores its length and then, in order,
  every point at its own address of the table, converted to DAC bits and saturated; a longer
  one writes nothing.
\<close>

theorem write_ramptable_stores:
  fixes s :: "('w, 'x) ctl_scheme" and P :: "'w platform" and msglen :: u32
  assumes "sf_ok s" and "valid_chan chan"
  defines "n \<equiv> msglen div 4"
    and "res \<equiv> reg_now P (reg_addr P RESOLUTION_REG) (exec (cwr P chan DAC_RAMPLEN_REG (msglen div 4)) s)"
    and "sf \<equiv> dac_dccts (scalefactors s ! unat (chan - 1))"
  shows "new_writes s (exec (write_ramptable P chan msg msglen) s) =
    (if n > 50000 then []
     else (chan_addr P chan DAC_RAMPLEN_REG, n) #
       ramp_writes P chan (ramp_point (CONVVOLTSTODACBITS s) sf res msg) [0..<unat n])"
  using assms(1,2)
  by (simp add: write_ramptable_def n_def res_def sf_def Let_def run_simps new_writes_def
      ramp_loop [unfolded Let_def])

text \<open>
  C34. Every point of a ramp table stays within the saturation limits of the unit's
  resolution, except for one input: a conversion that yields exactly the least \<open>int\<close> is its
  own \<open>abs\<close> and passes the check unchanged.
\<close>

theorem ramp_points_saturated:
  fixes msg :: "byte list" and conv sf :: f32 and i :: nat
  defines "v \<equiv> dac_bits (f32_val (htonl (load32 msg i))) conv sf"
  shows "(res = 1 \<and> v \<noteq> - (2 ^ 31) \<longrightarrow> \<bar>ramp_point conv sf res msg i\<bar> \<le> 2 ^ 20) \<and>
    (res = 0 \<and> v \<noteq> - (2 ^ 31) \<longrightarrow> \<bar>ramp_point conv sf res msg i\<bar> \<le> 2 ^ 18) \<and>
    (v = - (2 ^ 31) \<longrightarrow> ramp_point conv sf res msg i = - (2 ^ 31))"
proof -
  have "- (2 ^ 31) < v" if "v \<noteq> - (2 ^ 31)"
    using dac_bits_range that by (auto simp: v_def less_le)
  moreover have "v < 2 ^ 31"
    using dac_bits_range by (simp add: v_def)
  moreover have "c_abs (- (2 ^ 31)) = - (2 ^ 31)" by (simp add: c_abs_def wrap32_def)
  ultimately show ?thesis
    unfolding ramp_point_def v_def [symmetric]
    using ramp_saturate_bound [of v res] by (auto simp: ramp_saturate_def)
qed

end
