(* ===== verification/Qspi_Props.thy ===== *)
theory Qspi_Props
  imports Control_Dac
begin

text \<open>
  The settings in flash survive: what \<open>QspiGatherData\<close> packs \<open>QspiDisperseData\<close> unpacks, and a
  chip that erases, programs and reads as a serial NOR flash does gives the settings back
  after any time.
\<close>

section \<open>Packing and unpacking\<close>

lemma length_result_map_each [simp]: "length (result (map_each f xs) s) = length xs"
  by (induction xs arbitrary: s) (simp_all add: run_simps)

lemma le32_of_le32: "length bs = 4 \<Longrightarrow> le32 (of_le32 bs) = bs"
proof -
  assume "length bs = 4"
  then obtain a b c d where "bs = [a, b, c, d]"
    by (auto simp: numeral_eq_Suc length_Suc_conv)
  then show ?thesis
    by (simp add: le32_def of_le32_def be32_of_be32 del: of_be32.simps)
qed

lemma load32_packed:
  assumes "length hdr = 4" and "i < length ws"
  shows "load32 (hdr @ concat (map le32 ws) @ rest) (Suc i) = ws ! i"
proof -
  have "hdr @ concat (map le32 ws) @ rest = concat (map le32 (of_le32 hdr # ws)) @ rest"
    using assms(1) by (simp add: le32_of_le32)
  then show ?thesis
    using assms(2) by (simp only: load32_words length_Cons nth_Cons_Suc Suc_less_eq)
qed

lemma map_load32_packed:
  assumes "length hdr = 4"
  shows "map (load32 (hdr @ concat (map le32 ws) @ rest)) [1..<Suc (length ws)] = ws"
proof -
  have "map (load32 (hdr @ concat (map le32 ws) @ rest)) (map Suc [0..<length ws]) = ws"
    by (rule nth_equalityI) (simp_all add: load32_packed [OF assms])
  then show ?thesis by (simp only: map_Suc_upt One_nat_def)
qed

lemma sf_of_sf_words [simp]: "sf_of_words (sf_words sf) = sf"
  by (simp add: sf_of_words_def sf_words_def)

lemma length_sf_words [simp]: "length (sf_words sf) = 7"
  by (simp add: sf_words_def)

lemma write_fields_writes:
  "writes (trace (exec (for_each (\<lambda>(r, v). Xil_Out32 P (chan_addr P chan r) v) rvs) s)) =
     writes (trace s) @ map (\<lambda>(r, v). (chan_addr P chan r, v)) rvs"
  by (induction rvs arbitrary: s) (auto simp: run_simps split_beta)

lemma write_fields_frame:
  "core_indep f \<Longrightarrow> f (exec (for_each (\<lambda>(r, v). Xil_Out32 P (chan_addr P chan r) v) rvs) s) = f s"
  by (rule unchanged_exec) (auto intro!: frame_intros)

text \<open>The registers and scale factors that the words of a settings record stand for.\<close>

definition restored ::
  "'w platform \<Rightarrow> u32 \<Rightarrow> u32 list \<Rightarrow> ScaleFactorType \<Rightarrow> ('w, 'x) ctl_scheme \<Rightarrow> ('w, 'x) ctl_scheme \<Rightarrow> bool" where
  "restored P chan vals sf s t \<longleftrightarrow>
     new_writes s t = zip (map (chan_addr P chan) qspi_fields) vals \<and>
     scalefactors t = (scalefactors s)[unat (chan - 1) := sf]"

lemma disperse_packed:
  assumes "sf_ok s" and "valid_chan chan" and "length hdr = 4" and "length vals = length qspi_fields"
  shows "restored P chan vals sf s
    (exec (QspiDisperseData P chan (hdr @ concat (map le32 (vals @ sf_words sf)) @ rest)) s)"
proof -
  let ?buf = "hdr @ concat (map le32 (vals @ sf_words sf)) @ rest"
  have words: "map (load32 ?buf) [0..<qspi_words] = load32 ?buf 0 # vals @ sf_words sf"
    using map_load32_packed [OF assms(3), of "vals @ sf_words sf" rest] assms(4)
    by (simp add: qspi_words_def upt_conv_Cons del: map_append concat_append)
  have ok: "sf_ok (exec (for_each (\<lambda>(r, v). Xil_Out32 P (chan_addr P chan r) v) rvs) s)" for rvs
    using assms(1) by (simp add: write_fields_frame)
  show ?thesis
    unfolding QspiDisperseData_def Let_def words
    using assms(2,4)
    by (simp add: run_simps ok write_fields_frame restored_def new_writes_def write_fields_writes
        zip_map1 case_prod_beta)
qed

interpretation sfs: flash_io "unchanged scalefactors" P for P
  by unfold_locales (auto intro!: frame_intros)

lemma gather_packed:
  fixes P :: "'w platform" and s :: "('w, 'x) ctl_scheme"
  assumes "sf_ok s" and "valid_chan chan"
  defines "vals \<equiv> result (map_each (\<lambda>r. crd P chan r) qspi_fields) s"
  shows "\<exists>hdr. length hdr = 4 \<and> result (QspiGatherData P chan buf) s =
      overwrite (hdr @ concat (map le32 (vals @ sf_words (scalefactors s ! unat (chan - 1))))) buf"
proof -
  let ?hdr = "result (stack_bytes P 4) s"
  let ?s1 = "exec (map_each (\<lambda>r. crd P chan r) qspi_fields) s"
  have "scalefactors ?s1 = scalefactors s"
    by (rule unchanged_exec) (auto intro!: frame_intros)
  with assms(1) have "sf_ok ?s1" "scalefactors ?s1 = scalefactors s" by (simp_all add: sf_ok_def)
  moreover have "length ?hdr = 4" by (simp add: stack_bytes_def run_simps)
  moreover have "exec (stack_bytes P 4) s = s" by (simp add: stack_bytes_def run_simps)
  ultimately show ?thesis
    using assms(2)
    by (intro exI [of _ ?hdr]) (simp add: QspiGatherData_def run_simps vals_def)
qed

section \<open>The chip\<close>

text \<open>
  What the firmware relies on of the serial NOR flash, as its data sheet has it: \<open>cells\<close> is the
  memory of the chip and \<open>wel\<close> its write enable latch. Register accesses and status reads leave
  the memory alone; the write enable command sets the latch; an erase sets a 64 KB sector to
  ones; a program clears bits of one page; a read returns the memory after the four bytes
  shifted in with the command.
\<close>

definition program :: "(u32 \<Rightarrow> byte) \<Rightarrow> u32 \<Rightarrow> byte list \<Rightarrow> u32 \<Rightarrow> byte" where
  "program mem a ds x = (let i = unat (x - a) in if i < length ds then mem x AND ds ! i else mem x)"

definition erased :: "(u32 \<Rightarrow> byte) \<Rightarrow> u32 \<Rightarrow> u32 \<Rightarrow> byte" where
  "erased mem a x = (if drop_bit 16 x = drop_bit 16 a then 0xFF else mem x)"

definition flash_chip :: "'w platform \<Rightarrow> ('w \<Rightarrow> u32 \<Rightarrow> byte) \<Rightarrow> ('w \<Rightarrow> bool) \<Rightarrow> bool" where
  "flash_chip P cells wel \<longleftrightarrow>
     (\<forall>a w. cells (snd (plat_In32 P a w)) = cells w) \<and>
     (\<forall>a v w. cells (plat_Out32 P a v w) = cells w) \<and>
     (\<forall>w. cells (snd (plat_qspi P [FLASH_READ_STATUS_CMD, 0] 2 w)) = cells w) \<and>
     (\<forall>w. cells (snd (plat_qspi P [FLASH_WRITE_ENABLE_CMD] 0 w)) = cells w \<and>
          wel (snd (plat_qspi P [FLASH_WRITE_ENABLE_CMD] 0 w))) \<and>
     (\<forall>w a. wel w \<and> a < 0x1000000 \<longrightarrow>
        cells (snd (plat_qspi P (flash_command FLASH_SECTOR_ERASE_CMD a) 0 w)) = erased (cells w) a) \<and>
     (\<forall>w a ds. wel w \<and> a < 0x1000000 \<and> a AND 0xFF = 0 \<and> length ds \<le> 256 \<longrightarrow>
        cells (snd (plat_qspi P (flash_command FLASH_WRITE_CMD a @ ds) 0 w)) = program (cells w) a ds) \<and>
     (\<forall>w a xs. a < 0x1000000 \<longrightarrow> (let r = plat_qspi P (flash_command FLASH_READ_CMD a @ xs) (4 + length xs) w in
        cells (snd r) = cells w \<and> length (fst r) = 4 + length xs \<and>
        drop 4 (fst r) = map (\<lambda>i. cells w (a + of_nat i)) [0..<length xs]))"

definition keeps_cells ::
  "'w platform \<Rightarrow> ('w \<Rightarrow> u32 \<Rightarrow> byte) \<Rightarrow> ('w \<Rightarrow> bool) \<Rightarrow> ('w, 'x) core_scheme \<Rightarrow> ('w, 'x) core_scheme \<Rightarrow> bool" where
  "keeps_cells P cells wel s t \<longleftrightarrow> (flash_chip P cells wel \<longrightarrow> cells (world t) = cells (world s))"

interpretation kc: poll_io "keeps_cells P cells wel" P for P cells wel
  by unfold_locales
     (auto simp: keeps_cells_def flash_chip_def qspi_transfer_def run_simps intro!: io_of_exec)

lemma cells_In32: "state_io_rel (keeps_cells P cells wel) (Xil_In32 P a)"
  by (rule io_of_exec) (auto simp: keeps_cells_def flash_chip_def run_simps)

lemma cells_Out32: "state_io_rel (keeps_cells P cells wel) (Xil_Out32 P a v)"
  by (rule io_of_exec) (auto simp: keeps_cells_def flash_chip_def run_simps)

lemma cells_sf_read: "state_io_rel (keeps_cells P cells wel) (sf_read chan)"
  by (rule io_of_exec) (auto simp: keeps_cells_def sf_read_def Let_def run_simps)

lemma cells_sf_write: "state_io_rel (keeps_cells P cells wel) (sf_write chan f)"
  by (rule io_of_exec) (auto simp: keeps_cells_def sf_write_def Let_def run_simps)

lemma cells_stack: "state_io_rel (keeps_cells P cells wel) (stack_bytes P n)"
  by (simp add: stack_bytes_def kc.io_gets)

lemma cells_gather: "state_io_rel (keeps_cells P cells wel) (QspiGatherData P chan buf)"
  by (auto simp: QspiGatherData_def intro!: kc.io_structure cells_In32 cells_sf_read cells_stack)

lemma cells_disperse: "state_io_rel (keeps_cells P cells wel) (QspiDisperseData P chan buf)"
  by (auto simp: QspiDisperseData_def Let_def intro!: kc.io_structure cells_Out32 cells_sf_write)

lemma cells_exec:
  "flash_chip P cells wel \<Longrightarrow> state_io_rel (keeps_cells P cells wel) m \<Longrightarrow>
   cells (world (exec m s)) = cells (world s)"
  by (drule io_exec [where s = s]) (simp add: keeps_cells_def)

lemma erase_command:
  "[FLASH_SECTOR_ERASE_CMD, ucast (drop_bit 16 a AND 0xFF), ucast (drop_bit 8 a AND 0xFF), ucast (a AND 0xFF)]
     = flash_command FLASH_SECTOR_ERASE_CMD a" for a :: u32
proof -
  have "ucast (drop_bit 16 a AND 0xFF) = (ucast (drop_bit 16 (a AND 0xFF0000)) :: byte)"
    by (rule bit_word_eqI) (auto simp: bit_simps)
  moreover have "ucast (drop_bit 8 a AND 0xFF) = (ucast (drop_bit 8 (a AND 0xFF00)) :: byte)"
    by (rule bit_word_eqI) (auto simp: bit_simps)
  ultimately show ?thesis by (simp add: flash_command_def)
qed

lemma flash_chipD:
  assumes "flash_chip P cells wel"
  shows "cells (snd (plat_qspi P [FLASH_WRITE_ENABLE_CMD] 0 w)) = cells w"
    and "wel (snd (plat_qspi P [FLASH_WRITE_ENABLE_CMD] 0 w))"
    and "wel w \<Longrightarrow> a < 0x1000000 \<Longrightarrow>
      cells (snd (plat_qspi P (flash_command FLASH_SECTOR_ERASE_CMD a) 0 w)) = erased (cells w) a"
    and "wel w \<Longrightarrow> a < 0x1000000 \<Longrightarrow> a AND 0xFF = 0 \<Longrightarrow> length ds \<le> 256 \<Longrightarrow>
      cells (snd (plat_qspi P (flash_command FLASH_WRITE_CMD a @ ds) 0 w)) = program (cells w) a ds"
  using assms by (simp_all add: flash_chip_def)

lemma flash_chip_read:
  fixes w :: 'w and a :: u32 and P :: "'w platform"
  assumes "flash_chip P cells wel" and "length xs = n - 4" and "4 \<le> n" and "a < 0x1000000"
  defines "r \<equiv> plat_qspi P (flash_command FLASH_READ_CMD a @ xs) n w"
  shows "cells (snd r) = cells w \<and> length (fst r) = n \<and>
    drop 4 (fst r) = map (\<lambda>i. cells w (a + of_nat i)) [0..<n - 4]"
proof -
  have "n = 4 + length xs" using assms(2,3) by simp
  with assms(1,4) show ?thesis by (simp add: r_def flash_chip_def Let_def)
qed

lemma erase_cells:
  assumes chip: "flash_chip P cells wel" and a: "sector * FLASH_SECTOR_SIZE < 0x1000000"
  shows "cells (world (exec (QspiFlashEraseSect P sector) s)) =
    erased (cells (world s)) (sector * FLASH_SECTOR_SIZE)"
proof -
  have "take FLASH_SECTOR_ERASE_SIZE (flash_command FLASH_SECTOR_ERASE_CMD a) =
      flash_command FLASH_SECTOR_ERASE_CMD a" for a
    by (simp add: FLASH_SECTOR_ERASE_SIZE_def flash_command_def)
  then show ?thesis
    by (simp add: QspiFlashEraseSect_def Let_def erase_command run_simps qspi_transfer_def
        cells_exec [OF chip kc.wait_flash_rel] flash_chipD [OF chip] a)
qed

lemma write_cells:
  assumes chip: "flash_chip P cells wel" and a: "a < 0x1000000" and "4 \<le> n" and "n \<le> 256" and "a AND 0xFF = 0"
  shows "cells (world (exec (QspiFlashWrite P a n buf) s)) =
    program (cells (world s)) a (drop 4 (take n buf))"
proof -
  have "take n (overwrite (flash_command FLASH_WRITE_CMD a) buf) =
      flash_command FLASH_WRITE_CMD a @ drop 4 (take n buf)"
    using assms(3) by (simp add: overwrite_def flash_command_def take_Cons' drop_take numeral_eq_Suc)
  moreover have "length (drop 4 (take n buf)) \<le> 256" using assms(4) by simp
  ultimately show ?thesis
    by (simp add: QspiFlashWrite_def Let_def run_simps qspi_transfer_def
        cells_exec [OF chip kc.wait_flash_rel] flash_chipD [OF chip] a assms(5) del: length_drop length_take)
qed

lemma read_cells:
  assumes chip: "flash_chip P cells wel" and "4 \<le> n" and a: "a < 0x1000000"
  shows "cells (world (exec (QspiFlashRead P a n) s)) = cells (world s)"
    and "\<exists>hdr. length hdr = 4 \<and> result (QspiFlashRead P a n) s =
       hdr @ map (\<lambda>i. cells (world s) (a + of_nat i)) [0..<n - 4]"
proof -
  let ?xs = "result (stack_bytes P (n - 4)) s"
  let ?r = "plat_qspi P (flash_command FLASH_READ_CMD a @ ?xs) n (world s)"
  have st: "exec (stack_bytes P (n - 4)) s = s" and "length ?xs = n - 4"
    by (simp_all add: stack_bytes_def run_simps)
  then have r: "cells (snd ?r) = cells (world s)" "length (fst ?r) = n"
    "drop 4 (fst ?r) = map (\<lambda>i. cells (world s) (a + of_nat i)) [0..<n - 4]"
    using flash_chip_read [OF chip _ assms(2) a] by blast+
  have e: "result (QspiFlashRead P a n) s = fst ?r"
    "exec (QspiFlashRead P a n) s = exec (qspi_transfer P (flash_command FLASH_READ_CMD a @ ?xs) n) s"
    by (simp_all add: QspiFlashRead_def run_simps qspi_transfer_def st)
  from r e show "cells (world (exec (QspiFlashRead P a n) s)) = cells (world s)"
    by (simp add: qspi_transfer_def run_simps)
  have "fst ?r = take 4 (fst ?r) @ map (\<lambda>i. cells (world s) (a + of_nat i)) [0..<n - 4]"
    using r(3) append_take_drop_id [of 4 "fst ?r"] by simp
  with r(2) e(1) assms(2) show "\<exists>hdr. length hdr = 4 \<and> result (QspiFlashRead P a n) s =
       hdr @ map (\<lambda>i. cells (world s) (a + of_nat i)) [0..<n - 4]"
    by (intro exI [of _ "take 4 (fst ?r)"]) simp
qed

section \<open>Settings survive\<close>

lemma sector_small: "valid_chan chan \<Longrightarrow> chan * FLASH_SECTOR_SIZE < 0x1000000"
  by (auto simp: FLASH_SECTOR_SIZE_def dest!: valid_chan_cases)

text \<open>The bytes of a settings record after its header, as a page of the chip holds them.\<close>

definition settings_bytes :: "u32 list \<Rightarrow> ScaleFactorType \<Rightarrow> byte list" where
  "settings_bytes vals sf = concat (map le32 (vals @ sf_words sf))"

lemma length_settings_bytes: "length vals = length qspi_fields \<Longrightarrow> length (settings_bytes vals sf) = 176"
  by (simp add: settings_bytes_def le32.concat_length del: map_append concat_append)

definition stored :: "(u32 \<Rightarrow> byte) \<Rightarrow> u32 \<Rightarrow> u32 list \<Rightarrow> ScaleFactorType \<Rightarrow> bool" where
  "stored mem chan vals sf \<longleftrightarrow>
     map (\<lambda>i. mem (chan * FLASH_SECTOR_SIZE + of_nat i)) [0..<176] = settings_bytes vals sf"

text \<open>Reading a sector that stores a record restores the registers and scale factors.\<close>

lemma read_qspi_restores:
  assumes chip: "flash_chip P cells wel" and "sf_ok s" and "valid_chan chan"
    and "length vals = length qspi_fields" and "stored (cells (world s)) chan vals sf"
  shows "restored P chan vals sf s (exec (read_qspi P chan) s)"
proof -
  let ?a = "chan * FLASH_SECTOR_SIZE"
  let ?m = "QspiFlashRead P ?a FLASH_PAGE_SIZE :: (_, byte list) state"
  let ?u = "exec ?m s"
  obtain hdr where hdr: "length hdr = 4"
    and "result ?m s = hdr @ map (\<lambda>i. cells (world s) (?a + of_nat i)) [0..<252]"
    using read_cells(2) [OF chip _ sector_small [OF assms(3)], of 256 s] by (auto simp: FLASH_PAGE_SIZE_def)
  moreover have "[0..<252] = [0..<176] @ [176..<(252::nat)]"
    using upt_add_eq_append [of 0 176 76] by simp
  ultimately obtain rest where "result ?m s = hdr @ settings_bytes vals sf @ rest"
    using assms(5) by (simp add: stored_def)
  moreover have "scalefactors ?u = scalefactors s" "sf_ok ?u" "writes (trace ?u) = writes (trace s)"
    using assms(2) by (simp_all add: QspiFlashRead_def run_simps stack_bytes_def qspi_transfer_def)
  ultimately show ?thesis
    using disperse_packed [OF _ assms(3) hdr assms(4), of ?u P sf rest]
    by (simp add: read_qspi_def run_simps settings_bytes_def restored_def new_writes_def)
qed

text \<open>A freshly erased page programmed with the record stores it.\<close>

lemma sector_arith:
  assumes "valid_chan chan" and "i < 0x10000"
  defines "a \<equiv> chan * FLASH_SECTOR_SIZE"
  shows "drop_bit 16 (a + of_nat i) = drop_bit 16 a" and "unat (a + of_nat i - a) = i" and "a AND 0xFF = 0"
proof -
  have i: "unat (of_nat i :: u32) = i"
    using assms(2) by (simp add: unat_of_nat take_bit_nat_eq_self)
  then show "unat (a + of_nat i - a) = i" by simp
  show "a AND 0xFF = 0"
    using valid_chan_cases [OF assms(1)] by (auto simp: a_def FLASH_SECTOR_SIZE_def)
  have "unat (drop_bit 16 (of_nat k * 0x10000 + of_nat i :: u32)) = unat (drop_bit 16 (of_nat k * 0x10000 :: u32))"
    if "k < 5" for k :: nat
  proof -
    have "unat (of_nat k * 0x10000 :: u32) = k * 65536"
      using that by (simp add: unat_word_ariths unat_of_nat take_bit_nat_eq_self)
    moreover from this have "unat (of_nat k * 0x10000 + of_nat i :: u32) = k * 65536 + i"
      using that assms(2) i by (simp add: unat_word_ariths(1))
    ultimately show ?thesis
      using assms(2) by (simp add: drop_bit_eq_div unat_div)
  qed
  from this [of "unat chan"]
  show "drop_bit 16 (a + of_nat i) = drop_bit 16 a"
    using valid_chan_cases [OF assms(1)]
    by (intro word_unat_eq_iff [THEN iffD2]) (auto simp: a_def FLASH_SECTOR_SIZE_def)
qed

lemma byte_and_ones: "0xFF AND b = b" for b :: byte
proof -
  have "(0xFF :: byte) = - 1" by simp
  then show ?thesis by (simp only: and.left_neutral)
qed

lemma program_erased_stores:
  assumes "valid_chan chan" and "length vals = length qspi_fields"
  defines "a \<equiv> chan * FLASH_SECTOR_SIZE"
  shows "stored (program (erased mem a) a (settings_bytes vals sf @ rest)) chan vals sf"
  unfolding stored_def
proof (rule nth_equalityI)
  fix i assume "i < length (map (\<lambda>i. program (erased mem a) a (settings_bytes vals sf @ rest)
    (chan * FLASH_SECTOR_SIZE + of_nat i)) [0..<176])"
  then have i: "i < 176" by simp
  note ar = sector_arith [OF assms(1), of i, folded a_def]
  have "drop_bit 16 (a + of_nat i) = drop_bit 16 a" "unat (a + of_nat i - a) = i"
    using ar i by simp_all
  then show "map (\<lambda>i. program (erased mem a) a (settings_bytes vals sf @ rest)
      (chan * FLASH_SECTOR_SIZE + of_nat i)) [0..<176] ! i = settings_bytes vals sf ! i"
    using i by (simp add: a_def [symmetric] program_def erased_def Let_def nth_append
        length_settings_bytes [OF assms(2)] byte_and_ones)
qed (simp add: length_settings_bytes [OF assms(2)])


lemma gather_settings:
  fixes P :: "'w platform" and s :: "('w, 'x) ctl_scheme"
  assumes "sf_ok s" and "valid_chan chan" and "length buf = FLASH_PAGE_SIZE"
  defines "vals \<equiv> result (map_each (\<lambda>r. crd P chan r) qspi_fields) s"
  shows "\<exists>rest. drop 4 (take FLASH_PAGE_SIZE (result (QspiGatherData P chan buf) s)) =
      settings_bytes vals (scalefactors s ! unat (chan - 1)) @ rest"
proof -
  let ?sf = "scalefactors s ! unat (chan - 1)"
  obtain hdr where hdr: "length hdr = 4"
    and g: "result (QspiGatherData P chan buf) s = overwrite (hdr @ settings_bytes vals ?sf) buf"
    using gather_packed [OF assms(1,2), of P buf] unfolding settings_bytes_def vals_def by blast
  have l: "length (settings_bytes vals ?sf) = 176"
    by (rule length_settings_bytes) (simp add: vals_def)
  then have "length (overwrite (hdr @ settings_bytes vals ?sf) buf) = 256"
    using hdr assms(3) by (simp add: overwrite_def FLASH_PAGE_SIZE_def)
  then show ?thesis
    using hdr l by (simp add: g FLASH_PAGE_SIZE_def) (simp add: overwrite_def)
qed

lemma write_qspi_stores:
  fixes P :: "'w platform" and s :: "('w, 'x) ctl_scheme"
  assumes chip: "flash_chip P cells wel" and "sf_ok s" and "valid_chan chan"
    and ret: "result (write_qspi P chan) s = Some ()"
  defines "vals \<equiv> result (map_each (\<lambda>r. crd P chan r) qspi_fields) (exec (QspiFlashEraseSect P chan) s)"
  shows "stored (cells (world (exec (write_qspi P chan) s))) chan vals (scalefactors s ! unat (chan - 1))"
proof -
  let ?a = "chan * FLASH_SECTOR_SIZE" and ?s1 = "exec (QspiFlashEraseSect P chan) s"
  let ?buf = "result (stack_bytes P FLASH_PAGE_SIZE) s"
  let ?page = "result (QspiGatherData P chan ?buf) ?s1" and ?s2 = "exec (QspiGatherData P chan ?buf) ?s1"
  have st: "exec (stack_bytes P FLASH_PAGE_SIZE) s = s" "length ?buf = FLASH_PAGE_SIZE"
    by (simp_all add: stack_bytes_def run_simps)
  have sf: "scalefactors ?s1 = scalefactors s"
    by (rule unchanged_exec [OF sfs.erase_rel])
  obtain rest where page: "drop 4 (take FLASH_PAGE_SIZE ?page) =
      settings_bytes vals (scalefactors s ! unat (chan - 1)) @ rest"
    using gather_settings [OF _ assms(3) st(2), of ?s1 P] sf assms(2) by (auto simp: vals_def sf_ok_def)
  let ?s3 = "exec (QspiFlashWrite P ?a FLASH_PAGE_SIZE ?page) ?s2"
  have "cells (world ?s3) = program (erased (cells (world s)) ?a) ?a (drop 4 (take FLASH_PAGE_SIZE ?page))"
    using write_cells [OF chip sector_small [OF assms(3)], of FLASH_PAGE_SIZE ?page ?s2] sector_arith(3) [OF assms(3), of 0]
    by (simp add: cells_exec [OF chip cells_gather] erase_cells [OF chip sector_small [OF assms(3)]] FLASH_PAGE_SIZE_def)
  then have "stored (cells (world ?s3)) chan vals (scalefactors s ! unat (chan - 1))"
    using program_erased_stores [OF assms(3), of vals "cells (world s)"] by (simp add: page vals_def)
  moreover have "cells (world (exec (write_qspi P chan) s)) = cells (world ?s3)"
    using ret
    by (auto simp: write_qspi_def run_simps st [unfolded FLASH_PAGE_SIZE_def] ok_def
        read_cells(1) [OF chip _ sector_small [OF assms(3)]] FLASH_PAGE_SIZE_def
        cells_exec [OF chip cells_disperse] split: option.splits)
  ultimately show ?thesis by simp
qed

text \<open>
  C3. Settings survive in flash. Take a chip that erases, programs and reads as a serial NOR
  flash does. After a write message to a channel has returned, a read message, at any later
  time, in any later state of the firmware and the registers, as long as the chip's memory is
  the same, restores the channel: it writes to each of the 37 settings registers the value the
  register had when the settings were saved, in the order of the record, and sets the
  channel's scale factors to the saved ones.
\<close>

theorem flash_settings_survive:
  fixes P :: "'w platform" and s u :: "('w, 'x) ctl_scheme"
  assumes "flash_chip P cells wel" and "sf_ok s" and "valid_chan chan"
    and "result (write_qspi P chan) s = Some ()"
    and "sf_ok u" and "cells (world u) = cells (world (exec (write_qspi P chan) s))"
  defines "saved \<equiv> result (map_each (\<lambda>r. crd P chan r) qspi_fields) (exec (QspiFlashEraseSect P chan) s)"
  shows "new_writes u (exec (read_qspi P chan) u) = zip (map (chan_addr P chan) qspi_fields) saved \<and>
    scalefactors (exec (read_qspi P chan) u) =
      (scalefactors u)[unat (chan - 1) := scalefactors s ! unat (chan - 1)]"
  using read_qspi_restores [OF assms(1,5,3), of saved "scalefactors s ! unat (chan - 1)"]
    write_qspi_stores [OF assms(1-4)] assms(6)
  by (simp add: saved_def restored_def)

end
