(* ===== verification/Snapshot_Props.thy ===== *)
theory Snapshot_Props
  imports Snapshots Control_Dac
begin

text \<open>
  The snapshot code sends the right samples, in the right order and byte order, once per
  trigger, and only after the post-trigger samples have been taken.
\<close>

section \<open>Byte order\<close>

lemma hton_conv_words:
  "hton_conv (concat (map le32 ws) @ rest) (4 * length ws) = concat (map be32 ws) @ rest"
proof (induction ws)
  case Nil
  then show ?case by (cases rest rule: hton_conv.cases [where x = "(r, n)" for r n, simplified]) simp_all
next
  case (Cons w ws)
  obtain a b c d where "le32 w = [a, b, c, d]"
    by (simp add: le32_def be32_def)
  moreover from this have "be32 w = [d, c, b, a]"
    by (simp add: le32_def rev_eq_Cons_iff)
  ultimately show ?case using Cons by simp
qed

lemma length_hton_conv [simp]: "length (hton_conv bs n) = length bs"
  by (induction bs n rule: hton_conv.induct) simp_all

section \<open>The circular buffer\<close>

text \<open>
  The reference: the buffer is a ring of 200000 samples. A snapshot with \<open>pre\<close> samples before
  the trigger at sample \<open>idx\<close> and \<open>post\<close> from it on is the samples of the ring from
  \<open>idx - pre\<close> on, one after the other.
\<close>

definition ring_size :: nat where
  "ring_size = 200000"

definition ring_snapshot :: "(nat \<Rightarrow> f32 list) \<Rightarrow> nat \<Rightarrow> nat \<Rightarrow> nat \<Rightarrow> f32 list" where
  "ring_snapshot sample idx pre post =
     concat (map (\<lambda>k. sample ((idx + ring_size - pre + k) mod ring_size)) [0..<pre + post])"

definition run_of :: "(nat \<Rightarrow> f32 list) \<Rightarrow> nat \<Rightarrow> nat \<Rightarrow> f32 list" where
  "run_of sample j n = concat (map (\<lambda>k. sample (j + k)) [0..<n])"

lemma map_upt_add: "map f [0..<a + b] = map f [0..<a] @ map (\<lambda>k. f (a + k)) [0..<b]"
  by (induction b) simp_all

lemma run_cong:
  "(\<And>k. k < n \<Longrightarrow> f k = sample (j + k)) \<Longrightarrow> concat (map f [0..<n]) = run_of sample j n"
  by (auto simp: run_of_def intro!: arg_cong [where f = concat] map_cong)

lemma ring_pre_wrap:
  assumes "idx < pre" and "pre + post \<le> ring_size"
  shows "ring_snapshot sample idx pre post =
    run_of sample (ring_size - (pre - idx)) (pre - idx) @ run_of sample 0 idx @ run_of sample idx post"
proof -
  let ?f = "\<lambda>k. sample ((idx + ring_size - pre + k) mod ring_size)"
  have "[0..<pre + post] = [0..<(pre - idx) + (idx + post)]" using assms by simp
  then have "ring_snapshot sample idx pre post =
      concat (map ?f [0..<pre - idx]) @ concat (map (\<lambda>k. ?f (pre - idx + k)) [0..<idx]) @
      concat (map (\<lambda>k. ?f (pre - idx + (idx + k))) [0..<post])"
    by (simp only: ring_snapshot_def map_upt_add concat_append)
  moreover have "concat (map ?f [0..<pre - idx]) = run_of sample (ring_size - (pre - idx)) (pre - idx)"
    using assms by (intro run_cong) (simp add: add.commute)
  moreover have "concat (map (\<lambda>k. ?f (pre - idx + k)) [0..<idx]) = run_of sample 0 idx"
  proof (rule run_cong)
    fix k assume "k < idx"
    then have "idx + ring_size - pre + (pre - idx + k) = ring_size + k" using assms by simp
    then show "?f (pre - idx + k) = sample (0 + k)"
      using \<open>k < idx\<close> assms by (simp only: mod_add_self1) simp
  qed
  moreover have "concat (map (\<lambda>k. ?f (pre - idx + (idx + k))) [0..<post]) = run_of sample idx post"
  proof (rule run_cong)
    fix k assume "k < post"
    then have "idx + ring_size - pre + (pre - idx + (idx + k)) = ring_size + (idx + k)" using assms by simp
    then show "?f (pre - idx + (idx + k)) = sample (idx + k)"
      using \<open>k < post\<close> assms by (simp only: mod_add_self1) simp
  qed
  ultimately show ?thesis by simp
qed

lemma ring_no_pre_wrap:
  assumes "pre \<le> idx" and "pre + post \<le> ring_size" and "idx < ring_size"
  shows "ring_snapshot sample idx pre post =
    (if idx + post \<le> ring_size then run_of sample (idx - pre) (pre + post)
     else run_of sample (idx - pre) pre @ run_of sample idx (ring_size - idx) @
          run_of sample 0 (post - (ring_size - idx)))"
proof -
  let ?f = "\<lambda>k. sample ((idx + ring_size - pre + k) mod ring_size)"
  have f: "?f k = sample (if idx - pre + k < ring_size then idx - pre + k else idx - pre + k - ring_size)"
    if "k < pre + post" for k
  proof -
    have "idx + ring_size - pre + k = ring_size + (idx - pre + k)" using assms by simp
    then have "?f k = sample ((idx - pre + k) mod ring_size)" by (simp only: mod_add_self1)
    moreover have "idx - pre + k - ring_size < ring_size" using that assms by simp
    ultimately show ?thesis by (simp add: le_mod_geq)
  qed
  show ?thesis
  proof (cases "idx + post \<le> ring_size")
    case True
    then show ?thesis
      using assms f by (simp add: ring_snapshot_def) (intro run_cong, simp)
  next
    case False
    then have "[0..<pre + post] = [0..<pre + ((ring_size - idx) + (post - (ring_size - idx)))]" by simp
    then have "ring_snapshot sample idx pre post =
        concat (map ?f [0..<pre]) @ concat (map (\<lambda>k. ?f (pre + k)) [0..<ring_size - idx]) @
        concat (map (\<lambda>k. ?f (pre + (ring_size - idx + k))) [0..<post - (ring_size - idx)])"
      by (simp only: ring_snapshot_def map_upt_add concat_append)
    moreover have "concat (map ?f [0..<pre]) = run_of sample (idx - pre) pre"
      using assms f by (intro run_cong) simp
    moreover have "concat (map (\<lambda>k. ?f (pre + k)) [0..<ring_size - idx]) = run_of sample idx (ring_size - idx)"
    proof (rule run_cong)
      fix k assume "k < ring_size - idx"
      then have "idx + k < ring_size" "k < post" using False by simp_all
      then show "?f (pre + k) = sample (idx + k)"
        using f [of "pre + k"] assms by simp
    qed
    moreover have "concat (map (\<lambda>k. ?f (pre + (ring_size - idx + k))) [0..<post - (ring_size - idx)]) =
        run_of sample 0 (post - (ring_size - idx))"
    proof (rule run_cong)
      fix k assume "k < post - (ring_size - idx)"
      with False show "?f (pre + (ring_size - idx + k)) = sample (0 + k)"
        using f [of "pre + (ring_size - idx + k)"] assms by simp
    qed
    ultimately show ?thesis using False by simp
  qed
qed

section \<open>Copying\<close>

definition ring_sample ::
  "'w platform \<Rightarrow> ('w, 'x) ctl_scheme \<Rightarrow> u32 \<Rightarrow> nat \<Rightarrow> f32 list" where
  "ring_sample P s chan j =
     sample_floats (CONVDACBITSTOVOLTS s) (scalefactors s ! unat (chan - 1))
       (\<lambda>a. plat_mem32 P a (world s)) (BUFSTART + of_nat j * 160) (8 * (chan - 1) + 2)"

lemma copy_run:
  assumes "sf_ok s" and "valid_chan chan" and "numwords = of_nat (40 * n)" and "40 * n < 2 ^ 32"
    and "base = BUFSTART + of_nat j * 160"
  shows "result (CopyDataChan P base numwords chan) s = run_of (ring_sample P s chan) j n"
    and "exec (CopyDataChan P base numwords chan) s = s"
proof -
  have "chan_offset chan = Some (8 * (chan - 1) + 2)"
    using valid_chan_cases [OF assms(2)] by auto
  moreover have "unat numwords = 40 * n"
    unfolding assms(3) using assms(4) by (subst unat_of_nat) (simp add: take_bit_nat_eq_self)
  moreover have "(40 * n + 39) div 40 = n" by simp
  moreover have "base + of_nat k * 160 = BUFSTART + of_nat (j + k) * 160" for k
    by (simp add: assms(5) algebra_simps)
  ultimately show "result (CopyDataChan P base numwords chan) s = run_of (ring_sample P s chan) j n"
    and "exec (CopyDataChan P base numwords chan) s = s"
    using assms(1,2)
    by (simp_all add: CopyDataChan_def run_simps run_of_def ring_sample_def add.assoc del: chan_offset.simps)
qed

lemma of_nat_less_word:
  "m < 2 ^ 32 \<Longrightarrow> n < 2 ^ 32 \<Longrightarrow> (of_nat m :: u32) < of_nat n \<longleftrightarrow> m < n"
  by (simp add: word_less_nat_alt unat_of_nat take_bit_nat_eq_self)

lemma drop_bit_2_of_nat: "4 * m < 2 ^ 32 \<Longrightarrow> drop_bit 2 (of_nat (4 * m) :: u32) = of_nat m"
proof -
  assume m: "4 * m < 2 ^ 32"
  have "unat (of_nat (4 * m) :: u32) = 4 * m" "unat (of_nat m :: u32) = m"
    using m by (simp_all only: unat_of_nat) (simp_all add: take_bit_nat_eq_self)
  then show ?thesis
    by (intro word_unat_eq_iff [THEN iffD2]) (simp only: drop_bit_eq_div unat_div, simp)
qed

text \<open>The trigger of a source whose latched address is that of sample \<open>idx\<close> of the ring.\<close>

definition trigger_at :: "TriggerInfo \<Rightarrow> nat \<Rightarrow> nat \<Rightarrow> nat \<Rightarrow> bool" where
  "trigger_at trig idx pre post \<longleftrightarrow>
     trig_addr trig = BUFSTART + of_nat idx * 160 \<and> idx < ring_size \<and>
     pretrigpts trig = of_nat pre \<and> posttrigpts trig = of_nat post \<and> pre + post \<le> ring_size"

lemmas ring_defs = BUFSTART_def BUFLEN_def BUFSTEPBYTES_def BUFSTEPWORDS_def WORDSPERSAMPLE_def ring_size_def

lemma ring_addr:
  assumes "trigger_at trig idx pre post"
  defines "sta \<equiv> trig_addr trig - pretrigpts trig * BUFSTEPBYTES"
    and "sto \<equiv> trig_addr trig + posttrigpts trig * BUFSTEPBYTES"
  shows "sta < 0x10000000 \<longleftrightarrow> idx < pre"
    and "BUFSTART + BUFLEN < sto \<longleftrightarrow> ring_size < idx + post"
    and "pre \<le> idx \<Longrightarrow> sta = BUFSTART + of_nat (idx - pre) * 160"
proof -
  have t: "trig_addr trig = of_nat (0x10000000 + idx * 160)" "pretrigpts trig = of_nat pre"
    "posttrigpts trig = of_nat post" "idx < 200000" "pre + post \<le> 200000"
    using assms(1) by (simp_all add: trigger_at_def ring_defs)
  have "sta = of_nat (0x10000000 + idx * 160) - of_nat (pre * 160)"
    by (simp add: sta_def t BUFSTEPBYTES_def)
  also have "\<dots> = of_nat (0x10000000 + idx * 160 - pre * 160)"
    using t(4,5) by (subst of_nat_diff) simp_all
  finally have sta: "sta = of_nat (0x10000000 + idx * 160 - pre * 160)" .
  have "(of_nat (0x10000000 + idx * 160 - pre * 160) :: u32) < of_nat 0x10000000 \<longleftrightarrow>
      0x10000000 + idx * 160 - pre * 160 < 0x10000000"
    using t(4,5) by (intro of_nat_less_word) simp_all
  then show "sta < 0x10000000 \<longleftrightarrow> idx < pre"
    unfolding sta using t(4,5) by simp linarith
  have sto: "sto = of_nat (0x10000000 + idx * 160 + post * 160)"
    by (simp add: sto_def t BUFSTEPBYTES_def)
  have "(of_nat 0x11E84800 :: u32) < of_nat (0x10000000 + idx * 160 + post * 160) \<longleftrightarrow>
      0x11E84800 < 0x10000000 + idx * 160 + post * 160"
    using t(4,5) by (intro of_nat_less_word) simp_all
  then show "BUFSTART + BUFLEN < sto \<longleftrightarrow> ring_size < idx + post"
    unfolding sto by (simp add: ring_defs) linarith
  show "sta = BUFSTART + of_nat (idx - pre) * 160" if "pre \<le> idx"
  proof -
    have "0x10000000 + idx * 160 - pre * 160 = 0x10000000 + (idx - pre) * 160"
      using that by (simp add: diff_mult_distrib)
    then show ?thesis unfolding sta by (simp only: of_nat_add of_nat_mult) (simp add: BUFSTART_def)
  qed
qed

lemma BUFSTEPWORDS_40: "BUFSTEPWORDS = 40"
  by (simp add: BUFSTEPWORDS_def BUFSTEPBYTES_def)

lemma ring_words:
  assumes "trigger_at trig idx pre post"
  shows "drop_bit 2 (trig_addr trig - BUFSTART) = of_nat (40 * idx)"
    and "idx < pre \<Longrightarrow> pretrigpts trig * WORDSPERSAMPLE - of_nat (40 * idx) = of_nat (40 * (pre - idx))"
    and "idx < pre \<Longrightarrow>
      BUFSTART + BUFLEN - of_nat (40 * (pre - idx)) * 4 = BUFSTART + of_nat (ring_size - (pre - idx)) * 160"
    and "drop_bit 2 (BUFSTART + BUFLEN - trig_addr trig) = of_nat (40 * (ring_size - idx))"
    and "ring_size < idx + post \<Longrightarrow>
      posttrigpts trig * WORDSPERSAMPLE - of_nat (40 * (ring_size - idx)) =
        of_nat (40 * (post - (ring_size - idx)))"
    and "pretrigpts trig * BUFSTEPWORDS = of_nat (40 * pre)"
    and "posttrigpts trig * BUFSTEPWORDS = of_nat (40 * post)"
    and "(pretrigpts trig + posttrigpts trig) * BUFSTEPWORDS = of_nat (40 * (pre + post))"
proof -
  have t: "trig_addr trig = BUFSTART + of_nat idx * 160" "pretrigpts trig = of_nat pre"
    "posttrigpts trig = of_nat post" "idx < 200000" "pre + post \<le> 200000"
    using assms by (simp_all add: trigger_at_def ring_size_def)
  have "trig_addr trig - BUFSTART = of_nat (4 * (40 * idx))" by (simp add: t)
  then show "drop_bit 2 (trig_addr trig - BUFSTART) = of_nat (40 * idx)"
    using t(4) drop_bit_2_of_nat [of "40 * idx"] by simp
  show "pretrigpts trig * WORDSPERSAMPLE - of_nat (40 * idx) = of_nat (40 * (pre - idx))" if "idx < pre"
    using that by (simp add: t WORDSPERSAMPLE_def of_nat_diff algebra_simps)
  show "BUFSTART + BUFLEN - of_nat (40 * (pre - idx)) * 4 =
      BUFSTART + of_nat (ring_size - (pre - idx)) * 160" if "idx < pre"
    using that t(5) by (simp add: BUFLEN_def ring_size_def of_nat_diff algebra_simps)
  have "BUFSTART + BUFLEN - trig_addr trig = of_nat (4 * (40 * (ring_size - idx)))"
    using t(4) by (simp add: t(1) BUFLEN_def ring_size_def of_nat_diff algebra_simps)
  then show "drop_bit 2 (BUFSTART + BUFLEN - trig_addr trig) = of_nat (40 * (ring_size - idx))"
    using t(4) drop_bit_2_of_nat [of "40 * (ring_size - idx)"] by (simp add: ring_size_def)
  show "posttrigpts trig * WORDSPERSAMPLE - of_nat (40 * (ring_size - idx)) =
      of_nat (40 * (post - (ring_size - idx)))" if "ring_size < idx + post"
    using that t(4) by (simp add: t WORDSPERSAMPLE_def ring_size_def of_nat_diff algebra_simps)
  show "pretrigpts trig * BUFSTEPWORDS = of_nat (40 * pre)"
    "posttrigpts trig * BUFSTEPWORDS = of_nat (40 * post)"
    "(pretrigpts trig + posttrigpts trig) * BUFSTEPWORDS = of_nat (40 * (pre + post))"
    by (simp_all add: t BUFSTEPWORDS_40 algebra_simps)
qed

lemma read_dma:
  fixes s :: "('w, 'x) ctl_scheme"
  assumes "sf_ok s" and "valid_chan (channum trig)" and tr: "trigger_at trig idx pre post"
  shows "result (ReadDMABuf P trig) s = ring_snapshot (ring_sample P s (channum trig)) idx pre post \<and>
    exec (ReadDMABuf P trig) s = s"
proof -
  let ?S = "ring_sample P s (channum trig)"
  have b: "idx < 200000" "pre + post \<le> 200000" "trig_addr trig = BUFSTART + of_nat idx * 160"
    using tr by (simp_all add: trigger_at_def ring_size_def)
  have run: "result (CopyDataChan P base (of_nat (40 * n)) (channum trig)) s = run_of ?S j n"
    "exec (CopyDataChan P base (of_nat (40 * n)) (channum trig)) s = s"
    if "base = BUFSTART + of_nat j * 160" "n \<le> 200000" for base j n
    using copy_run [OF assms(1,2) refl _ that(1), of n P] that(2) by simp_all
  have zero: "BUFSTART = BUFSTART + of_nat 0 * 160" by simp
  note eqs = ReadDMABuf_def Let_def ring_addr(1,2) [OF tr] ring_words [OF tr] run_simps
  consider "idx < pre" | "\<not> idx < pre" "ring_size < idx + post" | "\<not> idx < pre" "\<not> ring_size < idx + post"
    by linarith
  then show ?thesis
  proof cases
    case 1
    have n: "pre - idx \<le> 200000" "idx \<le> 200000" "post \<le> 200000" using b by simp_all
    show ?thesis
      using ring_pre_wrap [OF 1, of post ?S] b(2)
      by (simp only: eqs 1 if_True run [OF refl n(1)] run [OF zero n(2)] run [OF b(3) n(3)] ring_size_def)
  next
    case 2
    then have st: "trig_addr trig - pretrigpts trig * BUFSTEPBYTES = BUFSTART + of_nat (idx - pre) * 160"
      by (intro ring_addr(3) [OF tr]) simp
    have n: "pre \<le> 200000" "ring_size - idx \<le> 200000" "post - (ring_size - idx) \<le> 200000"
      using b by (simp_all add: ring_size_def)
    have e: "ring_snapshot ?S idx pre post = run_of ?S (idx - pre) pre @ run_of ?S idx (ring_size - idx) @
          run_of ?S 0 (post - (ring_size - idx))"
      using ring_no_pre_wrap [of pre idx post ?S] 2 b by (simp add: ring_size_def)
    show ?thesis
      by (simp only: eqs 2 if_True if_False not_False_eq_True run [OF st n(1)] run [OF b(3) n(2)]
          run [OF zero n(3)] e)
  next
    case 3
    then have st: "trig_addr trig - pretrigpts trig * BUFSTEPBYTES = BUFSTART + of_nat (idx - pre) * 160"
      by (intro ring_addr(3) [OF tr]) simp
    have e: "ring_snapshot ?S idx pre post = run_of ?S (idx - pre) (pre + post)"
      using ring_no_pre_wrap [of pre idx post ?S] 3 b by (simp add: ring_size_def)
    show ?thesis
      by (simp only: eqs 3 if_True if_False run [OF st b(2)] e)
  qed
qed

section \<open>Sending\<close>

lemma length_ring_sample [simp]: "length (ring_sample P s chan j) = 10"
  by (simp add: ring_sample_def sample_floats_def Let_def)

lemma length_ring_snapshot:
  "(\<And>j. length (sample j) = n) \<Longrightarrow> length (ring_snapshot sample idx pre post) = n * (pre + post)"
  by (simp add: ring_snapshot_def length_concat comp_def sum_list_triv)

text \<open>The body of a message whose first floats are stored and converted in place.\<close>

lemma wave_body:
  assumes "n \<le> length floats"
  shows "take (4 * n) (hton_conv (overwrite (concat (map le32 floats)) msg) (4 * n)) =
    concat (map be32 (take n floats))"
proof -
  have "concat (map le32 floats) = concat (map le32 (take n floats)) @ concat (map le32 (drop n floats))"
    by (simp flip: concat_append map_append)
  then have "hton_conv (overwrite (concat (map le32 floats)) msg) (4 * n) =
      concat (map be32 (take n floats)) @ concat (map le32 (drop n floats)) @
        drop (length (concat (map le32 floats))) msg"
    using hton_conv_words [of "take n floats"] assms by (simp add: overwrite_def)
  moreover have "length (concat (map be32 (take n floats))) = 4 * n"
    using assms by (simp add: be32.concat_length)
  ultimately show ?thesis by simp
qed

lemma trig_lens [simp]:
  "i < length (trig_array k t) \<Longrightarrow> trig_get k i (trig_set k i x t) = x"
  "trig_array k' (trig_set k i x t) = (if k' = k then (trig_array k t)[i := x] else trig_array k' t)"
  by (cases k; cases k'; simp add: trig_get_def)+

lemma core_indep_snap [simp]:
  "core_indep snapshot_trig" "core_indep (buf_array k)"
  by (cases k; simp add: core_indep_def)+

lemma buf_array_client [simp]:
  "buf_array k (s\<lparr>client_sock := x\<rparr>) = buf_array k s"
  "buf_array k (s\<lparr>snapshot_trig := t\<rparr>) = buf_array k s"
  by (cases k; simp)+

lemma buf_set_simps [simp]:
  "client_sock (buf_set k i x s) = client_sock s" "trace (buf_set k i x s) = trace s"
  "snapshot_trig (buf_set k i x s) = snapshot_trig s" "world (buf_set k i x s) = world s"
  "scalefactors (buf_set k i x s) = scalefactors s"
  by (cases k; simp)+

lemma exec_set_trig [run_simps]:
  "exec (set_trig k i t) s = s\<lparr>snapshot_trig := trig_set k i t (snapshot_trig s)\<rparr>"
  by (simp add: set_trig_def run_simps)

lemma sf_ok_snap [simp]: "sf_ok (s\<lparr>snapshot_trig := t\<rparr>) = sf_ok s"
  by (simp add: sf_ok_def)

text \<open>The message a trigger is to send: the samples around it, most significant byte first.\<close>

definition wave_message ::
  "'w platform \<Rightarrow> ('w, 'x) ctl_scheme \<Rightarrow> TriggerInfo \<Rightarrow> nat \<Rightarrow> nat \<Rightarrow> nat \<Rightarrow> byte list" where
  "wave_message P s trig idx pre post =
     concat (map be32 (take (unat (wfm_len (msgID trig)) div 4)
       (ring_snapshot (ring_sample P s (channum trig)) idx pre post)))"

lemma wfm_len_words: "4 * (unat (wfm_len m) div 4) = unat (wfm_len m)"
  by (simp add: wfm_len_def MSGWFMLEN_def MSGINJWFMLEN_def)

lemma ring_sample_snap [simp]: "ring_sample P (s\<lparr>snapshot_trig := t\<rparr>) = ring_sample P s"
  by (simp add: ring_sample_def fun_eq_iff)

definition sent_state ::
  "trig_kind \<Rightarrow> nat \<Rightarrow> byte list \<Rightarrow> ('w, 'x) snap_scheme \<Rightarrow> ('w, 'x) snap_scheme" where
  "sent_state k i msg s = (
     let trig = trig_get k i (snapshot_trig s)
     in buf_set k i msg (s\<lparr>snapshot_trig := trig_set k i
          (trig\<lparr>sendbuf := 0, active := 0, trigcnt := trigcnt trig + 1\<rparr>) (snapshot_trig s)\<rparr>))"

lemma trig_set_twice [simp]: "trig_set k i x (trig_set k i y t) = trig_set k i x t"
  by (cases k) simp_all

lemma SendWfmData_exec:
  fixes s :: "('w, 'x) snap_scheme" and P :: "'w platform"
  assumes trig: "trig = trig_get k i (snapshot_trig s)"
    and "sf_ok s" and "valid_chan (channum trig)" and "trigger_at trig idx pre post"
    and buf: "40 * (pre + post) \<le> length (buf_array k s ! i)"
    and fl: "fl = ring_snapshot (ring_sample P s (channum trig)) idx pre post"
    and msg: "msg = hton_conv (overwrite (concat (map le32 fl)) (buf_array k s ! i)) (unat (wfm_len (msgID trig)))"
  shows "exec (SendWfmData P conf k i) s =
    exec (psc_send P conf (ucast (msgID trig)) (wfm_len (msgID trig)) msg) (sent_state k i msg s)"
proof -
  let ?s1 = "s\<lparr>snapshot_trig := trig_set k i (trig\<lparr>sendbuf := 0, active := 0\<rparr>) (snapshot_trig s)\<rparr>"
  have "sf_ok ?s1" using assms(2) by simp
  from read_dma [OF this assms(3,4), of P]
  have r: "result (ReadDMABuf P trig) ?s1 = fl" "exec (ReadDMABuf P trig) ?s1 = ?s1" by (simp_all add: fl)
  have "length fl = 10 * (pre + post)" by (simp add: fl length_ring_snapshot)
  then have "\<not> length (buf_array k s ! i) < length (concat (map le32 fl))"
    using buf by (simp add: le32.concat_length)
  then show ?thesis
    by (simp add: SendWfmData_def run_simps Let_def r sent_state_def msg flip: trig)
qed

lemma SendWfmData_run:
  fixes s :: "('w, 'x) snap_scheme"
  assumes "sf_ok s" and "valid_chan (channum trig)" and "trigger_at trig idx pre post"
    and trig: "trig = trig_get k i (snapshot_trig s)" and "i < length (trig_array k (snapshot_trig s))"
    and len: "unat (wfm_len (msgID trig)) \<le> 40 * (pre + post)"
    and buf: "40 * (pre + post) \<le> length (buf_array k s ! i)"
  shows "\<exists>msg u. trace u = trace s \<and> client_sock u = client_sock s \<and>
    trig_get k i (snapshot_trig u) = trig\<lparr>sendbuf := 0, active := 0, trigcnt := trigcnt trig + 1\<rparr> \<and>
    take (unat (wfm_len (msgID trig))) msg = wave_message P s trig idx pre post \<and>
    exec (SendWfmData P conf k i) s = exec (psc_send P conf (ucast (msgID trig)) (wfm_len (msgID trig)) msg) u"
proof -
  let ?fl = "ring_snapshot (ring_sample P s (channum trig)) idx pre post"
  let ?l = "unat (wfm_len (msgID trig))"
  let ?msg = "hton_conv (overwrite (concat (map le32 ?fl)) (buf_array k s ! i)) ?l"
  have "length ?fl = 10 * (pre + post)" by (simp add: length_ring_snapshot)
  then have "take ?l ?msg = wave_message P s trig idx pre post"
    using wave_body [of "?l div 4" ?fl "buf_array k s ! i"] len
    by (simp add: wave_message_def wfm_len_words)
  then show ?thesis
    using SendWfmData_exec [OF trig assms(1,2,3) buf refl refl, of P conf] assms(5)
    by (intro exI [of _ ?msg] exI [of _ "sent_state k i ?msg s"])
       (simp add: sent_state_def Let_def flip: trig)
qed

lemma sends_frame_cong:
  "sends_frame c frame u t \<Longrightarrow> trace u = trace s \<Longrightarrow> sends_frame c frame s t"
  by (simp add: sends_frame_def transmits_def)

text \<open>
  C4. A snapshot is the right piece of history. If the trigger of a source lies at sample
  \<open>idx\<close> of the circular buffer, the message sent to the connected client is, float by float
  and most significant byte first, the samples of the ring from \<open>pre\<close> before the trigger on in
  the order in which they were taken, also when they run over either end of the buffer, each
  scaled with the channel's factors; or a proper prefix of it, and the socket is then closed.
  The source is idle afterwards and its trigger counted.
\<close>

theorem SendWfmData_sends_ring:
  fixes s :: "('w, 'x) snap_scheme" and P :: "'w platform" and k :: trig_kind and i :: nat
  defines "trig \<equiv> trig_get k i (snapshot_trig s)"
  assumes "sf_ok s" and "valid_chan (channum trig)" and "trigger_at trig idx pre post"
    and "i < length (trig_array k (snapshot_trig s))"
    and "unat (wfm_len (msgID trig)) \<le> 40 * (pre + post)"
    and "40 * (pre + post) \<le> length (buf_array k s ! i)"
    and "client_sock s = c" and "0 \<le> c" and "notify conf PSC_DIS = skip"
  defines "t \<equiv> exec (SendWfmData P conf k i) s"
  shows "sends_frame c
      (psc_header (ucast (msgID trig)) (wfm_len (msgID trig)) @ wave_message P s trig idx pre post) s t \<and>
    trig_get k i (snapshot_trig t) = trig\<lparr>sendbuf := 0, active := 0, trigcnt := trigcnt trig + 1\<rparr>"
proof -
  obtain msg u where u: "trace u = trace s" "client_sock u = client_sock s"
    and tr: "trig_get k i (snapshot_trig u) = trig\<lparr>sendbuf := 0, active := 0, trigcnt := trigcnt trig + 1\<rparr>"
    and msg: "take (unat (wfm_len (msgID trig))) msg = wave_message P s trig idx pre post"
    and t: "t = exec (psc_send P conf (ucast (msgID trig)) (wfm_len (msgID trig)) msg) u"
    using SendWfmData_run [OF assms(2-4) meta_eq_to_obj_eq [OF trig_def] assms(5-7), of P conf] unfolding t_def by blast
  have "sends_frame c (psc_frame (ucast (msgID trig)) msg (wfm_len (msgID trig))) u t"
    unfolding t using u assms(8-10) by (intro psc_send_frame) simp_all
  moreover have "snapshot_trig t = snapshot_trig u"
    unfolding t by (rule unchanged_exec [OF frame_psc_send]) (simp_all add: assms(10))
  ultimately show ?thesis
    using u(1) tr by (simp add: psc_frame_def msg sends_frame_cong)
qed

section \<open>Triggers\<close>

text \<open>
  One poll of a source whose address register reads \<open>v\<close>. The machine a source implements:
  idle until the address changes; then it holds the address for \<open>posttrigpts / 1000\<close> polls, and
  asks for the waveform to be sent at the next one.
\<close>

definition trig_poll :: "u32 \<Rightarrow> TriggerInfo \<Rightarrow> TriggerInfo" where
  "trig_poll v trig = ProcessTrigger (if active trig = 0 then trig\<lparr>trig_addr := v\<rparr> else trig)"

lemma trig_poll_idle:
  "active t = 0 \<Longrightarrow> addr_last t = v \<Longrightarrow> trig_poll v t = t\<lparr>trig_addr := v\<rparr>"
  by (simp add: trig_poll_def ProcessTrigger_def)

lemma trig_poll_start:
  "active t = 0 \<Longrightarrow> addr_last t \<noteq> v \<Longrightarrow> trig_poll v t =
     (let t' = t\<lparr>trig_addr := v, active := 1, addr_last := v, postdlycnt := 0\<rparr> in
      if 0 < posttrigpts t div 1000 then t'\<lparr>postdlycnt := 1\<rparr> else t'\<lparr>sendbuf := 1\<rparr>)"
  by (auto simp: trig_poll_def ProcessTrigger_def Let_def)

lemma trig_poll_wait:
  "active t = 1 \<Longrightarrow> postdlycnt t < posttrigpts t div 1000 \<Longrightarrow>
   trig_poll v t = t\<lparr>postdlycnt := postdlycnt t + 1\<rparr>"
  by (simp add: trig_poll_def ProcessTrigger_def)

lemma trig_poll_fire:
  "active t = 1 \<Longrightarrow> \<not> postdlycnt t < posttrigpts t div 1000 \<Longrightarrow> trig_poll v t = t\<lparr>sendbuf := 1\<rparr>"
  by (simp add: trig_poll_def ProcessTrigger_def)

lemma unat_plus_1: "x < y \<Longrightarrow> unat (x + 1) = unat x + 1" for x y :: u32
  using unat_less_2p [of y] by (simp add: word_less_nat_alt unat_word_ariths)

lemma trig_polls_wait:
  "active t = 1 \<Longrightarrow> unat (postdlycnt t) + length vs \<le> unat (posttrigpts t div 1000) \<Longrightarrow>
   fold trig_poll vs t = t\<lparr>postdlycnt := postdlycnt t + of_nat (length vs)\<rparr>"
proof (induction vs arbitrary: t)
  case Nil
  then show ?case by simp
next
  case (Cons v vs)
  have lt: "postdlycnt t < posttrigpts t div 1000"
    using Cons.prems by (simp add: word_less_nat_alt)
  note s1 = trig_poll_wait [OF Cons.prems(1) lt, of v]
  have "fold trig_poll vs (trig_poll v t) =
      (trig_poll v t)\<lparr>postdlycnt := postdlycnt (trig_poll v t) + of_nat (length vs)\<rparr>"
    using Cons.prems unat_plus_1 [OF lt] by (intro Cons.IH) (simp_all add: s1)
  then show ?case by (simp add: s1 algebra_simps)
qed

text \<open>The polls of a source after its trigger at \<open>v\<close>, whatever the address register reads later.\<close>

lemma trig_polls:
  assumes "active t = 0" and "addr_last t \<noteq> v" and "sendbuf t = 0"
    and "length vs \<le> unat (posttrigpts t div 1000)"
  defines "u \<equiv> fold trig_poll (v # vs) t"
  shows "active u = 1 \<and> trig_addr u = v \<and> addr_last u = v \<and>
    (sendbuf u = (if length vs = unat (posttrigpts t div 1000) then 1 else 0))"
proof (cases "posttrigpts t div 1000 = 0")
  case True
  then show ?thesis
    using assms trig_poll_start [OF assms(1,2)] by (simp add: Let_def)
next
  case False
  let ?n = "unat (posttrigpts t div 1000)"
  let ?t1 = "t\<lparr>trig_addr := v, active := 1, addr_last := v, postdlycnt := 1\<rparr>"
  have t1: "trig_poll v t = ?t1"
    using trig_poll_start [OF assms(1,2)] False by (simp add: Let_def word_neq_0_conv)
  have n: "0 < ?n" using False by (metis unat_gt_0)
  show ?thesis
  proof (cases "length vs = ?n")
    case False
    then have "fold trig_poll vs ?t1 = ?t1\<lparr>postdlycnt := postdlycnt ?t1 + of_nat (length vs)\<rparr>"
      using assms(4) by (intro trig_polls_wait) simp_all
    with False show ?thesis by (simp add: u_def t1 assms(3))
  next
    case True
    with n obtain ws x where vs: "vs = ws @ [x]" by (cases vs rule: rev_cases) auto
    then have lw: "1 + length ws = ?n" using True by simp
    have w: "fold trig_poll ws ?t1 = ?t1\<lparr>postdlycnt := 1 + of_nat (length ws)\<rparr>"
      using trig_polls_wait [of ?t1 ws] lw by simp
    have "1 + of_nat (length ws) = posttrigpts t div 1000"
      using arg_cong [OF lw, where f = "of_nat :: nat \<Rightarrow> u32"] by simp
    then have "trig_poll x (?t1\<lparr>postdlycnt := 1 + of_nat (length ws)\<rparr>) =
        ?t1\<lparr>postdlycnt := 1 + of_nat (length ws), sendbuf := 1\<rparr>"
      by (subst trig_poll_fire) simp_all
    with True show ?thesis by (simp add: u_def t1 vs w)
  qed
qed

section \<open>All sources at once\<close>

text \<open>
  What a call of \<open>snapshot_process\<close> does to one source: a poll, and then, unless the source is
  an event receiver one (their transmission is disabled), the waveform if it is due.
\<close>

definition source_sent :: "TriggerInfo \<Rightarrow> TriggerInfo" where
  "source_sent t = t\<lparr>sendbuf := 0, active := 0, trigcnt := trigcnt t + 1\<rparr>"

definition source_step :: "trig_kind \<Rightarrow> u32 \<Rightarrow> TriggerInfo \<Rightarrow> TriggerInfo" where
  "source_step k v t = (let u = trig_poll v t in if sendbuf u = 1 \<and> k \<noteq> Evr then source_sent u else u)"

definition trigs_ok :: "TriggerTypes \<Rightarrow> bool" where
  "trigs_ok t \<longleftrightarrow> (\<forall>k. length (trig_array k t) = 4)"

lemma trig_get_set:
  "trig_get k' i' (trig_set k i x t) =
     (if k' = k \<and> i' = i \<and> i < length (trig_array k t) then x else trig_get k' i' t)"
  by (cases "i' = i"; cases "i < length (trig_array k t)")
     (simp_all add: trig_get_def list_update_beyond not_less)

lemma trigs_ok_set [simp]: "trigs_ok (trig_set k i x t) = trigs_ok t"
  by (auto simp: trigs_ok_def)

text \<open>Whatever these operations do, they only add to the trace.\<close>

abbreviation grows :: "('w, 'x) core_scheme \<Rightarrow> ('w, 'x) core_scheme \<Rightarrow> bool" where
  "grows \<equiv> emits (\<lambda>_. True)"

lemma grows_psc_send: "notify conf PSC_DIS = skip \<Longrightarrow> state_io_rel grows (psc_send P conf mid mlen msg)"
  unfolding psc_send_def disconnect_client_def
  by (simp only:) (intro emits_intros emits_sendmsg; simp)

lemma grows_send_ready: "notify conf PSC_DIS = skip \<Longrightarrow> state_io_rel grows (send_ready P conf k i)"
  unfolding send_ready_def SendWfmData_def ReadDMABuf_def CopyDataChan_def sf_read_def set_trig_def Let_def
  by (intro emits_intros grows_psc_send; simp)

lemma grows_stats: "notify conf PSC_DIS = skip \<Longrightarrow> state_io_rel grows (SendSnapShotStats P conf)"
  unfolding SendSnapShotStats_def stats_row_def stats_entry_def Let_def
  by (intro emits_intros grows_psc_send; simp)

lemma check_trigger_run:
  "\<exists>v es. trace (exec (check_trigger P k i r) s) = trace s @ es \<and>
     (active (trig_get k i (snapshot_trig s)) = 0 \<longrightarrow> Rd (reg_addr P r) v \<in> set es) \<and>
     snapshot_trig (exec (check_trigger P k i r) s) =
       trig_set k i (trig_poll v (trig_get k i (snapshot_trig s))) (snapshot_trig s)"
  by (cases "active (trig_get k i (snapshot_trig s)) = 0")
     (auto simp: check_trigger_def run_simps trig_poll_def)

text \<open>
  \<open>polled P es X a b\<close>: the sources of \<open>X\<close> have made one poll from \<open>a\<close> to \<open>b\<close>, an idle one with a
  value read from its own register according to the events \<open>es\<close>, and the others none.
\<close>

definition polled ::
  "'w platform \<Rightarrow> io set \<Rightarrow> (trig_kind \<times> nat \<times> u32) set \<Rightarrow> TriggerTypes \<Rightarrow> TriggerTypes \<Rightarrow> bool" where
  "polled P es X a b \<longleftrightarrow> trigs_ok b \<and>
     (\<forall>k i r. (k, i, r) \<in> X \<longrightarrow>
        (\<exists>v. (active (trig_get k i a) = 0 \<longrightarrow> Rd (reg_addr P r) v \<in> es) \<and>
             trig_get k i b = trig_poll v (trig_get k i a))) \<and>
     (\<forall>k i. (\<forall>r. (k, i, r) \<notin> X) \<longrightarrow> trig_get k i b = trig_get k i a)"

lemma polled_mono: "polled P es X a b \<Longrightarrow> es \<subseteq> fs \<Longrightarrow> polled P fs X a b"
  unfolding polled_def by blast

lemma polled_insert:
  assumes p: "polled P es X (trig_set k i (trig_poll v (trig_get k i a)) a) c" and fresh: "\<forall>r. (k, i, r) \<notin> X"
    and "i < length (trig_array k a)" and "active (trig_get k i a) = 0 \<longrightarrow> Rd (reg_addr P r) v \<in> es"
  shows "polled P es (insert (k, i, r) X) a c"
proof -
  let ?a = "trig_set k i (trig_poll v (trig_get k i a)) a"
  have own: "trig_get k i c = trig_poll v (trig_get k i a)"
    using p fresh assms(3) by (simp add: polled_def trig_get_set)
  have other: "(k', i') \<noteq> (k, i) \<Longrightarrow> trig_get k' i' ?a = trig_get k' i' a" for k' i'
    by (auto simp: trig_get_set)
  have "\<exists>v. (active (trig_get k' i' a) = 0 \<longrightarrow> Rd (reg_addr P r') v \<in> es) \<and>
      trig_get k' i' c = trig_poll v (trig_get k' i' a)" if "(k', i', r') \<in> insert (k, i, r) X" for k' i' r'
  proof (cases "(k', i') = (k, i)")
    case True
    then show ?thesis using that fresh own assms(4) by auto
  next
    case False
    then have "(k', i', r') \<in> X" using that by auto
    then show ?thesis using p other [OF False] unfolding polled_def by metis
  qed
  moreover have "trig_get k' i' c = trig_get k' i' a" if "\<forall>r'. (k', i', r') \<notin> insert (k, i, r) X" for k' i'
  proof -
    have "(k', i') \<noteq> (k, i)" and "\<forall>r'. (k', i', r') \<notin> X" using that by auto
    then show ?thesis using p other unfolding polled_def by metis
  qed
  ultimately show ?thesis using p unfolding polled_def by blast
qed

lemma check_triggers_run:
  fixes P :: "'w platform" and s :: "('w, 'x) snap_scheme"
  assumes "trigs_ok (snapshot_trig s)" and "distinct (map (\<lambda>(k, i, r). (k, i)) xs)"
    and "list_all (\<lambda>(k, i, r). i < 4) xs"
  defines "t \<equiv> exec (for_each (\<lambda>(k, i, r). check_trigger P k i r) xs) s"
  shows "\<exists>es. trace t = trace s @ es \<and> polled P (set es) (set xs) (snapshot_trig s) (snapshot_trig t)"
  using assms(1-3) unfolding t_def
proof (induction xs arbitrary: s)
  case Nil
  then show ?case by (simp add: run_simps polled_def)
next
  case (Cons x xs)
  obtain k i r where x: "x = (k, i, r)" by (cases x) auto
  let ?s1 = "exec (check_trigger P k i r) s"
  let ?t = "exec (for_each (\<lambda>(k, i, r). check_trigger P k i r) xs) ?s1"
  obtain v es where es: "trace ?s1 = trace s @ es"
    "active (trig_get k i (snapshot_trig s)) = 0 \<longrightarrow> Rd (reg_addr P r) v \<in> set es"
    and v: "snapshot_trig ?s1 = trig_set k i (trig_poll v (trig_get k i (snapshot_trig s))) (snapshot_trig s)"
    using check_trigger_run by blast
  have "\<exists>fs. trace ?t = trace ?s1 @ fs \<and> polled P (set fs) (set xs) (snapshot_trig ?s1) (snapshot_trig ?t)"
    using Cons.prems by (intro Cons.IH) (simp_all add: v)
  then obtain fs where fs: "trace ?t = trace ?s1 @ fs"
    and p: "polled P (set fs) (set xs) (snapshot_trig ?s1) (snapshot_trig ?t)" by blast
  have "polled P (set (es @ fs)) (insert (k, i, r) (set xs)) (snapshot_trig s) (snapshot_trig ?t)"
  proof (rule polled_insert)
    show "polled P (set (es @ fs)) (set xs)
        (trig_set k i (trig_poll v (trig_get k i (snapshot_trig s))) (snapshot_trig s)) (snapshot_trig ?t)"
      using polled_mono [OF p] by (simp add: v)
    show "\<forall>r. (k, i, r) \<notin> set xs" using Cons.prems(2) x by force
    show "i < length (trig_array k (snapshot_trig s))" using Cons.prems x by (simp add: trigs_ok_def)
    show "active (trig_get k i (snapshot_trig s)) = 0 \<longrightarrow> Rd (reg_addr P r) v \<in> set (es @ fs)"
      using es(2) by simp
  qed
  then show ?case
    using es(1) fs by (simp add: x run_simps)
qed

lemma CheckforTriggers_run:
  assumes "trigs_ok (snapshot_trig s)"
  shows "\<exists>es. trace (exec (CheckforTriggers P) s) = trace s @ es \<and>
    polled P (set es) (set trig_sources) (snapshot_trig s) (snapshot_trig (exec (CheckforTriggers P) s))"
  unfolding CheckforTriggers_def
  by (rule check_triggers_run [OF assms]) (simp_all add: trig_sources_def)

lemma frame_CopyDataChan: "core_indep f \<Longrightarrow> state_io_rel (unchanged f) (CopyDataChan P b n c)"
  by (auto simp: CopyDataChan_def sf_read_def Let_def intro!: frame_intros)

lemma frame_ReadDMABuf: "core_indep f \<Longrightarrow> state_io_rel (unchanged f) (ReadDMABuf P trig)"
  by (auto simp: ReadDMABuf_def Let_def intro!: frame_intros frame_CopyDataChan)

lemma send_ready_run:
  assumes "notify conf PSC_DIS = skip" and "i < length (trig_array k (snapshot_trig s))"
  shows "snapshot_trig (exec (send_ready P conf k i) s) =
    (let t = trig_get k i (snapshot_trig s) in
     if sendbuf t = 1 then trig_set k i (source_sent t) (snapshot_trig s) else snapshot_trig s)"
proof -
  have set_set: "trig_set k i y (trig_set k i x t) = trig_set k i y t" for x y t
    by (cases k) simp_all
  have fr: "snapshot_trig (exec (psc_send P conf mid mlen msg) u) = snapshot_trig u" for mid mlen msg and u :: "('a, 'b) snap_scheme"
    by (rule unchanged_exec [OF frame_psc_send]) (simp_all add: assms(1))
  show ?thesis
    by (simp add: send_ready_def SendWfmData_def Let_def run_simps fr set_set source_sent_def
        unchanged_exec [OF frame_ReadDMABuf])
qed

definition sent_in :: "(trig_kind \<times> nat) set \<Rightarrow> TriggerTypes \<Rightarrow> TriggerTypes \<Rightarrow> bool" where
  "sent_in K a b \<longleftrightarrow> trigs_ok b \<and>
     (\<forall>k i. trig_get k i b =
        (if (k, i) \<in> K \<and> sendbuf (trig_get k i a) = 1 then source_sent (trig_get k i a)
         else trig_get k i a))"

lemma sent_in_trans: "sent_in K a b \<Longrightarrow> sent_in L b c \<Longrightarrow> sent_in (K \<union> L) a c"
  by (auto simp: sent_in_def source_sent_def)

lemma send_ready_sent:
  assumes "notify conf PSC_DIS = skip" and "trigs_ok (snapshot_trig s)" and "i < 4"
  shows "sent_in {(k, i)} (snapshot_trig s) (snapshot_trig (exec (send_ready P conf k i) s))"
  using assms send_ready_run [OF assms(1), of i k s P]
  by (auto simp: sent_in_def Let_def trig_get_set trigs_ok_def)

definition send_round ::
  "'w platform \<Rightarrow> ('w, 'x) snap_scheme psc_config \<Rightarrow> nat \<Rightarrow> (('w, 'x) snap_scheme, unit) state" where
  "send_round P conf i = do {
     send_ready P conf Usr i; send_ready P conf Flt i; send_ready P conf Err i; send_ready P conf Inj i }"

lemma grows_send_round: "notify conf PSC_DIS = skip \<Longrightarrow> state_io_rel grows (send_round P conf i)"
  unfolding send_round_def by (intro em.io_structure grows_send_ready)

lemma send_round_sent:
  assumes "notify conf PSC_DIS = skip" and "trigs_ok (snapshot_trig s)" and "i < 4"
  shows "sent_in ({Usr, Flt, Err, Inj} \<times> {i}) (snapshot_trig s) (snapshot_trig (exec (send_round P conf i) s))"
proof -
  note step = send_ready_sent [OF assms(1) _ assms(3), where P = P]
  have ok: "sent_in K a b \<Longrightarrow> trigs_ok b" for K a b by (simp add: sent_in_def)
  let ?s1 = "exec (send_ready P conf Usr i) s"
  let ?s2 = "exec (send_ready P conf Flt i) ?s1"
  let ?s3 = "exec (send_ready P conf Err i) ?s2"
  have u: "sent_in {(Usr, i)} (snapshot_trig s) (snapshot_trig ?s1)" by (rule step [OF assms(2)])
  have f: "sent_in {(Flt, i)} (snapshot_trig ?s1) (snapshot_trig ?s2)" by (rule step [OF ok [OF u]])
  have e: "sent_in {(Err, i)} (snapshot_trig ?s2) (snapshot_trig ?s3)" by (rule step [OF ok [OF f]])
  have j: "sent_in {(Inj, i)} (snapshot_trig ?s3) (snapshot_trig (exec (send_ready P conf Inj i) ?s3))"
    by (rule step [OF ok [OF e]])
  have "{Usr, Flt, Err, Inj} \<times> {i} = {(Usr, i)} \<union> ({(Flt, i)} \<union> ({(Err, i)} \<union> {(Inj, i)}))" by auto
  then show ?thesis
    using sent_in_trans [OF u sent_in_trans [OF f sent_in_trans [OF e j]]]
    by (simp only: send_round_def exec_bind)
qed

lemma send_rounds_sent:
  assumes "notify conf PSC_DIS = skip" and "trigs_ok (snapshot_trig s)" and "\<forall>i\<in>set is. i < 4"
  shows "sent_in ({Usr, Flt, Err, Inj} \<times> set is) (snapshot_trig s)
    (snapshot_trig (exec (for_each (send_round P conf) is) s))"
  using assms(2,3)
proof (induction "is" arbitrary: s)
  case Nil
  then show ?case by (simp add: run_simps sent_in_def)
next
  case (Cons i "is")
  note one = send_round_sent [OF assms(1) Cons.prems(1), of i P]
  have "{Usr, Flt, Err, Inj} \<times> set (i # is) = {Usr, Flt, Err, Inj} \<times> {i} \<union> {Usr, Flt, Err, Inj} \<times> set is"
    by auto
  moreover have "sent_in ({Usr, Flt, Err, Inj} \<times> set is) (snapshot_trig (exec (send_round P conf i) s))
      (snapshot_trig (exec (for_each (send_round P conf) is) (exec (send_round P conf i) s)))"
    using Cons.prems one by (intro Cons.IH) (simp_all add: sent_in_def)
  ultimately show ?case
    using sent_in_trans [OF one] Cons.prems by (simp add: run_simps)
qed

lemma frame_stats:
  "core_indep f \<Longrightarrow> state_io_rel (unchanged f) (stats_row P trig i)"
  by (auto simp: stats_row_def stats_entry_def Let_def intro!: frame_intros)

lemma SendSnapShotStats_trigs:
  assumes "notify conf PSC_DIS = skip"
  shows "snapshot_trig (exec (SendSnapShotStats P conf) s) = snapshot_trig s"
  by (rule unchanged_exec)
     (auto simp: SendSnapShotStats_def Let_def assms intro!: frame_intros frame_stats frame_psc_send)

lemma snapshot_process_steps:
  fixes P :: "'w platform" and s :: "('w, 'x) snap_scheme"
  assumes "notify conf PSC_DIS = skip" and "trigs_ok (snapshot_trig s)"
  defines "t \<equiv> exec (snapshot_process P conf) s"
  shows "trigs_ok (snapshot_trig t) \<and> (\<exists>es. trace t = trace s @ es \<and>
    (\<forall>k i r. (k, i, r) \<in> set trig_sources \<longrightarrow> (\<exists>v.
       (active (trig_get k i (snapshot_trig s)) = 0 \<longrightarrow> Rd (reg_addr P r) v \<in> set es) \<and>
       trig_get k i (snapshot_trig t) = source_step k v (trig_get k i (snapshot_trig s)))))"
proof -
  let ?s1 = "exec (CheckforTriggers P) s"
  let ?s2 = "exec (for_each (send_round P conf) [0..<4]) ?s1"
  have t: "t = exec (SendSnapShotStats P conf) ?s2"
    by (simp add: t_def snapshot_process_def run_simps send_round_def [abs_def])
  have tr: "snapshot_trig t = snapshot_trig ?s2"
    by (simp add: t SendSnapShotStats_trigs [OF assms(1)])
  obtain es where es: "trace ?s1 = trace s @ es"
    and p: "polled P (set es) (set trig_sources) (snapshot_trig s) (snapshot_trig ?s1)"
    using CheckforTriggers_run [OF assms(2), of P] by blast
  have q: "sent_in ({Usr, Flt, Err, Inj} \<times> {0..<4}) (snapshot_trig ?s1) (snapshot_trig ?s2)"
    using send_rounds_sent [OF assms(1), of ?s1 "[0..<4]" P] p by (simp add: polled_def)
  have "grows ?s1 t"
    using io_exec [OF em.io_for_each [OF grows_send_round [OF assms(1)]], where s = ?s1]
      io_exec [OF grows_stats [OF assms(1)], where s = ?s2] unfolding t by (rule em.R_trans)
  then obtain fs where fs: "trace t = trace s @ es @ fs" using es by (auto simp: emits_def)
  have step: "\<exists>v. (active (trig_get k i (snapshot_trig s)) = 0 \<longrightarrow> Rd (reg_addr P r) v \<in> set (es @ fs)) \<and>
       trig_get k i (snapshot_trig t) = source_step k v (trig_get k i (snapshot_trig s))"
    if src: "(k, i, r) \<in> set trig_sources" for k i r
  proof -
    obtain v where rd: "active (trig_get k i (snapshot_trig s)) = 0 \<longrightarrow> Rd (reg_addr P r) v \<in> set es"
      and v: "trig_get k i (snapshot_trig ?s1) = trig_poll v (trig_get k i (snapshot_trig s))"
      using p src unfolding polled_def by blast
    have "trig_get k i (snapshot_trig ?s2) =
        (if (k, i) \<in> {Usr, Flt, Err, Inj} \<times> {0..<4} \<and> sendbuf (trig_get k i (snapshot_trig ?s1)) = 1
         then source_sent (trig_get k i (snapshot_trig ?s1)) else trig_get k i (snapshot_trig ?s1))"
      using q unfolding sent_in_def by blast
    moreover have "(k, i) \<in> {Usr, Flt, Err, Inj} \<times> {0..<4} \<longleftrightarrow> k \<noteq> Evr"
      using src by (auto simp: trig_sources_def)
    ultimately have "trig_get k i (snapshot_trig t) = source_step k v (trig_get k i (snapshot_trig s))"
      by (simp only: tr v source_step_def Let_def conj_commute)
    with rd show ?thesis by auto
  qed
  have "trigs_ok (snapshot_trig t)" using q by (simp add: tr sent_in_def)
  with fs step show ?thesis by blast
qed

text \<open>
  C10. A call of \<open>snapshot_process\<close> runs twenty trigger machines side by side: for every kind and
  channel it makes exactly one step of that source's machine, for an idle source with a value
  read from its own address register during the call, and no source disturbs another.
\<close>

theorem snapshot_process_refines:
  fixes P :: "'w platform" and s :: "('w, 'x) snap_scheme"
  assumes "notify conf PSC_DIS = skip" and "trigs_ok (snapshot_trig s)"
  defines "t \<equiv> exec (snapshot_process P conf) s"
  shows "trigs_ok (snapshot_trig t) \<and> (\<exists>es. trace t = trace s @ es \<and>
    (\<forall>k i r. (k, i, r) \<in> set trig_sources \<longrightarrow> (\<exists>v.
       (active (trig_get k i (snapshot_trig s)) = 0 \<longrightarrow> Rd (reg_addr P r) v \<in> set es) \<and>
       trig_get k i (snapshot_trig t) = source_step k v (trig_get k i (snapshot_trig s)))))"
  unfolding t_def by (rule snapshot_process_steps [OF assms(1,2)])

lemma source_step_quiet: "sendbuf (trig_poll v t) = 0 \<Longrightarrow> source_step k v t = trig_poll v t"
  by (simp add: source_step_def Let_def)

lemma fold_snoc: "fold f (v # vs @ [x]) t = f x (fold f (v # vs) t)"
  by simp

lemma source_steps_polls:
  assumes "active t = 0" and "addr_last t \<noteq> v" and "sendbuf t = 0"
    and "length vs < unat (posttrigpts t div 1000)"
  shows "fold (source_step k) (v # vs) t = fold trig_poll (v # vs) t"
  using assms(4)
proof (induction vs rule: rev_induct)
  case Nil
  then have "sendbuf (fold trig_poll [v] t) = 0"
    using trig_polls [OF assms(1-3), of "[]"] by simp
  then show ?case by (simp add: source_step_quiet)
next
  case (snoc x vs)
  then have IH: "fold (source_step k) (v # vs) t = fold trig_poll (v # vs) t" by simp
  have "sendbuf (fold trig_poll (v # vs @ [x]) t) = 0"
    using trig_polls [OF assms(1-3), of "vs @ [x]"] snoc.prems by simp
  then show ?case by (simp only: fold_snoc IH source_step_quiet)
qed

lemma trigcnt_polls [simp]: "trigcnt (fold trig_poll vs t) = trigcnt t"
  by (induction vs arbitrary: t) (simp_all add: trig_poll_def ProcessTrigger_def Let_def)

lemma source_steps_send:
  assumes "active t = 0" and "addr_last t \<noteq> v" and "sendbuf t = 0" and "k \<noteq> Evr"
    and "length vs = unat (posttrigpts t div 1000)"
  shows "fold (source_step k) (v # vs) t = source_sent (fold trig_poll (v # vs) t)"
proof -
  have s: "sendbuf (fold trig_poll (v # vs) t) = 1"
    using trig_polls [OF assms(1-3), of vs] assms(5) by simp
  show ?thesis
  proof (cases vs rule: rev_cases)
    case Nil
    with s show ?thesis by (simp add: source_step_def Let_def assms(4))
  next
    case (snoc ws x)
    have "fold (source_step k) (v # ws) t = fold trig_poll (v # ws) t"
      using assms(5) snoc by (intro source_steps_polls assms(1-3)) simp
    with s assms(4) show ?thesis
      by (simp only: snoc fold_snoc source_step_def Let_def) simp
  qed
qed

text \<open>
  C16. One waveform per trigger, and not too early. When the address register of an idle
  source changes to \<open>v\<close>, the source keeps \<open>v\<close> whatever the register reads afterwards, sends
  nothing during the following \<open>posttrigpts / 1000\<close> polls, in which the samples after the
  trigger are taken, and sends the waveform of \<open>v\<close> exactly at the next one; then it is idle
  again and does not react to \<open>v\<close> any more.
\<close>

theorem one_waveform_per_trigger:
  fixes t :: TriggerInfo and vs :: "u32 list"
  assumes "active t = 0" and "sendbuf t = 0" and "v \<noteq> addr_last t" and "k \<noteq> Evr"
  defines "n \<equiv> unat (posttrigpts t div 1000)" and "u \<equiv> fold (source_step k) (v # vs) t"
  shows "(length vs < n \<longrightarrow> active u = 1 \<and> trig_addr u = v \<and> sendbuf u = 0 \<and> trigcnt u = trigcnt t) \<and>
    (length vs = n \<longrightarrow> active u = 0 \<and> trig_addr u = v \<and> sendbuf u = 0 \<and> trigcnt u = trigcnt t + 1 \<and>
       source_step k v u = u)"
proof (intro conjI impI)
  have ne: "addr_last t \<noteq> v" using assms(3) by simp
  note polls = trig_polls [OF assms(1) ne assms(2)]
  {
    assume "length vs < n"
    then have "u = fold trig_poll (v # vs) t"
      unfolding u_def n_def by (intro source_steps_polls assms(1,2) ne)
    with \<open>length vs < n\<close> polls [of vs]
    show "active u = 1" "trig_addr u = v" "sendbuf u = 0" "trigcnt u = trigcnt t"
      by (simp_all add: n_def del: fold.simps)
  next
    assume "length vs = n"
    then have u: "u = source_sent (fold trig_poll (v # vs) t)"
      unfolding u_def n_def by (intro source_steps_send assms(1,2,4) ne)
    with \<open>length vs = n\<close> polls [of vs]
    have *: "active u = 0" "trig_addr u = v" "addr_last u = v" "sendbuf u = 0" "trigcnt u = trigcnt t + 1"
      by (simp_all add: n_def source_sent_def del: fold.simps)
    then show "active u = 0" "trig_addr u = v" "sendbuf u = 0" "trigcnt u = trigcnt t + 1" by simp_all
    have "trig_poll v u = u" using trig_poll_idle [OF *(1,3)] *(2) by simp
    then show "source_step k v u = u" using *(4) by (simp add: source_step_quiet)
  }
qed

end
