(* ===== verification/PscMain.thy ===== *)
theory PscMain
  imports Periodic Qspi_Props Snapshot_Props
begin

text \<open>
  The program (main.c): the callbacks of the server, and the server loop run with them.
\<close>

text \<open>
  \<open>client_event\<close> sends a greeting to a new client and ignores a disconnection. The only
  notification its own send can cause is a disconnection, for which it returns at once; so
  the configuration that send sees has a callback that does nothing.
\<close>

definition quiet_conf :: "('w, 'x) sched_scheme psc_config" where
  "quiet_conf = \<lparr>port = 3000, conn = Some (\<lambda>_. skip), recv_cb = None, start = None\<rparr>"

definition client_event :: "'w platform \<Rightarrow> psc_event \<Rightarrow> (('w, 'x) sched_scheme, unit) state" where
  "client_event P evt =
     (if evt \<noteq> PSC_CONN then skip
      else do {
        gh \<leftarrow> gets git_hash;
        psc_send_one P quiet_conf 0x100 8 (le32 (htonl gh) @ le32 0)
      })"

definition client_msg ::
  "'w platform \<Rightarrow> u16 \<Rightarrow> u32 \<Rightarrow> (('w, 'x) sched_scheme, unit option) state" where
  "client_msg P msgid msglen = do {
     gwr P IOC_ACCESS_REG 1;
     gwr P IOC_ACCESS_REG 0;
     msg \<leftarrow> gets rxbuf;
     if msgid = 0 then ok (glob_settings P msg)
     else if msgid = 1 \<or> msgid = 2 \<or> msgid = 3 \<or> msgid = 4
       then chan_settings P (ucast msgid) msg msglen
     else if msgid = 101 then ok (write_ramptable P 1 msg msglen)
     else State_Monad.return (Some ())
   }"

text \<open>The console runs in a thread of its own, which this starts.\<close>

definition console_setup :: "'w sysinfo \<Rightarrow> (('w, 'x) core_scheme, unit) state" where
  "console_setup S = silently (sys_thread_console S)"

definition on_startup :: "'w platform \<Rightarrow> 'w sysinfo \<Rightarrow> (('w, 'x) sched_scheme, unit) state" where
  "on_startup P S = do {
     pscdata_init P S;
     console_setup S
   }"

definition main_conf :: "'w platform \<Rightarrow> 'w sysinfo \<Rightarrow> ('w, 'x) sched_scheme psc_config" where
  "main_conf P S = \<lparr>port = 3000, conn = Some (client_event P), recv_cb = Some (client_msg P),
     start = Some (on_startup P S)\<rparr>"

text \<open>The endless loop of the network thread, for \<open>n\<close> turns.\<close>

definition network_loop ::
  "'w platform \<Rightarrow> 'w sysinfo \<Rightarrow> nat \<Rightarrow> (('w, 'x) sched_scheme, unit option) state" where
  "network_loop P S n = psc_loop P (main_conf P S) (pscdata_poll P S (main_conf P S)) n"

section \<open>The callbacks keep the accounts\<close>

text \<open>With the quiet configuration the contract of the callbacks is immediate.\<close>

interpretation quiet: psc_callbacks P quiet_conf skip for P
  by unfold_locales (auto simp: quiet_conf_def intro!: frame.io_skip inv.io_skip)

lemma notify_quiet [simp]: "notify quiet_conf PSC_DIS = skip"
  by (simp add: notify_def quiet_conf_def)

lemma notify_main [simp]: "notify (main_conf P S) PSC_DIS = skip"
  by (simp add: notify_def main_conf_def client_event_def)

text \<open>A configuration matters to a send only through its reaction to a disconnection.\<close>

lemma psc_send_quiet:
  assumes "notify conf PSC_DIS = skip"
  shows "psc_send P conf mid mlen msg = psc_send P quiet_conf mid mlen msg"
  unfolding psc_send_def disconnect_client_def assms notify_quiet ..

lemma leak_psc_send:
  "notify conf PSC_DIS = skip \<Longrightarrow>
   state_io_rel (unchanged (leak c)) (psc_send P conf mid mlen msg :: (('w, 'x) sched_scheme, unit) state)"
  by (simp only: psc_send_quiet quiet.send_leak)

lemma leak_client_event: "state_io_rel (unchanged (leak c)) (client_event P ev)"
  unfolding client_event_def psc_send_one_def
  by (intro leak_intros leak_psc_send notify_quiet)

lemma leak_glob_settings: "state_io_rel (unchanged (leak c)) (glob_settings P msg)"
  unfolding glob_settings_def soft_trig_def set_fpleds_def Let_def
  by (intro leak_intros)

lemma leak_ok: "state_io_rel (unchanged f) m \<Longrightarrow> state_io_rel (unchanged f) (ok m)"
  unfolding ok_def by (intro frame.io_bind frame.io_return)

lemma valid_msgid: "msgid = 1 \<or> msgid = 2 \<or> msgid = 3 \<or> msgid = 4 \<Longrightarrow> valid_chan (ucast (msgid :: u16))"
  by (auto simp: valid_chan_def)

lemma leak_client_msg: "state_io_rel (unchanged (leak c)) (client_msg P mid mlen)"
  unfolding client_msg_def
  by (intro leak_intros leak_ok leak_glob_settings leak_chan_settings leak_write_ramptable valid_msgid)

lemma leak_emit: "neutral e \<Longrightarrow> state_io_rel (unchanged (leak c)) (emit e)"
  by (rule leak_neutral) (auto intro!: emits_intros frame_intros)

lemma leak_stack: "state_io_rel (unchanged (leak c)) (stack_bytes P n)"
  by (simp add: stack_bytes_def frame.io_gets)

lemma leak_sf_read: "state_io_rel (unchanged (leak c)) (sf_read chan)"
  unfolding sf_read_def Let_def by (intro leak_intros leak_emit neutral_simps)

lemma leak_accum: "state_io_rel (unchanged (leak c)) (ReadAccumSA P a m)"
  unfolding ReadAccumSA_def by (intro leak_intros)

lemmas leak_reads = leak_intros leak_stack leak_sf_read leak_accum leak_emit neutral_simps

lemma leak_set_trig: "state_io_rel (unchanged (leak c)) (set_trig k i t)"
  unfolding set_trig_def by (intro leak_modify) simp_all

lemma leak_CopyDataChan: "state_io_rel (unchanged (leak c)) (CopyDataChan P b n ch)"
  unfolding CopyDataChan_def by (intro leak_reads)

lemma leak_ReadDMABuf: "state_io_rel (unchanged (leak c)) (ReadDMABuf P trig)"
  unfolding ReadDMABuf_def Let_def by (intro leak_reads leak_CopyDataChan)

lemma leak_SendWfmData:
  fixes conf :: "('w, 'x) sched_scheme psc_config"
  shows "notify conf PSC_DIS = skip \<Longrightarrow> state_io_rel (unchanged (leak c)) (SendWfmData P conf k i)"
  unfolding SendWfmData_def Let_def
  by (intro leak_reads leak_set_trig leak_ReadDMABuf leak_psc_send) simp_all

lemma leak_snapshot_process:
  fixes conf :: "('w, 'x) sched_scheme psc_config"
  shows "notify conf PSC_DIS = skip \<Longrightarrow> state_io_rel (unchanged (leak c)) (snapshot_process P conf)"
  unfolding snapshot_process_def CheckforTriggers_def check_trigger_def send_ready_def
    SendSnapShotStats_def stats_row_def stats_entry_def Let_def
  by (intro leak_reads leak_set_trig leak_SendWfmData leak_psc_send) simp_all

interpretation lk: periodic_io "unchanged (leak c)" P "main_conf P S" for c P S
  by unfold_locales
     (rule leak_In32 leak_Out32 leak_sf_read leak_psc_send leak_ticks leak_modify leak_snapshot_process |
      simp)+

text \<open>The program's own callbacks meet the contract of the server.\<close>

interpretation main: psc_callbacks P "main_conf P S" "pscdata_poll P S (main_conf P S)" for P S
proof unfold_locales
  fix c f ev
  assume "conn (main_conf P S) = Some f"
  then have f: "f = client_event P" by (simp add: main_conf_def)
  show "state_io_rel (unchanged (leak c)) (f ev)"
    unfolding f by (rule leak_client_event)
  show "state_io_rel (keeps (\<lambda>s. client_sock s < 0)) (f PSC_DIS)"
    unfolding f client_event_def by (simp add: inv.io_skip)
next
  fix c g mid mlen
  assume "recv_cb (main_conf P S) = Some g"
  then have g: "g = client_msg P" by (simp add: main_conf_def)
  show "state_io_rel (unchanged (leak c)) (g mid mlen)"
    unfolding g by (rule leak_client_msg)
next
  fix c
  show "state_io_rel (unchanged (leak c)) (pscdata_poll P S (main_conf P S))"
    by (rule lk.poll_rel)
qed

text \<open>
  The server neither leaks nor double-closes a socket. However clients come, go, are
  superseded, time out or fail, after any number of turns of the network loop with all its
  message handlers and periodic sends, every socket that was ever accepted has been closed
  exactly as often as it was accepted, except the current client's, which is open exactly once.
\<close>

theorem network_loop_owns_sockets:
  fixes s :: "('w, 'x) sched_scheme"
  assumes "client_sock s < 0" and "\<And>c. open_count c (trace s) = 0"
  shows "open_count c (trace (exec (network_loop P S n) s)) =
    (if client_sock (exec (network_loop P S n) s) = c \<and> 0 \<le> c then 1 else 0)"
proof -
  let ?t = "exec (network_loop P S n) s"
  have "leak c ?t = leak c s"
    unfolding network_loop_def by (rule unchanged_exec [OF main.loop_leak])
  also have "leak c s = 0"
    using assms by (auto simp: leak_def owned_def)
  finally show ?thesis by (simp add: leak_def owned_def)
qed

section \<open>From the wire to the registers\<close>

definition unwritten :: "io \<Rightarrow> bool" where
  "unwritten e \<longleftrightarrow> reg_write e = None"

lemma emits_unwritten: "emits unwritten s t \<Longrightarrow> writes (trace t) = writes (trace s)"
proof -
  have "list_all unwritten es \<Longrightarrow> writes es = []" for es
    by (induction es) (simp_all add: unwritten_def)
  then show "emits unwritten s t \<Longrightarrow> writes (trace t) = writes (trace s)"
    by (auto simp: emits_def)
qed

lemma recvmsg_keeps:
  fixes s :: "('w, 'x) sched_scheme" and P :: "'w platform" and c flags :: int and maxlen :: u32
  defines "t \<equiv> exec (psc_recvmsg P c maxlen flags) s"
  shows "writes (trace t) = writes (trace s)" and "scalefactors t = scalefactors s"
    and "CONVVOLTSTODACBITS t = CONVVOLTSTODACBITS s" and "rxbuf t = rxbuf s"
proof -
  show "writes (trace t) = writes (trace s)"
    unfolding t_def by (rule emits_unwritten [OF io_exec [OF emits_recvmsg]]) (simp add: unwritten_def)
qed (simp_all add: t_def unchanged_exec [OF frame_recvmsg])

text \<open>The body of a settings message: the message number and the datum.\<close>

definition settings_body :: "u32 \<Rightarrow> u32 \<Rightarrow> byte list" where
  "settings_body m u = concat (map be32 [m, u])"

lemma settings_msg:
  "msg_addr (overwrite (settings_body m u) buf) = m" "msg_data (overwrite (settings_body m u) buf) = u"
  using load32_be [of 0 "[m, u]"] load32_be [of 1 "[m, u]"]
  by (simp_all only: msg_addr_def msg_data_def overwrite_def settings_body_def) simp_all

text \<open>What receiving a whole message amounts to: the handler runs on the updated buffer.\<close>

lemma receive_client_delivers:
  fixes s :: "('w, 'x) sched_scheme" and P :: "'w platform"
  assumes "stream_recv P c pending" and "pending (world s) = psc_frame mid body mlen @ rest"
    and "length body = unat mlen" and "mlen \<le> of_nat PSC_MAX_RX_MSG_LEN"
  shows "\<exists>u. writes (trace u) = writes (trace s) \<and> scalefactors u = scalefactors s \<and>
    CONVVOLTSTODACBITS u = CONVVOLTSTODACBITS s \<and> rxbuf u = overwrite body (rxbuf s) \<and>
    exec (receive_client P (main_conf P S) c) s = exec (client_msg P mid mlen) u \<and>
    result (receive_client P (main_conf P S) c) s = result (client_msg P mid mlen) u"
proof -
  let ?m = "psc_recvmsg P c (of_nat PSC_MAX_RX_MSG_LEN) 0 :: (('w, 'x) sched_scheme, _) state"
  let ?s1 = "exec ?m s"
  let ?s2 = "?s1\<lparr>rxbuf := overwrite body (rxbuf ?s1)\<rparr>"
  let ?u = "(exec (xTaskGetTickCount P) ?s2)\<lparr>last_rx_tick := result (xTaskGetTickCount P) ?s2\<rparr>"
  note r = psc_recvmsg_stream(1) [OF assms, of 0]
  have d: "deliver (main_conf P S) = client_msg P"
    by (simp add: deliver_def main_conf_def fun_eq_iff)
  have "exec (receive_client P (main_conf P S) c) s = exec (client_msg P mid mlen) ?u"
    "result (receive_client P (main_conf P S) c) s = result (client_msg P mid mlen) ?u"
    by (simp_all add: receive_client_def recv_store_def run_simps r d)
  then show ?thesis
    by (intro exI [of _ ?u]) (simp add: xTaskGetTickCount_def run_simps recvmsg_keeps)
qed

lemma client_msg_chan:
  fixes u :: "('w, 'x) sched_scheme" and P :: "'w platform"
  assumes "valid_chan chan" and "mid = ucast chan"
  defines "v \<equiv> exec (gwr P IOC_ACCESS_REG 0) (exec (gwr P IOC_ACCESS_REG 1) u)"
  shows "exec (client_msg P mid mlen) u = exec (chan_settings P chan (rxbuf u) mlen) v"
    and "result (client_msg P mid mlen) u = result (chan_settings P chan (rxbuf u) mlen) v"
proof -
  have "mid = 1 \<or> mid = 2 \<or> mid = 3 \<or> mid = 4" "mid \<noteq> 0" "ucast mid = chan"
    using valid_chan_cases [OF assms(1)] by (auto simp: assms(2))
  then show "exec (client_msg P mid mlen) u = exec (chan_settings P chan (rxbuf u) mlen) v"
    and "result (client_msg P mid mlen) u = result (chan_settings P chan (rxbuf u) mlen) v"
    by (simp_all add: client_msg_def v_def run_simps)
qed

text \<open>A received message that leaves a setting at the start of the buffer writes its register.\<close>

lemma settings_received:
  fixes s :: "('w, 'x) sched_scheme" and P :: "'w platform" and S :: "'w sysinfo"
  assumes "stream_recv P c pending" and "pending (world s) = psc_frame (ucast chan) body mlen @ rest"
    and "length body = unat mlen" and "mlen \<le> of_nat PSC_MAX_RX_MSG_LEN"
    and buf: "overwrite body (rxbuf s) = overwrite (settings_body m u) buf"
    and "valid_chan chan" and "sf_ok s" and "(m, r, f) \<in> set setting_table"
  defines "t \<equiv> exec (receive_client P (main_conf P S) c) s"
  shows "result (receive_client P (main_conf P S) c) s = Some () \<and>
    new_writes s t =
      [(reg_addr P IOC_ACCESS_REG, 1), (reg_addr P IOC_ACCESS_REG, 0),
       (chan_addr P chan r, f u (CONVVOLTSTODACBITS s) (scalefactors s ! unat (chan - 1)))]"
proof -
  from receive_client_delivers [OF assms(1-4), of S]
  obtain v where v: "writes (trace v) = writes (trace s)" "scalefactors v = scalefactors s"
    "CONVVOLTSTODACBITS v = CONVVOLTSTODACBITS s" "rxbuf v = overwrite (settings_body m u) buf"
    and t: "t = exec (client_msg P (ucast chan) mlen) v"
    and r: "result (receive_client P (main_conf P S) c) s = result (client_msg P (ucast chan) mlen) v"
    unfolding t_def buf by blast
  let ?v1 = "exec (gwr P IOC_ACCESS_REG 0) (exec (gwr P IOC_ACCESS_REG 1) v)"
  have "sf_ok ?v1" using assms(7) v(2) by (simp add: sf_ok_def run_simps)
  moreover have "implements P chan (rxbuf v) mlen ?v1 (m, r, f)"
    by (rule implements_table [OF calculation assms(6,8)])
  ultimately have "result (chan_settings P chan (rxbuf v) mlen) ?v1 = Some ()"
    "exec (chan_settings P chan (rxbuf v) mlen) ?v1 =
       exec (cwr P chan r (f u (CONVVOLTSTODACBITS ?v1) (scalefactors ?v1 ! unat (chan - 1)))) ?v1"
    by (simp_all add: implements_def v(4) settings_msg)
  then show ?thesis
    by (simp add: r t client_msg_chan [OF assms(6) refl] new_writes_def run_simps v)
qed

text \<open>
  C2. From the wire to the fabric: when the byte stream of the client continues with the
  frame of a settings message, delivered by TCP in pieces of any size, the server receives
  it whole, takes exactly its bytes from the stream, blinks the access LED and writes exactly
  one register, that of the table of settings in the block of the addressed channel, with the
  value of the table.
\<close>

theorem settings_end_to_end:
  fixes s :: "('w, 'x) sched_scheme" and P :: "'w platform" and S :: "'w sysinfo"
  assumes "stream_recv P c pending"
    and "pending (world s) = psc_frame (ucast chan) (settings_body m u) 8 @ rest"
    and "valid_chan chan" and "sf_ok s" and "(m, r, f) \<in> set setting_table"
  defines "t \<equiv> exec (receive_client P (main_conf P S) c) s"
  shows "result (receive_client P (main_conf P S) c) s = Some () \<and>
    new_writes s t =
      [(reg_addr P IOC_ACCESS_REG, 1), (reg_addr P IOC_ACCESS_REG, 0),
       (chan_addr P chan r, f u (CONVVOLTSTODACBITS s) (scalefactors s ! unat (chan - 1)))]"
proof -
  have "length (settings_body m u) = unat (8 :: u32)" "(8 :: u32) \<le> of_nat PSC_MAX_RX_MSG_LEN"
    by (simp_all add: settings_body_def PSC_MAX_RX_MSG_LEN_def)
  then show ?thesis
    using settings_received [OF assms(1,2) _ _ refl assms(3-5), of S] unfolding t_def by blast
qed

end
