(* ===== verification/Safety.thy ===== *)
theory Safety
  imports PscMain
begin

text \<open>
  Memory safety of the network thread: the receive buffer is never overrun, and no turn of the
  loop runs into undefined behaviour.
\<close>

section \<open>The receive buffer\<close>

definition rx_ok :: "'w platform \<Rightarrow> ('w, 'x) net_scheme \<Rightarrow> bool" where
  "rx_ok P s \<longleftrightarrow> (recv_bounded P \<longrightarrow> length (rxbuf s) = PSC_MAX_RX_MSG_LEN)"

lemma keeps_rx: "state_io_rel (unchanged rxbuf) m \<Longrightarrow> state_io_rel (keeps (rx_ok P)) m"
  by (auto simp: state_io_rel_def keeps_def unchanged_def rx_ok_def)

lemma rx_recv_store: "state_io_rel (keeps (rx_ok P)) (recv_store P c)"
proof (rule io_of_exec)
  fix s :: "('a, 'b) net_scheme"
  let ?m = "psc_recvmsg P c (of_nat PSC_MAX_RX_MSG_LEN) 0 :: (('a, 'b) net_scheme, recv_result) state"
  have b: "recv_bounded P \<Longrightarrow> length (rr_body (result ?m s)) \<le> PSC_MAX_RX_MSG_LEN"
    using psc_recvmsg_bounded [of P c "of_nat PSC_MAX_RX_MSG_LEN" 0 s]
    by (simp add: PSC_MAX_RX_MSG_LEN_def)
  show "keeps (rx_ok P) s (exec (recv_store P c) s)"
    using b by (auto simp: recv_store_def run_simps keeps_def rx_ok_def overwrite_def
        unchanged_exec [OF frame_recvmsg])
qed

lemma rx_sf_read: "state_io_rel (unchanged rxbuf) (sf_read chan)"
  unfolding sf_read_def Let_def by (intro frame_intros) simp

lemma rx_psc_send:
  "notify conf PSC_DIS = skip \<Longrightarrow> state_io_rel (unchanged rxbuf) (psc_send P conf mid mlen msg)"
  by (rule frame_psc_send) simp_all

lemma rx_buf_set [simp]: "rxbuf (buf_set k i x s) = rxbuf s"
  by (cases k) simp_all

lemma rx_snapshot_process:
  assumes "notify conf PSC_DIS = skip"
  shows "state_io_rel (unchanged rxbuf) (snapshot_process P conf)"
  unfolding snapshot_process_def CheckforTriggers_def check_trigger_def send_ready_def SendWfmData_def
    SendSnapShotStats_def set_trig_def Let_def
  by (intro frame_intros frame_stats frame_ReadDMABuf rx_psc_send assms) simp_all

interpretation rxp: periodic_io "unchanged rxbuf" P "main_conf P S" for P S
  by unfold_locales
     (rule frame_In32 frame_Out32 rx_sf_read rx_psc_send frame_ticks frame_modify rx_snapshot_process |
      simp)+

lemma net_part_rxbuf: "state_io_rel (unchanged net_part) m \<Longrightarrow> state_io_rel (unchanged rxbuf) m"
  by (auto simp: state_io_rel_def unchanged_def net_part_def)

lemma rx_client_msg: "state_io_rel (unchanged rxbuf) (client_msg P mid mlen)"
  unfolding client_msg_def glob_settings_def soft_trig_def set_fpleds_def Let_def
  by (intro frame_intros leak_ok net_part_rxbuf [OF net.chan_settings_rel] net_Set_dac valid_msgid
      net_part_rxbuf [OF net.write_ramptable_rel] core_indep_net)

lemma rx_client_event: "state_io_rel (unchanged rxbuf) (client_event P ev)"
  unfolding client_event_def psc_send_one_def by (intro frame_intros rx_psc_send) simp

interpretation rx: psc_steps "keeps (rx_ok P)" P "main_conf P S" "pscdata_poll P S (main_conf P S)" for P S
proof unfold_locales
  show "state_io_rel (keeps (rx_ok P)) (notify (main_conf P S) ev)" for ev
    by (simp add: notify_def main_conf_def keeps_rx rx_client_event)
  show "state_io_rel (keeps (rx_ok P)) (deliver (main_conf P S) mid mlen)" for mid mlen
    by (simp add: deliver_def main_conf_def keeps_rx rx_client_msg)
  show "state_io_rel (keeps (rx_ok P)) (pscdata_poll P S (main_conf P S))"
    by (rule keeps_rx [OF rxp.poll_rel])
qed (auto intro!: keeps_rx frame_intros rx_recv_store frame_call simp: sk_select_def sk_accept_def set_sockopt_def)

text \<open>
  The receive buffer of 200000 bytes is never overrun: with a \<open>recv\<close> that stores no more
  than it is asked for, whatever lengths the headers of the client claim, the bytes stored
  during any number of turns of the loop stay within the buffer.
\<close>

theorem rx_buffer_not_overrun:
  fixes s :: "('w, 'x) sched_scheme"
  assumes "recv_bounded P" and "length (rxbuf s) = PSC_MAX_RX_MSG_LEN"
  shows "length (rxbuf (exec (network_loop P S n) s)) = PSC_MAX_RX_MSG_LEN"
  using keeps_exec [OF rx.loop_rel, of P s S n] assms by (simp add: rx_ok_def network_loop_def)

section \<open>What the firmware relies on of the fabric\<close>

text \<open>
  The buffer pointer register of a trigger is 0 until its first trigger (\<open>fired\<close>), and from then
  on the address of a sample of the circular buffer. A trigger that has fired stays so,
  whatever the firmware does.
\<close>

definition ring_addr :: "u32 \<Rightarrow> bool" where
  "ring_addr a \<longleftrightarrow> (\<exists>idx<ring_size. a = BUFSTART + of_nat idx * 160)"

definition latched :: "'w platform \<Rightarrow> ('w \<Rightarrow> bool) \<Rightarrow> bool" where
  "latched P f \<longleftrightarrow> (\<forall>w. f w \<longrightarrow>
     (\<forall>a. f (snd (plat_In32 P a w))) \<and> (\<forall>a v. f (plat_Out32 P a v w)) \<and>
     (\<forall>c buf fl. f (snd (plat_send P c buf fl w))) \<and> (\<forall>c n fl. f (snd (plat_recv P c n fl w))) \<and>
     (\<forall>l. f (snd (plat_accept P l w))) \<and> (\<forall>fds ms. f (snd (plat_select P fds ms w))) \<and>
     (\<forall>c. f (plat_close P c w)) \<and> (\<forall>c opt. f (snd (plat_setsockopt P c opt w))) \<and> (\<forall>n. f (plat_msleep P n w)) \<and>
     f (snd (plat_ticks P w)) \<and> (\<forall>tx n. f (snd (plat_qspi P tx n w))))"

definition fabric_law :: "'w platform \<Rightarrow> (u32 \<Rightarrow> 'w \<Rightarrow> bool) \<Rightarrow> bool" where
  "fabric_law P fired \<longleftrightarrow>
     (\<forall>r. latched P (fired r)) \<and>
     (\<forall>k i r w. (k, i, r) \<in> set trig_sources \<longrightarrow>
        (let v = fst (plat_In32 P (reg_addr P r) w) in
         if ring_addr v then fired r (snd (plat_In32 P (reg_addr P r) w)) else v = 0 \<and> \<not> fired r w))"

lemma fabric_law_read:
  assumes "fabric_law P fired" and "(k, i, r) \<in> set trig_sources"
  shows "if ring_addr (fst (plat_In32 P (reg_addr P r) w))
    then fired r (snd (plat_In32 P (reg_addr P r) w))
    else fst (plat_In32 P (reg_addr P r) w) = 0 \<and> \<not> fired r w"
  using assms unfolding fabric_law_def Let_def by blast

definition latch_kept ::
  "'w platform \<Rightarrow> (u32 \<Rightarrow> 'w \<Rightarrow> bool) \<Rightarrow> ('w, 'x) core_scheme \<Rightarrow> ('w, 'x) core_scheme \<Rightarrow> bool" where
  "latch_kept P fired s t \<longleftrightarrow> (\<forall>r. latched P (fired r) \<longrightarrow> fired r (world s) \<longrightarrow> fired r (world t))"

lemma latch_call:
  "(\<And>r w. latched P (fired r) \<Longrightarrow> fired r w \<Longrightarrow> fired r (snd (g w))) \<Longrightarrow>
   state_io_rel (latch_kept P fired) (call g ev)"
  by (rule io_of_exec) (simp add: latch_kept_def run_simps)

lemma latch_silently:
  "(\<And>r w. latched P (fired r) \<Longrightarrow> fired r w \<Longrightarrow> fired r (g w)) \<Longrightarrow>
   state_io_rel (latch_kept P fired) (silently g)"
  by (rule io_of_exec) (simp add: latch_kept_def run_simps)

lemma latch_modify: "(\<And>s. world (g s) = world s) \<Longrightarrow> state_io_rel (latch_kept P fired) (modify g)"
  by (rule io_of_exec) (simp add: latch_kept_def run_simps)

interpretation latch: io_preorder "latch_kept P fired" for P fired
  by unfold_locales (auto simp: latch_kept_def)

lemma latch_emit: "state_io_rel (latch_kept P fired) (emit e)"
  unfolding emit_def by (rule latch_modify) simp

lemma latch_steps:
  "state_io_rel (latch_kept P fired) (Xil_In32 P a)"
  "state_io_rel (latch_kept P fired) (Xil_Out32 P a v)"
  "state_io_rel (latch_kept P fired) (sk_send P c buf fl)"
  "state_io_rel (latch_kept P fired) (sk_recv P c n fl)"
  "state_io_rel (latch_kept P fired) (sk_accept P l)"
  "state_io_rel (latch_kept P fired) (sk_select P fds ms)"
  "state_io_rel (latch_kept P fired) (sk_close P c)"
  "state_io_rel (latch_kept P fired) (xTaskGetTickCount P)"
  "state_io_rel (latch_kept P fired) (qspi_transfer P tx n)"
  "state_io_rel (latch_kept P fired) (set_sockopt P c opt)"
  "state_io_rel (latch_kept P fired) (silently (plat_msleep P ms'))"
  unfolding platform_defs set_sockopt_def
  by (intro latch_call latch_silently latch.io_bind latch_emit; simp add: latched_def)+

interpretation latch_msg: msg_io "latch_kept P fired" P for P fired
  by unfold_locales (rule latch_steps)+

lemma latch_sf_read: "state_io_rel (latch_kept P fired) (sf_read chan)"
  unfolding sf_read_def Let_def by (intro latch.io_structure latch_emit)

lemma latch_sf_write: "state_io_rel (latch_kept P fired) (sf_write chan f)"
  unfolding sf_write_def Let_def by (intro latch.io_structure latch_emit latch_modify) simp

interpretation latch_chan: chan_io "latch_kept P fired" P chan for P fired chan
  by unfold_locales (rule latch_steps latch_sf_read latch_sf_write)+

lemma latch_Set_dac: "state_io_rel (latch_kept P fired) (Set_dac P chan x)"
  unfolding Set_dac_def Calc_WriteRaisedCosineSmooth_def Let_def
  by (intro latch_chan.steps latch_chan.handlers handler_regs latch_emit)

lemma latch_psc_send:
  "notify conf PSC_DIS = skip \<Longrightarrow> state_io_rel (latch_kept P fired) (psc_send P conf mid mlen msg)"
  unfolding psc_send_def disconnect_client_def
  by (simp only:) (intro latch.io_structure latch_msg.sendmsg_rel latch_steps latch_modify; simp)

section \<open>The invariant of the loop\<close>

definition trig_pre :: "trig_kind \<Rightarrow> nat" where
  "trig_pre k = (if k = Inj then 0 else 50000)"

definition trig_post :: "trig_kind \<Rightarrow> nat" where
  "trig_post k = (if k = Inj then 8000 else 50000)"

text \<open>A source, its configuration, and what its state says about its address register.\<close>

definition trig_inv :: "(u32 \<Rightarrow> 'w \<Rightarrow> bool) \<Rightarrow> 'w \<Rightarrow> trig_kind \<times> nat \<times> u32 \<Rightarrow> TriggerInfo \<Rightarrow> bool" where
  "trig_inv fired w = (\<lambda>(k, i, r) t.
     pretrigpts t = of_nat (trig_pre k) \<and> posttrigpts t = of_nat (trig_post k) \<and>
     channum t = of_nat i + 1 \<and>
     (active t = 0 \<and> sendbuf t = 0 \<or> active t = 1 \<and> ring_addr (trig_addr t)) \<and>
     (addr_last t \<noteq> 0 \<longrightarrow> fired r w))"

definition trigs_inv :: "(u32 \<Rightarrow> 'w \<Rightarrow> bool) \<Rightarrow> 'w \<Rightarrow> TriggerTypes \<Rightarrow> bool" where
  "trigs_inv fired w ts \<longleftrightarrow> trigs_ok ts \<and>
     (\<forall>k i r. (k, i, r) \<in> set trig_sources \<longrightarrow> trig_inv fired w (k, i, r) (trig_get k i ts))"

definition bufs_inv :: "('w, 'x) snap_scheme \<Rightarrow> bool" where
  "bufs_inv s \<longleftrightarrow>
     (\<forall>k. k \<noteq> Evr \<longrightarrow> length (buf_array k s) = 4 \<and> (\<forall>i<4. length (buf_array k s ! i) = 4000000))"

definition loop_ok :: "'w platform \<Rightarrow> (u32 \<Rightarrow> 'w \<Rightarrow> bool) \<Rightarrow> ('w, 'x) snap_scheme \<Rightarrow> bool" where
  "loop_ok P fired s \<longleftrightarrow> fabric_law P fired \<and> sf_ok s \<and> smoothramp_type s \<noteq> 1 \<and>
     trigs_inv fired (world s) (snapshot_trig s) \<and> bufs_inv s"

definition no_ub :: "io \<Rightarrow> bool" where
  "no_ub e \<longleftrightarrow> e \<noteq> UB"

lemma no_ub_simps [simp]:
  "no_ub (Rd a v)" "no_ub (Wr a v)" "no_ub (Tx c bs)" "no_ub (Rx c bs)" "no_ub (Acc c)" "no_ub (Cls c)"
  "no_ub (Qspi bs)" "\<not> no_ub UB"
  by (simp_all add: no_ub_def)

text \<open>The part of the invariant that does not depend on the world.\<close>

definition static_part :: "('w, 'x) snap_scheme \<Rightarrow> ScaleFactorType list \<times> u8 \<times> TriggerTypes \<times> (trig_kind \<Rightarrow> byte list list)" where
  "static_part s = (scalefactors s, smoothramp_type s, snapshot_trig s, \<lambda>k. buf_array k s)"

lemma buf_array_core [simp]:
  "buf_array k (s\<lparr>world := w\<rparr>) = buf_array k s" "buf_array k (s\<lparr>trace := tr\<rparr>) = buf_array k s"
  "buf_array k (s\<lparr>world := w, trace := tr\<rparr>) = buf_array k s"
  by (cases k; simp)+

lemma core_indep_static [simp]: "core_indep static_part"
  by (simp add: core_indep_def static_part_def)

lemma trig_inv_mono: "(\<And>r. fired r w \<Longrightarrow> fired r w') \<Longrightarrow> trig_inv fired w x t \<Longrightarrow> trig_inv fired w' x t"
  by (cases x) (auto simp: trig_inv_def)

lemma trigs_inv_mono:
  assumes "\<And>r. fired r w \<Longrightarrow> fired r w'" and "trigs_inv fired w ts"
  shows "trigs_inv fired w' ts"
  unfolding trigs_inv_def
proof (intro conjI allI impI)
  show "trigs_ok ts" using assms(2) by (simp add: trigs_inv_def)
  fix k i r assume "(k, i, r) \<in> set trig_sources"
  with assms(2) have "trig_inv fired w (k, i, r) (trig_get k i ts)" by (simp add: trigs_inv_def)
  with assms(1) show "trig_inv fired w' (k, i, r) (trig_get k i ts)" by (rule trig_inv_mono)
qed

lemma loop_ok_kept:
  assumes "loop_ok P fired s" and "static_part t = static_part s" and "latch_kept P fired s t"
  shows "loop_ok P fired t"
proof -
  have eq: "scalefactors t = scalefactors s" "smoothramp_type t = smoothramp_type s"
    "snapshot_trig t = snapshot_trig s" "\<And>k. buf_array k t = buf_array k s"
    using assms(2) by (simp_all add: static_part_def fun_eq_iff)
  have "fired r (world s) \<Longrightarrow> fired r (world t)" for r
    using assms(1,3) by (simp add: loop_ok_def fabric_law_def latch_kept_def)
  moreover have "trigs_inv fired (world s) (snapshot_trig s)"
    using assms(1) by (simp add: loop_ok_def)
  ultimately have "trigs_inv fired (world t) (snapshot_trig s)"
    by (rule trigs_inv_mono)
  then show ?thesis
    using assms(1) eq by (simp add: loop_ok_def sf_ok_def bufs_inv_def)
qed

lemma safe_step:
  assumes "state_io_rel (unchanged static_part) m" and "state_io_rel (latch_kept P fired) m"
    and "state_io_rel (emits no_ub) m"
  shows "state_io_rel (under (loop_ok P fired) no_ub) m"
  using assms
  by (auto simp: state_io_rel_def under_def unchanged_def intro: loop_ok_kept)

interpretation safe: io_preorder "under (loop_ok P fired) no_ub" for P fired
  by (rule un.io_preorder_axioms)

lemma static_modify:
  "(\<And>s. static_part (g s) = static_part s) \<Longrightarrow> (\<And>s. trace (g s) = trace s) \<Longrightarrow> (\<And>s. world (g s) = world s) \<Longrightarrow>
   state_io_rel (under (loop_ok P fired) no_ub) (modify g)"
  by (intro safe_step frame_modify latch_modify emits_modify)

lemma safe_In32: "state_io_rel (under (loop_ok P fired) no_ub) (Xil_In32 P a)"
  by (intro safe_step frame_In32 latch_steps emits_In32 core_indep_static) simp

lemma safe_Out32: "state_io_rel (under (loop_ok P fired) no_ub) (Xil_Out32 P a v)"
  by (intro safe_step frame_Out32 latch_steps emits_Out32 core_indep_static) simp

lemma safe_ticks: "state_io_rel (under (loop_ok P fired) no_ub) (xTaskGetTickCount P)"
  by (intro safe_step frame_ticks latch_steps emits_ticks core_indep_static)

lemma safe_close: "state_io_rel (under (loop_ok P fired) no_ub) (sk_close P c)"
  by (intro safe_step frame_close latch_steps emits_close core_indep_static) simp

lemma safe_select: "state_io_rel (under (loop_ok P fired) no_ub) (sk_select P fds ms)"
  by (intro safe_step latch_steps)
     (auto simp: sk_select_def intro!: frame_call emits_call)

lemma safe_accept: "state_io_rel (under (loop_ok P fired) no_ub) (sk_accept P l)"
  by (intro safe_step latch_steps)
     (auto simp: sk_accept_def intro!: frame_call emits_call)

lemma safe_silently:
  "state_io_rel (under (loop_ok P fired) no_ub) (set_sockopt P c opt)"
  "state_io_rel (under (loop_ok P fired) no_ub) (silently (plat_msleep P n))"
  by (intro safe_step latch_steps; simp add: set_sockopt_def frame_silently emits_silently core_indep_static)+

lemma static_client [simp]:
  "static_part (s\<lparr>client_sock := x\<rparr>) = static_part s" "static_part (s\<lparr>last_rx_tick := z\<rparr>) = static_part s"
  "static_part (s\<lparr>rxbuf := b\<rparr>) = static_part s"
  "static_part (s\<lparr>client_sock := x, peeraddr := y, last_rx_tick := z\<rparr>) = static_part s"
proof -
  have "buf_array k (s\<lparr>client_sock := x\<rparr>) = buf_array k s" "buf_array k (s\<lparr>last_rx_tick := z\<rparr>) = buf_array k s"
    "buf_array k (s\<lparr>rxbuf := b\<rparr>) = buf_array k s"
    "buf_array k (s\<lparr>client_sock := x, peeraddr := y, last_rx_tick := z\<rparr>) = buf_array k s" for k
    by (cases k; simp)+
  then show "static_part (s\<lparr>client_sock := x\<rparr>) = static_part s" "static_part (s\<lparr>last_rx_tick := z\<rparr>) = static_part s"
    "static_part (s\<lparr>rxbuf := b\<rparr>) = static_part s"
    "static_part (s\<lparr>client_sock := x, peeraddr := y, last_rx_tick := z\<rparr>) = static_part s"
    by (simp_all add: static_part_def)
qed

lemma safe_psc_send:
  assumes "notify conf PSC_DIS = skip"
  shows "state_io_rel (under (loop_ok P fired) no_ub) (psc_send P conf mid mlen msg)"
proof (rule safe_step)
  show "state_io_rel (emits no_ub) (psc_send P conf mid mlen msg)"
    unfolding psc_send_def disconnect_client_def assms
    by (intro emits_intros emits_sendmsg; simp)
qed (rule frame_psc_send latch_psc_send | simp add: assms)+

lemma safe_recv_store: "state_io_rel (under (loop_ok P fired) no_ub) (recv_store P c)"
  unfolding recv_store_def
  by (intro safe_step un.io_structure static_modify frame_recvmsg latch_msg.recvmsg_rel emits_recvmsg) simp_all

lemma safe_sf_read: "valid_chan chan \<Longrightarrow> state_io_rel (under (loop_ok P fired) no_ub) (sf_read chan)"
  by (rule io_of_exec) (auto simp: under_def loop_ok_def run_simps em.R_refl)

lemma safe_sf_write: "valid_chan chan \<Longrightarrow> state_io_rel (under (loop_ok P fired) no_ub) (sf_write chan f)"
proof (rule io_of_exec)
  fix s :: "('a, 'b) snap_scheme"
  assume v: "valid_chan chan"
  have "buf_array k (s\<lparr>scalefactors := x\<rparr>) = buf_array k s" for k x
    by (cases k) simp_all
  then have "bufs_inv (s\<lparr>scalefactors := x\<rparr>) = bufs_inv s" for x
    by (simp add: bufs_inv_def)
  then show "under (loop_ok P fired) no_ub s (exec (sf_write chan f) s)"
    using v by (auto simp: under_def loop_ok_def run_simps emits_def) (simp add: sf_ok_def)
qed

section \<open>Snapshots\<close>

lemma trig_inv_poll:
  assumes "trig_inv fired w (k, i, r) t" and "fired r w \<Longrightarrow> fired r w'"
    and "active t = 0 \<Longrightarrow> if ring_addr v then fired r w' else v = 0 \<and> \<not> fired r w"
  shows "trig_inv fired w' (k, i, r) (trig_poll v t)"
proof (cases "active t = 0")
  case True
  then show ?thesis
  proof (cases "addr_last t = v")
    case True
    then show ?thesis
      using \<open>active t = 0\<close> assms(1,2) by (auto simp: trig_inv_def trig_poll_idle)
  next
    case False
    have "ring_addr v"
      using False True assms(1,3) by (auto simp: trig_inv_def split: if_splits)
    then show ?thesis
      using True False assms(1,3) by (auto simp: trig_inv_def trig_poll_start Let_def)
  qed
next
  case False
  then show ?thesis
    using assms(1,2) by (auto simp: trig_inv_def trig_poll_def ProcessTrigger_def Let_def)
qed

lemma trigs_inv_set:
  assumes "trigs_inv fired w ts" and "(k, i, r) \<in> set trig_sources"
    and "\<And>r. fired r w \<Longrightarrow> fired r w'" and "trig_inv fired w' (k, i, r) x"
  shows "trigs_inv fired w' (trig_set k i x ts)"
proof -
  have one: "(k', i', r') \<in> set trig_sources \<Longrightarrow> (k, i, r) \<in> set trig_sources \<Longrightarrow> k' = k \<Longrightarrow> i' = i \<Longrightarrow> r' = r"
    for k' i' r'
    by (auto simp: trig_sources_def)
  show ?thesis
    unfolding trigs_inv_def
  proof (intro conjI allI impI)
    show "trigs_ok (trig_set k i x ts)" using assms(1) by (simp add: trigs_inv_def)
    fix k' i' r' assume m: "(k', i', r') \<in> set trig_sources"
    have "trig_inv fired w' (k', i', r') (trig_get k' i' ts)"
      using trigs_inv_mono [OF assms(3,1)] m by (simp add: trigs_inv_def)
    then show "trig_inv fired w' (k', i', r') (trig_get k' i' (trig_set k i x ts))"
      using one [OF m assms(2)] assms(4) by (auto simp: trig_get_set)
  qed
qed

lemma check_trigger_exec:
  fixes s :: "('w, 'x) snap_scheme" and k :: trig_kind and i :: nat
  defines "t \<equiv> trig_get k i (snapshot_trig s)"
  shows "exec (check_trigger P k i r) s =
    (let v = reg_now P (reg_addr P r) s; s1 = (if active t = 0 then after_read P (reg_addr P r) s else s)
     in s1\<lparr>snapshot_trig := trig_set k i (trig_poll v t) (snapshot_trig s)\<rparr>)"
  by (simp add: check_trigger_def run_simps t_def trig_poll_def Let_def)

lemma bufs_inv_trig [simp]: "bufs_inv (s\<lparr>snapshot_trig := t\<rparr>) = bufs_inv s"
  by (simp add: bufs_inv_def)

lemma bufs_inv_core [simp]: "bufs_inv (s\<lparr>world := w, trace := tr\<rparr>) = bufs_inv s"
  by (simp add: bufs_inv_def)

lemma safe_check_trigger:
  assumes src: "(k, i, r) \<in> set trig_sources"
  shows "state_io_rel (under (loop_ok P fired) no_ub) (check_trigger P k i r)"
proof (rule io_of_exec)
  fix s :: "('a, 'b) snap_scheme"
  let ?t = "trig_get k i (snapshot_trig s)" and ?u = "exec (check_trigger P k i r) s"
  let ?v = "reg_now P (reg_addr P r) s"
  show "under (loop_ok P fired) no_ub s ?u"
    unfolding under_def
  proof
    assume ok: "loop_ok P fired s"
    then have law: "\<And>r. latched P (fired r)"
      "if ring_addr ?v then fired r (world (after_read P (reg_addr P r) s))
       else ?v = 0 \<and> \<not> fired r (world s)"
      using fabric_law_read [OF _ src, of P fired "world s"]
      by (simp_all add: loop_ok_def fabric_law_def run_simps)
    let ?w = "world (if active ?t = 0 then after_read P (reg_addr P r) s else s)"
    have mono: "fired r' (world s) \<Longrightarrow> fired r' ?w" for r'
      using law(1) [of r'] by (auto simp: latched_def run_simps)
    have "trig_inv fired ?w (k, i, r) (trig_poll ?v ?t)"
    proof (rule trig_inv_poll [where w = "world s"])
      show "trig_inv fired (world s) (k, i, r) ?t"
        using ok src by (simp add: loop_ok_def trigs_inv_def)
      show "fired r (world s) \<Longrightarrow> fired r ?w"
        by (rule mono)
      show "active ?t = 0 \<Longrightarrow> if ring_addr ?v then fired r ?w else ?v = 0 \<and> \<not> fired r (world s)"
        using law(2) by simp
    qed
    moreover have "trigs_inv fired (world s) (snapshot_trig s)" using ok by (simp add: loop_ok_def)
    ultimately have "trigs_inv fired ?w (trig_set k i (trig_poll ?v ?t) (snapshot_trig s))"
      by (intro trigs_inv_set [where w = "world s" and fired = fired, OF _ src]) (assumption | rule mono)+
    then have "loop_ok P fired ?u"
      using ok by (simp add: check_trigger_exec Let_def loop_ok_def run_simps split: if_splits)
    moreover have "emits no_ub s ?u"
      by (auto simp: check_trigger_exec Let_def run_simps emits_def)
    ultimately show "loop_ok P fired ?u \<and> emits no_ub s ?u" by simp
  qed
qed

lemma trig_inv_trigger_at:
  assumes "trig_inv fired w (k, i, r) t" and "active t = 1"
  shows "\<exists>idx. trigger_at t idx (trig_pre k) (trig_post k)"
  using assms by (auto simp: trig_inv_def ring_addr_def trigger_at_def trig_pre_def trig_post_def ring_size_def)

lemma buf_array_set:
  "k \<noteq> Evr \<Longrightarrow> buf_array k' (buf_set k i x s) = (if k' = k then (buf_array k s)[i := x] else buf_array k' s)"
  by (cases k; cases k') simp_all

lemma bufs_inv_set:
  assumes "bufs_inv s" and "k \<noteq> Evr" and "length x = 4000000"
  shows "bufs_inv (buf_set k i x s)"
proof -
  have "length ((buf_array k s)[i := x] ! j) = 4000000" if "j < 4" for j
    using assms that by (cases "j = i") (simp_all add: bufs_inv_def)
  then show ?thesis
    using assms(1,2) by (simp add: bufs_inv_def buf_array_set)
qed

lemma smoothramp_buf_set [simp]: "smoothramp_type (buf_set k i x s) = smoothramp_type s"
  by (cases k) simp_all

lemma sent_state_ok:
  assumes ok: "loop_ok P fired s" and src: "(k, i, r) \<in> set trig_sources" and "k \<noteq> Evr" and "length msg = 4000000"
  shows "loop_ok P fired (sent_state k i msg s)"
proof -
  let ?t = "trig_get k i (snapshot_trig s)"
  have "trigs_inv fired (world s) (snapshot_trig s)" "trig_inv fired (world s) (k, i, r) ?t"
    using ok src by (simp_all add: loop_ok_def trigs_inv_def)
  then have "trigs_inv fired (world s)
      (trig_set k i (?t\<lparr>sendbuf := 0, active := 0, trigcnt := trigcnt ?t + 1\<rparr>) (snapshot_trig s))"
    by (intro trigs_inv_set [where w = "world s" and fired = fired, OF _ src]) (auto simp: trig_inv_def)
  then show ?thesis
    using ok assms(3,4) by (simp add: loop_ok_def sent_state_def Let_def bufs_inv_set sf_ok_def)
qed

lemma safe_send_ready:
  assumes quiet: "notify conf PSC_DIS = skip" and src: "(k, i, r) \<in> set trig_sources" and "k \<noteq> Evr"
  shows "state_io_rel (under (loop_ok P fired) no_ub) (send_ready P conf k i)"
proof (rule io_of_exec)
  fix s :: "('a, 'b) snap_scheme"
  let ?t = "trig_get k i (snapshot_trig s)"
  show "under (loop_ok P fired) no_ub s (exec (send_ready P conf k i) s)"
  proof (cases "loop_ok P fired s \<and> sendbuf ?t = 1")
    case False
    then show ?thesis by (auto simp: send_ready_def run_simps under_def em.R_refl)
  next
    case True
    then have ok: "loop_ok P fired s" and "sendbuf ?t = 1" by simp_all
    then have inv: "trig_inv fired (world s) (k, i, r) ?t"
      using src by (simp add: loop_ok_def trigs_inv_def)
    with \<open>sendbuf ?t = 1\<close> obtain idx where at: "trigger_at ?t idx (trig_pre k) (trig_post k)"
      using trig_inv_trigger_at [OF inv] by (auto simp: trig_inv_def)
    have i: "i < 4" using src by (auto simp: trig_sources_def)
    have "valid_chan (channum ?t)"
      using inv src by (auto simp: trig_inv_def trig_sources_def valid_chan_def)
    moreover have len: "length (buf_array k s ! i) = 4000000"
      using ok i assms(3) by (simp add: loop_ok_def bufs_inv_def)
    then have "40 * (trig_pre k + trig_post k) \<le> length (buf_array k s ! i)"
      by (simp add: trig_pre_def trig_post_def)
    moreover define fl where "fl = ring_snapshot (ring_sample P s (channum ?t)) idx (trig_pre k) (trig_post k)"
    moreover define msg where
      "msg = hton_conv (overwrite (concat (map le32 fl)) (buf_array k s ! i)) (unat (wfm_len (msgID ?t)))"
    ultimately have "exec (SendWfmData P conf k i) s =
        exec (psc_send P conf (ucast (msgID ?t)) (wfm_len (msgID ?t)) msg) (sent_state k i msg s)"
      using ok at by (intro SendWfmData_exec) (simp_all add: loop_ok_def)
    moreover have "length msg = 4000000"
      using len by (simp add: msg_def overwrite_def fl_def le32.concat_length length_ring_snapshot
          trig_pre_def trig_post_def)
    then have "loop_ok P fired (sent_state k i msg s)"
      using sent_state_ok ok src assms(3) by blast
    moreover have "trace (sent_state k i msg s) = trace s"
      by (simp add: sent_state_def Let_def)
    ultimately show ?thesis
      using io_exec [OF safe_psc_send [OF quiet], of P fired "sent_state k i msg s"] \<open>sendbuf ?t = 1\<close>
      by (auto simp: send_ready_def run_simps under_def emits_def)
  qed
qed

lemma safe_SendSnapShotStats:
  assumes "notify conf PSC_DIS = skip"
  shows "state_io_rel (under (loop_ok P fired) no_ub) (SendSnapShotStats P conf)"
proof -
  have "buf_array k (s\<lparr>msgWfmStats_buf := x\<rparr>) = buf_array k s" for k x and s :: "('a, 'b) snap_scheme"
    by (cases k) simp_all
  then have [simp]: "static_part (s\<lparr>msgWfmStats_buf := x\<rparr>) = static_part s" for x and s :: "('a, 'b) snap_scheme"
    by (simp add: static_part_def)
  show ?thesis
    unfolding SendSnapShotStats_def stats_row_def stats_entry_def Let_def
    by (intro un.io_structure un.io_map_each safe_In32 static_modify safe_psc_send assms) simp_all
qed

lemma safe_snapshot_process:
  assumes "notify conf PSC_DIS = skip"
  shows "state_io_rel (under (loop_ok P fired) no_ub) (snapshot_process P conf)"
proof -
  have "state_io_rel (under (loop_ok P fired) no_ub) (CheckforTriggers P :: (('a, 'b) snap_scheme, unit) state)"
    unfolding CheckforTriggers_def by (rule un.io_for_each_in) (auto intro: safe_check_trigger)
  moreover have "state_io_rel (under (loop_ok P fired) no_ub) (send_ready P conf k i)"
    if "i \<in> set [0..<4]" "k \<noteq> Evr" for k i
  proof -
    have "\<exists>r. (k, i, r) \<in> set trig_sources"
      using that by (cases k) (auto simp: trig_sources_def upt_rec)
    then show ?thesis using safe_send_ready [OF assms] that(2) by blast
  qed
  ultimately show ?thesis
    unfolding snapshot_process_def
    by (intro un.io_bind un.io_for_each_in safe_SendSnapShotStats assms) simp_all
qed

section \<open>Messages\<close>

text \<open>The contract of the channel handlers for a valid channel.\<close>

definition chan_ok :: "u32 \<Rightarrow> 'w platform \<Rightarrow> (u32 \<Rightarrow> 'w \<Rightarrow> bool) \<Rightarrow> ('w, 'x) snap_scheme \<Rightarrow> bool" where
  "chan_ok chan P fired s \<longleftrightarrow> valid_chan chan \<and> loop_ok P fired s"

lemma safe_chan_step:
  "(valid_chan chan \<Longrightarrow> state_io_rel (under (loop_ok P fired) no_ub) m) \<Longrightarrow>
   state_io_rel (under (chan_ok chan P fired) no_ub) m"
  by (auto simp: state_io_rel_def under_def chan_ok_def)

lemma safe_of_chan:
  "valid_chan chan \<Longrightarrow> state_io_rel (under (chan_ok chan P fired) no_ub) m \<Longrightarrow>
   state_io_rel (under (loop_ok P fired) no_ub) m"
  by (simp add: state_io_rel_def under_def chan_ok_def)

lemma safe_flash: "state_io_rel (under (loop_ok P fired) no_ub) (qspi_transfer P tx n)"
  by (intro safe_step frame_intros latch_steps emits_intros core_indep_static) simp

interpretation safe_chan: chan_io "under (chan_ok chan P fired) no_ub" P chan for chan P fired
  by unfold_locales (intro safe_chan_step safe_In32 safe_Out32 safe_flash safe_sf_read safe_sf_write; assumption)+

lemma safe_Set_dac: "state_io_rel (under (chan_ok chan P fired) no_ub) (Set_dac P chan x)"
  unfolding Set_dac_def Let_def
  by (rule un.io_bind [OF safe_chan.rd], rule un.io_bind [OF safe_chan.rd], rule un.io_bind [OF safe_chan.sfr],
      rule un.io_bind [OF un.io_gets], rule under_bind_value [where Q = "\<lambda>ty. ty \<noteq> 1"])
     (auto simp: run_simps chan_ok_def loop_ok_def
       intro!: un.io_gets un.io_if un.io_skip safe_chan.linear_rel safe_chan.wr)

lemma safe_ok: "state_io_rel (under I p) m \<Longrightarrow> state_io_rel (under I p) (ok m)"
  unfolding ok_def by (intro un.io_bind un.io_return)

lemma safe_chan_settings:
  "valid_chan chan \<Longrightarrow> state_io_rel (under (loop_ok P fired) no_ub) (chan_settings P chan msg mlen)"
  by (rule safe_of_chan, assumption, intro safe_chan.chan_settings_rel safe_Set_dac)

lemma safe_write_ramptable:
  "valid_chan chan \<Longrightarrow> state_io_rel (under (loop_ok P fired) no_ub) (write_ramptable P chan msg mlen)"
  by (rule safe_of_chan, assumption, rule safe_chan.write_ramptable_rel)

lemma safe_glob_settings: "state_io_rel (under (loop_ok P fired) no_ub) (glob_settings P msg)"
  unfolding glob_settings_def soft_trig_def set_fpleds_def Let_def
  by (intro un.io_structure safe_In32 safe_Out32)

lemma valid_chan_1: "valid_chan 1"
  by (simp add: valid_chan_def)

lemma safe_client_msg: "state_io_rel (under (loop_ok P fired) no_ub) (client_msg P mid mlen)"
  unfolding client_msg_def
  by (intro un.io_structure safe_ok safe_Out32 safe_glob_settings safe_chan_settings safe_write_ramptable
      valid_msgid valid_chan_1)

lemma safe_client_event: "state_io_rel (under (loop_ok P fired) no_ub) (client_event P ev)"
  unfolding client_event_def psc_send_one_def by (intro un.io_structure safe_psc_send notify_quiet)

section \<open>The loop\<close>

lemma static_sched [simp]:
  "static_part (s\<lparr>sadata_msg := a\<rparr>) = static_part s" "static_part (s\<lparr>bpc_msg := b\<rparr>) = static_part s"
  "static_part (s\<lparr>last_fast := c\<rparr>) = static_part s" "static_part (s\<lparr>last_slow := c\<rparr>) = static_part s"
  for s :: "('w, 'x) sched_scheme"
proof -
  have "buf_array k (s\<lparr>sadata_msg := a\<rparr>) = buf_array k s" "buf_array k (s\<lparr>bpc_msg := b\<rparr>) = buf_array k s"
    "buf_array k (s\<lparr>last_fast := c\<rparr>) = buf_array k s" "buf_array k (s\<lparr>last_slow := c\<rparr>) = buf_array k s" for k
    by (cases k; simp)+
  then show "static_part (s\<lparr>sadata_msg := a\<rparr>) = static_part s" "static_part (s\<lparr>bpc_msg := b\<rparr>) = static_part s"
    "static_part (s\<lparr>last_fast := c\<rparr>) = static_part s" "static_part (s\<lparr>last_slow := c\<rparr>) = static_part s"
    by (simp_all add: static_part_def)
qed

interpretation safe_poll: periodic_io "under (loop_ok P fired) no_ub" P "main_conf P S" for P fired S
  by unfold_locales
     (rule safe_In32 safe_Out32 safe_sf_read safe_psc_send safe_ticks static_modify safe_snapshot_process |
      simp)+

interpretation safe_loop: psc_steps "under (loop_ok P fired) no_ub" P "main_conf P S"
  "pscdata_poll P S (main_conf P S)" for P fired S
proof unfold_locales
  show "state_io_rel (under (loop_ok P fired) no_ub) (notify (main_conf P S) ev)" for ev
    by (simp add: notify_def main_conf_def safe_client_event)
  show "state_io_rel (under (loop_ok P fired) no_ub) (deliver (main_conf P S) mid mlen)" for mid mlen
    by (simp add: deliver_def main_conf_def safe_client_msg)
  show "state_io_rel (under (loop_ok P fired) no_ub) (pscdata_poll P S (main_conf P S))"
    by (rule safe_poll.poll_rel)
qed (intro safe_select safe_accept safe_close safe_ticks safe_silently static_modify safe_recv_store static_client;
     simp)+

lemma trigs_inv_init:
  assumes "trigs_ok ts"
  shows "trigs_inv fired w (InitTriggerInfo ts)"
proof -
  have len: "length (trig_array k ts) = 4" for k using assms by (simp add: trigs_ok_def)
  have four: "length xs = 4 \<Longrightarrow> i < 4 \<Longrightarrow> init_array f xs ! i = f i (xs ! i)" for f xs i
    by (simp add: init_array_def nth_enumerate_eq)
  have "trig_inv fired w (k, i, r) (trig_get k i (InitTriggerInfo ts))" if "(k, i, r) \<in> set trig_sources" for k i r
  proof -
    have "i < 4" using that by (auto simp: trig_sources_def)
    then show ?thesis
      using len [of Usr] len [of Flt] len [of Err] len [of Inj] len [of Evr]
      by (cases k) (simp_all add: trig_inv_def trig_get_def InitTriggerInfo_def four init_trigger_def
          trig_pre_def trig_post_def)
  qed
  moreover have "length (trig_array k (InitTriggerInfo ts)) = 4" for k
    using len [of k] by (cases k) (simp_all add: InitTriggerInfo_def init_array_def)
  ultimately show ?thesis by (simp add: trigs_inv_def trigs_ok_def)
qed

text \<open>
  No undefined behaviour. Started with the triggers as \<open>snapshot_init\<close> leaves them and the
  message buffers as declared, with linear smooth ramps, and on a fabric whose buffer pointers are either 0 or
  addresses of samples, the network thread never divides by zero, indexes an array out of
  bounds or overruns a message buffer, whatever messages clients send and whatever triggers
  arrive, during any number of turns of its loop.
\<close>

theorem network_loop_defined:
  fixes s :: "('w, 'x) sched_scheme"
  assumes "fabric_law P fired" and "sf_ok s" and "smoothramp_type s \<noteq> 1"
    and "trigs_ok ts" and "snapshot_trig s = InitTriggerInfo ts" and "bufs_inv s"
  shows "\<exists>es. trace (exec (network_loop P S n) s) = trace s @ es \<and> UB \<notin> set es"
proof -
  have "loop_ok P fired s" using assms by (simp add: loop_ok_def trigs_inv_init)
  then have "emits no_ub s (exec (network_loop P S n) s)"
    using under_exec [OF safe_loop.loop_rel, of P fired s S n] by (simp add: network_loop_def)
  then show ?thesis by (auto simp: emits_def no_ub_def list_all_iff)
qed

end
