(* ===== verification/Sim.thy ===== *)
theory Sim
  imports Safety
begin

text \<open>
  A simulated platform: registers that keep what is written to them, a byte stream that
  arrives in pieces of at most three bytes, sockets that take at most five bytes at a time, a
  circular buffer whose words are their addresses, triggers whose pointers stay where they
  fired, a tick counter that advances at every
  look, and a NOR flash chip. It meets the laws the theorems assume of the platform, and the
  witnesses run the firmware on it.
\<close>

record sim_world =
  sim_regs :: "u32 \<Rightarrow> u32"
  sim_rx :: "byte list"
  sim_tick :: u32
  sim_cells :: "u32 \<Rightarrow> byte"
  sim_wel :: bool
  sim_ptr :: "u32 \<Rightarrow> nat option"

definition sim_recv :: "nat \<Rightarrow> sim_world \<Rightarrow> (errno + byte list) \<times> sim_world" where
  "sim_recv n w = (let k = min n (min 3 (length (sim_rx w))) in
     (Inr (take k (sim_rx w)), w\<lparr>sim_rx := drop k (sim_rx w)\<rparr>))"

definition sim_addr :: "byte \<Rightarrow> byte \<Rightarrow> byte \<Rightarrow> u32" where
  "sim_addr a b c = of_be32 [0, a, b, c]"

fun sim_qspi :: "byte list \<Rightarrow> nat \<Rightarrow> sim_world \<Rightarrow> byte list \<times> sim_world" where
  "sim_qspi (cmd # a # b # c # ds) n w =
     (if cmd = FLASH_SECTOR_ERASE_CMD \<and> sim_wel w
        then ([], w\<lparr>sim_cells := erased (sim_cells w) (sim_addr a b c), sim_wel := False\<rparr>)
      else if cmd = FLASH_WRITE_CMD \<and> sim_wel w
        then ([], w\<lparr>sim_cells := program (sim_cells w) (sim_addr a b c) ds, sim_wel := False\<rparr>)
      else if cmd = FLASH_READ_CMD
        then ([0, 0, 0, 0] @ map (\<lambda>i. sim_cells w (sim_addr a b c + of_nat i)) [0..<n - 4], w)
      else ([], w))"
| "sim_qspi [cmd] n w = (if cmd = FLASH_WRITE_ENABLE_CMD then ([], w\<lparr>sim_wel := True\<rparr>) else ([], w))"
| "sim_qspi _ n w = (replicate n 0, w)"

text \<open>The buffer pointer of a trigger is 0 until it fires, then the address of its sample.\<close>

definition trig_regs :: "u32 list" where
  "trig_regs = map (\<lambda>(k, i, r). r) trig_sources"

definition sim_In32 :: "u32 \<Rightarrow> sim_world \<Rightarrow> u32" where
  "sim_In32 a w =
     (if a - 0x43C00000 \<in> set trig_regs
      then (case sim_ptr w (a - 0x43C00000) of None \<Rightarrow> 0 | Some i \<Rightarrow> BUFSTART + of_nat (i mod ring_size) * 160)
      else sim_regs w a)"

definition sim :: "sim_world platform" where
  "sim = \<lparr>XPAR_M_AXI_BASEADDR = 0x43C00000,
     plat_In32 = (\<lambda>a w. (sim_In32 a w, w)),
     plat_Out32 = (\<lambda>a v w. w\<lparr>sim_regs := (sim_regs w)(a := v)\<rparr>),
     plat_send = (\<lambda>c buf flags w. (Inr (min 5 (length buf)), w)),
     plat_recv = (\<lambda>c n flags w. sim_recv n w),
     plat_calloc = (\<lambda>n w. (True, w)),
     plat_socket = (\<lambda>w. (3, w)),
     plat_bind = (\<lambda>c p w. (0, w)),
     plat_listen = (\<lambda>c w. (0, w)),
     plat_accept = (\<lambda>l w. ((4, (0x0A000001, 5000)), w)),
     plat_select = (\<lambda>fds ms w. (Inr (if sim_rx w = [] then [] else fds), w)),
     plat_close = (\<lambda>c w. w),
     plat_setsockopt = (\<lambda>c opt w. (0, w)),
     LWIP_SO_SNDRCVTIMEO_NONSTANDARD = False,
     plat_msleep = (\<lambda>ms w. w),
     plat_ticks = (\<lambda>w. (sim_tick w, w\<lparr>sim_tick := sim_tick w + 1\<rparr>)),
     pdMS_TO_TICKS = (\<lambda>ms. ms),
     plat_mem32 = (\<lambda>a w. a),
     plat_stack = (\<lambda>i w. 0xA5),
     plat_qspi = sim_qspi\<rparr>"

lemma sim_stream: "stream_recv sim c sim_rx"
  unfolding stream_recv_def
proof (intro allI impI)
  fix w :: sim_world and n :: nat and flags :: int assume "0 < n" and "sim_rx w \<noteq> []"
  then show "\<exists>k. 0 < k \<and> k \<le> n \<and> k \<le> length (sim_rx w) \<and>
      fst (plat_recv sim c n flags w) = Inr (take k (sim_rx w)) \<and>
      sim_rx (snd (plat_recv sim c n flags w)) = drop k (sim_rx w)"
    by (intro exI [of _ "min n (min 3 (length (sim_rx w)))"]) (simp add: sim_def sim_recv_def Let_def)
qed

lemma sim_recv_bounded: "recv_bounded sim"
  by (auto simp: recv_bounded_def sim_def sim_recv_def Let_def)

lemma sim_addr_command:
  assumes "a < 0x1000000"
  shows "sim_addr (ucast (drop_bit 16 (a AND 0xFF0000))) (ucast (drop_bit 8 (a AND 0xFF00))) (ucast (a AND 0xFF)) = a"
proof -
  have "unat a < 2 ^ 24" using assms by (simp add: word_less_nat_alt)
  then have "take_bit 24 a = a" by (simp add: word_eq_iff_unsigned unsigned_take_bit_eq take_bit_nat_eq_self_iff word_unat_eq_iff)
  have top: "\<not> bit a n" if "24 \<le> n" for n
    using \<open>take_bit 24 a = a\<close> that by (metis bit_take_bit_iff not_le)
  have "(255 :: int) = mask 8" by (simp add: mask_eq_exp_minus_1)
  then have low: "bit (255 :: int) k \<longleftrightarrow> k < 8" for k by (simp only: bit_mask_iff) simp
  show ?thesis
  proof (rule bit_word_eqI)
    fix n assume n: "n < LENGTH(32)"
    consider "n < 8" | "8 \<le> n" "n < 16" | "16 \<le> n" "n < 24" | "24 \<le> n" by linarith
    then show "bit (sim_addr (ucast (drop_bit 16 (a AND 0xFF0000))) (ucast (drop_bit 8 (a AND 0xFF00)))
        (ucast (a AND 0xFF))) n = bit a n"
      using n top [of n] by cases (auto simp: sim_addr_def bit_simps low)
  qed
qed


lemma sim_command:
  assumes "a < 0x1000000"
  shows "sim_qspi (flash_command cmd a @ ds) n w =
     (if cmd = FLASH_SECTOR_ERASE_CMD \<and> sim_wel w then ([], w\<lparr>sim_cells := erased (sim_cells w) a, sim_wel := False\<rparr>)
      else if cmd = FLASH_WRITE_CMD \<and> sim_wel w
        then ([], w\<lparr>sim_cells := program (sim_cells w) a ds, sim_wel := False\<rparr>)
      else if cmd = FLASH_READ_CMD then ([0, 0, 0, 0] @ map (\<lambda>i. sim_cells w (a + of_nat i)) [0..<n - 4], w)
      else ([], w))"
  unfolding flash_command_def append.simps sim_qspi.simps sim_addr_command [OF assms] ..

lemmas flash_commands =
  FLASH_SECTOR_ERASE_CMD_def FLASH_WRITE_CMD_def FLASH_READ_CMD_def FLASH_READ_STATUS_CMD_def
  FLASH_WRITE_ENABLE_CMD_def

lemma sim_flash_chip: "flash_chip sim sim_cells sim_wel"
  unfolding flash_chip_def
proof (intro conjI allI impI)
  fix w :: sim_world and a :: u32 assume "sim_wel w \<and> a < 0x1000000"
  then show "sim_cells (snd (plat_qspi sim (flash_command FLASH_SECTOR_ERASE_CMD a) 0 w)) = erased (sim_cells w) a"
    using sim_command [of a FLASH_SECTOR_ERASE_CMD "[]" 0 w] by (simp add: sim_def)
qed (simp_all add: sim_def sim_command flash_commands Let_def)

lemma ring_addr_zero: "\<not> ring_addr 0"
proof -
  have "BUFSTART + of_nat idx * 160 \<noteq> 0" if "idx < ring_size" for idx
  proof -
    have "unat (of_nat (0x10000000 + idx * 160) :: u32) = 0x10000000 + idx * 160"
      using that by (simp only: unat_of_nat) (simp add: ring_size_def take_bit_nat_eq_self)
    then have "unat (BUFSTART + of_nat idx * 160) = 0x10000000 + idx * 160"
      by (simp add: BUFSTART_def)
    then show ?thesis by auto
  qed
  then show ?thesis by (auto simp: ring_addr_def)
qed

lemma sim_fabric_law: "fabric_law sim (\<lambda>r w. sim_ptr w r \<noteq> None)"
proof -
  have "sim_ptr (snd (sim_qspi tx n w)) = sim_ptr w" for tx n w
    by (induction tx n w rule: sim_qspi.induct) simp_all
  moreover have "(k, i, r) \<in> set trig_sources \<Longrightarrow> r \<in> set trig_regs" for k i r
    by (force simp: trig_regs_def)
  moreover have "ring_addr (BUFSTART + of_nat (i mod ring_size) * 160)" for i
    unfolding ring_addr_def by (intro exI [of _ "i mod ring_size"]) (simp add: ring_size_def)
  ultimately show ?thesis
    by (auto simp: fabric_law_def latched_def sim_def sim_recv_def sim_In32_def reg_addr_def Let_def ring_addr_zero
        split: option.split)
qed

lemma sim_chip_status:
  "plat_qspi sim [FLASH_READ_STATUS_CMD, 0] 2 w = ([0, 0], w)"
  by (simp add: sim_def numeral_2_eq_2)

section \<open>A unit with this platform\<close>

definition sim_w0 :: sim_world where
  "sim_w0 = \<lparr>sim_regs = (\<lambda>_. 0), sim_rx = [], sim_tick = 7, sim_cells = (\<lambda>_. 0xFF), sim_wel = False,
     sim_ptr = (\<lambda>_. None)\<rparr>"

definition sim_sf :: ScaleFactorType where
  "sim_sf = \<lparr>ampspersec = 0x3F800000, dac_dccts = 0x3F800000, vout = 0x40000000, ignd = 0x40400000,
     spare = 0x40800000, regulator = 0x40A00000, error_sf = 0x40C00000\<rparr>"

definition sim_trig :: TriggerInfo where
  "sim_trig = \<lparr>trig_addr = 0, addr_last = 0, pretrigpts = 0, posttrigpts = 0, active = 0, postdlycnt = 0,
     sendbuf = 0, msgID = 0, channum = 0, trigcnt = 0\<rparr>"

definition sim_trigs :: TriggerTypes where
  "sim_trigs = \<lparr>trig_usr = replicate 4 sim_trig, trig_flt = replicate 4 sim_trig, trig_err = replicate 4 sim_trig,
     trig_inj = replicate 4 sim_trig, trig_evr = replicate 4 sim_trig\<rparr>"

definition sim_start :: "sim_world \<Rightarrow> sim_world sched" where
  "sim_start w = \<lparr>world = w, trace = [], the_server = True, listen_sock = 3, client_sock = -1,
     peeraddr = (0, 0), last_rx_tick = 0, rxbuf = replicate 200000 0, scalefactors = [sim_sf, sim_sf, sim_sf, sim_sf],
     CONVVOLTSTODACBITS = 0x474CCCCD, CONVDACBITSTOVOLTS = 0x37A00000, smoothramp_type = 0,
     smoothramp_percentcurved = 10, snapshot_trig = InitTriggerInfo sim_trigs,
     msgUsr_buf = replicate 4 (replicate 4000000 0), msgFlt_buf = replicate 4 (replicate 4000000 0),
     msgErr_buf = replicate 4 (replicate 4000000 0), msgInj_buf = replicate 4 (replicate 4000000 0),
     msgWfmStats_buf = replicate 500 0, sadata_msg = replicate 1400 0, bpc_msg = replicate 60 0,
     last_fast = 0, last_slow = 0, bpc_enabled = False, xmon_IsReady = False, git_hash = 0\<rparr>"

definition sim_info :: "sim_world sysinfo" where
  "sim_info = \<lparr>uxTaskGetNumberOfTasks = (\<lambda>_. 5), lwip_link_stats = (\<lambda>_. replicate 7 0),
     lwip_mem_stats = (\<lambda>_. replicate 5 0), heap_available = (\<lambda>_. 0), heap_minimum = (\<lambda>_. 0),
     heap_largest = (\<lambda>_. 0), heap_allocations = (\<lambda>_. 0), heap_frees = (\<lambda>_. 0), XSysMon_temp = (\<lambda>_. 0),
     XSysMon_vccint = (\<lambda>_. 0), XSysMon_vccaux = (\<lambda>_. 0), XSysMon_setup = (\<lambda>w. (False, w)),
     inet_ntoa_server = (\<lambda>_. []), sys_thread_console = (\<lambda>w. w)\<rparr>"

lemma sim_start_simps [simp]:
  "world (sim_start w) = w" "trace (sim_start w) = []" "client_sock (sim_start w) = -1"
  "listen_sock (sim_start w) = 3" "length (rxbuf (sim_start w)) = 200000"
  "scalefactors (sim_start w) = [sim_sf, sim_sf, sim_sf, sim_sf]" "smoothramp_type (sim_start w) = 0"
  "snapshot_trig (sim_start w) = InitTriggerInfo sim_trigs" "last_rx_tick (sim_start w) = 0"
  "last_fast (sim_start w) = 0" "last_slow (sim_start w) = 0" "git_hash (sim_start w) = 0"
  "CONVVOLTSTODACBITS (sim_start w) = 0x474CCCCD"
  by (simp_all add: sim_start_def)

lemma sim_start_ok [simp]: "sf_ok (sim_start w)"
  by (simp add: sf_ok_def)

lemma sim_trigs_ok: "trigs_ok sim_trigs"
proof -
  have "length (trig_array k sim_trigs) = 4" for k by (cases k) (simp_all add: sim_trigs_def)
  then show ?thesis by (simp add: trigs_ok_def)
qed

lemma sim_bufs: "bufs_inv (sim_start w)"
proof -
  have "buf_array k (sim_start w) = replicate 4 (replicate 4000000 0)" if "k \<noteq> Evr" for k
    using that by (cases k) (simp_all add: sim_start_def)
  then show ?thesis by (simp add: bufs_inv_def)
qed

end
