(* ===== verification/Protocol.thy ===== *)
theory Protocol
  imports Safety
begin

text \<open>
  The protocol of the server as its clients see it: round trip of messages, what a send
  delivers, oversized and short messages, the succession of clients, the heartbeat.
\<close>

section \<open>Round trip\<close>

text \<open>
  C21. Round trip of a message between two ends: the bytes a successful \<open>psc_sendmsg\<close> puts on
  a socket, however \<open>send\<close> cuts them, are received by \<open>psc_recvmsg\<close> at the other end, however
  \<open>recv\<close> cuts them, as the same message number, length and body, and exactly these bytes are
  taken from the stream.
\<close>

theorem message_round_trip:
  fixes s :: "('w, 'x) core_scheme" and r :: "('v, 'y) core_scheme"
  assumes "result (psc_sendmsg P c mid buf mlen flags) s = None"
    and "trace (exec (psc_sendmsg P c mid buf mlen flags) s) = trace s @ es"
    and "stream_recv Q d pending" and "pending (world r) = sent c es @ rest"
    and "unat mlen \<le> length buf" and "mlen \<le> maxlen"
  shows "result (psc_recvmsg Q d maxlen fl) r =
      \<lparr>rr_ret = None, rr_head = Some (mid, mlen), rr_body = take (unat mlen) buf\<rparr> \<and>
    pending (world (exec (psc_recvmsg Q d maxlen fl) r)) = rest"
proof -
  have "sent c es = psc_frame mid buf mlen"
    using psc_sendmsg_ok [OF assms(1)] assms(2) by (auto simp: transmits_def)
  also have "\<dots> = psc_frame mid (take (unat mlen) buf) mlen"
    by (simp add: psc_frame_def)
  finally have "pending (world r) = psc_frame mid (take (unat mlen) buf) mlen @ rest"
    using assms(4) by simp
  moreover have "length (take (unat mlen) buf) = unat mlen" using assms(5) by simp
  ultimately show ?thesis
    using psc_recvmsg_stream [OF assms(3) _ _ assms(6), of r] by blast
qed

text \<open>
  C22. A send never leaves a client with half a message: without a client it does nothing;
  with one the whole frame goes out in order, or a proper prefix of it and the client's socket
  is closed right after, so that no later message can follow a truncated one.
\<close>

theorem psc_send_all_or_close:
  fixes s :: "('w, 'x) sched_scheme" and P :: "'w platform" and S :: "'w sysinfo"
    and mid :: u16 and mlen :: u32 and msg :: "byte list"
  defines "t \<equiv> exec (psc_send P (main_conf P S) mid mlen msg) s"
  shows "if client_sock s < 0 then t = s else sends_frame (client_sock s) (psc_frame mid msg mlen) s t"
  unfolding t_def by (simp add: psc_send_unconnected psc_send_frame)

section \<open>Errors of a client\<close>

lemma receive_client_fails:
  fixes s :: "('w, 'x) sched_scheme" and P :: "'w platform" and S :: "'w sysinfo"
  assumes "rr_ret (result (psc_recvmsg P c (of_nat PSC_MAX_RX_MSG_LEN) 0) s) \<noteq> None"
    and "client_sock s = c" and "0 \<le> c"
  defines "t \<equiv> exec (receive_client P (main_conf P S) c) s"
  shows "result (receive_client P (main_conf P S) c) s = Some ()" and "client_sock t = -1"
    and "\<exists>es. trace t = trace s @ es @ [Cls c] \<and> list_all unwritten es"
    and "scalefactors t = scalefactors s"
proof -
  let ?m = "psc_recvmsg P c (of_nat PSC_MAX_RX_MSG_LEN) 0 :: (('w, 'x) sched_scheme, _) state"
  have "emits unwritten s (exec ?m s)"
    by (rule io_exec [OF emits_recvmsg]) (simp add: unwritten_def)
  then obtain es where "trace (exec ?m s) = trace s @ es" "list_all unwritten es"
    by (auto simp: emits_def)
  moreover have "client_sock (exec ?m s) = c" "scalefactors (exec ?m s) = scalefactors s"
    using assms(2) by (simp_all add: unchanged_exec [OF frame_recvmsg])
  moreover obtain e where "rr_ret (result ?m s) = Some e"
    using assms(1) by auto
  ultimately show "result (receive_client P (main_conf P S) c) s = Some ()" and "client_sock t = -1"
    and "\<exists>es. trace t = trace s @ es @ [Cls c] \<and> list_all unwritten es"
    and "scalefactors t = scalefactors s"
    using assms(3)
    by (auto simp: t_def receive_client_def recv_store_def run_simps disconnect_client_def)
qed

text \<open>
  C26. A client whose header claims more than the receive buffer holds is disconnected: no byte
  of the body is stored, no register is written and no setting changes, and the server is
  ready for the next client.
\<close>

theorem oversize_disconnects:
  fixes s :: "('w, 'x) sched_scheme" and P :: "'w platform" and S :: "'w sysinfo"
  assumes "stream_recv P c pending" and "pending (world s) = psc_header mid mlen @ rest"
    and "of_nat PSC_MAX_RX_MSG_LEN < mlen" and "client_sock s = c" and "0 \<le> c"
  defines "t \<equiv> exec (receive_client P (main_conf P S) c) s"
  shows "rxbuf t = rxbuf s \<and> client_sock t = -1 \<and> scalefactors t = scalefactors s \<and>
    (\<exists>es. trace t = trace s @ es @ [Cls c] \<and> list_all unwritten es)"
proof -
  note r = psc_recvmsg_oversize(1) [OF assms(1-3), of 0]
  then have "rr_ret (result (psc_recvmsg P c (of_nat PSC_MAX_RX_MSG_LEN) 0) s) \<noteq> None" by simp
  note f = receive_client_fails [OF this assms(4,5), of S, folded t_def]
  have "rxbuf t = rxbuf s"
    using assms(4,5)
    by (simp add: t_def receive_client_def recv_store_def run_simps disconnect_client_def r overwrite_def
        unchanged_exec [OF frame_recvmsg])
  with f show ?thesis by blast
qed

text \<open>
  C40. The length of a settings message is not looked at: an empty message for a channel makes
  the handler act on what the previous message left in the receive buffer, so the previous
  setting is applied again.
\<close>

theorem empty_message_repeats:
  fixes s :: "('w, 'x) sched_scheme" and P :: "'w platform" and S :: "'w sysinfo"
  assumes "stream_recv P c pending" and "pending (world s) = psc_header (ucast chan) 0 @ rest"
    and "rxbuf s = settings_body m u @ old"
    and "valid_chan chan" and "sf_ok s" and "(m, r, f) \<in> set setting_table"
  defines "t \<equiv> exec (receive_client P (main_conf P S) c) s"
  shows "new_writes s t =
      [(reg_addr P IOC_ACCESS_REG, 1), (reg_addr P IOC_ACCESS_REG, 0),
       (chan_addr P chan r, f u (CONVVOLTSTODACBITS s) (scalefactors s ! unat (chan - 1)))]"
proof -
  have "pending (world s) = psc_frame (ucast chan) [] 0 @ rest"
    using assms(2) by (simp add: psc_frame_def)
  moreover have "rxbuf s = overwrite (settings_body m u) (rxbuf s)"
    using assms(3) by (simp add: overwrite_def)
  ultimately show ?thesis
    using settings_received [OF assms(1) _ _ _ _ assms(4-6), where body = "[]" and mlen = 0 and S = S]
    unfolding t_def by (simp add: overwrite_def)
qed

section \<open>Clients\<close>

text \<open>
  C30. The heartbeat works across the wrap of the tick counter: a client from which nothing was
  received for \<open>d\<close> ticks, the counter wrapping or not, stays connected exactly while \<open>d\<close> is
  below the timeout; from then on the next turn closes its socket.
\<close>

theorem heartbeat_timeout:
  fixes s :: "('w, 'x) sched_scheme" and P :: "'w platform" and S :: "'w sysinfo"
  assumes "client_sock s = c" and "0 \<le> c"
    and "fst (plat_ticks P (world s)) = last_rx_tick s + of_nat d" and "d < 2 ^ 32"
  defines "t \<equiv> exec (heartbeat_check P (main_conf P S)) s"
  shows "if d < unat (pdMS_TO_TICKS P 5000) then client_sock t = c \<and> trace t = trace s
    else client_sock t = -1 \<and> trace t = trace s @ [Cls c]"
proof -
  have "fst (plat_ticks P (world s)) - last_rx_tick s = of_nat d" "unat (of_nat d :: u32) = d"
    using assms(3,4) by (simp_all add: unat_of_nat take_bit_nat_eq_self)
  then show ?thesis
    using assms(1,2)
    by (simp add: t_def heartbeat_check_def xTaskGetTickCount_def run_simps disconnect_client_def
        PSC_HEARTBEAT_TIMEOUT_MS_def word_le_nat_alt)
qed

lemma greeting:
  "exec (notify (main_conf P S) PSC_CONN) s =
   exec (psc_send P quiet_conf 0x100 8 (be32 (git_hash s) @ be32 0)) s"
proof -
  have "le32 0 = be32 0" by (simp add: be32_def le32_def)
  then show ?thesis
    by (simp add: notify_def main_conf_def client_event_def psc_send_one_def run_simps htonl_le32)
qed

text \<open>
  C31. A new client takes the place of the old one: the old socket is closed before anything is
  sent, then the greeting with the revision goes to the new client (or a prefix of it and the
  connection is closed), and the peer and the time of the connection are recorded.
\<close>

theorem new_client_supersedes:
  fixes s :: "('w, 'x) sched_scheme" and P :: "'w platform" and S :: "'w sysinfo"
  assumes "plat_accept P (listen_sock s) (world s) = ((new, addr), w)" and "0 \<le> new"
    and "client_sock s = old" and "0 \<le> old"
  defines "t \<equiv> exec (accept_client P (main_conf P S)) s"
  shows "\<exists>u. trace u = trace s @ [Acc new, Cls old] \<and> peeraddr t = addr \<and>
    sends_frame new (psc_header 0x100 8 @ be32 (git_hash s) @ be32 0) u t"
proof -
  define w3 where "w3 = snd (plat_setsockopt P new (SO_RCVTIMEO (timeout_value P PSC_RX_TIMEOUT_MS))
      (snd (plat_setsockopt P new (SO_SNDTIMEO (timeout_value P PSC_TX_TIMEOUT_MS))
        (snd (plat_setsockopt P new (TCP_NODELAY 1) (plat_close P old w))))))"
  define u where "u = s\<lparr>world := snd (plat_ticks P w3), trace := trace s @ [Acc new, Cls old],
      client_sock := new, peeraddr := addr, last_rx_tick := fst (plat_ticks P w3)\<rparr>"
  let ?g = "psc_send P quiet_conf 0x100 8 (be32 (git_hash s) @ be32 0)"
  have t: "t = exec ?g u"
    using assms(1-4)
    by (simp add: t_def accept_client_def sk_accept_def run_simps disconnect_client_def sk_close_def
        configure_client_socket_def set_sockopt_def
        xTaskGetTickCount_def w3_def u_def greeting)
  have "sends_frame new (psc_frame 0x100 (be32 (git_hash s) @ be32 0) 8) u (exec ?g u)"
    using assms(2) by (intro psc_send_frame notify_quiet) (simp_all add: u_def)
  moreover have "peeraddr (exec ?g u) = peeraddr u"
    by (rule unchanged_exec [OF frame_psc_send]) (simp_all add: core_indep_def)
  ultimately show ?thesis
    by (intro exI [of _ u]) (simp add: t psc_frame_def u_def)
qed

section \<open>The loop keeps turning\<close>

text \<open>The flash chip becomes ready at some time, however long it takes.\<close>

definition chip_ready :: "'w platform \<Rightarrow> bool" where
  "chip_ready P \<longleftrightarrow> (\<forall>w. \<exists>k. (let poll = plat_qspi P [FLASH_READ_STATUS_CMD, 0] 2 in
     (fst (poll (((\<lambda>w. snd (poll w)) ^^ k) w)) ! 1) AND 1 = 0))"

lemma world_polls:
  "world ((exec (poll_once P) ^^ k) s) =
   ((\<lambda>w. snd (plat_qspi P [FLASH_READ_STATUS_CMD, 0] 2 w)) ^^ k) (world s)"
  by (induction k) (simp_all add: poll_once_def qspi_transfer_def run_simps)

lemma wait_flash_returns:
  fixes s :: "('w, 'x) core_scheme"
  assumes "chip_ready P"
  shows "result (wait_flash P) s = Some ()"
proof -
  obtain k where "(fst (plat_qspi P [FLASH_READ_STATUS_CMD, 0] 2 (world ((exec (poll_once P) ^^ k) s))) ! 1) AND 1 = 0"
    using assms unfolding chip_ready_def Let_def world_polls by blast
  then have "(result (poll_once P) ((exec (poll_once P) ^^ k) s) ! 1) AND 1 = 0"
    by (simp add: poll_once_def qspi_transfer_def run_simps)
  then obtain t where "wait_ready P s = Some t"
    using wait_ready_returns by blast
  then show ?thesis by (simp add: wait_flash_def result_def)
qed

lemma chan_settings_returns:
  assumes "chip_ready P"
  shows "result (chan_settings P chan msg msglen) s = Some ()"
proof -
  have okr: "result (ok m) t = Some ()" for m :: "(('a, 'b) ctl_scheme, unit) state" and t
    by (simp add: ok_def run_simps)
  have "result (write_qspi P chan) t = Some ()" for t :: "('a, 'b) ctl_scheme"
    by (simp add: write_qspi_def run_simps QspiFlashEraseSect_def QspiFlashWrite_def Let_def
        wait_flash_returns [OF assms] okr)
  then show ?thesis
    by (simp add: chan_settings_def dac_cases_def adc_cases_def thresh_cases_def cntlim_cases_def
        digital_cases_def scale_cases_def misc_cases_def Let_def okr run_simps)
qed

lemma turn_returns:
  fixes s :: "('w, 'x) sched_scheme"
  assumes "chip_ready P"
  shows "result (psc_turn P (main_conf P S) poll) s = Some ()"
proof -
  have d: "result (deliver (main_conf P S) mid mlen) t = Some ()"
    for mid mlen and t :: "('w, 'x) sched_scheme"
    by (simp add: deliver_def main_conf_def client_msg_def ok_def run_simps chan_settings_returns [OF assms])
  have "result (receive_client P (main_conf P S) c) t = Some ()" for c and t :: "('w, 'x) sched_scheme"
    by (auto simp: receive_client_def run_simps d split: option.split)
  then have "result (service_sockets P (main_conf P S) sel ready) t = Some ()"
    for sel ready and t :: "('w, 'x) sched_scheme"
    by (simp add: service_sockets_def run_simps)
  then show ?thesis
    by (auto simp: psc_turn_def run_simps split: sum.split)
qed

text \<open>
  C9. The network thread is never stuck: if the flash chip always becomes ready again, every
  message is handled to its end and the loop completes any number of turns, whatever the
  clients send and the calls into the network stack return. (The waits for the flash chip are
  the only unbounded loops of the handlers.)
\<close>

theorem network_loop_returns:
  assumes "chip_ready P"
  shows "result (network_loop P S n) s = Some ()"
  unfolding network_loop_def
  by (induction n arbitrary: s) (simp_all add: run_simps turn_returns [OF assms])

section \<open>Messages without effect\<close>

text \<open>The message numbers the channel handler knows.\<close>

definition chan_messages :: "u32 list" where
  "chan_messages = map fst setting_table @ map fst sf_table @
     [DAC_OPMODE_MSG, DAC_SETPT_MSG, FAULT_CLEAR_MSG, USR_TRIG_MSG, WRITE_QSPI_MSG, READ_QSPI_MSG, DUMP_ADCS_MSG]"

text \<open>
  Messages the firmware does not know have no effect: a message identifier other than those
  of the global settings, the four channels and the ramp table only blinks the access LED, and
  so does a channel message whose number is none of the known ones.
\<close>

theorem unknown_message_ignored:
  fixes s :: "('w, 'x) sched_scheme"
  assumes "mid \<notin> {0, 1, 2, 3, 4, 101} \<or> mid \<in> {1, 2, 3, 4} \<and> msg_addr (rxbuf s) \<notin> set chan_messages"
  shows "exec (client_msg P mid mlen) s = exec (gwr P IOC_ACCESS_REG 0) (exec (gwr P IOC_ACCESS_REG 1) s)"
proof -
  have "exec (chan_settings P chan msg mlen) t = t" if "msg_addr msg \<notin> set chan_messages"
    for msg chan and t :: "('w, 'x) sched_scheme"
    using that unfolding chan_messages_def setting_table_def raw_table_def adc_table_def fault_table_def sf_table_def
    by (simp add: chan_settings_def dac_cases_def adc_cases_def thresh_cases_def cntlim_cases_def
        digital_cases_def scale_cases_def misc_cases_def Let_def run_simps)
  then show ?thesis
    using assms by (auto simp: client_msg_def run_simps)
qed

section \<open>Global settings\<close>

text \<open>The global settings as a table of the register writes they cause.\<close>

definition glob_table :: "(u32 \<times> (u32 \<Rightarrow> (u32 \<times> u32) list)) list" where
  "glob_table =
     [(SOFT_TRIG_MSG, \<lambda>u. [(SOFTTRIG, u), (SOFTTRIG, 0)]),
      (TEST_TRIG_MSG, \<lambda>u. [(TESTTRIG, u), (TESTTRIG, 0)]),
      (FP_LED_MSG, \<lambda>u. [(LEDS_REG, u)]),
      (EVR_RESET_MSG, \<lambda>u. [(EVR_RESET_REG, if u = 1 then 0xFF else 0)]),
      (EVR_INJ_EVENTNUM_MSG, \<lambda>u. [(EVR_INJ_EVENTNUM_REG, u)]),
      (EVR_PM_EVENTNUM_MSG, \<lambda>u. [(EVR_PM_EVENTNUM_REG, u)]),
      (EVR_1HZ_EVENTNUM_MSG, \<lambda>u. [(EVR_1HZ_EVENTNUM_REG, u)]),
      (EVR_10HZ_EVENTNUM_MSG, \<lambda>u. [(EVR_10HZ_EVENTNUM_REG, u)]),
      (EVR_10KHZ_EVENTNUM_MSG, \<lambda>u. [(EVR_10KHZ_EVENTNUM_REG, u)]),
      (FOFB_IPADDR_MSG, \<lambda>u. [(FOFB_IPADDR_REG, u)])]"


section \<open>The schedule of the periodic data\<close>

lemma frame_sadata:
  assumes "notify conf PSC_DIS = skip" and "core_indep f" and "\<And>s. f (s\<lparr>client_sock := -1\<rparr>) = f s"
    and "\<And>s x. f (s\<lparr>sadata_msg := x\<rparr>) = f s"
  shows "state_io_rel (unchanged f) (sadata_send P conf)"
  unfolding sadata_send_def sa_header_def sa_channel_def sa_monitors_def sa_dac_triple_def sa_mon_triple_def
    ReadAccumSA_def stack_bytes_def sf_read_def Let_def
  by (intro frame_intros frame_psc_send assms)

lemma frame_slow_work:
  assumes "notify conf PSC_DIS = skip" and "core_indep f" and "\<And>s. f (s\<lparr>client_sock := -1\<rparr>) = f s"
    and "\<And>s x. f (s\<lparr>bpc_msg := x\<rparr>) = f s"
  shows "state_io_rel (unchanged f) (slow_work P S conf)"
  unfolding slow_work_def lstats_send_def bpc_send_def Let_def
  by (intro frame_intros frame_psc_send assms)

lemma last_buf_set [simp]:
  "last_fast (buf_set k i x s) = last_fast s" "last_slow (buf_set k i x s) = last_slow s"
  by (cases k; simp)+

lemma frame_snapshots:
  fixes conf :: "('w, 'x) sched_scheme psc_config"
  assumes "notify conf PSC_DIS = skip"
  shows "state_io_rel (unchanged last_fast) (snapshot_process P conf)"
    and "state_io_rel (unchanged last_slow) (snapshot_process P conf)"
  unfolding snapshot_process_def CheckforTriggers_def check_trigger_def send_ready_def SendWfmData_def
    SendSnapShotStats_def set_trig_def Let_def
  by (intro frame_intros frame_stats frame_ReadDMABuf frame_psc_send assms; simp add: core_indep_def)+

lemma grows_snapshots:
  "notify conf PSC_DIS = skip \<Longrightarrow> state_io_rel grows (snapshot_process P conf)"
  unfolding snapshot_process_def CheckforTriggers_def check_trigger_def set_trig_def Let_def
  by (intro emits_intros grows_send_ready grows_stats; simp)

interpretation grow: periodic_io grows P "main_conf P S" for P S
  by unfold_locales
     (intro emits_intros emits_sf_read grows_psc_send grows_snapshots emits_ticks notify_main; simp)+

lemma emits_after_writes:
  assumes "state_io_rel grows m"
  shows "\<exists>es. trace (exec (do { Xil_Out32 P a v; Xil_Out32 P b w; m }) s) = trace s @ [Wr a v, Wr b w] @ es"
proof -
  let ?s = "exec (Xil_Out32 P b w) (exec (Xil_Out32 P a v) s)"
  obtain es where "trace (exec m ?s) = trace ?s @ es"
    using io_exec [OF assms, of ?s] by (auto simp: emits_def)
  then show ?thesis by (simp add: run_simps)
qed

lemma sadata_announces:
  "\<exists>es. trace (exec (sadata_send P (main_conf P S)) s) =
     trace s @ [Wr (reg_addr P TENHZ_DATASEND_REG) 1, Wr (reg_addr P TENHZ_DATASEND_REG) 0] @ es"
  unfolding sadata_send_def
  by (rule emits_after_writes, unfold sa_header_def Let_def, intro grow.sched_steps grow.channels_rel) simp

lemma sadata_writes:
  assumes "grows (exec (sadata_send P (main_conf P S)) s) t"
  shows "\<exists>ws. new_writes s t =
    (reg_addr P TENHZ_DATASEND_REG, 1) # (reg_addr P TENHZ_DATASEND_REG, 0) # ws"
  using assms sadata_announces [of P S s] by (auto simp: emits_def new_writes_def)

lemma last_after [simp]:
  fixes s :: "('w, 'x) sched_scheme" and P :: "'w platform" and S :: "'w sysinfo"
  shows "last_fast (exec (sadata_send P (main_conf P S)) s) = last_fast s"
    and "last_slow (exec (sadata_send P (main_conf P S)) s) = last_slow s"
    and "last_fast (exec (slow_work P S (main_conf P S)) s) = last_fast s"
    and "last_slow (exec (slow_work P S (main_conf P S)) s) = last_slow s"
    and "last_fast (exec (snapshot_process P (main_conf P S)) s) = last_fast s"
    and "last_slow (exec (snapshot_process P (main_conf P S)) s) = last_slow s"
  by (rule unchanged_exec, intro frame_sadata frame_slow_work frame_snapshots; simp add: core_indep_def)+

lemma grows_slow_work: "state_io_rel grows (slow_work P S (main_conf P S))"
  unfolding slow_work_def lstats_send_def bpc_send_def Let_def by (intro grow.sched_steps)


end
