(* ===== verification/Boot.thy ===== *)
theory Boot
  imports Qspi_Props
begin

text \<open>
  Power-up: the settings of all four channels are restored from flash.
\<close>

lemma sf_ok_restored: "restored P chan vals sf s t \<Longrightarrow> sf_ok s \<Longrightarrow> sf_ok t"
  by (simp add: restored_def sf_ok_def)

lemma cells_read_qspi:
  assumes "flash_chip P cells wel" and "valid_chan chan"
  shows "cells (world (exec (read_qspi P chan) s)) = cells (world s)"
proof -
  let ?m = "QspiFlashRead P (chan * FLASH_SECTOR_SIZE) FLASH_PAGE_SIZE :: (('a, 'b) ctl_scheme, byte list) state"
  have "cells (world (exec ?m s)) = cells (world s)"
    using read_cells(1) [OF assms(1) _ sector_small [OF assms(2)], of 256 s] by (simp add: FLASH_PAGE_SIZE_def)
  then show ?thesis
    by (simp add: read_qspi_def run_simps cells_exec [OF assms(1) cells_disperse])
qed

lemma reg_writes_grow:
  assumes "new_writes s t = ws" and "\<exists>es. writes (trace t) = writes (trace s) @ es"
    and "new_writes t u = vs" and "\<exists>es. writes (trace u) = writes (trace t) @ es"
  shows "new_writes s u = ws @ vs"
  using assms by (auto simp: new_writes_def)

lemma read_qspi_grows: "\<exists>es. writes (trace (exec (read_qspi P chan) s)) = writes (trace s) @ es"
proof -
  have "emits (chan_event P chan) s (exec (read_qspi P chan) s)"
    unfolding read_qspi_def
    by (rule io_exec, intro confined.steps confined.handlers)
  then show ?thesis by (auto simp: emits_def)
qed

text \<open>Reading the sectors of several channels one after the other.\<close>

lemma read_channels:
  fixes s :: "('w, 'x) ctl_scheme" and vals :: "u32 \<Rightarrow> u32 list"
  assumes chip: "flash_chip P cells wel" and "sf_ok s"
    and "\<forall>c\<in>set cs. valid_chan c \<and> length (vals c) = length qspi_fields \<and>
           stored (cells (world s)) c (vals c) (sf c)"
  defines "t \<equiv> exec (for_each (read_qspi P) cs) s"
  shows "new_writes s t = concat (map (\<lambda>c. zip (map (chan_addr P c) qspi_fields) (vals c)) cs)"
    and "scalefactors t = fold (\<lambda>c sfs. sfs[unat (c - 1) := sf c]) cs (scalefactors s)"
    and "\<exists>es. writes (trace t) = writes (trace s) @ es"
  unfolding atomize_conj using assms(2,3) unfolding t_def
proof (induction cs arbitrary: s)
  case (Cons c cs)
  let ?u = "exec (read_qspi P c) s"
  have c: "valid_chan c" "length (vals c) = length qspi_fields" "stored (cells (world s)) c (vals c) (sf c)"
    using Cons.prems(2) by simp_all
  note r = read_qspi_restores [OF chip Cons.prems(1) c]
  have "\<forall>d\<in>set cs. valid_chan d \<and> length (vals d) = length qspi_fields \<and>
      stored (cells (world ?u)) d (vals d) (sf d)"
    using Cons.prems(2) by (simp add: cells_read_qspi [OF chip c(1)])
  note ih = Cons.IH [OF sf_ok_restored [OF r Cons.prems(1)] this]
  have "new_writes s (exec (for_each (read_qspi P) cs) ?u) =
      zip (map (chan_addr P c) qspi_fields) (vals c) @
      concat (map (\<lambda>c. zip (map (chan_addr P c) qspi_fields) (vals c)) cs)"
    using ih r by (intro reg_writes_grow [where t = ?u, OF _ read_qspi_grows]) (auto simp: restored_def)
  then show ?case
    using ih r read_qspi_grows [of P c s] by (auto simp: run_simps restored_def)
qed (simp add: run_simps new_writes_def)

text \<open>
  C20. Power-up restores the unit: if the chip holds the settings records of the four channels,
  \<open>InitSettingsfromQspi\<close> writes the default event numbers and then, channel by channel and
  register by register in the order of the record, exactly the saved values, and sets the
  scale factors of all four channels to the saved ones.
\<close>

theorem boot_restores_settings:
  fixes s :: "('w, 'x) ctl_scheme" and vals :: "u32 \<Rightarrow> u32 list" and P :: "'w platform"
  assumes "flash_chip P cells wel" and "sf_ok s"
    and "\<forall>c\<in>{1, 2, 3, 4}. length (vals c) = length qspi_fields \<and> stored (cells (world s)) c (vals c) (sf c)"
  defines "t \<equiv> exec (InitSettingsfromQspi P) s"
  shows "new_writes s t =
      [(reg_addr P EVR_INJ_EVENTNUM_REG, 10), (reg_addr P EVR_PM_EVENTNUM_REG, 10)] @
      concat (map (\<lambda>c. zip (map (chan_addr P c) qspi_fields) (vals c)) [1, 2, 3, 4]) \<and>
    scalefactors t = map sf [1, 2, 3, 4]"
proof -
  let ?u = "exec (Xil_Out32 P (reg_addr P EVR_PM_EVENTNUM_REG) 10)
    (exec (Xil_Out32 P (reg_addr P EVR_INJ_EVENTNUM_REG) 10) s)"
  have u: "sf_ok ?u" "cells (world ?u) = cells (world s)" "scalefactors ?u = scalefactors s"
    using assms(2) by (simp_all only: cells_exec [OF assms(1) cells_Out32]) (simp_all add: run_simps)
  have t: "t = exec (for_each (read_qspi P) [1, 2, 3, 4]) ?u"
    by (simp add: t_def InitSettingsfromQspi_def read_qspi_def [abs_def] run_simps)
  have "\<forall>c\<in>set [1, 2, 3, 4]. valid_chan c \<and> length (vals c) = length qspi_fields \<and>
      stored (cells (world ?u)) c (vals c) (sf c)"
    using assms(3) by (simp add: u valid_chan_def)
  note r = read_channels [OF assms(1) u(1) this, folded t]
  obtain a b c d where "scalefactors s = [a, b, c, d]"
    using assms(2) unfolding sf_ok_def by (auto simp: numeral_eq_Suc length_Suc_conv)
  then have "(scalefactors s)[0 := sf 1, 1 := sf 2, 2 := sf 3, 3 := sf 4] = map sf [1, 2, 3, 4]"
    by (simp add: numeral_2_eq_2 numeral_3_eq_3)
  then have "scalefactors t = map sf [1, 2, 3, 4]" by (simp add: r(2) u(3))
  moreover have "new_writes s ?u = [(reg_addr P EVR_INJ_EVENTNUM_REG, 10), (reg_addr P EVR_PM_EVENTNUM_REG, 10)]"
    "\<exists>es. writes (trace ?u) = writes (trace s) @ es"
    by (simp_all add: new_writes_def run_simps)
  then have "new_writes s t =
      [(reg_addr P EVR_INJ_EVENTNUM_REG, 10), (reg_addr P EVR_PM_EVENTNUM_REG, 10)] @
      concat (map (\<lambda>c. zip (map (chan_addr P c) qspi_fields) (vals c)) [1, 2, 3, 4])"
    using r(1,3) by (rule reg_writes_grow [where t = ?u])
  ultimately show ?thesis by blast
qed

end
