(* ===== verification/Witnesses.thy ===== *)
theory Witnesses
  imports Sim Protocol Boot
begin

text \<open>
  The theorems applied to the simulated unit: for each one with hypotheses, a concrete run in
  which they hold.
\<close>

lemma settings_body_msg:
  "msg_addr (settings_body m u) = m" "msg_data (settings_body m u) = u"
  using settings_msg [of m u "[]"] by (simp_all add: overwrite_def)

lemma valid_chans: "valid_chan 1" "valid_chan 2" "valid_chan 3" "valid_chan 4"
  by (simp_all add: valid_chan_def)

abbreviation s0 :: "sim_world sched" where
  "s0 \<equiv> sim_start sim_w0"

text \<open>A unit whose registers hold given values.\<close>

definition sim_with :: "(u32 \<times> u32) list \<Rightarrow> sim_world sched" where
  "sim_with rvs = sim_start (sim_w0\<lparr>sim_regs := (\<lambda>a. case map_of rvs a of None \<Rightarrow> 0 | Some v \<Rightarrow> v)\<rparr>)"

lemma sim_with_simps [simp]:
  "sf_ok (sim_with rvs)" "trace (sim_with rvs) = []" "smoothramp_type (sim_with rvs) = 0"
  "scalefactors (sim_with rvs) = [sim_sf, sim_sf, sim_sf, sim_sf]"
  "CONVVOLTSTODACBITS (sim_with rvs) = 0x474CCCCD"
  by (simp_all add: sim_with_def)

section \<open>Channel messages\<close>

theorem chan_settings_confined_witness:
  "emits (chan_event sim 2) s0 (exec (chan_settings sim 2 (settings_body FAULT_MASK_MSG 5) 8) s0) \<and>
   emits (\<lambda>e. e \<noteq> UB) s0 (exec (chan_settings sim 2 (settings_body FAULT_MASK_MSG 5) 8) s0)"
  using chan_settings_confined [OF valid_chans(2) sim_start_ok [of sim_w0], where P = sim
      and msg = "settings_body FAULT_MASK_MSG 5" and msglen = 8]
  by simp

theorem chan_settings_table_witness:
  "exec (chan_settings sim 3 (settings_body FAULT_MASK_MSG 0x1F) 8) s0 =
     exec (cwr sim 3 FAULT_MASK_REG 0x1F) s0"
  using chan_settings_table [OF sim_start_ok [of sim_w0] valid_chans(3), where P = sim and m = FAULT_MASK_MSG
      and r = FAULT_MASK_REG and f = raw_setting and msg = "settings_body FAULT_MASK_MSG 0x1F" and msglen = 8]
  by (simp add: settings_body_msg raw_setting_def setting_table_def raw_table_def)

theorem opmode_message_witness:
  "new_writes s0 (exec (chan_settings sim 1 (settings_body DAC_OPMODE_MSG DAC_JUMP) 8) s0) =
     [(chan_addr sim 1 DAC_OPMODE_REG, DAC_JUMP)]"
  using opmode_message [OF sim_start_ok [of sim_w0] valid_chans(1), where P = sim
      and msg = "settings_body DAC_OPMODE_MSG DAC_JUMP" and msglen = 8]
  by (simp add: settings_body_msg Let_def DAC_FOFB_def DAC_JUMP_def)

theorem fault_clear_message_witness:
  "new_writes s0 (exec (chan_settings sim 2 (settings_body FAULT_CLEAR_MSG 1) 8) s0) =
     [(chan_addr sim 2 FAULT_CLEAR_REG, 1)]"
  using fault_clear_message [of "settings_body FAULT_CLEAR_MSG 1" s0 sim 2 8]
  by (simp add: settings_body_msg run_simps sim_def sim_In32_def trig_regs_def trig_sources_def
      reg_addr_def sim_w0_def MAIN_DIPOLE_MODE_REG_def)

lemma sim_read [simp]:
  "reg_now sim a s = sim_In32 a (world s)"
  "after_read sim a s = s\<lparr>trace := trace s @ [Rd a (sim_In32 a (world s))]\<rparr>"
  by (simp_all add: run_simps sim_def)

lemma sim_In32_plat [simp]: "plat_In32 sim a w = (sim_In32 a w, w)"
  by (simp add: sim_def)

lemma sim_base [simp]: "XPAR_M_AXI_BASEADDR sim = 0x43C00000"
  by (simp add: sim_def)

lemmas trig_reg_defs = trig_regs_def trig_sources_def
  USR1TRIG_BUFPTR_def USR2TRIG_BUFPTR_def USR3TRIG_BUFPTR_def USR4TRIG_BUFPTR_def FLT1TRIG_BUFPTR_def FLT2TRIG_BUFPTR_def
  FLT3TRIG_BUFPTR_def FLT4TRIG_BUFPTR_def ERR1TRIG_BUFPTR_def ERR2TRIG_BUFPTR_def ERR3TRIG_BUFPTR_def ERR4TRIG_BUFPTR_def
  INJ1TRIG_BUFPTR_def INJ2TRIG_BUFPTR_def INJ3TRIG_BUFPTR_def INJ4TRIG_BUFPTR_def EVRTRIG_BUFPTR_def

lemma sim_with_reg:
  "a - 0x43C00000 \<notin> set trig_regs \<Longrightarrow>
   sim_In32 a (world (sim_with rvs)) = (case map_of rvs a of None \<Rightarrow> 0 | Some v \<Rightarrow> v)"
  by (simp add: sim_In32_def sim_with_def sim_w0_def)

text \<open>Channel 1 in jump mode, its own polarity bit as the code looks it up set.\<close>

definition s_jump :: "sim_world sched" where
  "s_jump = sim_with [(chan_addr sim 1 DAC_OPMODE_REG, DAC_JUMP), (reg_addr sim POLARITY_REG, 2)]"

lemma s_jump_regs:
  "sim_In32 (chan_addr sim 1 DAC_OPMODE_REG) (world s_jump) = DAC_JUMP"
  "sim_In32 (reg_addr sim POLARITY_REG) (world s_jump) = 2"
  by (simp_all add: s_jump_def sim_with_reg chan_addr_def reg_addr_def CHBASEADDR_def trig_reg_defs
      DAC_OPMODE_REG_def POLARITY_REG_def)

lemma s_jump_ok: "sf_ok s_jump"
  by (simp add: s_jump_def)

theorem Set_dac_kick_off_witness:
  "\<exists>ps. new_writes s_jump (exec (Set_dac sim 1 (f32_val 0x3F800000)) s_jump) =
      ps @ [(chan_addr sim 1 DAC_SETPT_REG, of_int (setpoint_of sim 1 (f32_val 0x3F800000) s_jump))]"
  using Set_dac_kick_off [OF s_jump_ok valid_chans(1), where P = sim and amps = "f32_val 0x3F800000"]
  by (auto simp: s_jump_regs)



text \<open>A ramp of one second.\<close>

theorem cosine_phase_witness:
  "new_writes s0 (exec (Calc_WriteRaisedCosineSmooth sim 1 52429) s0) =
     [(chan_addr sim 1 SMOOTH_PHASEINC_REG, 42165), (chan_addr sim 1 DAC_SETPT_REG, 52429)]"
proof -
  have cur: "sint (reg_now sim (chan_addr sim 1 DAC_CURRSETPT_REG) s0) = 0"
    "reg_now sim (reg_addr sim MAIN_DIPOLE_MODE_REG) (after_read sim (chan_addr sim 1 DAC_CURRSETPT_REG) s0) = 0"
    by (simp_all add: run_simps sim_def sim_In32_def trig_reg_defs sim_w0_def chan_addr_def reg_addr_def CHBASEADDR_def
        DAC_CURRSETPT_REG_def MAIN_DIPOLE_MODE_REG_def)
  have "u32_of_fp (fp_mul double (ramp_duration 52429 0 (ramp_rate sim_sf 0x474CCCCD) 0) SAMPLERATE) = 10000"
    by code_simp
  then have n: "u32_of_fp (fp_mul double (ramp_duration 52429 (sint (reg_now sim (chan_addr sim 1 DAC_CURRSETPT_REG) s0))
      (ramp_rate (scalefactors s0 ! unat (1 - 1 :: u32)) (CONVVOLTSTODACBITS s0))
      (reg_now sim (reg_addr sim MAIN_DIPOLE_MODE_REG) (after_read sim (chan_addr sim 1 DAC_CURRSETPT_REG) s0))) SAMPLERATE) = 10000"
    by (simp only: cur) simp
  show ?thesis
    using cosine_phase [OF sim_start_ok [of sim_w0] valid_chans(1), where P = sim and x = 52429] n
    by (simp add: CORDIC_INIT_PHASE_def)
qed

theorem scale_factor_message_witness:
  "scalefactors (exec (chan_settings sim 2 (settings_body SF_VOUT_MSG 0x3F000000) 8) s0) =
     [sim_sf, sim_sf\<lparr>vout := 0x3F000000\<rparr>, sim_sf, sim_sf]"
  using scale_factor_message [OF sim_start_ok [of sim_w0] valid_chans(2), where P = sim and m = SF_VOUT_MSG
      and upd = "\<lambda>u sf. sf\<lparr>vout := u\<rparr>" and msg = "settings_body SF_VOUT_MSG 0x3F000000" and msglen = 8]
  by (simp add: settings_body_msg sf_table_def)

theorem thresholds_bounded_witness:
  "\<exists>v. uint v \<le> 32767 \<and>
     new_writes s0 (exec (chan_settings sim 1 (settings_body OVV_THRESH_MSG 0xC1200000) 8) s0) =
       [(chan_addr sim 1 OVV_THRESH_REG, v)]"
  by (intro thresholds_bounded [OF sim_start_ok valid_chans(1)]) (simp add: settings_body_msg)

text \<open>A table of two points, 1 and -1.\<close>

abbreviation two_points :: "byte list" where
  "two_points \<equiv> concat (map be32 [0x3F800000, 0xBF800000])"

theorem write_ramptable_stores_witness:
  "new_writes s0 (exec (write_ramptable sim 1 two_points 8) s0) =
     (chan_addr sim 1 DAC_RAMPLEN_REG, 2) #
     ramp_writes sim 1 (ramp_point 0x474CCCCD 0x3F800000
       (reg_now sim (reg_addr sim RESOLUTION_REG) (exec (cwr sim 1 DAC_RAMPLEN_REG 2) s0)) two_points) [0..<2]"
  using write_ramptable_stores [OF sim_start_ok [of sim_w0] valid_chans(1), where P = sim and msg = two_points
      and msglen = 8]
  by (simp add: sim_sf_def)

theorem ramp_points_saturated_witness:
  "\<bar>ramp_point 0x474CCCCD 0x3F800000 1 two_points 0\<bar> \<le> 2 ^ 20"
proof -
  have "dac_bits (f32_val (htonl (load32 two_points 0))) 0x474CCCCD 0x3F800000 \<noteq> - (2 ^ 31)"
    by code_simp
  then show ?thesis
    using ramp_points_saturated [where res = 1 and conv = "0x474CCCCD" and sf = "0x3F800000" and msg = two_points
        and i = 0] by simp
qed

section \<open>Flash\<close>

lemma sim_chip_ready: "chip_ready sim"
  unfolding chip_ready_def by (auto intro!: exI [of _ 0] simp: sim_chip_status)

lemma write_qspi_sim: "result (write_qspi sim chan) s = Some ()"
  by (simp add: write_qspi_def run_simps QspiFlashEraseSect_def QspiFlashWrite_def Let_def ok_def
      wait_flash_returns [OF sim_chip_ready])

text \<open>Saved on one day, restored after the next start.\<close>

abbreviation s_next :: "sim_world sched" where
  "s_next \<equiv> sim_start (world (exec (write_qspi sim 1) s0))"

theorem flash_settings_survive_witness:
  "new_writes s_next (exec (read_qspi sim 1) s_next) =
     zip (map (chan_addr sim 1) qspi_fields)
       (result (map_each (\<lambda>r. crd sim 1 r) qspi_fields) (exec (QspiFlashEraseSect sim 1) s0)) \<and>
   scalefactors (exec (read_qspi sim 1) s_next) = [sim_sf, sim_sf, sim_sf, sim_sf]"
  using flash_settings_survive [OF sim_flash_chip sim_start_ok [of sim_w0] valid_chans(1) write_qspi_sim
      sim_start_ok [of "world (exec (write_qspi sim 1) s0)"]]
  by simp

text \<open>A chip that was never written holds a record of ones in every sector.\<close>

definition ones_sf :: ScaleFactorType where
  "ones_sf = \<lparr>ampspersec = -1, dac_dccts = -1, vout = -1, ignd = -1, spare = -1, regulator = -1, error_sf = -1\<rparr>"

lemma stored_ones: "stored (\<lambda>_. 0xFF) c (replicate 37 (-1)) ones_sf"
proof -
  have "replicate 176 0xFF = settings_bytes (replicate 37 (-1)) ones_sf" by code_simp
  then show ?thesis by (simp add: stored_def map_replicate_const)
qed

theorem boot_restores_settings_witness:
  "scalefactors (exec (InitSettingsfromQspi sim) s0) = [ones_sf, ones_sf, ones_sf, ones_sf]"
  using boot_restores_settings [OF sim_flash_chip sim_start_ok [of sim_w0],
      where vals = "\<lambda>_. replicate 37 (-1)" and sf = "\<lambda>_. ones_sf"] stored_ones
  by (simp add: sim_w0_def)

section \<open>Snapshots\<close>

text \<open>A connected client, and a user trigger of channel 1 three samples after the start of the ring.\<close>

definition trig_wrap :: TriggerInfo where
  "trig_wrap = (trig_get Usr 0 (InitTriggerInfo sim_trigs))\<lparr>trig_addr := BUFSTART + of_nat 3 * 160, active := 1, sendbuf := 1\<rparr>"

definition s_wrap :: "sim_world sched" where
  "s_wrap = s0\<lparr>client_sock := 4, snapshot_trig := trig_set Usr 0 trig_wrap (InitTriggerInfo sim_trigs)\<rparr>"

lemma init_usr: "trig_get Usr 0 (InitTriggerInfo sim_trigs) = init_trigger 50000 50000 MSGUSRCH1 0 sim_trig"
  by (simp add: trig_get_def InitTriggerInfo_def sim_trigs_def init_array_def nth_enumerate_eq)

lemma trig_wrap_fields:
  "channum trig_wrap = 1" "msgID trig_wrap = MSGUSRCH1" "trigger_at trig_wrap 3 50000 50000"
  by (simp_all add: trig_wrap_def init_usr init_trigger_def trigger_at_def ring_size_def)

lemma init_trigs_ok: "trigs_ok (InitTriggerInfo sim_trigs)"
  using trigs_inv_init [OF sim_trigs_ok, of "\<lambda>_ _. True" "()"] by (simp add: trigs_inv_def)

lemma s_wrap_fields:
  "sf_ok s_wrap" "trig_get Usr 0 (snapshot_trig s_wrap) = trig_wrap" "client_sock s_wrap = 4"
  "length (buf_array Usr s_wrap ! 0) = 4000000" "0 < length (trig_array Usr (snapshot_trig s_wrap))"
proof -
  have "length (trig_array Usr (InitTriggerInfo sim_trigs)) = 4" using init_trigs_ok unfolding trigs_ok_def by blast
  moreover have "sf_ok s0" by simp
  ultimately show "sf_ok s_wrap" "trig_get Usr 0 (snapshot_trig s_wrap) = trig_wrap" "client_sock s_wrap = 4"
    "0 < length (trig_array Usr (snapshot_trig s_wrap))"
    by (simp_all add: s_wrap_def sf_ok_def trig_get_def)
  show "length (buf_array Usr s_wrap ! 0) = 4000000"
    by (simp add: s_wrap_def sim_start_def)
qed

theorem SendWfmData_sends_ring_witness:
  "sends_frame 4 (psc_header (ucast MSGUSRCH1) (wfm_len MSGUSRCH1) @ wave_message sim s_wrap trig_wrap 3 50000 50000)
     s_wrap (exec (SendWfmData sim (main_conf sim sim_info) Usr 0) s_wrap)"
  using SendWfmData_sends_ring [where s = s_wrap and P = sim and k = Usr and i = 0 and idx = 3 and pre = 50000
      and post = 50000 and c = 4 and conf = "main_conf sim sim_info"] s_wrap_fields trig_wrap_fields
  by (simp add: valid_chans wfm_len_def MSGUSRCH1_def MSGINJCH1_def MSGINJCH2_def MSGINJCH3_def MSGINJCH4_def MSGWFMLEN_def)

theorem snapshot_process_refines_witness:
  "\<exists>v. Rd (reg_addr sim USR1TRIG_BUFPTR) v \<in> set (trace (exec (snapshot_process sim (main_conf sim sim_info)) s0)) \<and>
     trig_get Usr 0 (snapshot_trig (exec (snapshot_process sim (main_conf sim sim_info)) s0)) =
       source_step Usr v (trig_get Usr 0 (snapshot_trig s0))"
proof -
  have "(Usr, 0, USR1TRIG_BUFPTR) \<in> set trig_sources" by (simp add: trig_sources_def)
  moreover have "active (trig_get Usr 0 (snapshot_trig s0)) = 0" by (simp add: init_usr init_trigger_def)
  moreover have "trigs_ok (snapshot_trig s0)" using init_trigs_ok by simp
  note snapshot_process_refines [OF notify_main [of sim sim_info] this, where P = sim]
  ultimately show ?thesis unfolding sim_start_simps(2) append_Nil by blast
qed

theorem one_waveform_per_trigger_witness:
  "sendbuf (fold (source_step Usr) [0x10000000, 9] (sim_trig\<lparr>posttrigpts := 2000\<rparr>)) = 0 \<and>
   trigcnt (fold (source_step Usr) [0x10000000, 9, 8] (sim_trig\<lparr>posttrigpts := 2000\<rparr>)) = 1"
  using one_waveform_per_trigger [of "sim_trig\<lparr>posttrigpts := 2000\<rparr>" "0x10000000" Usr "[9]"]
    one_waveform_per_trigger [of "sim_trig\<lparr>posttrigpts := 2000\<rparr>" "0x10000000" Usr "[9, 8]"]
  by (simp add: sim_trig_def)

section \<open>The server\<close>

theorem network_loop_owns_sockets_witness:
  "open_count 4 (trace (exec (network_loop sim sim_info 3) s0)) =
     (if client_sock (exec (network_loop sim sim_info 3) s0) = 4 then 1 else 0)"
  using network_loop_owns_sockets [of s0 4 sim sim_info 3] by simp

theorem rx_buffer_not_overrun_witness:
  "length (rxbuf (exec (network_loop sim sim_info 3) s0)) = 200000"
  using rx_buffer_not_overrun [OF sim_recv_bounded, of s0 sim_info 3] by (simp add: PSC_MAX_RX_MSG_LEN_def)

theorem network_loop_defined_witness:
  "UB \<notin> set (trace (exec (network_loop sim sim_info 3) s0))"
  using network_loop_defined [OF sim_fabric_law _ _ sim_trigs_ok _ sim_bufs, of sim_w0 sim_info 3] by auto

theorem network_loop_returns_witness: "result (network_loop sim sim_info 3) s0 = Some ()"
  by (rule network_loop_returns [OF sim_chip_ready])


section \<open>The protocol\<close>

definition s_rx :: "byte list \<Rightarrow> sim_world sched" where
  "s_rx bs = (sim_start (sim_w0\<lparr>sim_rx := bs\<rparr>))\<lparr>client_sock := 4\<rparr>"

lemma s_rx_fields [simp]:
  "sim_rx (world (s_rx bs)) = bs" "client_sock (s_rx bs) = 4" "sf_ok (s_rx bs)" "trace (s_rx bs) = []"
  "CONVVOLTSTODACBITS (s_rx bs) = 0x474CCCCD" "scalefactors (s_rx bs) = [sim_sf, sim_sf, sim_sf, sim_sf]"
  "git_hash (s_rx bs) = 0" "listen_sock (s_rx bs) = 3"
  by (simp_all add: s_rx_def sf_ok_def)

theorem settings_end_to_end_witness:
  "new_writes (s_rx (psc_frame 2 (settings_body FAULT_MASK_MSG 0x1F) 8 @ [1, 2]))
     (exec (receive_client sim (main_conf sim sim_info) 4) (s_rx (psc_frame 2 (settings_body FAULT_MASK_MSG 0x1F) 8 @ [1, 2]))) =
     [(reg_addr sim IOC_ACCESS_REG, 1), (reg_addr sim IOC_ACCESS_REG, 0), (chan_addr sim 2 FAULT_MASK_REG, 0x1F)]"
  using settings_end_to_end [OF sim_stream, where s = "s_rx (psc_frame 2 (settings_body FAULT_MASK_MSG 0x1F) 8 @ [1, 2])"
      and c = 4 and chan = 2 and S = sim_info and m = FAULT_MASK_MSG and u = "0x1F" and rest = "[1, 2]"
      and r = FAULT_MASK_REG and f = raw_setting]
  by (simp add: valid_chans raw_setting_def setting_table_def raw_table_def)

theorem oversize_disconnects_witness:
  "client_sock (exec (receive_client sim (main_conf sim sim_info) 4) (s_rx (psc_header 1 200001))) = -1"
  using oversize_disconnects [OF sim_stream, where s = "s_rx (psc_header 1 200001)" and c = 4 and S = sim_info
      and mid = 1 and mlen = 200001 and rest = "[]"]
  by (simp add: PSC_MAX_RX_MSG_LEN_def)

definition s_stale :: "sim_world sched" where
  "s_stale = (s_rx (psc_header 1 0))\<lparr>rxbuf := settings_body DIGOUT_ON1_MSG 1\<rparr>"

theorem empty_message_repeats_witness:
  "new_writes s_stale (exec (receive_client sim (main_conf sim sim_info) 4) s_stale) =
     [(reg_addr sim IOC_ACCESS_REG, 1), (reg_addr sim IOC_ACCESS_REG, 0), (chan_addr sim 1 DIGOUT_ON1_REG, 1)]"
  using empty_message_repeats [OF sim_stream, where s = s_stale and c = 4 and chan = 1 and S = sim_info
      and m = DIGOUT_ON1_MSG and u = 1 and rest = "[]" and old = "[]" and r = DIGOUT_ON1_REG and f = raw_setting]
  by (simp add: s_stale_def valid_chans raw_setting_def setting_table_def raw_table_def sf_ok_def)

text \<open>Eight ticks over the wrap of the counter.\<close>

lemma sim_clock: "plat_ticks sim w = (sim_tick w, w\<lparr>sim_tick := sim_tick w + 1\<rparr>)" "pdMS_TO_TICKS sim ms = ms"
  by (simp_all add: sim_def)

theorem heartbeat_timeout_witness:
  "client_sock (exec (heartbeat_check sim (main_conf sim sim_info)) ((s_rx [])\<lparr>last_rx_tick := -1\<rparr>)) = 4"
  using heartbeat_timeout [where s = "(s_rx [])\<lparr>last_rx_tick := -1\<rparr>" and P = sim and S = sim_info and c = 4 and d = 8]
  by (simp add: sim_def s_rx_def sim_w0_def)

lemma sim_accept: "plat_accept sim l w = ((4, (0x0A000001, 5000)), w)"
  by (simp add: sim_def)

theorem new_client_supersedes_witness:
  "\<exists>u. trace u = [Acc 4, Cls 9] \<and>
     sends_frame 4 (psc_header 0x100 8 @ be32 0 @ be32 0) u
       (exec (accept_client sim (main_conf sim sim_info)) (s0\<lparr>client_sock := 9\<rparr>))"
  using new_client_supersedes [where s = "s0\<lparr>client_sock := 9\<rparr>" and P = sim and S = sim_info and new = 4
      and old = 9 and addr = "(0x0A000001, 5000)" and w = sim_w0] sim_accept
  by auto

theorem unknown_message_ignored_witness:
  "exec (client_msg sim 77 8) s0 = exec (gwr sim IOC_ACCESS_REG 0) (exec (gwr sim IOC_ACCESS_REG 1) s0)"
  by (rule unknown_message_ignored) simp

definition s_late :: "sim_world sched" where
  "s_late = sim_start (sim_w0\<lparr>sim_tick := 150\<rparr>)"


text \<open>A message of three bytes sent in pieces of at most five bytes and received in pieces of three.\<close>

lemma sim_sendall:
  fixes s :: "(sim_world, 'x) core_scheme"
  shows "result (psc_sendall sim c bs fl) s = None"
proof (induction "length bs" arbitrary: bs s rule: less_induct)
  case less
  show ?case
  proof (cases "bs = []")
    case True
    then show ?thesis by (subst psc_sendall.simps) (simp add: run_simps)
  next
    case False
    then have "result (psc_sendall sim c (drop (min 5 (length bs)) bs) fl) t = None"
      for t :: "(sim_world, 'x) core_scheme"
      by (intro less) simp
    then show ?thesis
      using False by (subst psc_sendall.simps) (simp add: run_simps sk_send_def sim_def)
  qed
qed

abbreviation wire :: "io list" where
  "wire \<equiv> trace (exec (psc_sendmsg sim 4 5 [1, 2, 3] 3 0) s0)"

theorem message_round_trip_witness:
  "result (psc_recvmsg sim 4 100 0) (s_rx (sent 4 wire @ [9])) =
     \<lparr>rr_ret = None, rr_head = Some (5, 3), rr_body = [1, 2, 3]\<rparr>"
proof -
  have "result (psc_sendmsg sim 4 5 [1, 2, 3] 3 0) s0 = None"
    by (simp add: psc_sendmsg_def psc_sendhead_def run_simps sim_sendall)
  then show ?thesis
    using message_round_trip [where s = s0 and es = wire and d = 4 and r = "s_rx (sent 4 wire @ [9])"
        and rest = "[9]" and maxlen = 100 and fl = 0, OF _ _ sim_stream] by simp
qed

end
