(* ===== verification/Fatfs.thy ===== *)
theory Fatfs
  imports Psc_Prelude
begin

text \<open>
  The FAT file system library the firmware calls to reach its SD card. The library is not part
  of the C sources: its calls are a parameter \<open>F\<close> of the definitions that use them. The only
  file object of each client is a static variable, so the calls act on "the" open file of a
  world \<open>'w\<close>.

  The locale \<open>sd_card\<close> states the documented behaviour of the library on a card that works:
  \<open>f_open\<close> of a mode that must find the file, or that creates it when it is missing and keeps
  its content when it is not; \<open>f_read\<close> of the next bytes, as many as asked for or as there are;
  \<open>f_write\<close> at the position; \<open>f_close\<close>, after which the directory shows the new content.
\<close>

datatype FRESULT = FR_OK | FR_ERR nat

datatype fa_mode = FA_READ | FA_WRITE | FA_OPEN_EXISTING | FA_OPEN_ALWAYS

record 'w fatfs =
  f_open :: "byte list \<Rightarrow> fa_mode list \<Rightarrow> 'w \<Rightarrow> FRESULT \<times> 'w"
  f_close :: "'w \<Rightarrow> FRESULT \<times> 'w"
  f_read :: "nat \<Rightarrow> 'w \<Rightarrow> (FRESULT \<times> byte list) \<times> 'w"
  f_write :: "byte list \<Rightarrow> 'w \<Rightarrow> (FRESULT \<times> nat) \<times> 'w"

text \<open>A string literal of the C code, without and with its terminating zero.\<close>

definition ascii :: "string \<Rightarrow> byte list" where
  "ascii str = map of_char str"

definition asciiz :: "string \<Rightarrow> byte list" where
  "asciiz str = ascii str @ [0]"

text \<open>The string a C function reads from a character array: up to the first zero.\<close>

definition cstr :: "byte list \<Rightarrow> byte list" where
  "cstr bs = takeWhile (\<lambda>b. b \<noteq> 0) bs"

definition store_at :: "nat \<Rightarrow> byte list \<Rightarrow> byte list \<Rightarrow> byte list" where
  "store_at pos bs cont = take pos cont @ bs @ drop (pos + length bs) cont"

text \<open>
  The documented behaviour of the file system: \<open>disk w\<close> is the directory of the card, \<open>view w\<close>
  the name, content and position of the open cont.
\<close>

locale sd_card =
  fixes F :: "'w fatfs"
    and disk :: "'w \<Rightarrow> byte list \<Rightarrow> byte list option"
    and view :: "'w \<Rightarrow> (byte list \<times> byte list \<times> nat) option"
  assumes open_read: "disk w name = Some cont \<Longrightarrow>
      fst (f_open F name [FA_OPEN_EXISTING, FA_READ] w) = FR_OK \<and>
      view (snd (f_open F name [FA_OPEN_EXISTING, FA_READ] w)) = Some (name, cont, 0) \<and>
      disk (snd (f_open F name [FA_OPEN_EXISTING, FA_READ] w)) = disk w"
    and open_missing: "disk w name = None \<Longrightarrow>
      fst (f_open F name [FA_OPEN_EXISTING, FA_READ] w) \<noteq> FR_OK"
    and open_write: "
      fst (f_open F name [FA_OPEN_ALWAYS, FA_WRITE] w) = FR_OK \<and>
      view (snd (f_open F name [FA_OPEN_ALWAYS, FA_WRITE] w)) =
        Some (name, case disk w name of None \<Rightarrow> [] | Some cont \<Rightarrow> cont, 0) \<and>
      disk (snd (f_open F name [FA_OPEN_ALWAYS, FA_WRITE] w)) =
        (disk w)(name \<mapsto> (case disk w name of None \<Rightarrow> [] | Some cont \<Rightarrow> cont))"
    and read_next: "view w = Some (name, cont, pos) \<Longrightarrow>
      fst (f_read F n w) = (FR_OK, take n (drop pos cont)) \<and>
      view (snd (f_read F n w)) = Some (name, cont, pos + length (take n (drop pos cont))) \<and>
      disk (snd (f_read F n w)) = disk w"
    and write_next: "view w = Some (name, cont, pos) \<Longrightarrow> pos \<le> length cont \<Longrightarrow>
      fst (f_write F bs w) = (FR_OK, length bs) \<and>
      view (snd (f_write F bs w)) = Some (name, store_at pos bs cont, pos + length bs) \<and>
      disk (snd (f_write F bs w)) = disk w"
    and close_file: "view w = Some (name, cont, pos) \<Longrightarrow>
      view (snd (f_close F w)) = None \<and> disk (snd (f_close F w)) = (disk w)(name \<mapsto> cont)"

lemma length_store_at: "pos \<le> length cont \<Longrightarrow> pos + length bs \<le> length (store_at pos bs cont)"
  by (simp add: store_at_def)

lemma store_at_append:
  "pos \<le> length cont \<Longrightarrow>
   store_at (pos + length as) bs (store_at pos as cont) = store_at pos (as @ bs) cont"
  by (simp add: store_at_def min_def ac_simps)

lemma store_at_Nil [simp]: "store_at pos [] cont = cont"
  by (simp add: store_at_def)

lemma store_at_fresh: "store_at 0 bs [] = bs"
  by (simp add: store_at_def)

end
