(* ===== verification/Tftp.thy ===== *)
theory Tftp
  imports Fatfs
begin

text \<open>
  The TFTP server (\<open>tftp_server.c\<close>) and its file access on the SD card (\<open>tftp_handler.c\<close>).

  The server is a state machine that lwIP drives: \<open>tftp_recv\<close> for every datagram, \<open>tftp_tmr\<close> for
  every expired timer. Its static variable \<open>tftp_state\<close> is the record of that name. lwIP is a
  parameter \<open>L\<close>; the callbacks of \<open>struct tftp_context\<close> are a record of computations on the
  world, as the server only sees function pointers, and \<open>ctxt\<close> is the context the firmware
  installs. A received packet buffer is the chain of its segments.

  The log records what the server does to the outside: datagrams sent, files opened and
  closed, timers started and cancelled, and every packet buffer allocated and freed.
\<close>

definition TFTP_MAX_PAYLOAD_SIZE :: nat where "TFTP_MAX_PAYLOAD_SIZE = 512"
definition TFTP_HEADER_LENGTH :: nat where "TFTP_HEADER_LENGTH = 4"
definition TFTP_RRQ :: u16 where "TFTP_RRQ = 1"
definition TFTP_WRQ :: u16 where "TFTP_WRQ = 2"
definition TFTP_DATA :: u16 where "TFTP_DATA = 3"
definition TFTP_ACK :: u16 where "TFTP_ACK = 4"
definition TFTP_ERROR :: u16 where "TFTP_ERROR = 5"
definition TFTP_TIMEOUT_MSECS :: int where "TFTP_TIMEOUT_MSECS = 10000"
definition TFTP_TIMER_MSECS :: int where "TFTP_TIMER_MSECS = TFTP_TIMEOUT_MSECS div 10"
definition TFTP_MAX_RETRIES :: u8 where "TFTP_MAX_RETRIES = 5"
definition TFTP_MAX_FILENAME_LEN :: nat where "TFTP_MAX_FILENAME_LEN = 20"
definition TFTP_MAX_MODE_LEN :: nat where "TFTP_MAX_MODE_LEN = 7"

datatype tftp_error =
    TFTP_ERROR_FILE_NOT_FOUND | TFTP_ERROR_ACCESS_VIOLATION | TFTP_ERROR_DISK_FULL
  | TFTP_ERROR_ILLEGAL_OPERATION | TFTP_ERROR_UNKNOWN_TRFR_ID | TFTP_ERROR_FILE_EXISTS
  | TFTP_ERROR_NO_SUCH_USER

fun error_code :: "tftp_error \<Rightarrow> u16" where
  "error_code TFTP_ERROR_FILE_NOT_FOUND = 1"
| "error_code TFTP_ERROR_ACCESS_VIOLATION = 2"
| "error_code TFTP_ERROR_DISK_FULL = 3"
| "error_code TFTP_ERROR_ILLEGAL_OPERATION = 4"
| "error_code TFTP_ERROR_UNKNOWN_TRFR_ID = 5"
| "error_code TFTP_ERROR_FILE_EXISTS = 6"
| "error_code TFTP_ERROR_NO_SUCH_USER = 7"

type_synonym pbuf = "byte list list"

definition tot_len :: "pbuf \<Rightarrow> nat" where
  "tot_len p = sum_list (map length p)"

record 'w lwip =
  pbuf_alloc :: "nat \<Rightarrow> 'w \<Rightarrow> bool \<times> 'w"
  pbuf_copy :: "'w \<Rightarrow> bool \<times> 'w"
  pbuf_memfind :: "pbuf \<Rightarrow> byte \<Rightarrow> u16 \<Rightarrow> u16"
  pbuf_copy_partial :: "pbuf \<Rightarrow> u16 \<Rightarrow> u16 \<Rightarrow> byte list"
  pbuf_remove_header :: "pbuf \<Rightarrow> nat \<Rightarrow> pbuf"
  pbuf_beyond :: "nat \<Rightarrow> 'w \<Rightarrow> byte"
  lwip_stack :: "nat \<Rightarrow> 'w \<Rightarrow> byte"
  udp_sendto :: "u32 \<Rightarrow> u16 \<Rightarrow> byte list \<Rightarrow> 'w \<Rightarrow> 'w"
  udp_new :: "'w \<Rightarrow> bool \<times> 'w"
  udp_bind :: "'w \<Rightarrow> bool \<times> 'w"
  udp_remove :: "'w \<Rightarrow> 'w"
  sys_timeout :: "int \<Rightarrow> 'w \<Rightarrow> 'w"
  sys_untimeout :: "'w \<Rightarrow> 'w"

record ('w, 'h) tftp_context =
  cb_open :: "byte list \<Rightarrow> byte list \<Rightarrow> bool \<Rightarrow> ('w, 'h option) state"
  cb_close :: "'h \<Rightarrow> ('w, unit) state"
  cb_read :: "'h \<Rightarrow> nat \<Rightarrow> ('w, int \<times> byte list) state"
  cb_write :: "'h \<Rightarrow> pbuf \<Rightarrow> ('w, int) state"

datatype tftp_event =
    Udp u32 u16 "byte list"  \<comment> \<open>a datagram handed to \<open>udp_sendto\<close>\<close>
  | Fopen "byte list" bool   \<comment> \<open>the context opened a file (for writing)\<close>
  | Fclose                   \<comment> \<open>the context's file was closed\<close>
  | Timeout                  \<comment> \<open>\<open>sys_timeout\<close> of \<open>tftp_tmr\<close>\<close>
  | Untimeout                \<comment> \<open>\<open>sys_untimeout\<close> of \<open>tftp_tmr\<close>\<close>
  | Expired                  \<comment> \<open>a pending timer called \<open>tftp_tmr\<close>\<close>
  | Palloc                   \<comment> \<open>a packet buffer came into the server's possession\<close>
  | Pfree                    \<comment> \<open>\<open>pbuf_free\<close>\<close>
  | Bad                      \<comment> \<open>undefined behaviour of the C code\<close>

record ('w, 'h) tftp_state =
  t_world :: 'w
  t_log :: "tftp_event list"
  t_ctx :: "('w, 'h) tftp_context option"
  t_handle :: "'h option"
  last_data :: "byte list option"
  t_upcb :: bool
  t_addr :: u32
  t_port :: u16
  t_timer :: int
  last_pkt :: int
  t_blknum :: u16
  t_retries :: u8
  mode_write :: u8

section \<open>Calls to the outside\<close>

definition t_emit :: "tftp_event \<Rightarrow> (('w, 'h) tftp_state, unit) state" where
  "t_emit e = modify (\<lambda>s. s\<lparr>t_log := t_log s @ [e]\<rparr>)"

definition on_world :: "('w \<Rightarrow> 'a \<times> 'w) \<Rightarrow> (('w, 'h) tftp_state, 'a) state" where
  "on_world f = State (\<lambda>s. case f (t_world s) of (r, w) \<Rightarrow> (r, s\<lparr>t_world := w\<rparr>))"

definition act_world :: "('w \<Rightarrow> 'w) \<Rightarrow> (('w, 'h) tftp_state, unit) state" where
  "act_world f = modify (\<lambda>s. s\<lparr>t_world := f (t_world s)\<rparr>)"

definition pbuf_new :: "'w lwip \<Rightarrow> nat \<Rightarrow> (('w, 'h) tftp_state, bool) state" where
  "pbuf_new L n = do {
     ok \<leftarrow> on_world (pbuf_alloc L n);
     (if ok then t_emit Palloc else skip);
     State_Monad.return ok
   }"

definition send_pbuf ::
  "'w lwip \<Rightarrow> u32 \<Rightarrow> u16 \<Rightarrow> byte list \<Rightarrow> (('w, 'h) tftp_state, unit) state" where
  "send_pbuf L a port bs = do {
     act_world (udp_sendto L a port bs);
     t_emit (Udp a port bs);
     t_emit Pfree
   }"

text \<open>A call through a function pointer of the context; before \<open>tftp_init\<close> it is null.\<close>

definition ctx_call ::
  "'a \<Rightarrow> (('w, 'h) tftp_context \<Rightarrow> ('w, 'a) state) \<Rightarrow> (('w, 'h) tftp_state, 'a) state" where
  "ctx_call d f = do {
     c \<leftarrow> gets t_ctx;
     case c of
       None \<Rightarrow> do { t_emit Bad; State_Monad.return d }
     | Some c \<Rightarrow> on_world (run_state (f c))
   }"

definition start_timer :: "'w lwip \<Rightarrow> (('w, 'h) tftp_state, unit) state" where
  "start_timer L = do { act_world (sys_timeout L TFTP_TIMER_MSECS); t_emit Timeout }"

section \<open>Sending\<close>

definition close_handle :: "'w lwip \<Rightarrow> (('w, 'h) tftp_state, unit) state" where
  "close_handle L = do {
     modify (\<lambda>s. s\<lparr>t_port := 0, t_addr := 0\<rparr>);
     d \<leftarrow> gets last_data;
     (if d \<noteq> None then do { t_emit Pfree; modify (\<lambda>s. s\<lparr>last_data := None\<rparr>) } else skip);
     act_world (sys_untimeout L);
     t_emit Untimeout;
     h \<leftarrow> gets t_handle;
     case h of
       None \<Rightarrow> skip
     | Some f \<Rightarrow> do {
         ctx_call () (\<lambda>c. cb_close c f);
         t_emit Fclose;
         modify (\<lambda>s. s\<lparr>t_handle := None\<rparr>)
       }
   }"

definition send_error ::
  "'w lwip \<Rightarrow> u32 \<Rightarrow> u16 \<Rightarrow> tftp_error \<Rightarrow> string \<Rightarrow> (('w, 'h) tftp_state, unit) state" where
  "send_error L a port code str = do {
     p \<leftarrow> pbuf_new L (TFTP_HEADER_LENGTH + length str + 1);
     if \<not> p then skip
     else send_pbuf L a port (be16 TFTP_ERROR @ be16 (error_code code) @ asciiz str)
   }"

definition send_ack :: "'w lwip \<Rightarrow> u16 \<Rightarrow> (('w, 'h) tftp_state, unit) state" where
  "send_ack L blknum = do {
     p \<leftarrow> pbuf_new L TFTP_HEADER_LENGTH;
     if \<not> p then skip
     else do {
       a \<leftarrow> gets t_addr;
       port \<leftarrow> gets t_port;
       send_pbuf L a port (be16 TFTP_ACK @ be16 blknum)
     }
   }"

definition resend_data :: "'w lwip \<Rightarrow> (('w, 'h) tftp_state, unit) state" where
  "resend_data L = do {
     d \<leftarrow> gets last_data;
     case d of
       None \<Rightarrow> t_emit Bad
     | Some bs \<Rightarrow> do {
         p \<leftarrow> pbuf_new L (length bs);
         if \<not> p then skip
         else do {
           ok \<leftarrow> on_world (pbuf_copy L);
           if \<not> ok then t_emit Pfree
           else do {
             a \<leftarrow> gets t_addr;
             port \<leftarrow> gets t_port;
             send_pbuf L a port bs
           }
         }
       }
   }"

text \<open>The new block: its header and the bytes the context reads into it.\<close>

definition fill_data :: "(('w, 'h) tftp_state, int) state" where
  "fill_data = do {
     blk \<leftarrow> gets t_blknum;
     h \<leftarrow> gets t_handle;
     (ret, bs) \<leftarrow> (case h of
         None \<Rightarrow> do { t_emit Bad; State_Monad.return (0, []) }
       | Some f \<Rightarrow> ctx_call (0, []) (\<lambda>c. cb_read c f TFTP_MAX_PAYLOAD_SIZE));
     (if length bs > TFTP_MAX_PAYLOAD_SIZE then t_emit Bad else skip);
     modify (\<lambda>s. s\<lparr>last_data := Some (take (TFTP_HEADER_LENGTH + nat ret)
                      (be16 TFTP_DATA @ be16 blk @ bs))\<rparr>);
     State_Monad.return ret
   }"

definition send_data :: "'w lwip \<Rightarrow> (('w, 'h) tftp_state, unit) state" where
  "send_data L = do {
     d \<leftarrow> gets last_data;
     (if d \<noteq> None then t_emit Pfree else skip);
     p \<leftarrow> pbuf_new L (TFTP_HEADER_LENGTH + TFTP_MAX_PAYLOAD_SIZE);
     if \<not> p then modify (\<lambda>s. s\<lparr>last_data := None\<rparr>)
     else do {
       ret \<leftarrow> fill_data;
       if ret < 0 then do {
         a \<leftarrow> gets t_addr;
         port \<leftarrow> gets t_port;
         send_error L a port TFTP_ERROR_ACCESS_VIOLATION ''Error occurred while reading the file.'';
         close_handle L
       }
       else resend_data L
     }
   }"

section \<open>Receiving\<close>

text \<open>
  The 16-bit word \<open>sbuf[i]\<close> of the first segment, in network byte order. Nothing checks that
  the datagram has so many bytes: a shorter one is read past its end.
\<close>

definition payload_byte :: "'w lwip \<Rightarrow> pbuf \<Rightarrow> 'w \<Rightarrow> nat \<Rightarrow> byte" where
  "payload_byte L p w i = (case p of
       [] \<Rightarrow> pbuf_beyond L i w
     | seg # _ \<Rightarrow> if i < length seg then seg ! i else pbuf_beyond L i w)"

definition sbuf :: "'w lwip \<Rightarrow> pbuf \<Rightarrow> nat \<Rightarrow> (('w, 'h) tftp_state, u16) state" where
  "sbuf L p i = do {
     (if p = [] \<or> length (hd p) < 2 * i + 2 then t_emit Bad else skip);
     w \<leftarrow> gets t_world;
     State_Monad.return (of_be16 [payload_byte L p w (2 * i), payload_byte L p w (2 * i + 1)])
   }"

text \<open>
  \<open>pbuf_copy_partial\<close> into an automatic array of \<open>cap\<close> bytes, and the string it then holds. More
  bytes than the array has would be written past its end, and a string without a terminating
  zero would be read past it.
\<close>

definition copy_string ::
  "'w lwip \<Rightarrow> nat \<Rightarrow> pbuf \<Rightarrow> u16 \<Rightarrow> u16 \<Rightarrow> (('w, 'h) tftp_state, byte list) state" where
  "copy_string L cap p len off = do {
     array \<leftarrow> gets (\<lambda>s. map (\<lambda>i. lwip_stack L i (t_world s)) [0..<cap]);
     let bs = pbuf_copy_partial L p len off;
     let array = overwrite bs array;
     (if length bs > cap \<or> 0 \<notin> set array then t_emit Bad else skip);
     State_Monad.return (cstr array)
   }"

definition one_connection :: string where
  "one_connection = ''Only one connection at a time is supported''"

definition open_file ::
  "'w lwip \<Rightarrow> u16 \<Rightarrow> byte list \<Rightarrow> byte list \<Rightarrow> u32 \<Rightarrow> u16 \<Rightarrow> (('w, 'h) tftp_state, unit) state" where
  "open_file L opcode filename mode a port = do {
     h \<leftarrow> ctx_call None (\<lambda>c. cb_open c filename mode (opcode = TFTP_WRQ));
     modify (\<lambda>s. s\<lparr>t_handle := h, t_blknum := 1\<rparr>);
     if h = None
     then send_error L a port TFTP_ERROR_FILE_NOT_FOUND ''Unable to open requested file.''
     else do {
       t_emit (Fopen filename (opcode = TFTP_WRQ));
       modify (\<lambda>s. s\<lparr>t_addr := a, t_port := port\<rparr>);
       if opcode = TFTP_WRQ then do {
         modify (\<lambda>s. s\<lparr>mode_write := 1\<rparr>);
         send_ack L 0
       }
       else do {
         modify (\<lambda>s. s\<lparr>mode_write := 0\<rparr>);
         send_data L
       }
     }
   }"

definition recv_request ::
  "'w lwip \<Rightarrow> u16 \<Rightarrow> pbuf \<Rightarrow> u32 \<Rightarrow> u16 \<Rightarrow> (('w, 'h) tftp_state, unit) state" where
  "recv_request L opcode p a port = do {
     h \<leftarrow> gets t_handle;
     if h \<noteq> None then send_error L a port TFTP_ERROR_ACCESS_VIOLATION one_connection
     else do {
       start_timer L;
       let filename_end_offset = pbuf_memfind L p 0 2;
       if unat (filename_end_offset - 1) > TFTP_MAX_FILENAME_LEN + 1
       then send_error L a port TFTP_ERROR_ACCESS_VIOLATION ''Filename too long/not NULL terminated''
       else do {
         filename \<leftarrow> copy_string L (TFTP_MAX_FILENAME_LEN + 1) p (filename_end_offset - 1) 2;
         let mode_end_offset = pbuf_memfind L p 0 (filename_end_offset + 1);
         if unat (mode_end_offset - filename_end_offset) > TFTP_MAX_MODE_LEN + 1
         then send_error L a port TFTP_ERROR_ACCESS_VIOLATION ''Mode too long/not NULL terminated''
         else do {
           mode \<leftarrow> copy_string L (TFTP_MAX_MODE_LEN + 1) p (mode_end_offset - filename_end_offset)
             (filename_end_offset + 1);
           open_file L opcode filename mode a port
         }
       }
     }
   }"

definition recv_data ::
  "'w lwip \<Rightarrow> pbuf \<Rightarrow> u32 \<Rightarrow> u16 \<Rightarrow> (('w, 'h) tftp_state, unit) state" where
  "recv_data L p a port = do {
     h \<leftarrow> gets t_handle;
     mode \<leftarrow> gets mode_write;
     case h of
       None \<Rightarrow> send_error L a port TFTP_ERROR_ACCESS_VIOLATION ''No connection''
     | Some f \<Rightarrow>
         (if mode \<noteq> 1 then send_error L a port TFTP_ERROR_ACCESS_VIOLATION ''Not a write connection''
          else do {
            blknum \<leftarrow> sbuf L p 1;
            expected \<leftarrow> gets t_blknum;
            if blknum = expected then do {
              let p = pbuf_remove_header L p TFTP_HEADER_LENGTH;
              ret \<leftarrow> ctx_call 0 (\<lambda>c. cb_write c f p);
              (if ret < 0 then do {
                 send_error L a port TFTP_ERROR_ACCESS_VIOLATION ''error writing file'';
                 close_handle L
               }
               else send_ack L blknum);
              (if tot_len p < TFTP_MAX_PAYLOAD_SIZE then close_handle L
               else modify (\<lambda>s. s\<lparr>t_blknum := t_blknum s + 1\<rparr>))
            }
            else if blknum + 1 = expected then send_ack L blknum
            else send_error L a port TFTP_ERROR_UNKNOWN_TRFR_ID ''Wrong block number''
          })
   }"

definition recv_ack ::
  "'w lwip \<Rightarrow> pbuf \<Rightarrow> u32 \<Rightarrow> u16 \<Rightarrow> (('w, 'h) tftp_state, unit) state" where
  "recv_ack L p a port = do {
     h \<leftarrow> gets t_handle;
     mode \<leftarrow> gets mode_write;
     if h = None then send_error L a port TFTP_ERROR_ACCESS_VIOLATION ''No connection''
     else if mode \<noteq> 0 then send_error L a port TFTP_ERROR_ACCESS_VIOLATION ''Not a read connection''
     else do {
       blknum \<leftarrow> sbuf L p 1;
       expected \<leftarrow> gets t_blknum;
       if blknum \<noteq> expected
       then send_error L a port TFTP_ERROR_UNKNOWN_TRFR_ID ''Wrong block number''
       else do {
         d \<leftarrow> gets last_data;
         let lastpkt = (case d of None \<Rightarrow> False
           | Some bs \<Rightarrow> length bs \<noteq> TFTP_MAX_PAYLOAD_SIZE + TFTP_HEADER_LENGTH);
         if \<not> lastpkt then do {
           modify (\<lambda>s. s\<lparr>t_blknum := t_blknum s + 1\<rparr>);
           send_data L
         }
         else close_handle L
       }
     }
   }"

definition foreign :: "('w, 'h) tftp_state \<Rightarrow> u32 \<Rightarrow> u16 \<Rightarrow> bool" where
  "foreign s a port \<longleftrightarrow>
     (t_port s \<noteq> 0 \<and> port \<noteq> t_port s) \<or> (t_addr s \<noteq> 0 \<and> t_addr s \<noteq> a)"

definition tftp_recv ::
  "'w lwip \<Rightarrow> pbuf \<Rightarrow> u32 \<Rightarrow> u16 \<Rightarrow> (('w, 'h) tftp_state, unit) state" where
  "tftp_recv L p a port = do {
     t_emit Palloc;
     other \<leftarrow> gets (\<lambda>s. foreign s a port);
     (if other then send_error L a port TFTP_ERROR_ACCESS_VIOLATION one_connection
      else do {
        opcode \<leftarrow> sbuf L p 0;
        modify (\<lambda>s. s\<lparr>last_pkt := t_timer s, t_retries := 0\<rparr>);
        if opcode = TFTP_RRQ \<or> opcode = TFTP_WRQ then recv_request L opcode p a port
        else if opcode = TFTP_DATA then recv_data L p a port
        else if opcode = TFTP_ACK then recv_ack L p a port
        else send_error L a port TFTP_ERROR_ILLEGAL_OPERATION ''Unknown operation''
      });
     t_emit Pfree
   }"

section \<open>The timer\<close>

definition INT_MAX :: int where "INT_MAX = 2147483647"

definition tftp_tmr :: "'w lwip \<Rightarrow> (('w, 'h) tftp_state, unit) state" where
  "tftp_tmr L = do {
     t_emit Expired;
     old \<leftarrow> gets t_timer;
     (if old = INT_MAX then t_emit Bad else skip);
     modify (\<lambda>s. s\<lparr>t_timer := t_timer s + 1\<rparr>);
     h \<leftarrow> gets t_handle;
     if h = None then skip
     else do {
       start_timer L;
       late \<leftarrow> gets (\<lambda>s. t_timer s - last_pkt s > TFTP_TIMEOUT_MSECS div TFTP_TIMER_MSECS);
       if late then do {
         d \<leftarrow> gets last_data;
         n \<leftarrow> gets t_retries;
         if d \<noteq> None \<and> n < TFTP_MAX_RETRIES then do {
           resend_data L;
           modify (\<lambda>s. s\<lparr>t_retries := t_retries s + 1\<rparr>)
         }
         else close_handle L
       }
       else skip
     }
   }"

section \<open>Starting and stopping the server\<close>

datatype err_t = ERR_OK | ERR_MEM | ERR_BIND

definition tftp_init ::
  "'w lwip \<Rightarrow> ('w, 'h) tftp_context \<Rightarrow> (('w, 'h) tftp_state, err_t) state" where
  "tftp_init L c = do {
     pcb \<leftarrow> on_world (udp_new L);
     if \<not> pcb then State_Monad.return ERR_MEM
     else do {
       bound \<leftarrow> on_world (udp_bind L);
       if \<not> bound then do { act_world (udp_remove L); State_Monad.return ERR_BIND }
       else do {
         modify (\<lambda>s. s\<lparr>t_handle := None, t_port := 0, t_ctx := Some c, t_timer := 0,
                       last_data := None, t_upcb := True\<rparr>);
         State_Monad.return ERR_OK
       }
     }
   }"

definition tftp_cleanup :: "'w lwip \<Rightarrow> (('w, 'h) tftp_state, unit) state" where
  "tftp_cleanup L = do {
     act_world (udp_remove L);
     close_handle L;
     modify (\<lambda>s. s\<lparr>t_ctx := None, t_handle := None, last_data := None, t_upcb := False, t_addr := 0,
       t_port := 0, t_timer := 0, last_pkt := 0, t_blknum := 0, t_retries := 0, mode_write := 0\<rparr>)
   }"

section \<open>The files of the SD card\<close>

datatype fil = Fd

definition tftp_sdcard_open ::
  "'w fatfs \<Rightarrow> byte list \<Rightarrow> byte list \<Rightarrow> bool \<Rightarrow> ('w, fil option) state" where
  "tftp_sdcard_open F fname mode write = (
     if mode \<noteq> ascii ''octet'' then State_Monad.return None
     else do {
       res \<leftarrow> State (f_open F fname
         (if write then [FA_OPEN_ALWAYS, FA_WRITE] else [FA_OPEN_EXISTING, FA_READ]));
       State_Monad.return (if res = FR_OK then Some Fd else None)
     })"

definition tftp_sdcard_close :: "'w fatfs \<Rightarrow> fil \<Rightarrow> ('w, unit) state" where
  "tftp_sdcard_close F h = do { res \<leftarrow> State (f_close F); skip }"

definition tftp_sdcard_read :: "'w fatfs \<Rightarrow> fil \<Rightarrow> nat \<Rightarrow> ('w, int \<times> byte list) state" where
  "tftp_sdcard_read F h n = do {
     (res, bs) \<leftarrow> State (f_read F n);
     State_Monad.return (if res \<noteq> FR_OK then -1 else int (length bs), bs)
   }"

fun tftp_sdcard_write :: "'w fatfs \<Rightarrow> fil \<Rightarrow> pbuf \<Rightarrow> ('w, int) state" where
  "tftp_sdcard_write F h [] = State_Monad.return 0"
| "tftp_sdcard_write F h (seg # rest) = (
     if tot_len (seg # rest) = 0 then State_Monad.return 0
     else if seg = [] then tftp_sdcard_write F h rest
     else do {
       (res, n) \<leftarrow> State (f_write F seg);
       if res \<noteq> FR_OK then State_Monad.return (-1)
       else if n \<noteq> length seg then State_Monad.return (-1)
       else tftp_sdcard_write F h rest
     })"

definition ctxt :: "'w fatfs \<Rightarrow> ('w, fil) tftp_context" where
  "ctxt F = \<lparr>cb_open = tftp_sdcard_open F, cb_close = tftp_sdcard_close F,
     cb_read = tftp_sdcard_read F, cb_write = tftp_sdcard_write F\<rparr>"

definition tftp_prepare :: "'w lwip \<Rightarrow> 'w fatfs \<Rightarrow> (('w, fil) tftp_state, unit) state" where
  "tftp_prepare L F = do { r \<leftarrow> tftp_init L (ctxt F); skip }"

end
