(* ===== verification/Tftp_Props.thy ===== *)
theory Tftp_Props
  imports Tftp
begin

text \<open>
  Invariants of the TFTP server over every sequence of datagrams and timer calls: no packet
  buffer is leaked or freed twice, every file opened is closed, and an open file always has a
  timer that will close it.
\<close>

lemma exec_t_emit [run_simps]: "exec (t_emit e) s = s\<lparr>t_log := t_log s @ [e]\<rparr>"
  by (simp add: t_emit_def exec_modify)

lemma exec_on_world [run_simps]: "exec (on_world f) s = s\<lparr>t_world := snd (f (t_world s))\<rparr>"
  by (simp add: on_world_def exec_def split_beta)

lemma result_on_world [run_simps]: "result (on_world f) s = fst (f (t_world s))"
  by (simp add: on_world_def result_def split_beta)

lemma exec_act_world [run_simps]: "exec (act_world f) s = s\<lparr>t_world := f (t_world s)\<rparr>"
  by (simp add: act_world_def exec_modify)

lemma exec_pbuf_new [run_simps]:
  "exec (pbuf_new L n) s = s\<lparr>t_world := snd (pbuf_alloc L n (t_world s)),
     t_log := t_log s @ (if fst (pbuf_alloc L n (t_world s)) then [Palloc] else [])\<rparr>"
  by (simp add: pbuf_new_def run_simps)

lemma result_pbuf_new [run_simps]: "result (pbuf_new L n) s = fst (pbuf_alloc L n (t_world s))"
  by (simp add: pbuf_new_def run_simps)

lemma exec_send_pbuf [run_simps]:
  "exec (send_pbuf L a port bs) s =
     s\<lparr>t_world := udp_sendto L a port bs (t_world s), t_log := t_log s @ [Udp a port bs, Pfree]\<rparr>"
  by (simp add: send_pbuf_def run_simps)

lemma exec_start_timer [run_simps]:
  "exec (start_timer L) s = s\<lparr>t_world := sys_timeout L TFTP_TIMER_MSECS (t_world s), t_log := t_log s @ [Timeout]\<rparr>"
  by (simp add: start_timer_def run_simps)

section \<open>What the log accounts for\<close>

definition live :: "tftp_event list \<Rightarrow> int" where
  "live es = int (count_list es Palloc) - int (count_list es Pfree)"

definition is_fopen :: "tftp_event \<Rightarrow> bool" where
  "is_fopen e = (case e of Fopen _ _ \<Rightarrow> True | _ \<Rightarrow> False)"

definition opened :: "tftp_event list \<Rightarrow> int" where
  "opened es = int (length (filter is_fopen es)) - int (count_list es Fclose)"

text \<open>
  The timers that are pending: \<open>sys_timeout\<close> adds one, \<open>sys_untimeout\<close> removes one when there is
  one, and one that expires is gone.
\<close>

fun tick :: "tftp_event \<Rightarrow> nat \<Rightarrow> nat" where
  "tick Timeout n = n + 1"
| "tick Untimeout n = n - 1"
| "tick Expired n = n - 1"
| "tick _ n = n"

definition pending :: "tftp_event list \<Rightarrow> nat" where
  "pending es = fold tick es 0"

lemma live_append [simp]: "live (es @ fs) = live es + live fs"
  by (simp add: live_def)

lemma live_simps [simp]:
  "live [] = 0" "live (Palloc # es) = 1 + live es" "live (Pfree # es) = live es - 1"
  "live (Udp a port bs # es) = live es" "live (Fopen f b # es) = live es" "live (Fclose # es) = live es"
  "live (Timeout # es) = live es" "live (Untimeout # es) = live es" "live (Expired # es) = live es"
  "live (Bad # es) = live es"
  by (simp_all add: live_def)

lemma opened_append [simp]: "opened (es @ fs) = opened es + opened fs"
  by (simp add: opened_def)

lemma opened_simps [simp]:
  "opened [] = 0" "opened (Palloc # es) = opened es" "opened (Pfree # es) = opened es"
  "opened (Udp a port bs # es) = opened es" "opened (Fopen f b # es) = 1 + opened es"
  "opened (Fclose # es) = opened es - 1" "opened (Timeout # es) = opened es"
  "opened (Untimeout # es) = opened es" "opened (Expired # es) = opened es" "opened (Bad # es) = opened es"
  by (simp_all add: opened_def is_fopen_def)

lemma pending_append [simp]: "pending (es @ fs) = fold tick fs (pending es)"
  by (simp add: pending_def)

section \<open>No packet buffer is lost, no file stays open\<close>

text \<open>
  The balance of a state: the buffers and files the log accounts for, less those the server
  still holds. No operation changes the first; only a request that opens a file needs that no
  other is open to keep the second.
\<close>

definition pbuf_balance :: "('w, 'h) tftp_state \<Rightarrow> int" where
  "pbuf_balance s = live (t_log s) - (if last_data s = None then 0 else 1)"

definition file_balance :: "('w, 'h) tftp_state \<Rightarrow> int" where
  "file_balance s = opened (t_log s) - (if t_handle s = None then 0 else 1)"

definition balance :: "('w, 'h) tftp_state \<Rightarrow> int \<times> int" where
  "balance s = (pbuf_balance s, file_balance s)"

lemmas balance_defs = balance_def pbuf_balance_def file_balance_def unchanged_def

lemma exec_ctx_call:
  "exec (ctx_call d f) s = (case t_ctx s of
     None \<Rightarrow> s\<lparr>t_log := t_log s @ [Bad]\<rparr>
   | Some c \<Rightarrow> s\<lparr>t_world := snd (run_state (f c) (t_world s))\<rparr>)"
  by (simp add: ctx_call_def run_simps split: option.split)

lemma result_ctx_call:
  "result (ctx_call d f) s = (case t_ctx s of None \<Rightarrow> d | Some c \<Rightarrow> fst (run_state (f c) (t_world s)))"
  by (simp add: ctx_call_def run_simps split: option.split)

lemma balance_ctx_call: "state_io_rel (unchanged balance) (ctx_call d f)"
  by (rule io_of_exec) (auto simp: exec_ctx_call balance_defs split: option.split)

lemma balance_close_handle: "state_io_rel (unchanged balance) (close_handle L)"
  by (rule io_of_exec)
    (auto simp: close_handle_def run_simps exec_ctx_call balance_defs split: option.splits)

lemma balance_send_error: "state_io_rel (unchanged balance) (send_error L a port code str)"
  by (rule io_of_exec) (simp add: send_error_def run_simps balance_defs)

lemma balance_send_ack: "state_io_rel (unchanged balance) (send_ack L n)"
  by (rule io_of_exec) (simp add: send_ack_def run_simps balance_defs)

lemma balance_resend_data: "state_io_rel (unchanged balance) (resend_data L)"
  by (rule io_of_exec) (auto simp: resend_data_def run_simps balance_defs split: option.splits)

lemma balance_sbuf: "state_io_rel (unchanged balance) (sbuf L p i)"
  by (rule io_of_exec) (simp add: sbuf_def run_simps balance_defs)

lemma balance_copy_string: "state_io_rel (unchanged balance) (copy_string L cap p n off)"
  by (rule io_of_exec) (simp add: copy_string_def run_simps balance_defs Let_def)

lemma balance_start_timer: "state_io_rel (unchanged balance) (start_timer L)"
  by (rule io_of_exec) (simp add: run_simps balance_defs)

lemma balance_emit: "e = Expired \<or> e = Bad \<Longrightarrow> state_io_rel (unchanged balance) (t_emit e)"
  by (rule io_of_exec) (auto simp: run_simps balance_defs)

lemma balance_modify:
  "(\<And>s. t_log (f s) = t_log s \<and> last_data (f s) = last_data s \<and> t_handle (f s) = t_handle s) \<Longrightarrow>
   state_io_rel (unchanged balance) (modify f)"
  by (rule io_of_exec) (simp add: run_simps balance_defs)

lemmas balance_steps =
  balance_ctx_call balance_close_handle balance_send_error balance_send_ack balance_resend_data
  balance_sbuf balance_copy_string balance_start_timer balance_modify
  balance_emit

lemmas balance_exec =
  balance_close_handle [THEN unchanged_exec] balance_send_error [THEN unchanged_exec]
  balance_send_ack [THEN unchanged_exec] balance_resend_data [THEN unchanged_exec]

text \<open>
  \<open>send_data\<close> frees the old block before it allocates the new one, so its two halves are
  followed as a whole: up to the new block, and from there on.
\<close>

definition last_freed :: "('w, 'h) tftp_state \<Rightarrow> ('w, 'h) tftp_state" where
  "last_freed s = (if last_data s = None then s else s\<lparr>t_log := t_log s @ [Pfree]\<rparr>)"

lemma last_freed_simps [simp]:
  "last_data (last_freed s) = last_data s" "t_handle (last_freed s) = t_handle s"
  "t_world (last_freed s) = t_world s"  "t_ctx (last_freed s) = t_ctx s"
  "t_blknum (last_freed s) = t_blknum s" "t_addr (last_freed s) = t_addr s" "t_port (last_freed s) = t_port s"
  by (simp_all add: last_freed_def)

lemma exec_send_data:
  fixes s :: "('w, 'h) tftp_state" and L :: "'w lwip"
  defines "r \<equiv> pbuf_alloc L (TFTP_HEADER_LENGTH + TFTP_MAX_PAYLOAD_SIZE) (t_world s)"
  defines "u \<equiv> (last_freed s)\<lparr>t_world := snd r, t_log := t_log (last_freed s) @ [Palloc]\<rparr>"
  shows "exec (send_data L) s =
    (if \<not> fst r then (last_freed s)\<lparr>t_world := snd r, last_data := None\<rparr>
     else if result fill_data u < 0 then exec (close_handle L)
       (exec (send_error L (t_addr (exec fill_data u)) (t_port (exec fill_data u)) TFTP_ERROR_ACCESS_VIOLATION
          ''Error occurred while reading the file.'') (exec fill_data u))
     else exec (resend_data L) (exec fill_data u))"
proof -
  have "exec (if last_data s \<noteq> None then t_emit Pfree else skip) s = last_freed s"
    by (simp add: last_freed_def run_simps)
  then show ?thesis
    by (simp add: send_data_def run_simps u_def r_def)
qed

lemma fill_data_keeps:
  "live (t_log (exec fill_data s)) = live (t_log s)" "opened (t_log (exec fill_data s)) = opened (t_log s)"
  "pending (t_log (exec fill_data s)) = pending (t_log s)"
  "t_handle (exec fill_data s) = t_handle s" "last_data (exec fill_data s) \<noteq> None"
  by (auto simp: fill_data_def run_simps exec_ctx_call split_beta split: option.splits)

lemma live_last_freed: "live (t_log (last_freed s)) = live (t_log s) - (if last_data s = None then 0 else 1)"
  by (simp add: last_freed_def)

lemma opened_last_freed: "opened (t_log (last_freed s)) = opened (t_log s)"
  by (simp add: last_freed_def)

lemma pending_last_freed: "pending (t_log (last_freed s)) = pending (t_log s)"
  by (simp add: last_freed_def)

lemma balance_fill_data: "balance (exec fill_data s) = (live (t_log s) - 1, file_balance s)"
  using fill_data_keeps(5) [of s] by (simp add: balance_defs fill_data_keeps(1-4))

lemma balance_send_data:
  fixes L :: "'w lwip"
  shows "state_io_rel (unchanged balance) (send_data L :: (('w, 'h) tftp_state, unit) state)"
proof (rule io_of_exec)
  fix s :: "('w, 'h) tftp_state"
  let ?alloc = "pbuf_alloc L (TFTP_HEADER_LENGTH + TFTP_MAX_PAYLOAD_SIZE) (t_world s)"
  let ?u = "(last_freed s)\<lparr>t_world := snd ?alloc, t_log := t_log (last_freed s) @ [Palloc]\<rparr>"
  have "balance (exec fill_data ?u) = balance s"
    by (simp add: balance_fill_data live_last_freed) (simp add: balance_defs opened_last_freed)
  moreover have "balance ((last_freed s)\<lparr>t_world := snd ?alloc, last_data := None\<rparr>) = balance s"
    by (simp add: balance_defs live_last_freed opened_last_freed)
  ultimately show "unchanged balance s (exec (send_data L) s)"
    unfolding unchanged_def exec_send_data by (simp only: balance_exec if_distrib [of balance] if_cancel)
qed

lemma balance_recv_data: "state_io_rel (unchanged balance) (recv_data L p a port)"
  unfolding recv_data_def
  by (intro frame.io_structure balance_steps balance_send_data) simp

lemma balance_recv_ack: "state_io_rel (unchanged balance) (recv_ack L p a port)"
  unfolding recv_ack_def
  by (intro frame.io_structure balance_steps balance_send_data) simp

lemma balance_open_file:
  fixes s :: "('w, 'h) tftp_state"
  assumes "t_handle s = None"
  shows "balance (exec (open_file L opcode f m a port) s) = balance s"
  using assms
  by (auto simp: open_file_def run_simps balance_exec unchanged_exec [OF balance_send_data])
    (auto simp: balance_defs exec_ctx_call result_ctx_call split: option.splits)

lemma exec_sbuf:
  "exec (sbuf L p i) s = s\<lparr>t_log := t_log s @ (if p = [] \<or> length (hd p) < 2 * i + 2 then [Bad] else [])\<rparr>"
  by (simp add: sbuf_def run_simps)

lemma exec_copy_string:
  "exec (copy_string L cap p n off) s =
     s\<lparr>t_log := t_log s @ (if cap < length (pbuf_copy_partial L p n off) \<or>
        0 \<notin> set (overwrite (pbuf_copy_partial L p n off) (map (\<lambda>i. lwip_stack L i (t_world s)) [0..<cap]))
       then [Bad] else [])\<rparr>"
  by (simp add: copy_string_def run_simps Let_def)

text \<open>The same for a request: what happens before a file is opened changes nothing it needs.\<close>

lemma balance_recv_request:
  fixes L :: "'w lwip"
  shows "state_io_rel (unchanged balance) (recv_request L opcode p a port :: (('w, 'h) tftp_state, unit) state)"
proof (rule io_of_exec)
  fix s :: "('w, 'h) tftp_state"
  have "balance (exec (recv_request L opcode p a port) s) = balance s"
    by (auto simp: recv_request_def run_simps Let_def balance_exec exec_copy_string balance_open_file)
      (simp_all add: balance_defs)
  then show "unchanged balance s (exec (recv_request L opcode p a port) s)"
    by (simp add: unchanged_def)
qed

lemma balance_tftp_recv: "balance (exec (tftp_recv L p a port) s) = balance s"
proof -
  let ?m = "do {
     other \<leftarrow> gets (\<lambda>s. foreign s a port);
     (if other then send_error L a port TFTP_ERROR_ACCESS_VIOLATION one_connection
      else do {
        opcode \<leftarrow> sbuf L p 0;
        modify (\<lambda>s. s\<lparr>last_pkt := t_timer s, t_retries := 0\<rparr>);
        if opcode = TFTP_RRQ \<or> opcode = TFTP_WRQ then recv_request L opcode p a port
        else if opcode = TFTP_DATA then recv_data L p a port
        else if opcode = TFTP_ACK then recv_ack L p a port
        else send_error L a port TFTP_ERROR_ILLEGAL_OPERATION ''Unknown operation''
      }) }"
  have m: "state_io_rel (unchanged balance) ?m"
    by (intro frame.io_structure balance_steps balance_recv_request balance_recv_data balance_recv_ack) simp
  have "exec (tftp_recv L p a port) s = (exec ?m (s\<lparr>t_log := t_log s @ [Palloc]\<rparr>))\<lparr>t_log :=
     t_log (exec ?m (s\<lparr>t_log := t_log s @ [Palloc]\<rparr>)) @ [Pfree]\<rparr>"
    by (simp only: tftp_recv_def run_simps)
  then show ?thesis
    using unchanged_exec [OF m, of "s\<lparr>t_log := t_log s @ [Palloc]\<rparr>"]
    by (simp add: balance_defs split: if_splits)
qed

lemma balance_tftp_tmr: "state_io_rel (unchanged balance) (tftp_tmr L)"
  unfolding tftp_tmr_def by (intro frame.io_structure balance_steps) simp_all

section \<open>An open file has a timer\<close>

definition side :: "('w, 'h) tftp_state \<Rightarrow> bool" where
  "side s \<longleftrightarrow> (t_handle s \<noteq> None \<longrightarrow> 0 < pending (t_log s)) \<and> (last_data s \<noteq> None \<longrightarrow> t_handle s \<noteq> None)"

definition side_view :: "('w, 'h) tftp_state \<Rightarrow> bool \<times> bool \<times> nat" where
  "side_view s = (t_handle s = None, last_data s = None, pending (t_log s))"

lemma side_of_view: "side_view s = side_view t \<Longrightarrow> side s = side t"
  by (auto simp: side_view_def side_def)

lemma view_send_error: "side_view (exec (send_error L a port c str) s) = side_view s"
  by (simp add: send_error_def run_simps side_view_def)

lemma view_send_ack: "side_view (exec (send_ack L n) s) = side_view s"
  by (simp add: send_ack_def run_simps side_view_def)

lemma view_resend_data: "side_view (exec (resend_data L) s) = side_view s"
  by (auto simp: resend_data_def run_simps side_view_def split: option.splits)

lemma view_ctx_call: "side_view (exec (ctx_call d f) s) = side_view s"
  by (auto simp: exec_ctx_call side_view_def split: option.splits)

lemma view_sbuf: "side_view (exec (sbuf L p i) s) = side_view s"
  by (simp add: exec_sbuf side_view_def)

lemmas side_exec = view_send_error [THEN side_of_view] view_send_ack [THEN side_of_view]
  view_resend_data [THEN side_of_view] view_ctx_call [THEN side_of_view] view_sbuf [THEN side_of_view]

lemma side_close_handle: "side (exec (close_handle L) s)"
  by (auto simp: close_handle_def run_simps exec_ctx_call side_def split: option.splits)

lemma side_send_data:
  assumes "t_handle s \<noteq> None" and "0 < pending (t_log s)"
  shows "side (exec (send_data L) s)"
  using assms
  by (auto simp: exec_send_data side_close_handle side_exec)
    (auto simp: side_def fill_data_keeps pending_last_freed)

lemma side_open_file:
  assumes "t_handle s = None" and "0 < pending (t_log s)" and "last_data s = None"
  shows "side (exec (open_file L opcode f m a port) s)"
  using assms
  by (auto simp: open_file_def run_simps side_exec intro!: side_send_data)
    (auto simp: side_def exec_ctx_call result_ctx_call split: option.splits)

lemma side_recv_request: "side s \<Longrightarrow> side (exec (recv_request L opcode p a port) s)"
  by (auto simp: recv_request_def run_simps Let_def exec_copy_string side_exec intro!: side_open_file)
    (auto simp: side_def)

lemma side_recv_ack: "side s \<Longrightarrow> side (exec (recv_ack L p a port) s)"
  by (auto simp: recv_ack_def run_simps Let_def exec_sbuf side_exec side_close_handle intro!: side_send_data)
    (auto simp: side_def)

lemma side_modify_blknum: "side (s\<lparr>t_blknum := n\<rparr>) = side s"
  by (simp add: side_def)

lemma side_recv_data: "side s \<Longrightarrow> side (exec (recv_data L p a port) s)"
  by (auto simp: recv_data_def run_simps Let_def side_exec side_close_handle side_modify_blknum split: option.split)

lemma side_emit: "e \<in> {Palloc, Pfree, Bad} \<Longrightarrow> side (s\<lparr>t_log := t_log s @ [e]\<rparr>) = side s"
  by (auto simp: side_def)

lemma side_tftp_recv:
  assumes "side s"
  shows "side (exec (tftp_recv L p a port) s)"
proof -
  have upd: "side (s\<lparr>last_pkt := n, t_retries := r\<rparr>) = side s" for s :: "('a, 'b) tftp_state" and n r
    by (simp add: side_def)
  show ?thesis
    using assms
    by (auto simp: tftp_recv_def run_simps side_emit side_exec upd
        intro!: side_recv_request side_recv_data side_recv_ack)
qed

lemma side_tftp_tmr:
  assumes "side s"
  shows "side (exec (tftp_tmr L) s)"
proof -
  have upd: "side (s\<lparr>t_retries := r\<rparr>) = side s" for s :: "('a, 'b) tftp_state" and r
    by (simp add: side_def)
  show ?thesis
    using assms
    by (auto simp: tftp_tmr_def run_simps upd side_exec side_close_handle) (auto simp: side_def)
qed

section \<open>All runs of the server\<close>

text \<open>
  A run of the server: \<open>tftp_prepare\<close> on the zeroed static variable, then datagrams of the kind \<open>D\<close> in any
  order, and timers whenever one is pending. The world may change in between: other threads of
  the firmware and the network use it too.
\<close>

definition zeroed :: "'w \<Rightarrow> ('w, 'h) tftp_state" where
  "zeroed w = \<lparr>t_world = w, t_log = [], t_ctx = None, t_handle = None, last_data = None, t_upcb = False,
     t_addr = 0, t_port = 0, t_timer = 0, last_pkt = 0, t_blknum = 0, t_retries = 0, mode_write = 0\<rparr>"

inductive tftp_runs :: "'w lwip \<Rightarrow> 'w fatfs \<Rightarrow> (pbuf \<Rightarrow> bool) \<Rightarrow> ('w, fil) tftp_state \<Rightarrow> bool"
  for L F D where
  start: "t_upcb (exec (tftp_prepare L F) (zeroed w)) \<Longrightarrow> tftp_runs L F D (exec (tftp_prepare L F) (zeroed w))"
| datagram: "tftp_runs L F D s \<Longrightarrow> D p \<Longrightarrow> tftp_runs L F D (exec (tftp_recv L p a port) s)"
| timer: "tftp_runs L F D s \<Longrightarrow> 0 < pending (t_log s) \<Longrightarrow> tftp_runs L F D (exec (tftp_tmr L) s)"
| others: "tftp_runs L F D s \<Longrightarrow> tftp_runs L F D (s\<lparr>t_world := w\<rparr>)"

lemma tftp_prepare_started:
  "t_upcb (exec (tftp_prepare L F) (zeroed w)) \<Longrightarrow>
   \<exists>w'. exec (tftp_prepare L F) (zeroed w) = (zeroed w')\<lparr>t_ctx := Some (ctxt F), t_upcb := True\<rparr>"
  by (auto simp: tftp_prepare_def tftp_init_def run_simps zeroed_def split: if_splits)

text \<open>
  C14. The TFTP server keeps its books. Over every run (any datagrams, in any order, from
  anyone, timers in between, allocations and file accesses that fail) every packet buffer is
  freed exactly once except the one block held for retransmission, every file that was opened is
  closed exactly once except the one of the transfer in progress, a block is held only during a
  transfer, and a transfer in progress always has a timer pending that can end it.
\<close>

theorem tftp_books_balance:
  assumes "tftp_runs L F D s"
  shows "live (t_log s) = (if last_data s = None then 0 else 1) \<and>
    opened (t_log s) = (if t_handle s = None then 0 else 1) \<and>
    (last_data s \<noteq> None \<longrightarrow> t_handle s \<noteq> None) \<and>
    (t_handle s \<noteq> None \<longrightarrow> 0 < pending (t_log s))"
proof -
  from assms have "balance s = (0, 0) \<and> side s"
  proof induction
    case (start w)
    from tftp_prepare_started [OF start] obtain w' where
      "exec (tftp_prepare L F) (zeroed w) = (zeroed w')\<lparr>t_ctx := Some (ctxt F), t_upcb := True\<rparr>" ..
    then show ?case by (simp add: zeroed_def balance_defs side_def)
  next
    case (datagram s p a port)
    then show ?case by (simp add: balance_tftp_recv side_tftp_recv)
  next
    case (timer s)
    then show ?case by (simp add: unchanged_exec [OF balance_tftp_tmr] side_tftp_tmr)
  next
    case (others s w)
    then show ?case by (simp add: balance_defs side_def)
  qed
  then show ?thesis by (auto simp: balance_defs side_def)
qed

end
