(* ===== verification/Tftp_Transfer.thy ===== *)
theory Tftp_Transfer
  imports Tftp_Props
begin

text \<open>
  Whole transfers of the TFTP server. The server sees files only through the callbacks of its
  context: the locale \<open>tftp_files\<close> is that interface, with what the callbacks promise on a card
  that works. The file access of \<open>tftp_handler.c\<close> provides it on top of the file system library
  (the \<open>sublocale\<close> below). \<open>tftp_server\<close> adds what the server relies on of lwIP: allocations
  succeed, and the packet buffer functions do what their documentation says.
\<close>

locale tftp_files =
  fixes c :: "('w, 'h) tftp_context"
    and disk :: "'w \<Rightarrow> byte list \<Rightarrow> byte list option"
    and view :: "'w \<Rightarrow> (byte list \<times> byte list \<times> nat) option"
  assumes file_read_open: "disk w name = Some cont \<Longrightarrow>
      \<exists>h w'. run_state (cb_open c name (ascii ''octet'') False) w = (Some h, w') \<and>
        view w' = Some (name, cont, 0) \<and> disk w' = disk w"
    and file_write_open: "
      \<exists>h w'. run_state (cb_open c name (ascii ''octet'') True) w = (Some h, w') \<and>
        view w' = Some (name, case disk w name of None \<Rightarrow> [] | Some cont \<Rightarrow> cont, 0) \<and>
        disk w' = (disk w)(name \<mapsto> (case disk w name of None \<Rightarrow> [] | Some cont \<Rightarrow> cont))"
    and file_read: "view w = Some (name, cont, pos) \<Longrightarrow>
      fst (run_state (cb_read c h n) w) = (int (length (take n (drop pos cont))), take n (drop pos cont)) \<and>
      view (snd (run_state (cb_read c h n) w)) = Some (name, cont, pos + length (take n (drop pos cont))) \<and>
      disk (snd (run_state (cb_read c h n) w)) = disk w"
    and file_write: "view w = Some (name, cont, pos) \<Longrightarrow> pos \<le> length cont \<Longrightarrow>
      fst (run_state (cb_write c h p) w) = 0 \<and>
      view (snd (run_state (cb_write c h p) w)) =
        Some (name, store_at pos (concat p) cont, pos + length (concat p)) \<and>
      disk (snd (run_state (cb_write c h p) w)) = disk w"
    and file_close: "view w = Some (name, cont, pos) \<Longrightarrow>
      view (snd (run_state (cb_close c h) w)) = None \<and>
      disk (snd (run_state (cb_close c h) w)) = (disk w)(name \<mapsto> cont)"

section \<open>The SD card provides the interface\<close>

lemma tot_len_concat: "tot_len p = length (concat p)"
  by (simp add: tot_len_def length_concat)

context sd_card
begin

lemma sdcard_write:
  "view w = Some (name, cont, pos) \<Longrightarrow> pos \<le> length cont \<Longrightarrow>
   fst (run_state (tftp_sdcard_write F h p) w) = 0 \<and>
   view (snd (run_state (tftp_sdcard_write F h p) w)) =
     Some (name, store_at pos (concat p) cont, pos + length (concat p)) \<and>
   disk (snd (run_state (tftp_sdcard_write F h p) w)) = disk w"
proof (induction p arbitrary: w cont pos)
  case Nil
  then show ?case by simp
next
  case (Cons seg rest)
  show ?case
  proof (cases "tot_len (seg # rest) = 0")
    case True
    then have "concat rest = []" "seg = []" by (simp_all add: tot_len_concat)
    then show ?thesis using Cons.prems True by (simp del: concat_eq_Nil_conv)
  next
    case False
    show ?thesis
    proof (cases "seg = []")
      case True
      then show ?thesis using Cons False by simp
    next
      case nonempty: False
      obtain w' where w: "f_write F seg w = ((FR_OK, length seg), w')"
        and v: "view w' = Some (name, store_at pos seg cont, pos + length seg)" "disk w' = disk w"
        using write_next [OF Cons.prems, of seg] by (metis prod.collapse)
      show ?thesis
        using Cons.IH [OF v(1)] w v(2) False nonempty Cons.prems
        by (simp add: length_store_at store_at_append)
    qed
  qed
qed

end

sublocale sd_card \<subseteq> files: tftp_files "ctxt F" disk view
proof unfold_locales
  fix w name cont
  assume "disk w name = Some cont"
  from open_read [OF this] show "\<exists>h w'. run_state (cb_open (ctxt F) name (ascii ''octet'') False) w = (Some h, w') \<and>
        view w' = Some (name, cont, 0) \<and> disk w' = disk w"
    by (cases "f_open F name [FA_OPEN_EXISTING, FA_READ] w") (simp add: ctxt_def tftp_sdcard_open_def)
next
  fix w name
  show "\<exists>h w'. run_state (cb_open (ctxt F) name (ascii ''octet'') True) w = (Some h, w') \<and>
        view w' = Some (name, case disk w name of None \<Rightarrow> [] | Some cont \<Rightarrow> cont, 0) \<and>
        disk w' = (disk w)(name \<mapsto> (case disk w name of None \<Rightarrow> [] | Some cont \<Rightarrow> cont))"
    using open_write [of name w]
    by (cases "f_open F name [FA_OPEN_ALWAYS, FA_WRITE] w") (simp add: ctxt_def tftp_sdcard_open_def)
next
  fix w name cont pos h n
  assume "view w = Some (name, cont, pos)"
  from read_next [OF this, of n]
  show "fst (run_state (cb_read (ctxt F) h n) w) = (int (length (take n (drop pos cont))), take n (drop pos cont)) \<and>
      view (snd (run_state (cb_read (ctxt F) h n) w)) = Some (name, cont, pos + length (take n (drop pos cont))) \<and>
      disk (snd (run_state (cb_read (ctxt F) h n) w)) = disk w"
    by (cases "f_read F n w") (simp add: ctxt_def tftp_sdcard_read_def)
next
  fix w name cont pos h p
  assume "view w = Some (name, cont, pos)" "pos \<le> length cont"
  from sdcard_write [OF this, of h p]
  show "fst (run_state (cb_write (ctxt F) h p) w) = 0 \<and>
      view (snd (run_state (cb_write (ctxt F) h p) w)) =
        Some (name, store_at pos (concat p) cont, pos + length (concat p)) \<and>
      disk (snd (run_state (cb_write (ctxt F) h p) w)) = disk w"
    by (simp add: ctxt_def)
next
  fix w name cont pos h
  assume "view w = Some (name, cont, pos)"
  from close_file [OF this]
  show "view (snd (run_state (cb_close (ctxt F) h) w)) = None \<and>
      disk (snd (run_state (cb_close (ctxt F) h) w)) = (disk w)(name \<mapsto> cont)"
    by (cases "f_close F w") (simp add: ctxt_def tftp_sdcard_close_def)
qed

context sd_card
begin

lemma provides: "tftp_files (ctxt F) disk view"
  by unfold_locales

end

section \<open>The packets of a transfer\<close>

fun is_udp :: "tftp_event \<Rightarrow> bool" where
  "is_udp (Udp _ _ _) = True"
| "is_udp _ = False"

definition datagrams :: "tftp_event list \<Rightarrow> tftp_event list" where
  "datagrams es = filter is_udp es"

lemma datagrams_simps [simp]:
  "datagrams [] = []" "datagrams (es @ fs) = datagrams es @ datagrams fs" "datagrams (Udp a q bs # es) = Udp a q bs # datagrams es"
  "\<not> is_udp e \<Longrightarrow> datagrams (e # es) = datagrams es"
  by (simp_all add: datagrams_def)

definition request_packet :: "u16 \<Rightarrow> byte list \<Rightarrow> byte list" where
  "request_packet opcode name = be16 opcode @ name @ [0] @ ascii ''octet'' @ [0]"

definition ack_packet :: "u16 \<Rightarrow> byte list" where
  "ack_packet n = be16 TFTP_ACK @ be16 n"

definition data_packet :: "u16 \<Rightarrow> byte list \<Rightarrow> byte list" where
  "data_packet n bs = be16 TFTP_DATA @ be16 n @ bs"

text \<open>
  What the server relies on of lwIP. The first zero of a packet at or behind an offset is what
  \<open>pbuf_memfind\<close> looks for, \<open>0xFFFF\<close> its answer when there is none.
\<close>

definition find_zero :: "byte list \<Rightarrow> nat \<Rightarrow> u16" where
  "find_zero bs off = (let i = off + length (takeWhile (\<lambda>b. b \<noteq> 0) (drop off bs))
     in if i < length bs then of_nat i else 0xFFFF)"

definition chunk :: "byte list \<Rightarrow> nat \<Rightarrow> byte list" where
  "chunk cont i = take TFTP_MAX_PAYLOAD_SIZE (drop (TFTP_MAX_PAYLOAD_SIZE * i) cont)"

text \<open>A read transfer whose block \<open>i\<close> (from 0) has been sent and is not acknowledged yet.\<close>

definition reading ::
  "('w, 'h) tftp_context \<Rightarrow> ('w \<Rightarrow> (byte list \<times> byte list \<times> nat) option) \<Rightarrow> u32 \<Rightarrow> u16 \<Rightarrow> byte list \<Rightarrow>
     byte list \<Rightarrow> nat \<Rightarrow> ('w, 'h) tftp_state \<Rightarrow> bool" where
  "reading c view a port name cont i s \<longleftrightarrow>
     t_ctx s = Some c \<and> t_handle s \<noteq> None \<and> mode_write s = 0 \<and> t_addr s = a \<and> t_port s = port \<and>
     t_blknum s = of_nat (Suc i) \<and> last_data s = Some (data_packet (of_nat (Suc i)) (chunk cont i)) \<and>
     TFTP_MAX_PAYLOAD_SIZE * i \<le> length cont \<and>
     view (t_world s) = Some (name, cont, TFTP_MAX_PAYLOAD_SIZE * i + length (chunk cont i))"

text \<open>
  A write transfer that has stored \<open>got\<close> in \<open>i\<close> blocks over a file that held \<open>old\<close>, and the
  packets of a client that repeats every block some times, as it does when it misses the
  acknowledgement.
\<close>

definition writing ::
  "('w, 'h) tftp_context \<Rightarrow> ('w \<Rightarrow> (byte list \<times> byte list \<times> nat) option) \<Rightarrow> u32 \<Rightarrow> u16 \<Rightarrow> byte list \<Rightarrow>
     byte list \<Rightarrow> byte list \<Rightarrow> nat \<Rightarrow> ('w, 'h) tftp_state \<Rightarrow> bool" where
  "writing c view a port name old got i s \<longleftrightarrow>
     t_ctx s = Some c \<and> t_handle s \<noteq> None \<and> mode_write s = 1 \<and> t_addr s = a \<and> t_port s = port \<and>
     t_blknum s = of_nat (Suc i) \<and> view (t_world s) = Some (name, store_at 0 got old, length got)"

fun upload :: "nat \<Rightarrow> (byte list \<times> nat) list \<Rightarrow> (u16 \<times> byte list) list" where
  "upload i [] = []"
| "upload i ((bs, r) # rest) = replicate (Suc r) (of_nat (Suc i), bs) @ upload (Suc i) rest"

lemma result_sbuf_packet:
  "result (sbuf L [be16 m @ be16 n @ bs] 0) s = m" "result (sbuf L [be16 m @ be16 n @ bs] 1) s = n"
  by (simp_all add: sbuf_def run_simps payload_byte_def be16_def nth_append)
    (simp_all add: of_be16_be16 [unfolded be16_def of_be16.simps])

lemma exec_sbuf_packet:
  "i < 2 \<Longrightarrow> exec (sbuf L [be16 m @ be16 n @ bs] i) s = s"
  by (cases i) (auto simp: exec_sbuf)

lemma sbuf_packets [run_simps]:
  "exec (sbuf L [ack_packet n] (Suc 0)) s = s" "result (sbuf L [ack_packet n] (Suc 0)) s = n"
  "exec (sbuf L [data_packet n bs] (Suc 0)) s = s" "result (sbuf L [data_packet n bs] (Suc 0)) s = n"
  using exec_sbuf_packet [of 1 L TFTP_ACK n "[]" s] result_sbuf_packet(2) [of L TFTP_ACK n "[]" s]
    exec_sbuf_packet [of 1 L TFTP_DATA n bs s] result_sbuf_packet(2) [of L TFTP_DATA n bs s]
  by (simp_all add: ack_packet_def data_packet_def)

text \<open>
  Between two states the server sent these datagrams (and did nothing undefined); and it is
  still serving the same client.
\<close>

definition logged :: "tftp_event list \<Rightarrow> ('w, 'h) tftp_state \<Rightarrow> ('w, 'h) tftp_state \<Rightarrow> bool" where
  "logged us s t \<longleftrightarrow> (\<exists>es. t_log t = t_log s @ es \<and> datagrams es = us \<and> Bad \<notin> set es)"

definition same_session :: "('w, 'h) tftp_state \<Rightarrow> ('w, 'h) tftp_state \<Rightarrow> bool" where
  "same_session s t \<longleftrightarrow> t_ctx t = t_ctx s \<and> t_handle t = t_handle s \<and> t_addr t = t_addr s \<and>
     t_port t = t_port s \<and> t_blknum t = t_blknum s \<and> mode_write t = mode_write s"

lemma logged_trans: "logged us s t \<Longrightarrow> logged vs t u \<Longrightarrow> logged (us @ vs) s u"
proof -
  assume "logged us s t" and "logged vs t u"
  then obtain es fs where "t_log t = t_log s @ es" "datagrams es = us" "Bad \<notin> set es"
    "t_log u = t_log t @ fs" "datagrams fs = vs" "Bad \<notin> set fs"
    by (auto simp: logged_def)
  then show ?thesis by (auto simp: logged_def intro: exI [of _ "es @ fs"])
qed

lemma logged_append: "t_log t = t_log s @ es \<Longrightarrow> Bad \<notin> set es \<Longrightarrow> logged (datagrams es) s t"
  by (auto simp: logged_def)

lemma logged_last_freed: "logged [] s (last_freed s)"
  by (cases "last_data s") (auto simp: last_freed_def logged_def)

text \<open>The state in which the body of \<open>tftp_recv\<close> handles a datagram of the current client.\<close>

definition noted :: "('w, 'h) tftp_state \<Rightarrow> ('w, 'h) tftp_state" where
  "noted s = s\<lparr>t_log := t_log s @ [Palloc], last_pkt := t_timer s, t_retries := 0\<rparr>"

lemma noted_simps [simp]:
  "t_world (noted s) = t_world s" "t_ctx (noted s) = t_ctx s" "t_handle (noted s) = t_handle s"
  "last_data (noted s) = last_data s" "t_addr (noted s) = t_addr s" "t_port (noted s) = t_port s"
  "t_blknum (noted s) = t_blknum s" "mode_write (noted s) = mode_write s"
  by (simp_all add: noted_def)

lemma exec_tftp_recv:
  assumes "\<not> foreign s a port"
  shows "exec (tftp_recv L [be16 opcode @ be16 n @ bs] a port) s =
    (let u = exec (if opcode = TFTP_RRQ \<or> opcode = TFTP_WRQ
                   then recv_request L opcode [be16 opcode @ be16 n @ bs] a port
                   else if opcode = TFTP_DATA then recv_data L [be16 opcode @ be16 n @ bs] a port
                   else if opcode = TFTP_ACK then recv_ack L [be16 opcode @ be16 n @ bs] a port
                   else send_error L a port TFTP_ERROR_ILLEGAL_OPERATION ''Unknown operation'') (noted s)
     in u\<lparr>t_log := t_log u @ [Pfree]\<rparr>)"
proof -
  have "\<not> foreign (s\<lparr>t_log := l\<rparr>) a port" for l using assms by (simp add: foreign_def)
  then show ?thesis
    by (simp add: tftp_recv_def run_simps exec_sbuf_packet result_sbuf_packet noted_def Let_def)
qed

lemma logged_recv:
  "logged us (noted s) u \<Longrightarrow> logged us s (u\<lparr>t_log := t_log u @ [Pfree]\<rparr>)"
  by (auto simp: logged_def noted_def)

lemmas opcodes = TFTP_RRQ_def TFTP_WRQ_def TFTP_DATA_def TFTP_ACK_def TFTP_ERROR_def

text \<open>Finding the two strings of a request.\<close>

definition valid_name :: "byte list \<Rightarrow> bool" where
  "valid_name name \<longleftrightarrow> 0 \<notin> set name \<and> length name \<le> TFTP_MAX_FILENAME_LEN"

lemma ascii_octet: "ascii ''octet'' = [0x6F, 0x63, 0x74, 0x65, 0x74]"
  by (simp add: ascii_def of_char_Char)

lemma takeWhile_nonzero: "0 \<notin> set bs \<Longrightarrow> takeWhile (\<lambda>b. b \<noteq> 0) (bs @ 0 # rest) = bs"
  by (induction bs) auto

lemma find_zero_at:
  "0 \<notin> set bs \<Longrightarrow> off = length pre \<Longrightarrow> find_zero (pre @ bs @ 0 # rest) off = of_nat (off + length bs)"
  by (simp add: find_zero_def takeWhile_nonzero)

lemma cstr_overwrite: "0 \<notin> set bs \<Longrightarrow> cstr (overwrite (bs @ [0]) buf) = bs"
  by (simp add: cstr_def overwrite_def takeWhile_nonzero)

lemma result_copy_string:
  "result (copy_string L cap p n off) s =
     cstr (overwrite (pbuf_copy_partial L p n off) (map (\<lambda>i. lwip_stack L i (t_world s)) [0..<cap]))"
  by (simp add: copy_string_def run_simps Let_def)

lemma request_packet_words: "\<exists>n bs. request_packet opcode name = be16 opcode @ be16 n @ bs"
proof -
  obtain x y zs where "name @ 0 # ascii ''octet'' @ [0] = x # y # zs"
    by (cases name; cases "tl name") (auto simp: ascii_octet)
  moreover have "be16 (of_be16 [x, y]) = [x, y]"
    unfolding be16_def of_be16.simps
    by (intro list.inject [THEN iffD2] conjI refl bit_word_eqI)
      (auto simp: bit_simps dest: bit_imp_le_length)
  ultimately show ?thesis
    by (auto simp: request_packet_def intro!: exI [of _ "of_be16 [x, y]"] exI [of _ zs])
qed

locale pbuf_laws =
  fixes L :: "'w lwip"
  assumes memfind: "tot_len p < 0xFFFF \<Longrightarrow> pbuf_memfind L p 0 off = find_zero (concat p) (unat off)"
    and copy_partial: "pbuf_copy_partial L p len off = take (unat len) (drop (unat off) (concat p))"
    and remove_header: "n \<le> length seg \<Longrightarrow> pbuf_remove_header L (seg # rest) n = drop n seg # rest"

locale lwip_works = pbuf_laws L for L :: "'w lwip" +
  fixes disk :: "'w \<Rightarrow> byte list \<Rightarrow> byte list option"
    and view :: "'w \<Rightarrow> (byte list \<times> byte list \<times> nat) option"
  assumes alloc_ok: "fst (pbuf_alloc L n w)" and copy_ok: "fst (pbuf_copy L w)"
    and frame_alloc: "disk (snd (pbuf_alloc L n w)) = disk w \<and> view (snd (pbuf_alloc L n w)) = view w"
    and frame_copy: "disk (snd (pbuf_copy L w)) = disk w \<and> view (snd (pbuf_copy L w)) = view w"
    and frame_send: "disk (udp_sendto L a port bs w) = disk w \<and> view (udp_sendto L a port bs w) = view w"
    and frame_timeout: "disk (sys_timeout L t w) = disk w \<and> view (sys_timeout L t w) = view w"
    and frame_untimeout: "disk (sys_untimeout L w) = disk w \<and> view (sys_untimeout L w) = view w"
begin

lemmas frames [simp] =
  frame_alloc [THEN conjunct1] frame_alloc [THEN conjunct2] frame_copy [THEN conjunct1] frame_copy [THEN conjunct2]
  frame_send [THEN conjunct1] frame_send [THEN conjunct2] frame_timeout [THEN conjunct1]
  frame_timeout [THEN conjunct2] frame_untimeout [THEN conjunct1] frame_untimeout [THEN conjunct2]

end

locale tftp_server = tftp_files c disk view + lwip_works L disk view
  for c :: "('w, 'h) tftp_context" and disk view L
begin

lemma resend_sends:
  assumes "last_data s = Some bs"
  defines "t \<equiv> exec (resend_data L) s"
  shows "same_session s t \<and> last_data t = last_data s \<and> logged [Udp (t_addr s) (t_port s) bs] s t \<and>
    view (t_world t) = view (t_world s) \<and> disk (t_world t) = disk (t_world s)"
  using assms(1)
  by (simp add: t_def resend_data_def run_simps alloc_ok copy_ok same_session_def logged_def)

lemma send_data_reads:
  assumes "t_ctx s = Some c" and "t_handle s = Some h" and "view (t_world s) = Some (name, cont, pos)"
  defines "bs \<equiv> take TFTP_MAX_PAYLOAD_SIZE (drop pos cont)" and "t \<equiv> exec (send_data L) s"
  shows "same_session s t \<and> last_data t = Some (data_packet (t_blknum s) bs) \<and>
    logged [Udp (t_addr s) (t_port s) (data_packet (t_blknum s) bs)] s t \<and>
    view (t_world t) = Some (name, cont, pos + length bs) \<and> disk (t_world t) = disk (t_world s)"
proof -
  let ?alloc = "pbuf_alloc L (TFTP_HEADER_LENGTH + TFTP_MAX_PAYLOAD_SIZE) (t_world s)"
  define u where "u = (last_freed s)\<lparr>t_world := snd ?alloc, t_log := t_log (last_freed s) @ [Palloc]\<rparr>"
  have v: "view (snd ?alloc) = Some (name, cont, pos)" using assms(3) by simp
  obtain w where rd: "run_state (cb_read c h TFTP_MAX_PAYLOAD_SIZE) (snd ?alloc) = ((int (length bs), bs), w)"
    and w: "view w = Some (name, cont, pos + length bs)" "disk w = disk (t_world s)"
    using file_read [OF v, of h TFTP_MAX_PAYLOAD_SIZE, folded bs_def] by (metis prod.collapse frame_alloc)
  have len: "\<not> TFTP_MAX_PAYLOAD_SIZE < length bs" by (simp add: bs_def)
  have pkt: "take (TFTP_HEADER_LENGTH + length bs) (be16 TFTP_DATA @ be16 n @ bs) = data_packet n bs" for n
    by (simp add: data_packet_def TFTP_HEADER_LENGTH_def)
  have u: "t_ctx u = Some c" "t_handle u = Some h" "t_world u = snd ?alloc" "t_blknum u = t_blknum s"
    "t_addr u = t_addr s" "t_port u = t_port s" "mode_write u = mode_write s"
    using assms by (simp_all add: u_def last_freed_def)
  then have fill: "exec fill_data u = u\<lparr>t_world := w, last_data := Some (data_packet (t_blknum s) bs)\<rparr>"
    "result fill_data u = int (length bs)"
    using rd len by (simp_all add: fill_data_def run_simps exec_ctx_call result_ctx_call pkt del: take_append)
  have "logged [] (last_freed s) u" unfolding u_def logged_def by simp
  from logged_trans [OF logged_last_freed this] have "logged [] s (exec fill_data u)"
    unfolding fill by (simp add: logged_def)
  moreover have "t = exec (resend_data L) (exec fill_data u)"
    using fill by (simp add: t_def exec_send_data alloc_ok u_def [symmetric])
  moreover have "last_data (exec fill_data u) = Some (data_packet (t_blknum s) bs)" by (simp add: fill)
  note resend_sends [OF this]
  ultimately show ?thesis
    using u w assms(1,2) logged_trans [of "[]" s "exec fill_data u"] by (simp add: fill same_session_def)
qed

lemma close_ends:
  assumes "t_ctx s = Some c" and "t_handle s = Some h" and "view (t_world s) = Some (name, cont, pos)"
  defines "t \<equiv> exec (close_handle L) s"
  shows "t_ctx t = Some c \<and> t_handle t = None \<and> t_addr t = 0 \<and> t_port t = 0 \<and> last_data t = None \<and>
    logged [] s t \<and> view (t_world t) = None \<and> disk (t_world t) = (disk (t_world s))(name \<mapsto> cont)"
proof -
  let ?w = "sys_untimeout L (t_world s)"
  have "view ?w = Some (name, cont, pos)" using assms(3) by simp
  from file_close [OF this, of h] show ?thesis
    using assms(1,2) unfolding t_def
    by (cases "last_data s") (simp_all add: close_handle_def run_simps exec_ctx_call logged_def)
qed

lemma reading_ack:
  assumes r: "reading c view a port name cont i s"
  defines "t \<equiv> exec (tftp_recv L [ack_packet (of_nat (Suc i))] a port) s"
  shows "if length (chunk cont i) = TFTP_MAX_PAYLOAD_SIZE
    then reading c view a port name cont (Suc i) t \<and>
      logged [Udp a port (data_packet (of_nat (Suc (Suc i))) (chunk cont (Suc i)))] s t \<and>
      disk (t_world t) = disk (t_world s)
    else t_handle t = None \<and> t_addr t = 0 \<and> t_port t = 0 \<and> last_data t = None \<and> logged [] s t \<and>
      disk (t_world t) = (disk (t_world s))(name \<mapsto> cont)"
proof -
  let ?p = "[ack_packet (of_nat (Suc i))]"
  obtain h where s: "t_ctx s = Some c" "t_handle s = Some h" "mode_write s = 0" "t_addr s = a" "t_port s = port"
    "t_blknum s = of_nat (Suc i)" "last_data s = Some (data_packet (of_nat (Suc i)) (chunk cont i))"
    and pos: "TFTP_MAX_PAYLOAD_SIZE * i \<le> length cont"
    and v: "view (t_world s) = Some (name, cont, TFTP_MAX_PAYLOAD_SIZE * i + length (chunk cont i))"
    using r by (auto simp: reading_def)
  define u where "u = exec (recv_ack L ?p a port) (noted s)"
  have t: "t = u\<lparr>t_log := t_log u @ [Pfree]\<rparr>"
    using s exec_tftp_recv [of s a port L TFTP_ACK "of_nat (Suc i)" "[]"]
    by (simp add: t_def u_def ack_packet_def foreign_def opcodes Let_def)
  have len: "length (data_packet n bs) = TFTP_MAX_PAYLOAD_SIZE + TFTP_HEADER_LENGTH \<longleftrightarrow> length bs = TFTP_MAX_PAYLOAD_SIZE"
    for n bs by (simp add: data_packet_def TFTP_HEADER_LENGTH_def)
  show ?thesis
  proof (cases "length (chunk cont i) = TFTP_MAX_PAYLOAD_SIZE")
    case True
    define x where "x = (noted s)\<lparr>t_blknum := of_nat (Suc i) + 1\<rparr>"
    have u: "u = exec (send_data L) x"
      using s True by (simp add: u_def x_def recv_ack_def run_simps len)
    have "t_ctx x = Some c" "t_handle x = Some h"
      "view (t_world x) = Some (name, cont, TFTP_MAX_PAYLOAD_SIZE * Suc i)"
      using s v True by (simp_all add: x_def)
    note sd = send_data_reads [OF this, folded chunk_def u]
    have nx: "logged us x u \<Longrightarrow> logged us (noted s) u" for us by (simp add: logged_def x_def)
    have "TFTP_MAX_PAYLOAD_SIZE * Suc i \<le> length cont"
      using True pos by (simp add: chunk_def)
    then show ?thesis
      using True sd s nx [THEN logged_recv]
      by (simp add: reading_def t same_session_def x_def chunk_def add.commute)
  next
    case False
    then have u: "u = exec (close_handle L) (noted s)"
      using s by (simp add: u_def recv_ack_def run_simps len)
    show ?thesis
      using close_ends [of "noted s" h name cont] s v False logged_recv
      by (auto simp: u t)
  qed
qed

lemma request_opens:
  fixes s :: "('w, 'h) tftp_state"
  assumes "t_handle s = None" and name: "valid_name name"
  shows "exec (recv_request L opcode [request_packet opcode name] a port) s =
    exec (open_file L opcode name (ascii ''octet'') a port) (exec (start_timer L) s)"
proof -
  let ?pkt = "request_packet opcode name"
  let ?n = "length name"
  have n: "?n \<le> 20" and nz: "0 \<notin> set name"
    using name by (auto simp: valid_name_def TFTP_MAX_FILENAME_LEN_def)
  have "?pkt = be16 opcode @ name @ 0 # ascii ''octet'' @ [0]" by (simp add: request_packet_def)
  then have f1: "find_zero ?pkt 2 = of_nat (2 + ?n)"
    using find_zero_at [OF nz, of 2 "be16 opcode" "ascii ''octet'' @ [0]"] by simp
  have "?pkt = (be16 opcode @ name @ [0]) @ ascii ''octet'' @ 0 # []" by (simp add: request_packet_def)
  then have f2: "find_zero ?pkt (?n + 3) = of_nat (?n + 8)"
    using find_zero_at [of "ascii ''octet''" "?n + 3" "be16 opcode @ name @ [0]" "[]"]
    by (simp add: ascii_octet)
  have tot: "tot_len [?pkt] < 0xFFFF" using n by (simp add: tot_len_def request_packet_def ascii_octet)
  have un: "unat (of_nat (?n + k) :: u16) = ?n + k" if "k < 100" for k
    using n that by (simp only: unat_of_nat take_bit_eq_mod) simp
  have m1: "pbuf_memfind L [?pkt] 0 2 = of_nat (2 + ?n)" using memfind [OF tot, of 2] f1 by simp
  have m2: "pbuf_memfind L [?pkt] 0 (of_nat (?n + 3)) = of_nat (?n + 8)"
    using memfind [OF tot, of "of_nat (?n + 3)"] f2 un [of 3] by simp
  have e: "of_nat (2 + ?n) - 1 = (of_nat (?n + 1) :: u16)" "of_nat (2 + ?n) + 1 = (of_nat (?n + 3) :: u16)"
    "of_nat (?n + 8) - of_nat (2 + ?n) = (6 :: u16)"
    by simp_all
  have c1: "pbuf_copy_partial L [?pkt] (of_nat (?n + 1)) 2 = name @ [0]"
    using un [of 1] by (simp add: copy_partial request_packet_def)
  have c2: "pbuf_copy_partial L [?pkt] 6 (of_nat (?n + 3)) = ascii ''octet'' @ [0]"
    using un [of 3] by (simp add: copy_partial request_packet_def ascii_octet)
  have nzo: "0 \<notin> set (ascii ''octet'')" by (simp add: ascii_octet)
  have ov: "0 \<in> set (overwrite (bs @ [0]) buf)" for bs buf by (simp add: overwrite_def)
  have lo: "length (ascii ''octet'') = 5" by (simp add: ascii_octet)
  have "exec (copy_string L (TFTP_MAX_FILENAME_LEN + 1) [?pkt] (of_nat (?n + 1)) 2) x = x"
    "result (copy_string L (TFTP_MAX_FILENAME_LEN + 1) [?pkt] (of_nat (?n + 1)) 2) x = name"
    "exec (copy_string L (TFTP_MAX_MODE_LEN + 1) [?pkt] 6 (of_nat (?n + 3))) x = x"
    "result (copy_string L (TFTP_MAX_MODE_LEN + 1) [?pkt] 6 (of_nat (?n + 3))) x = ascii ''octet''"
    for x :: "('w, 'h) tftp_state"
    using n nz nzo lo
    by (simp_all only: exec_copy_string result_copy_string c1 c2)
       (simp_all add: ov cstr_overwrite TFTP_MAX_FILENAME_LEN_def TFTP_MAX_MODE_LEN_def)
  moreover have "\<not> unat (of_nat (?n + 1) :: u16) > TFTP_MAX_FILENAME_LEN + 1" "\<not> unat (6 :: u16) > TFTP_MAX_MODE_LEN + 1"
    using un [of 1] n by (simp_all add: TFTP_MAX_FILENAME_LEN_def TFTP_MAX_MODE_LEN_def)
  ultimately show ?thesis
    using assms(1)
    unfolding recv_request_def exec_bind result_gets exec_gets Let_def m1 e m2
    by (simp only: exec_bind if_False not_True_eq_False simp_thms if_cancel exec_gets result_gets)
qed

lemma exec_request:
  fixes s :: "('w, 'h) tftp_state"
  assumes "t_handle s = None" and "\<not> foreign s a port" and "valid_name name"
    and "opcode = TFTP_RRQ \<or> opcode = TFTP_WRQ"
  defines "u \<equiv> exec (open_file L opcode name (ascii ''octet'') a port) (exec (start_timer L) (noted s))"
  shows "exec (tftp_recv L [request_packet opcode name] a port) s = u\<lparr>t_log := t_log u @ [Pfree]\<rparr>"
proof -
  obtain n bs where "request_packet opcode name = be16 opcode @ be16 n @ bs"
    using request_packet_words by blast
  then show ?thesis
    using exec_tftp_recv [OF assms(2), of L opcode n bs] assms(1,3,4) request_opens [of "noted s" name opcode a port]
    by (simp add: u_def Let_def)
qed

lemma read_starts:
  assumes "t_ctx s = Some c" and "t_handle s = None" and "\<not> foreign s a port" and "valid_name name"
    and "disk (t_world s) name = Some cont"
  defines "t \<equiv> exec (tftp_recv L [request_packet TFTP_RRQ name] a port) s"
  shows "reading c view a port name cont 0 t \<and> logged [Udp a port (data_packet 1 (chunk cont 0))] s t \<and>
    disk (t_world t) = disk (t_world s)"
proof -
  let ?s = "exec (start_timer L) (noted s)"
  have "disk (t_world ?s) name = Some cont" using assms(5) by (simp add: run_simps)
  then obtain h w where op: "run_state (cb_open c name (ascii ''octet'') False) (t_world ?s) = (Some h, w)"
    and w: "view w = Some (name, cont, 0)" "disk w = disk (t_world s)"
    using file_read_open [of "t_world ?s" name cont] by (auto simp: run_simps)
  define x where "x = ?s\<lparr>t_world := w, t_handle := Some h, t_blknum := 1, t_log := t_log ?s @ [Fopen name False],
      t_addr := a, t_port := port, mode_write := 0\<rparr>"
  define u where "u = exec (open_file L TFTP_RRQ name (ascii ''octet'') a port) ?s"
  have "t_ctx ?s = Some c" using assms(1) by (simp add: run_simps)
  then have u: "u = exec (send_data L) x"
    using op by (simp add: u_def x_def open_file_def run_simps exec_ctx_call result_ctx_call opcodes)
  have x: "t_ctx x = Some c" "t_handle x = Some h" "view (t_world x) = Some (name, cont, 0)"
    using assms(1) w by (simp_all add: x_def run_simps)
  have x': "t_addr x = a" "t_port x = port" "t_blknum x = 1" "mode_write x = 0" by (simp_all add: x_def)
  note sd = send_data_reads [OF x, folded u]
  have t: "t = u\<lparr>t_log := t_log u @ [Pfree]\<rparr>"
    using exec_request [OF assms(2,3,4), of TFTP_RRQ] by (simp add: t_def u_def)
  have "logged us x u \<Longrightarrow> logged us (noted s) u" for us
    by (auto simp: logged_def x_def run_simps)
  then have "logged [Udp a port (data_packet 1 (chunk cont 0))] s t"
    unfolding t using sd x' by (intro logged_recv) (simp add: chunk_def)
  moreover have "disk (t_world x) = disk (t_world s)" using w(2) by (simp add: x_def)
  ultimately show ?thesis
    using sd x x' by (simp add: t reading_def same_session_def chunk_def)
qed

lemma reading_acks:
  assumes "reading c view a port name cont 0 s" and "k \<le> length cont div TFTP_MAX_PAYLOAD_SIZE"
  defines "t \<equiv> exec (for_each (\<lambda>i. tftp_recv L [ack_packet (of_nat i)] a port) [1..<Suc k]) s"
  shows "reading c view a port name cont k t \<and>
    logged (map (\<lambda>i. Udp a port (data_packet (of_nat (Suc i)) (chunk cont i))) [1..<Suc k]) s t \<and>
    disk (t_world t) = disk (t_world s)"
  using assms(2) unfolding t_def
proof (induction k)
  case 0
  then show ?case using assms(1) by (simp add: run_simps logged_def)
next
  case (Suc k)
  let ?t = "exec (for_each (\<lambda>i. tftp_recv L [ack_packet (of_nat i)] a port) [1..<Suc k]) s"
  have IH: "reading c view a port name cont k ?t"
    "logged (map (\<lambda>i. Udp a port (data_packet (of_nat (Suc i)) (chunk cont i))) [1..<Suc k]) s ?t"
    "disk (t_world ?t) = disk (t_world s)"
    using Suc by simp_all
  have "TFTP_MAX_PAYLOAD_SIZE * Suc k \<le> length cont"
    using Suc.prems by (simp add: less_eq_div_iff_mult_less_eq TFTP_MAX_PAYLOAD_SIZE_def mult.commute)
  then have "length (chunk cont k) = TFTP_MAX_PAYLOAD_SIZE" by (simp add: chunk_def)
  with reading_ack [OF IH(1)] IH(2,3) logged_trans [OF IH(2)] show ?case
    by (simp add: run_simps)
qed

lemma read_transfer:
  assumes "t_ctx s = Some c" and "t_handle s = None" and "\<not> foreign s a port" and "valid_name name"
    and "disk (t_world s) name = Some cont"
  defines "m \<equiv> length cont div TFTP_MAX_PAYLOAD_SIZE"
  defines "t \<equiv> exec (do {
      tftp_recv L [request_packet TFTP_RRQ name] a port;
      for_each (\<lambda>i. tftp_recv L [ack_packet (of_nat i)] a port) [1..<Suc (Suc m)] }) s"
  shows "logged (map (\<lambda>i. Udp a port (data_packet (of_nat (Suc i)) (chunk cont i))) [0..<Suc m]) s t \<and>
    t_handle t = None \<and> t_addr t = 0 \<and> t_port t = 0 \<and> disk (t_world t) = disk (t_world s)"
proof -
  let ?ack = "\<lambda>i. tftp_recv L [ack_packet (of_nat i)] a port"
  let ?u = "exec (tftp_recv L [request_packet TFTP_RRQ name] a port) s"
  let ?v = "exec (for_each ?ack [1..<Suc m]) ?u"
  note u = read_starts [OF assms(1-5)]
  have v: "reading c view a port name cont m ?v"
    "logged (map (\<lambda>i. Udp a port (data_packet (of_nat (Suc i)) (chunk cont i))) [1..<Suc m]) ?u ?v"
    "disk (t_world ?v) = disk (t_world s)"
    using reading_acks [of a port name cont ?u m] u by (simp_all add: m_def)
  have "length (chunk cont m) \<noteq> TFTP_MAX_PAYLOAD_SIZE"
    by (simp add: chunk_def m_def TFTP_MAX_PAYLOAD_SIZE_def minus_mult_div_eq_mod)
  with reading_ack [OF v(1)] have w: "t_handle t = None" "t_addr t = 0" "t_port t = 0" "logged [] ?v t"
    "disk (t_world t) = (disk (t_world s))(name \<mapsto> cont)"
    using v(3) by (simp_all add: t_def run_simps)
  have "logged (map (\<lambda>i. Udp a port (data_packet (of_nat (Suc i)) (chunk cont i))) [0..<Suc m]) s t"
    using logged_trans [OF logged_trans [OF u [THEN conjunct2, THEN conjunct1] v(2)] w(4)]
    by (simp add: upt_conv_Cons del: upt_Suc)
  then show ?thesis using w assms(5) by (simp add: fun_upd_idem)
qed

section \<open>Write transfers\<close>

lemma ack_sends:
  fixes s :: "('w, 'h) tftp_state" and n :: u16
  defines "t \<equiv> exec (send_ack L n) s"
  shows "same_session s t \<and> last_data t = last_data s \<and> logged [Udp (t_addr s) (t_port s) (ack_packet n)] s t \<and>
    view (t_world t) = view (t_world s) \<and> disk (t_world t) = disk (t_world s)"
  by (simp add: t_def send_ack_def run_simps alloc_ok same_session_def logged_def ack_packet_def)

lemma write_starts:
  assumes "t_ctx s = Some c" and "t_handle s = None" and "\<not> foreign s a port" and "valid_name name"
  defines "old \<equiv> case disk (t_world s) name of None \<Rightarrow> [] | Some cont \<Rightarrow> cont"
  defines "t \<equiv> exec (tftp_recv L [request_packet TFTP_WRQ name] a port) s"
  shows "writing c view a port name old [] 0 t \<and> logged [Udp a port (ack_packet 0)] s t \<and>
    disk (t_world t) = (disk (t_world s))(name \<mapsto> old)"
proof -
  let ?s = "exec (start_timer L) (noted s)"
  have "disk (t_world ?s) = disk (t_world s)" by (simp add: run_simps)
  then obtain h w where op: "run_state (cb_open c name (ascii ''octet'') True) (t_world ?s) = (Some h, w)"
    and w: "view w = Some (name, old, 0)" "disk w = (disk (t_world s))(name \<mapsto> old)"
    using file_write_open [of name "t_world ?s"] by (auto simp: old_def)
  define x where "x = ?s\<lparr>t_world := w, t_handle := Some h, t_blknum := 1, t_log := t_log ?s @ [Fopen name True],
      t_addr := a, t_port := port, mode_write := 1\<rparr>"
  define u where "u = exec (open_file L TFTP_WRQ name (ascii ''octet'') a port) ?s"
  have "t_ctx ?s = Some c" using assms(1) by (simp add: run_simps)
  then have u: "u = exec (send_ack L 0) x"
    using op by (simp add: u_def x_def open_file_def run_simps exec_ctx_call result_ctx_call opcodes)
  have x: "t_ctx x = Some c" "t_handle x = Some h" "view (t_world x) = Some (name, old, 0)"
    "t_addr x = a" "t_port x = port" "t_blknum x = 1" "mode_write x = 1" "disk (t_world x) = (disk (t_world s))(name \<mapsto> old)"
    using assms(1) w by (simp_all add: x_def run_simps)
  note sa = ack_sends [of x 0, folded u]
  have t: "t = u\<lparr>t_log := t_log u @ [Pfree]\<rparr>"
    using exec_request [OF assms(2,3,4), of TFTP_WRQ] by (simp add: t_def u_def)
  have "logged us x u \<Longrightarrow> logged us (noted s) u" for us
    by (auto simp: logged_def x_def run_simps)
  then have "logged [Udp a port (ack_packet 0)] s t"
    unfolding t using sa x by (intro logged_recv) simp
  then show ?thesis
    using sa x by (simp add: t writing_def same_session_def)
qed

lemma writing_block:
  fixes bs :: "byte list"
  assumes wr: "writing c view a port name old got i s"
  defines "t \<equiv> exec (tftp_recv L [data_packet (of_nat (Suc i)) bs] a port) s"
  shows "logged [Udp a port (ack_packet (of_nat (Suc i)))] s t \<and>
    (if TFTP_MAX_PAYLOAD_SIZE \<le> length bs
     then writing c view a port name old (got @ bs) (Suc i) t \<and> disk (t_world t) = disk (t_world s)
     else t_handle t = None \<and> t_addr t = 0 \<and> t_port t = 0 \<and>
       disk (t_world t) = (disk (t_world s))(name \<mapsto> store_at 0 (got @ bs) old))"
proof -
  define n :: u16 where "n = of_nat (Suc i)"
  let ?p = "[data_packet n bs]"
  obtain h where s: "t_ctx s = Some c" "t_handle s = Some h" "mode_write s = 1" "t_addr s = a" "t_port s = port"
    "t_blknum s = n" and v: "view (t_world s) = Some (name, store_at 0 got old, length got)"
    using wr by (auto simp: writing_def n_def)
  define u where "u = exec (recv_data L ?p a port) (noted s)"
  have t: "t = u\<lparr>t_log := t_log u @ [Pfree]\<rparr>"
    using s exec_tftp_recv [of s a port L TFTP_DATA n bs]
    by (simp add: t_def u_def data_packet_def foreign_def opcodes Let_def n_def)
  have hdr: "pbuf_remove_header L ?p TFTP_HEADER_LENGTH = [bs]"
    using remove_header [of TFTP_HEADER_LENGTH "data_packet n bs" "[]"]
    by (simp add: data_packet_def TFTP_HEADER_LENGTH_def)
  obtain w where w: "run_state (cb_write c h [bs]) (t_world s) = (0, w)"
    "view w = Some (name, store_at 0 (got @ bs) old, length (got @ bs))" "disk w = disk (t_world s)"
    using file_write [OF v, of h "[bs]"] length_store_at [of 0 old got] store_at_append [of 0 old got bs]
    by (metis (no_types, lifting) add.right_neutral append_Nil2 concat.simps length_append prod.collapse zero_le add_0)
  define x where "x = exec (send_ack L n) ((noted s)\<lparr>t_world := w\<rparr>)"
  note sa = ack_sends [of "(noted s)\<lparr>t_world := w\<rparr>" n, folded x_def]
  have lx: "logged [Udp a port (ack_packet n)] (noted s) x"
    using sa s by (simp add: logged_def)
  have u: "u = (if length bs < TFTP_MAX_PAYLOAD_SIZE then exec (close_handle L) x else x\<lparr>t_blknum := t_blknum x + 1\<rparr>)"
    using s w(1) by (simp add: u_def x_def recv_data_def run_simps hdr exec_ctx_call result_ctx_call tot_len_def)
  show ?thesis
  proof (cases "length bs < TFTP_MAX_PAYLOAD_SIZE")
    case True
    have x: "t_ctx x = Some c" "t_handle x = Some h" "view (t_world x) = Some (name, store_at 0 (got @ bs) old, length (got @ bs))"
      using sa s w by (simp_all add: same_session_def)
    note cl = close_ends [OF x]
    have "logged [Udp a port (ack_packet n)] (noted s) u"
      using logged_trans [OF lx] cl True by (simp add: u)
    from logged_recv [OF this] show ?thesis
      using True cl sa w by (simp add: u t n_def)
  next
    case False
    have "logged [Udp a port (ack_packet n)] (noted s) u"
      using lx False by (simp add: u logged_def)
    from logged_recv [OF this] show ?thesis
      using False sa w s by (simp add: u t writing_def same_session_def n_def)
  qed
qed

text \<open>A repeated block is acknowledged again and not stored again.\<close>

lemma writing_repeat:
  fixes bs :: "byte list"
  assumes wr: "writing c view a port name old got i s"
  defines "t \<equiv> exec (tftp_recv L [data_packet (of_nat i) bs] a port) s"
  shows "logged [Udp a port (ack_packet (of_nat i))] s t \<and> writing c view a port name old got i t \<and>
    disk (t_world t) = disk (t_world s)"
proof -
  define n :: u16 where "n = of_nat i"
  let ?p = "[data_packet n bs]"
  obtain h where s: "t_ctx s = Some c" "t_handle s = Some h" "mode_write s = 1" "t_addr s = a" "t_port s = port"
    "t_blknum s = n + 1"
    using wr by (auto simp: writing_def n_def)
  define u where "u = exec (recv_data L ?p a port) (noted s)"
  have t: "t = u\<lparr>t_log := t_log u @ [Pfree]\<rparr>"
    using s exec_tftp_recv [of s a port L TFTP_DATA n bs]
    by (simp add: t_def u_def data_packet_def foreign_def opcodes Let_def n_def)
  have u: "u = exec (send_ack L n) (noted s)"
    using s by (simp add: u_def recv_data_def run_simps)
  note sa = ack_sends [of "noted s" n, folded u]
  have "logged [Udp a port (ack_packet n)] s t"
    unfolding t using sa s by (intro logged_recv) simp
  then show ?thesis
    using sa wr by (simp add: t n_def writing_def same_session_def)
qed

lemma writing_repeats:
  fixes bs :: "byte list" and r :: nat
  assumes "writing c view a port name old got i s"
  defines "t \<equiv> exec (for_each (\<lambda>(n, bs). tftp_recv L [data_packet n bs] a port) (replicate r (of_nat i, bs))) s"
  shows "logged (replicate r (Udp a port (ack_packet (of_nat i)))) s t \<and>
    writing c view a port name old got i t \<and> disk (t_world t) = disk (t_world s)"
  using assms(1) unfolding t_def
proof (induction r arbitrary: s)
  case 0
  then show ?case by (simp add: run_simps logged_def)
next
  case (Suc r)
  let ?u = "exec (tftp_recv L [data_packet (of_nat i) bs] a port) s"
  note u = writing_repeat [OF Suc.prems, of bs]
  from u have wu: "writing c view a port name old got i ?u" by blast
  note IH = Suc.IH [OF wu]
  from logged_trans [OF u [THEN conjunct1] IH [THEN conjunct1]] IH u show ?case
    by (simp add: run_simps)
qed

lemma writing_upload:
  assumes "writing c view a port name old got i s" and "\<forall>(bs, r) \<in> set blocks. length bs = TFTP_MAX_PAYLOAD_SIZE"
  defines "t \<equiv> exec (for_each (\<lambda>(n, bs). tftp_recv L [data_packet n bs] a port) (upload i blocks)) s"
  shows "logged (map (\<lambda>(n, bs). Udp a port (ack_packet n)) (upload i blocks)) s t \<and>
    writing c view a port name old (got @ concat (map fst blocks)) (i + length blocks) t \<and>
    disk (t_world t) = disk (t_world s)"
  using assms(1,2) unfolding t_def
proof (induction blocks arbitrary: i got s)
  case Nil
  then show ?case by (simp add: run_simps logged_def)
next
  case (Cons b blocks)
  obtain bs r where b: "b = (bs, r)" by force
  let ?f = "\<lambda>(n, bs). tftp_recv L [data_packet n bs] a port"
  let ?u = "exec (tftp_recv L [data_packet (of_nat (Suc i)) bs] a port) s"
  let ?v = "exec (for_each ?f (replicate r (of_nat (Suc i), bs))) ?u"
  have u: "logged [Udp a port (ack_packet (of_nat (Suc i)))] s ?u"
    "writing c view a port name old (got @ bs) (Suc i) ?u" "disk (t_world ?u) = disk (t_world s)"
    using writing_block [OF Cons.prems(1), of bs] Cons.prems(2) b by simp_all
  note v = writing_repeats [OF u(2), of r bs]
  have wv: "writing c view a port name old (got @ bs) (Suc i) ?v" using v by blast
  have IH: "logged (map (\<lambda>(n, bs). Udp a port (ack_packet n)) (upload (Suc i) blocks)) ?v
      (exec (for_each ?f (upload (Suc i) blocks)) ?v)"
    "writing c view a port name old ((got @ bs) @ concat (map fst blocks)) (Suc i + length blocks)
      (exec (for_each ?f (upload (Suc i) blocks)) ?v)"
    "disk (t_world (exec (for_each ?f (upload (Suc i) blocks)) ?v)) = disk (t_world ?v)"
    using Cons.IH [OF wv] Cons.prems(2) by simp_all
  have "exec (for_each ?f (upload i (b # blocks))) s = exec (for_each ?f (upload (Suc i) blocks)) ?v"
    by (simp add: b run_simps)
  then show ?case
    using logged_trans [OF logged_trans [OF u(1) v [THEN conjunct1]] IH(1)] IH(2,3) v u(3)
    by (simp add: b map_replicate_const del: of_nat_Suc)
qed

lemma write_transfer:
  assumes "t_ctx s = Some c" and "t_handle s = None" and "\<not> foreign s a port" and "valid_name name"
    and "\<forall>(bs, r) \<in> set blocks. length bs = TFTP_MAX_PAYLOAD_SIZE" and "length final < TFTP_MAX_PAYLOAD_SIZE"
  defines "old \<equiv> case disk (t_world s) name of None \<Rightarrow> [] | Some cont \<Rightarrow> cont"
  defines "packets \<equiv> upload 0 blocks @ [(of_nat (Suc (length blocks)), final)]"
  defines "t \<equiv> exec (do {
      tftp_recv L [request_packet TFTP_WRQ name] a port;
      for_each (\<lambda>(n, bs). tftp_recv L [data_packet n bs] a port) packets }) s"
  shows "logged (Udp a port (ack_packet 0) # map (\<lambda>(n, bs). Udp a port (ack_packet n)) packets) s t \<and>
    t_handle t = None \<and> t_addr t = 0 \<and> t_port t = 0 \<and>
    disk (t_world t) = (disk (t_world s))(name \<mapsto> store_at 0 (concat (map fst blocks) @ final) old)"
proof -
  let ?f = "\<lambda>(n, bs). tftp_recv L [data_packet n bs] a port"
  let ?u = "exec (tftp_recv L [request_packet TFTP_WRQ name] a port) s"
  let ?v = "exec (for_each ?f (upload 0 blocks)) ?u"
  have u: "writing c view a port name old [] 0 ?u" "logged [Udp a port (ack_packet 0)] s ?u"
    "disk (t_world ?u) = (disk (t_world s))(name \<mapsto> old)"
    using write_starts [OF assms(1-4)] by (simp_all add: old_def)
  have v: "logged (map (\<lambda>(n, bs). Udp a port (ack_packet n)) (upload 0 blocks)) ?u ?v"
    "writing c view a port name old (concat (map fst blocks)) (length blocks) ?v"
    "disk (t_world ?v) = disk (t_world ?u)"
    using writing_upload [OF u(1) assms(5)] by simp_all
  have "t = exec (tftp_recv L [data_packet (of_nat (Suc (length blocks))) final] a port) ?v"
    by (simp add: t_def packets_def run_simps)
  with writing_block [OF v(2), of final] assms(6) v(3) u(3)
  have t: "logged [Udp a port (ack_packet (of_nat (Suc (length blocks))))] ?v t" "t_handle t = None"
    "t_addr t = 0" "t_port t = 0"
    "disk (t_world t) = (disk (t_world s))(name \<mapsto> store_at 0 (concat (map fst blocks) @ final) old)"
    by simp_all
  from logged_trans [OF logged_trans [OF u(2) v(1)] t(1)] t(2-5) show ?thesis
    by (simp add: packets_def)
qed

end

section \<open>Reading and writing a file\<close>

lemma concat_chunks: "concat (map (chunk cont) [0..<Suc (length cont div TFTP_MAX_PAYLOAD_SIZE)]) = cont"
proof -
  have "concat (map (chunk cont) [0..<k]) = take (TFTP_MAX_PAYLOAD_SIZE * k) cont" for k
    by (induction k) (simp_all add: chunk_def take_add [symmetric] add.commute)
  moreover have "length cont \<le> TFTP_MAX_PAYLOAD_SIZE * Suc (length cont div TFTP_MAX_PAYLOAD_SIZE)"
    by (simp add: TFTP_MAX_PAYLOAD_SIZE_def)
  ultimately show ?thesis by (simp only: take_all)
qed

text \<open>
  C11. Reading a file over TFTP. When the server is idle and a client asks for a file of the SD
  card and acknowledges each block, the server sends the file in blocks of 512 bytes numbered
  from 1 (modulo 65536, so the file may be of any size), the last one shorter and possibly
  empty, and nothing else; joined together the blocks are the file. After the last
  acknowledgement the file is closed, the card as before and the server free for the next
  client.
\<close>

theorem tftp_read_transfer:
  fixes s :: "('w, fil) tftp_state" and L :: "'w lwip" and a :: u32 and port :: u16 and name :: "byte list"
  assumes "sd_card F disk view" and "lwip_works L disk view"
    and "t_ctx s = Some (ctxt F)" and "t_handle s = None" and "t_addr s = 0" and "t_port s = 0"
    and "valid_name name" and "disk (t_world s) name = Some cont"
  defines "m \<equiv> length cont div TFTP_MAX_PAYLOAD_SIZE"
  defines "t \<equiv> exec (do {
      tftp_recv L [request_packet TFTP_RRQ name] a port;
      for_each (\<lambda>i. tftp_recv L [ack_packet (of_nat i)] a port) [1..<Suc (Suc m)] }) s"
  shows "logged (map (\<lambda>i. Udp a port (data_packet (of_nat (Suc i)) (chunk cont i))) [0..<Suc m]) s t \<and>
    concat (map (chunk cont) [0..<Suc m]) = cont \<and> t_handle t = None \<and> t_addr t = 0 \<and> t_port t = 0 \<and>
    disk (t_world t) = disk (t_world s)"
proof -
  have "\<not> foreign s a port" using assms(5,6) by (simp add: foreign_def)
  with tftp_server.read_transfer [OF tftp_server.intro [OF sd_card.provides [OF assms(1)] assms(2)] assms(3,4) _ assms(7,8), of a port]
  show ?thesis unfolding m_def t_def using concat_chunks [of cont] by blast
qed

text \<open>
  C12. Writing a file over TFTP. When the server is idle and a client sends a file block by
  block, each acknowledgement is the one of the block it answers, a block that the client sends
  again is acknowledged again but stored only once, and after the final short block the file on
  the card holds exactly the bytes sent, followed by what the old file held beyond that
  length: an existing longer file is overwritten, not replaced.
\<close>

theorem tftp_write_transfer:
  fixes s :: "('w, fil) tftp_state" and L :: "'w lwip" and a :: u32 and port :: u16 and name :: "byte list"
  assumes "sd_card F disk view" and "lwip_works L disk view"
    and "t_ctx s = Some (ctxt F)" and "t_handle s = None" and "t_addr s = 0" and "t_port s = 0"
    and "valid_name name" and "\<forall>(bs, r) \<in> set blocks. length bs = TFTP_MAX_PAYLOAD_SIZE"
    and "length final < TFTP_MAX_PAYLOAD_SIZE"
  defines "sent_bytes \<equiv> concat (map fst blocks) @ final"
  defines "packets \<equiv> upload 0 blocks @ [(of_nat (Suc (length blocks)), final)]"
  defines "t \<equiv> exec (do {
      tftp_recv L [request_packet TFTP_WRQ name] a port;
      for_each (\<lambda>(n, bs). tftp_recv L [data_packet n bs] a port) packets }) s"
  shows "logged (Udp a port (ack_packet 0) # map (\<lambda>(n, bs). Udp a port (ack_packet n)) packets) s t \<and>
    t_handle t = None \<and> t_addr t = 0 \<and> t_port t = 0 \<and>
    disk (t_world t) = (disk (t_world s))(name \<mapsto>
      (case disk (t_world s) name of None \<Rightarrow> sent_bytes
       | Some old \<Rightarrow> sent_bytes @ drop (length sent_bytes) old))"
proof -
  have "\<not> foreign s a port" using assms(5,6) by (simp add: foreign_def)
  with tftp_server.write_transfer [OF tftp_server.intro [OF sd_card.provides [OF assms(1)] assms(2)] assms(3,4) _ assms(7,8,9), of a port]
  show ?thesis unfolding packets_def t_def sent_bytes_def
    by (cases "disk (t_world s) name") (simp_all add: store_at_def)
qed

section \<open>A client that falls silent\<close>

text \<open>A transfer whose client has been silent for \<open>j\<close> timer periods.\<close>

definition silent_for :: "nat \<Rightarrow> ('w, 'h) tftp_state \<Rightarrow> ('w, 'h) tftp_state \<Rightarrow> bool" where
  "silent_for j s t \<longleftrightarrow> same_session s t \<and> last_data t = last_data s \<and> last_pkt t = last_pkt s \<and>
     t_timer t = last_pkt s + int j \<and> t_retries t = of_nat (j - 10)"

context lwip_works
begin

lemma tmr_quiet:
  fixes s t :: "('w, 'h) tftp_state"
  assumes "silent_for j s t" and "t_handle s \<noteq> None" and "j < 10" and "last_pkt s + int j < INT_MAX"
  shows "silent_for (Suc j) s (exec (tftp_tmr L) t) \<and> logged [] t (exec (tftp_tmr L) t)"
  using assms
  by (auto simp: tftp_tmr_def run_simps silent_for_def same_session_def logged_def
      TFTP_TIMEOUT_MSECS_def TFTP_TIMER_MSECS_def)

lemma resend_frame:
  fixes s :: "('w, 'h) tftp_state"
  assumes "last_data s = Some bs"
  shows "exec (resend_data L) s = s\<lparr>t_world := t_world (exec (resend_data L) s), t_log := t_log (exec (resend_data L) s)\<rparr>"
    and "logged [Udp (t_addr s) (t_port s) bs] s (exec (resend_data L) s)"
  using assms by (simp_all add: resend_data_def run_simps alloc_ok copy_ok logged_def)

lemma resend_retries: "t_retries (exec (resend_data L) s) = t_retries s"
  by (auto simp: resend_data_def run_simps split: option.split)

lemma tmr_retries:
  fixes s t :: "('w, 'h) tftp_state"
  assumes st: "silent_for j s t" and h: "t_handle s \<noteq> None" and j: "10 \<le> j" "j < 15" and "last_pkt s + int j < INT_MAX"
    and d: "last_data s = Some bs"
  shows "silent_for (Suc j) s (exec (tftp_tmr L) t) \<and> logged [Udp (t_addr s) (t_port s) bs] t (exec (tftp_tmr L) t)"
proof -
  let ?x = "t\<lparr>t_timer := t_timer t + 1, t_world := sys_timeout L TFTP_TIMER_MSECS (t_world t),
     t_log := t_log t @ [Expired, Timeout]\<rparr>"
  have few: "(of_nat i :: u8) < TFTP_MAX_RETRIES" if "i < 5" for i
    using that by (simp add: TFTP_MAX_RETRIES_def word_less_nat_alt unat_of_nat take_bit_eq_mod)
  have "j - 10 < 5" using j by simp
  from few [OF this] have e: "exec (tftp_tmr L) t = (exec (resend_data L) ?x)\<lparr>t_retries := t_retries t + 1\<rparr>"
    using assms
    by (auto simp: tftp_tmr_def run_simps silent_for_def same_session_def resend_retries TFTP_TIMEOUT_MSECS_def TFTP_TIMER_MSECS_def)
  have x: "last_data ?x = Some bs" using st d by (simp add: silent_for_def)
  have r: "of_nat (Suc j - 10) = (of_nat (j - 10) + 1 :: u8)" using j(1) by (simp add: Suc_diff_le)
  have "silent_for (Suc j) s (y\<lparr>t_retries := t_retries t + 1\<rparr>)" if "y = ?x\<lparr>t_world := w, t_log := l\<rparr>" for y w l
    using that st r by (simp add: silent_for_def same_session_def)
  from this [OF resend_frame(1) [OF x]] have "silent_for (Suc j) s (exec (tftp_tmr L) t)"
    unfolding e .
  moreover have "logged [Udp (t_addr s) (t_port s) bs] t (exec (tftp_tmr L) t)"
    unfolding e using resend_frame(2) [OF x] st
    by (auto simp: logged_def silent_for_def same_session_def)
  ultimately show ?thesis ..
qed

lemma tmr_gives_up:
  fixes s t :: "('w, 'h) tftp_state"
  assumes "silent_for j s t" and "t_handle s \<noteq> None" and "j = (if last_data s = None then 10 else 15)"
    and "last_pkt s + int j < INT_MAX" and "t_ctx s \<noteq> None"
  shows "t_handle (exec (tftp_tmr L) t) = None \<and> logged [] t (exec (tftp_tmr L) t)"
proof -
  have r: "last_data s \<noteq> None \<longrightarrow> \<not> (of_nat (j - 10) :: u8) < TFTP_MAX_RETRIES"
    using assms(3) by (auto simp: TFTP_MAX_RETRIES_def)
  have "exec (tftp_tmr L) t = exec (close_handle L) (t\<lparr>t_timer := t_timer t + 1,
      t_world := sys_timeout L TFTP_TIMER_MSECS (t_world t), t_log := t_log t @ [Expired, Timeout]\<rparr>)"
    using assms r
    by (auto simp: tftp_tmr_def run_simps silent_for_def same_session_def TFTP_TIMEOUT_MSECS_def TFTP_TIMER_MSECS_def split: if_splits)
  then show ?thesis
    using assms
    by (auto simp: close_handle_def run_simps silent_for_def same_session_def exec_ctx_call logged_def split: option.splits)
qed

lemma silent_run:
  fixes s :: "('w, 'h) tftp_state"
  assumes "t_handle s \<noteq> None" and "t_timer s = last_pkt s" and "t_retries s = 0" and "t_timer s + 16 \<le> INT_MAX"
    and "n \<le> (if last_data s = None then 10 else 15)"
  defines "t \<equiv> exec (for_each (\<lambda>_. tftp_tmr L) [0..<n]) s"
  shows "silent_for n s t \<and> logged (replicate (n - 10) (Udp (t_addr s) (t_port s) (the (last_data s)))) s t"
  using assms(5) unfolding t_def
proof (induction n)
  case 0
  then show ?case using assms(2,3) by (simp add: run_simps silent_for_def same_session_def logged_def)
next
  case (Suc n)
  let ?t = "exec (for_each (\<lambda>_. tftp_tmr L) [0..<n]) s"
  let ?u = "Udp (t_addr s) (t_port s) (the (last_data s))"
  have IH: "silent_for n s ?t" "logged (replicate (n - 10) ?u) s ?t" using Suc by simp_all
  have fine: "last_pkt s + int n < INT_MAX" using assms(2,4) Suc.prems by (simp split: if_splits)
  have e: "exec (for_each (\<lambda>_. tftp_tmr L) [0..<Suc n]) s = exec (tftp_tmr L) ?t" by (simp add: run_simps)
  show ?case
  proof (cases "n < 10")
    case True
    with tmr_quiet [OF IH(1) assms(1) _ fine] logged_trans [OF IH(2)] show ?thesis
      unfolding e by fastforce
  next
    case False
    then obtain bs where d: "last_data s = Some bs" and n: "10 \<le> n" "n < 15"
      using Suc.prems by (cases "last_data s") auto
    have "replicate (Suc n - 10) ?u = replicate (n - 10) ?u @ [?u]"
      unfolding Suc_diff_le [OF n(1)] replicate_Suc by (simp only: replicate_append_same)
    with tmr_retries [OF IH(1) assms(1) n fine d] logged_trans [OF IH(2)] show ?thesis
      unfolding e by (metis d option.sel)
  qed
qed

end

text \<open>
  C39. A client that falls silent does not hold the server. After the last datagram of the client
  the server stays quiet for ten timer periods, then repeats the last block once per period, five
  times (a write transfer has no block to repeat), and gives the transfer up exactly at the
  next period: the file is closed.
\<close>

theorem tftp_silent_client:
  fixes s :: "('w, 'h) tftp_state" and L :: "'w lwip"
  assumes "lwip_works L disk view" and "t_ctx s \<noteq> None" and "t_handle s \<noteq> None" and "t_timer s = last_pkt s"
    and "t_retries s = 0" and "t_timer s + 16 \<le> INT_MAX"
  defines "limit \<equiv> if last_data s = None then 10 else 15"
    and "repeats \<equiv> \<lambda>n. replicate (n - 10) (Udp (t_addr s) (t_port s) (the (last_data s)))"
    and "after \<equiv> \<lambda>n. exec (for_each (\<lambda>_. tftp_tmr L) [0..<n]) s"
  shows "(\<forall>n \<le> limit. t_handle (after n) = t_handle s \<and> logged (repeats n) s (after n)) \<and>
    t_handle (after (Suc limit)) = None \<and> logged (repeats limit) s (after (Suc limit))"
proof -
  have run: "silent_for n s (after n) \<and> logged (repeats n) s (after n)" if "n \<le> limit" for n
    using lwip_works.silent_run [OF assms(1,3-6), of n] that by (simp add: limit_def after_def repeats_def)
  have "last_pkt s + int limit < INT_MAX" using assms(4,6) by (simp add: limit_def)
  with lwip_works.tmr_gives_up [OF assms(1) run [OF order_refl, THEN conjunct1] assms(3) _ _ assms(2)]
  have e: "t_handle (after (Suc limit)) = None" "logged [] (after limit) (after (Suc limit))"
    by (simp_all add: limit_def after_def run_simps)
  have "logged (repeats limit) s (after (Suc limit))"
    using logged_trans [OF run [OF order_refl, THEN conjunct2] e(2)] by simp
  with e(1) run show ?thesis by (simp add: silent_for_def same_session_def)
qed

end
