(* ===== verification/Tftp_Safety.thy ===== *)
theory Tftp_Safety
  imports Tftp_Transfer
begin

text \<open>
  The TFTP server stays within its buffers: over all runs it neither overruns the two string
  arrays of a request nor reads an unterminated string, uses no null pointer and fills no block
  beyond its size, provided datagrams have at least the four bytes of a header.
\<close>

definition sound :: "'w fatfs \<Rightarrow> ('w, fil) tftp_state \<Rightarrow> bool" where
  "sound F s \<longleftrightarrow> t_ctx s = Some (ctxt F) \<and> Bad \<notin> set (t_log s)"

text \<open>The file system never delivers more bytes than it was asked for.\<close>

definition reads_at_most :: "'w fatfs \<Rightarrow> bool" where
  "reads_at_most F \<longleftrightarrow> (\<forall>n w. length (snd (fst (f_read F n w))) \<le> n)"

lemma sound_send_error: "sound F s \<Longrightarrow> sound F (exec (send_error L a port c str) s)"
  by (simp add: sound_def send_error_def run_simps)

lemma sound_send_ack: "sound F s \<Longrightarrow> sound F (exec (send_ack L n) s)"
  by (simp add: sound_def send_ack_def run_simps)

lemma sound_resend_data: "sound F s \<Longrightarrow> last_data s \<noteq> None \<Longrightarrow> sound F (exec (resend_data L) s)"
  by (auto simp: sound_def resend_data_def run_simps split: if_splits)

lemma sound_close_handle: "sound F s \<Longrightarrow> sound F (exec (close_handle L) s)"
  by (auto simp: sound_def close_handle_def run_simps exec_ctx_call split: option.split)

lemma sound_fill_data:
  assumes "reads_at_most F" and "sound F s" and "t_handle s \<noteq> None"
  shows "sound F (exec fill_data s)"
proof -
  obtain res bs w where r: "f_read F TFTP_MAX_PAYLOAD_SIZE (t_world s) = ((res, bs), w)" by (metis prod.collapse)
  have "length (snd (fst (f_read F TFTP_MAX_PAYLOAD_SIZE (t_world s)))) \<le> TFTP_MAX_PAYLOAD_SIZE"
    using assms(1) by (simp add: reads_at_most_def)
  with r have "\<not> TFTP_MAX_PAYLOAD_SIZE < length bs" by simp
  with assms(2,3) r show ?thesis
    by (auto simp: sound_def fill_data_def run_simps exec_ctx_call result_ctx_call ctxt_def tftp_sdcard_read_def
        split_beta)
qed

lemma sound_send_data:
  assumes "reads_at_most F" and "sound F s" and "t_handle s \<noteq> None"
  shows "sound F (exec (send_data L) s)"
proof -
  have free: "sound F (last_freed s)" using assms(2) by (simp add: sound_def last_freed_def)
  then have f: "sound F (exec fill_data ((last_freed s)\<lparr>t_world := w, t_log := t_log (last_freed s) @ [Palloc]\<rparr>))" for w
    using assms(1,3) by (intro sound_fill_data) (simp_all add: sound_def)
  show ?thesis
    unfolding exec_send_data
    using f free fill_data_keeps(5)
    by (auto intro!: sound_close_handle sound_send_error sound_resend_data) (simp_all add: sound_def)
qed

lemma sound_open_file:
  assumes "reads_at_most F" and "sound F s" and "t_handle s = None"
  shows "sound F (exec (open_file L opcode f m a port) s)"
  using assms
  by (auto simp: open_file_def run_simps intro!: sound_send_data sound_send_error sound_send_ack)
    (auto simp: sound_def exec_ctx_call result_ctx_call)

text \<open>
  The two guards of a request: what passes them is a terminated string that fits.
\<close>

lemma find_zero_found:
  assumes "find_zero bs off \<noteq> 0xFFFF" and "length bs < 0xFFFF"
  shows "off \<le> unat (find_zero bs off) \<and> unat (find_zero bs off) < length bs \<and> bs ! unat (find_zero bs off) = 0"
proof -
  let ?i = "off + length (takeWhile (\<lambda>b. b \<noteq> 0) (drop off bs))"
  have i: "?i < length bs" "find_zero bs off = of_nat ?i"
    using assms(1) by (auto simp: find_zero_def Let_def split: if_splits)
  then have "length (takeWhile (\<lambda>b. b \<noteq> 0) (drop off bs)) < length (drop off bs)" by simp
  from nth_length_takeWhile [OF this] have "bs ! ?i = 0" using i by simp
  moreover have "unat (of_nat ?i :: u16) = ?i"
    using i(1) assms(2) by (simp only: unat_of_nat take_bit_eq_mod) simp
  ultimately show ?thesis using i by (simp only: i(2)) simp
qed

lemma zero_copied:
  assumes "off \<le> i" and "i < length bs" and "bs ! i = 0"
  shows "0 \<in> set (take (Suc i - off) (drop off bs))"
proof -
  have "take (Suc i - off) (drop off bs) ! (i - off) = 0" using assms by simp
  moreover have "i - off < length (take (Suc i - off) (drop off bs))" using assms by simp
  ultimately show ?thesis by (metis nth_mem)
qed

context pbuf_laws
begin

lemma copied_string:
  assumes "tot_len p < 0xFFFF" and "pbuf_memfind L p 0 off = fin" and "fin \<noteq> 0xFFFF"
    and "unat n = Suc (unat fin) - unat off" and "unat n \<le> cap"
  shows "exec (copy_string L cap p n off) s = s"
proof -
  have e: "fin = find_zero (concat p) (unat off)" using assms(1,2) memfind by metis
  have "length (concat p) < 0xFFFF" using assms(1) by (simp add: tot_len_concat)
  from find_zero_found [OF _ this, of "unat off"] assms(3) e
  have "unat off \<le> unat fin" "unat fin < length (concat p)" "concat p ! unat fin = 0" by auto
  from zero_copied [OF this] have "0 \<in> set (pbuf_copy_partial L p n off)"
    by (simp add: copy_partial assms(4))
  moreover have "length (pbuf_copy_partial L p n off) \<le> cap"
    using assms(5) by (simp add: copy_partial)
  ultimately show ?thesis by (simp add: exec_copy_string overwrite_def)
qed

lemma unat_diff_le: "unat ((x :: u16) - y) = unat x - unat y" if "unat y \<le> unat x"
  using that by (simp add: unat_sub word_le_nat_alt)

lemma sound_recv_request:
  assumes "reads_at_most F" and "sound F s" and tot: "tot_len p < 0xFFFF"
  shows "sound F (exec (recv_request L opcode p a port) s)"
proof -
  define fin where "fin = pbuf_memfind L p 0 2"
  define fin' where "fin' = pbuf_memfind L p 0 (fin + 1)"
  let ?s = "exec (start_timer L) s"
  have st: "sound F ?s" "t_handle ?s = t_handle s" using assms(2) by (simp_all add: sound_def run_simps)
  have len: "length (concat p) < 0xFFFF" using tot by (simp add: tot_len_concat)
  have name: "exec (copy_string L (TFTP_MAX_FILENAME_LEN + 1) p (fin - 1) 2) x = x" "2 \<le> unat fin" "unat fin \<le> 22"
    if g: "unat (fin - 1) \<le> TFTP_MAX_FILENAME_LEN + 1" for x :: "('w, fil) tftp_state"
  proof -
    have f: "fin \<noteq> 0xFFFF" using g by (auto simp: TFTP_MAX_FILENAME_LEN_def)
    then show two: "2 \<le> unat fin"
      using find_zero_found [OF _ len, of 2] memfind [OF tot, of 2] by (simp add: fin_def)
    then have u: "unat (fin - 1) = unat fin - 1" using unat_diff_le [of 1 fin] by simp
    then show "unat fin \<le> 22" using g by (simp add: TFTP_MAX_FILENAME_LEN_def)
    show "exec (copy_string L (TFTP_MAX_FILENAME_LEN + 1) p (fin - 1) 2) x = x"
      using u two g by (intro copied_string [OF tot fin_def [symmetric] f]) simp_all
  qed
  have mode: "exec (copy_string L (TFTP_MAX_MODE_LEN + 1) p (fin' - fin) (fin + 1)) x = x"
    if g: "unat (fin - 1) \<le> TFTP_MAX_FILENAME_LEN + 1" and g': "unat (fin' - fin) \<le> TFTP_MAX_MODE_LEN + 1"
    for x :: "('w, fil) tftp_state"
  proof -
    note fin = name(2,3) [OF g]
    have f1: "unat (fin + 1) = Suc (unat fin)" using fin by (simp add: unat_word_ariths)
    have f: "fin' \<noteq> 0xFFFF"
    proof
      assume "fin' = 0xFFFF"
      then have "unat (fin' - fin) = 65535 - unat fin" using unat_diff_le [of fin fin'] fin by simp
      then show False using g' fin by (simp add: TFTP_MAX_MODE_LEN_def)
    qed
    then have "unat (fin + 1) \<le> unat fin'"
      using find_zero_found [OF _ len, of "unat (fin + 1)"] memfind [OF tot, of "fin + 1"] by (simp add: fin'_def)
    then have "unat (fin' - fin) = Suc (unat fin') - unat (fin + 1)"
      using unat_diff_le [of fin fin'] f1 by simp
    then show ?thesis
      using g' by (intro copied_string [OF tot fin'_def [symmetric] f]) simp_all
  qed
  show ?thesis
    using assms(2) st name(1) mode
    unfolding recv_request_def
    by (auto simp: exec_bind result_bind exec_gets result_gets Let_def fin_def [symmetric] fin'_def [symmetric] not_less
        intro!: sound_send_error sound_open_file [OF assms(1)])
qed

lemma sound_recv_data:
  assumes "sound F s" and "p \<noteq> []" and "4 \<le> length (hd p)"
  shows "sound F (exec (recv_data L p a port) s)"
proof -
  have sb: "exec (sbuf L p (Suc 0)) x = x" for x :: "('w, fil) tftp_state"
    using assms(2,3) by (simp add: exec_sbuf)
  have ctx: "sound F (exec (ctx_call d f) s)" for d :: int and f
    using assms(1) by (simp add: sound_def exec_ctx_call)
  have upd: "sound F x \<Longrightarrow> sound F (x\<lparr>t_blknum := n\<rparr>)" for x n by (simp add: sound_def)
  show ?thesis
    using assms(1)
    by (auto simp: recv_data_def run_simps sb Let_def intro!: upd sound_send_error sound_send_ack sound_close_handle ctx
        split: option.splits)
qed

lemma sound_recv_ack:
  assumes "reads_at_most F" and "sound F s" and "p \<noteq> []" and "4 \<le> length (hd p)"
  shows "sound F (exec (recv_ack L p a port) s)"
proof -
  have sb: "exec (sbuf L p (Suc 0)) x = x" for x :: "('w, fil) tftp_state"
    using assms(3,4) by (simp add: exec_sbuf)
  have upd: "sound F x \<Longrightarrow> sound F (x\<lparr>t_blknum := n\<rparr>)" for x n by (simp add: sound_def)
  show ?thesis
    using assms(2)
    by (auto simp: recv_ack_def run_simps sb Let_def
        intro!: upd sound_send_error sound_close_handle sound_send_data [OF assms(1)])
qed

lemma sound_tftp_recv:
  assumes "reads_at_most F" and "sound F s" and "p \<noteq> []" and "4 \<le> length (hd p)" and "tot_len p < 0xFFFF"
  shows "sound F (exec (tftp_recv L p a port) s)"
proof -
  have sb: "exec (sbuf L p 0) x = x" for x :: "('w, fil) tftp_state"
    using assms(3,4) by (simp add: exec_sbuf)
  have upd: "sound F x \<Longrightarrow> sound F (x\<lparr>last_pkt := n, t_retries := r\<rparr>)" for x n r by (simp add: sound_def)
  have log: "sound F x \<Longrightarrow> e \<noteq> Bad \<Longrightarrow> sound F (x\<lparr>t_log := t_log x @ [e]\<rparr>)" for x e by (simp add: sound_def)
  show ?thesis
    using assms(2)
    by (auto simp: tftp_recv_def run_simps sb
        intro!: log upd sound_send_error sound_recv_request sound_recv_data sound_recv_ack assms)
qed

end

lemma sound_tftp_tmr:
  assumes "sound F s" and "t_timer s \<noteq> INT_MAX"
  shows "sound F (exec (tftp_tmr L) s)"
proof -
  have upd: "sound F x \<Longrightarrow> sound F (x\<lparr>t_retries := r\<rparr>)" for x r by (simp add: sound_def)
  show ?thesis
    using assms
    by (auto simp: tftp_tmr_def run_simps intro!: upd sound_resend_data sound_close_handle)
      (auto simp: sound_def)
qed

section \<open>All runs\<close>

text \<open>The timer variable counts the calls of \<open>tftp_tmr\<close>.\<close>

definition clock :: "('w, 'h) tftp_state \<Rightarrow> int \<times> nat" where
  "clock s = (t_timer s, count_list (t_log s) Expired)"

lemma clock_emit: "e \<noteq> Expired \<Longrightarrow> state_io_rel (unchanged clock) (t_emit e)"
  by (rule io_of_exec) (simp add: run_simps unchanged_def clock_def)

lemma clock_world: "state_io_rel (unchanged clock) (on_world f)" "state_io_rel (unchanged clock) (act_world g)"
  by (rule io_of_exec, simp add: run_simps unchanged_def clock_def)+

lemma clock_modify:
  "(\<And>s. t_timer (f s) = t_timer s \<and> t_log (f s) = t_log s) \<Longrightarrow> state_io_rel (unchanged clock) (modify f)"
  by (rule io_of_exec) (simp add: run_simps unchanged_def clock_def)

lemmas tftp_code =
  tftp_recv_def recv_request_def open_file_def recv_data_def recv_ack_def send_data_def fill_data_def
  resend_data_def send_ack_def send_error_def close_handle_def copy_string_def sbuf_def start_timer_def
  ctx_call_def send_pbuf_def pbuf_new_def

lemma clock_tftp_recv: "state_io_rel (unchanged clock) (tftp_recv L p a port)"
  unfolding tftp_code
  by (intro frame.io_structure clock_emit clock_world clock_modify) simp_all

lemma clock_tftp_tmr:
  "t_timer (exec (tftp_tmr L) s) = t_timer s + 1 \<and>
   count_list (t_log (exec (tftp_tmr L) s)) Expired = Suc (count_list (t_log s) Expired)"
proof -
  let ?m = "do {
     h \<leftarrow> gets t_handle;
     if h = None then skip
     else do {
       start_timer L;
       late \<leftarrow> gets (\<lambda>s. t_timer s - last_pkt s > TFTP_TIMEOUT_MSECS div TFTP_TIMER_MSECS);
       if late then do {
         d \<leftarrow> gets last_data;
         n \<leftarrow> gets t_retries;
         if d \<noteq> None \<and> n < TFTP_MAX_RETRIES then do {
           resend_data L;
           modify (\<lambda>s. s\<lparr>t_retries := t_retries s + 1\<rparr>)
         }
         else close_handle L
       }
       else skip
     } }"
  have m: "state_io_rel (unchanged clock) ?m"
    unfolding tftp_code
    by (intro frame.io_structure clock_emit clock_world clock_modify) simp_all
  let ?s = "s\<lparr>t_log := t_log s @ (if t_timer s = INT_MAX then [Expired, Bad] else [Expired]), t_timer := t_timer s + 1\<rparr>"
  have "exec (tftp_tmr L) s = exec ?m ?s"
    unfolding tftp_tmr_def exec_bind by (simp add: exec_t_emit exec_modify exec_gets result_gets exec_skip)
  then show ?thesis using unchanged_exec [OF m, of ?s] by (simp add: clock_def)
qed

text \<open>
  C13. The TFTP server stays within its buffers. Whatever datagrams of at least four bytes arrive,
  with request strings of any length and with or without terminating zeros, however timers
  interleave, and whether or not allocations and file accesses succeed, no run (of less than
  68 years) overruns the file name or mode array or the block buffer, reads an unterminated
  string, or uses a null pointer.
\<close>

theorem tftp_stays_in_bounds:
  assumes "tftp_runs L F (\<lambda>p. p \<noteq> [] \<and> 4 \<le> length (hd p) \<and> tot_len p < 0xFFFF) s"
    and "pbuf_laws L" and "reads_at_most F"
    and "int (count_list (t_log s) Expired) \<le> INT_MAX"
  shows "Bad \<notin> set (t_log s)"
proof -
  from assms(1) have "t_timer s = int (count_list (t_log s) Expired) \<and>
    (int (count_list (t_log s) Expired) \<le> INT_MAX \<longrightarrow> sound F s)"
  proof induction
    case (start w)
    from tftp_prepare_started [OF start] obtain w' where
      "exec (tftp_prepare L F) (zeroed w) = (zeroed w')\<lparr>t_ctx := Some (ctxt F), t_upcb := True\<rparr>" ..
    then show ?case by (simp add: zeroed_def sound_def)
  next
    case (datagram s p a port)
    then show ?case
      using unchanged_exec [OF clock_tftp_recv, of L p a port s] pbuf_laws.sound_tftp_recv [OF assms(2,3)]
      by (simp add: clock_def)
  next
    case (timer s)
    then show ?case using clock_tftp_tmr [of L s] sound_tftp_tmr [of F s L] by simp
  next
    case (others s w)
    then show ?case by (simp add: sound_def)
  qed
  with assms(4) show ?thesis by (simp add: sound_def)
qed

end
