(* ===== verification/Tftp_Witnesses.thy ===== *)
theory Tftp_Witnesses
  imports Tftp_Safety
begin

text \<open>
  A card held in memory and a packet layer that works, on which the assumptions about the file
  system and lwIP hold, and the transfer theorems at concrete files.
\<close>

type_synonym mem = "(byte list \<Rightarrow> byte list option) \<times> (byte list \<times> byte list \<times> nat) option"

definition mem_open :: "byte list \<Rightarrow> fa_mode list \<Rightarrow> mem \<Rightarrow> FRESULT \<times> mem" where
  "mem_open name mode w = (case fst w name of
       Some cont \<Rightarrow> (FR_OK, fst w, Some (name, cont, 0))
     | None \<Rightarrow> if FA_OPEN_ALWAYS \<in> set mode then (FR_OK, (fst w)(name \<mapsto> []), Some (name, [], 0)) else (FR_ERR 4, w))"

definition mem_close :: "mem \<Rightarrow> FRESULT \<times> mem" where
  "mem_close w = (case snd w of None \<Rightarrow> (FR_ERR 9, w) | Some (name, cont, _) \<Rightarrow> (FR_OK, (fst w)(name \<mapsto> cont), None))"

definition mem_read :: "nat \<Rightarrow> mem \<Rightarrow> (FRESULT \<times> byte list) \<times> mem" where
  "mem_read n w = (case snd w of
       None \<Rightarrow> ((FR_ERR 9, []), w)
     | Some (name, cont, pos) \<Rightarrow>
         ((FR_OK, take n (drop pos cont)), fst w, Some (name, cont, pos + length (take n (drop pos cont)))))"

definition mem_write :: "byte list \<Rightarrow> mem \<Rightarrow> (FRESULT \<times> nat) \<times> mem" where
  "mem_write bs w = (case snd w of
       None \<Rightarrow> ((FR_ERR 9, 0), w)
     | Some (name, cont, pos) \<Rightarrow> ((FR_OK, length bs), fst w, Some (name, store_at pos bs cont, pos + length bs)))"

definition mem_fat :: "mem fatfs" where
  "mem_fat = \<lparr>f_open = mem_open, f_close = mem_close, f_read = mem_read, f_write = mem_write\<rparr>"

definition mem_lwip :: "mem lwip" where
  "mem_lwip = \<lparr>pbuf_alloc = \<lambda>_ w. (True, w), pbuf_copy = \<lambda>w. (True, w),
     pbuf_memfind = \<lambda>p b off. find_zero (concat p) (unat off),
     pbuf_copy_partial = \<lambda>p len off. take (unat len) (drop (unat off) (concat p)),
     pbuf_remove_header = \<lambda>p n. (case p of [] \<Rightarrow> [] | seg # rest \<Rightarrow> drop n seg # rest),
     pbuf_beyond = \<lambda>_ _. 0, lwip_stack = \<lambda>_ _. 1, udp_sendto = \<lambda>_ _ _ w. w, udp_new = \<lambda>w. (True, w),
     udp_bind = \<lambda>w. (True, w), udp_remove = \<lambda>w. w, sys_timeout = \<lambda>_ w. w, sys_untimeout = \<lambda>w. w\<rparr>"

interpretation mem: sd_card mem_fat fst snd
  by unfold_locales
    (auto simp: mem_fat_def mem_open_def mem_close_def mem_read_def mem_write_def split: option.splits)

interpretation mem_net: lwip_works mem_lwip fst snd
  by unfold_locales (simp_all add: mem_lwip_def)

interpretation mem_server: tftp_server "ctxt mem_fat" fst snd mem_lwip
  by unfold_locales

definition mem_idle :: "(byte list \<Rightarrow> byte list option) \<Rightarrow> (mem, fil) tftp_state" where
  "mem_idle d = (zeroed (d, None))\<lparr>t_ctx := Some (ctxt mem_fat), t_upcb := True\<rparr>"

lemma mem_idle_simps:
  "t_ctx (mem_idle d) = Some (ctxt mem_fat)" "t_handle (mem_idle d) = None" "t_addr (mem_idle d) = 0"
  "t_port (mem_idle d) = 0" "t_world (mem_idle d) = (d, None)" "t_log (mem_idle d) = []"
  by (simp_all add: mem_idle_def zeroed_def)

lemma mem_prepared: "exec (tftp_prepare mem_lwip mem_fat) (zeroed (d, None)) = mem_idle d"
  by (simp add: tftp_prepare_def tftp_init_def run_simps mem_lwip_def mem_idle_def zeroed_def)

text \<open>A file of 513 bytes goes out in two blocks.\<close>

theorem tftp_read_transfer_witness:
  "logged [Udp 7 1024 (data_packet 1 (replicate 512 5)), Udp 7 1024 (data_packet 2 [5])] (mem_idle [[65] \<mapsto> replicate 513 5])
     (exec (do {
       tftp_recv mem_lwip [request_packet TFTP_RRQ [65]] 7 1024;
       for_each (\<lambda>i. tftp_recv mem_lwip [ack_packet (of_nat i)] 7 1024) [1, 2] }) (mem_idle [[65] \<mapsto> replicate 513 5]))"
proof -
  have "[1..<Suc (Suc (513 div 512))] = [1, 2]" "[0..<Suc (513 div 512)] = [0, 1]" by (simp_all add: upt_rec)
  moreover have "chunk (replicate 513 5) 0 = replicate 512 5" "chunk (replicate 513 5) 1 = [5]"
    by (simp_all add: chunk_def TFTP_MAX_PAYLOAD_SIZE_def)
  ultimately show ?thesis
    using tftp_read_transfer [OF mem.sd_card_axioms mem_net.lwip_works_axioms, of "mem_idle [[65] \<mapsto> replicate 513 5]" "[65]"
        "replicate 513 5" 7 1024]
    by (simp add: mem_idle_simps valid_name_def TFTP_MAX_FILENAME_LEN_def TFTP_MAX_PAYLOAD_SIZE_def)
qed

text \<open>A short upload over a longer file leaves the end of the old one.\<close>

theorem tftp_write_transfer_witness:
  "fst (t_world (exec (do {
       tftp_recv mem_lwip [request_packet TFTP_WRQ [65]] 7 1024;
       for_each (\<lambda>(n, bs). tftp_recv mem_lwip [data_packet n bs] 7 1024)
         [(1, replicate 512 9), (1, replicate 512 9), (2, [8])] }) (mem_idle [[65] \<mapsto> replicate 515 5]))) [65] =
   Some (replicate 512 9 @ [8, 5, 5])"
proof -
  have "valid_name [65]" by (simp add: valid_name_def TFTP_MAX_FILENAME_LEN_def)
  moreover have "replicate 2 (5 :: byte) = [5, 5]" by (simp add: numeral_2_eq_2)
  ultimately show ?thesis
    using tftp_write_transfer [OF mem.sd_card_axioms mem_net.lwip_works_axioms, of "mem_idle [[65] \<mapsto> replicate 515 5]" "[65]"
        "[(replicate 512 9, 1)]" "[8]" 7 1024]
    by (simp add: mem_idle_simps TFTP_MAX_PAYLOAD_SIZE_def)
qed

text \<open>A request whose name has no end, from the first state of a run.\<close>

definition bad_request :: pbuf where
  "bad_request = [[0, 1, 65, 66]]"

lemma bad_request_run:
  "tftp_runs mem_lwip mem_fat (\<lambda>p. p \<noteq> [] \<and> 4 \<le> length (hd p) \<and> tot_len p < 0xFFFF)
     (exec (tftp_recv mem_lwip bad_request 7 1024) (mem_idle Map.empty))"
proof (rule tftp_runs.datagram)
  show "tftp_runs mem_lwip mem_fat (\<lambda>p. p \<noteq> [] \<and> 4 \<le> length (hd p) \<and> tot_len p < 0xFFFF) (mem_idle Map.empty)"
    using tftp_runs.start [of mem_lwip mem_fat "(Map.empty, None)"] by (simp only: mem_prepared) (simp add: mem_idle_def)
  show "bad_request \<noteq> [] \<and> 4 \<le> length (hd bad_request) \<and> tot_len bad_request < 0xFFFF"
    by (simp add: bad_request_def tot_len_def)
qed

theorem tftp_books_balance_witness:
  "live (t_log (exec (tftp_recv mem_lwip bad_request 7 1024) (mem_idle Map.empty))) =
     (if last_data (exec (tftp_recv mem_lwip bad_request 7 1024) (mem_idle Map.empty)) = None then 0 else 1)"
  using tftp_books_balance [OF bad_request_run] by blast

theorem tftp_stays_in_bounds_witness:
  "Bad \<notin> set (t_log (exec (tftp_recv mem_lwip bad_request 7 1024) (mem_idle Map.empty)))"
proof -
  have "count_list (t_log (exec (tftp_recv mem_lwip bad_request 7 1024) (mem_idle Map.empty))) Expired = 0"
    using unchanged_exec [OF clock_tftp_recv, of mem_lwip bad_request 7 1024 "mem_idle Map.empty"]
    by (simp add: clock_def mem_idle_simps)
  moreover have "reads_at_most mem_fat"
    by (simp add: reads_at_most_def mem_fat_def mem_read_def split: option.split)
  ultimately show ?thesis
    using tftp_stays_in_bounds [OF bad_request_run mem_net.pbuf_laws_axioms] by (simp add: INT_MAX_def)
qed

theorem tftp_silent_client_witness:
  "t_handle (exec (for_each (\<lambda>_. tftp_tmr mem_lwip) [0..<16])
     ((mem_idle Map.empty)\<lparr>t_handle := Some Fd, last_data := Some [0, 3, 0, 1]\<rparr>)) = None"
  using tftp_silent_client [OF mem_net.lwip_works_axioms,
      of "(mem_idle Map.empty)\<lparr>t_handle := Some Fd, last_data := Some [0, 3, 0, 1]\<rparr>"]
  by (simp add: mem_idle_def zeroed_def INT_MAX_def del: upt_Suc)

end
