(* ===== verification/I2c.thy ===== *)
theory I2c
  imports Control
begin

text \<open>
  The I2C devices (\<open>i2c.c\<close>): the programmable oscillator on bus 0 and the EEPROM on bus 1 that
  holds the MAC address and the settings of the hardware.

  The driver of the two bus controllers is a parameter \<open>I\<close>, with the delays of the operating
  system. The loops that wait for a bus to become idle poll without limit: \<open>poll_until\<close> is
  undefined (\<open>None\<close>) when they never end, and so are the operations that wait.
\<close>

datatype iic_bus = Iic0 | Iic1

record 'w i2c_driver =
  i2c_config :: "'w \<Rightarrow> 'w"
  i2c_busy :: "iic_bus \<Rightarrow> 'w \<Rightarrow> bool \<times> 'w"
  i2c_send :: "iic_bus \<Rightarrow> byte list \<Rightarrow> u8 \<Rightarrow> 'w \<Rightarrow> int \<times> 'w"
  i2c_recv :: "iic_bus \<Rightarrow> nat \<Rightarrow> u8 \<Rightarrow> 'w \<Rightarrow> (int \<times> byte list) \<times> 'w"
  task_delay :: "u32 \<Rightarrow> 'w \<Rightarrow> 'w"
  delay_us :: "u32 \<Rightarrow> 'w \<Rightarrow> 'w"

partial_function (option) poll_until :: "('w \<Rightarrow> bool \<times> 'w) \<Rightarrow> 'w \<Rightarrow> 'w option" where
  "poll_until busy w = (if fst (busy w) then poll_until busy (snd (busy w)) else Some (snd (busy w)))"

definition wait_until_idle ::
  "('w \<Rightarrow> bool \<times> 'w) \<Rightarrow> (('w, 'x) core_scheme, unit option) state" where
  "wait_until_idle busy = State (\<lambda>s. case poll_until busy (world s) of
     None \<Rightarrow> (None, s) | Some w \<Rightarrow> (Some (), s\<lparr>world := w\<rparr>))"

text \<open>Computations that may not return, in sequence.\<close>

definition and_then ::
  "('s, 'a option) state \<Rightarrow> ('a \<Rightarrow> ('s, 'b option) state) \<Rightarrow> ('s, 'b option) state" where
  "and_then m f = do { r \<leftarrow> m; case r of None \<Rightarrow> State_Monad.return None | Some a \<Rightarrow> f a }"

fun each_then :: "('a \<Rightarrow> ('s, 'b option) state) \<Rightarrow> 'a list \<Rightarrow> ('s, unit option) state" where
  "each_then f [] = State_Monad.return (Some ())"
| "each_then f (x # xs) = and_then (f x) (\<lambda>_. each_then f xs)"

section \<open>The two buses\<close>

definition init_i2c :: "'w i2c_driver \<Rightarrow> (('w, 'x) core_scheme, unit) state" where
  "init_i2c I = silently (i2c_config I)"

definition i2c0_write :: "'w i2c_driver \<Rightarrow> byte list \<Rightarrow> u8 \<Rightarrow> (('w, 'x) core_scheme, int option) state" where
  "i2c0_write I buf addr = and_then (wait_until_idle (i2c_busy I Iic0)) (\<lambda>_. do {
     status \<leftarrow> call (i2c_send I Iic0 buf addr) (\<lambda>_. []);
     State_Monad.return (Some status) })"

definition i2c0_read :: "'w i2c_driver \<Rightarrow> nat \<Rightarrow> u8 \<Rightarrow> (('w, 'x) core_scheme, (int \<times> byte list) option) state" where
  "i2c0_read I len addr = and_then (wait_until_idle (i2c_busy I Iic0)) (\<lambda>_. do {
     r \<leftarrow> call (i2c_recv I Iic0 len addr) (\<lambda>_. []);
     State_Monad.return (Some r) })"

definition i2c1_write :: "'w i2c_driver \<Rightarrow> byte list \<Rightarrow> u8 \<Rightarrow> (('w, 'x) core_scheme, int option) state" where
  "i2c1_write I buf addr = and_then (wait_until_idle (i2c_busy I Iic1)) (\<lambda>_. do {
     status \<leftarrow> call (i2c_send I Iic1 buf addr) (\<lambda>_. []);
     State_Monad.return (Some status) })"

definition i2c1_read :: "'w i2c_driver \<Rightarrow> nat \<Rightarrow> u8 \<Rightarrow> (('w, 'x) core_scheme, (int \<times> byte list) option) state" where
  "i2c1_read I len addr = and_then (wait_until_idle (i2c_busy I Iic1)) (\<lambda>_. do {
     r \<leftarrow> call (i2c_recv I Iic1 len addr) (\<lambda>_. []);
     State_Monad.return (Some r) })"

section \<open>The oscillator\<close>

definition si570_values :: "byte list list" where
  "si570_values = [[137, 0x10], [7, 0x00], [8, 0xC2], [9, 0xBB], [10, 0xBE], [11, 0x6E], [12, 0x69],
     [137, 0x0], [135, 0x40]]"

definition read_si570 :: "'w i2c_driver \<Rightarrow> (('w, 'x) core_scheme, unit option) state" where
  "read_si570 I = each_then (\<lambda>i.
     and_then (i2c0_write I [i + 7] 0x55) (\<lambda>_. i2c0_read I 1 0x55)) [0, 1, 2, 3, 4, 5]"

definition prog_si570 :: "'w i2c_driver \<Rightarrow> (('w, 'x) core_scheme, unit option) state" where
  "prog_si570 I = and_then (read_si570 I) (\<lambda>_.
     and_then (each_then (\<lambda>buf. i2c0_write I buf 0x55) si570_values) (\<lambda>_. read_si570 I))"

section \<open>The EEPROM\<close>

definition IIC_EEPROM_ADDR :: u8 where "IIC_EEPROM_ADDR = 0x50"
definition IIC_MAC_REG :: u8 where "IIC_MAC_REG = 0xFA"

text \<open>
  The caller's buffer is an argument and comes back with the bytes received in its first places:
  the status of a transfer is ignored, and what a failed one did not deliver stays as it was.
\<close>

definition i2c_get_mac_address ::
  "'w i2c_driver \<Rightarrow> byte list \<Rightarrow> (('w, 'x) core_scheme, byte list option) state" where
  "i2c_get_mac_address I mac = and_then (i2c1_write I [IIC_MAC_REG] IIC_EEPROM_ADDR) (\<lambda>_.
     and_then (i2c1_read I 6 IIC_EEPROM_ADDR) (\<lambda>(_, bs). State_Monad.return (Some (overwrite bs mac))))"

definition i2c_eeprom_writeBytes ::
  "'w i2c_driver \<Rightarrow> u8 \<Rightarrow> byte list \<Rightarrow> u8 \<Rightarrow> (('w, 'x) core_scheme, int option) state" where
  "i2c_eeprom_writeBytes I startAddr data len =
     i2c1_write I (take (unat (len + 1)) (startAddr # take (unat len) data)) IIC_EEPROM_ADDR"

definition i2c_eeprom_readBytes ::
  "'w i2c_driver \<Rightarrow> u8 \<Rightarrow> byte list \<Rightarrow> u8 \<Rightarrow> (('w, 'x) core_scheme, byte list option) state" where
  "i2c_eeprom_readBytes I startAddr data len = and_then (i2c1_write I [startAddr] IIC_EEPROM_ADDR) (\<lambda>_.
     and_then (i2c1_read I (unat len) IIC_EEPROM_ADDR) (\<lambda>(_, bs). State_Monad.return (Some (overwrite bs data))))"

definition eeprom_dump :: "'w i2c_driver \<Rightarrow> (('w, 'x) core_scheme, byte list option) state" where
  "eeprom_dump I = and_then (i2c_eeprom_readBytes I 0 (replicate 128 0xFF @ [0]) 128) (\<lambda>rdBuf.
     State_Monad.return (Some (take 128 rdBuf)))"

section \<open>The hardware settings\<close>

definition flavor_numchans :: "'w platform \<Rightarrow> byte \<Rightarrow> (('w, 'x) core_scheme, unit) state" where
  "flavor_numchans P val = (if val = 0 then gwr P NUMCHANS_REG 0
     else if val = 1 then gwr P NUMCHANS_REG 1
     else gwr P NUMCHANS_REG 2)"

definition flavor_resolution :: "'w platform \<Rightarrow> byte \<Rightarrow> (('w, 'x) ctl_scheme, unit) state" where
  "flavor_resolution P val = do {
     gwr P RESOLUTION_REG (ucast val);
     if val = 0 then modify (\<lambda>s. s\<lparr>CONVVOLTSTODACBITS := f32_bits (fp_cast single CONVVOLTSTO18BITS),
                                  CONVDACBITSTOVOLTS := f32_bits (fp_cast single CONV18BITSTOVOLTS)\<rparr>)
     else if val = 1 then modify (\<lambda>s. s\<lparr>CONVVOLTSTODACBITS := f32_bits (fp_cast single CONVVOLTSTO20BITS),
                                       CONVDACBITSTOVOLTS := f32_bits (fp_cast single CONV20BITSTOVOLTS)\<rparr>)
     else gwr P RESOLUTION_REG 2
   }"

definition flavor_bandwidth :: "'w platform \<Rightarrow> byte \<Rightarrow> (('w, 'x) core_scheme, unit) state" where
  "flavor_bandwidth P val = (if val = 0 then gwr P BANDWIDTH_REG 0
     else if val = 1 then gwr P BANDWIDTH_REG 1
     else gwr P BANDWIDTH_REG 2)"

definition flavor_polarity :: "'w platform \<Rightarrow> byte \<Rightarrow> (('w, 'x) core_scheme, unit) state" where
  "flavor_polarity P val = gwr P POLARITY_REG (ucast (val AND 0x0F))"

definition flavor_modes :: "'w platform \<Rightarrow> byte \<Rightarrow> byte \<Rightarrow> (('w, 'x) core_scheme, unit) state" where
  "flavor_modes P dual dipole = do {
     gwr P CH34_DUALMODE_REG (if dual = 0 then 1 else 0);
     gwr P MAIN_DIPOLE_MODE_REG (if dipole = 0 then 1 else 0)
   }"

definition flavor_ramp :: "'w platform \<Rightarrow> byte \<Rightarrow> byte \<Rightarrow> (('w, 'x) ctl_scheme, unit) state" where
  "flavor_ramp P val percent = (
     if val = 0 then do {
       gwr P SMOOTHRAMP_TYPE_REG 0;
       modify (\<lambda>s. s\<lparr>smoothramp_type := 0, smoothramp_percentcurved := percent\<rparr>)
     }
     else do {
       gwr P SMOOTHRAMP_TYPE_REG 1;
       modify (\<lambda>s. s\<lparr>smoothramp_type := 1, smoothramp_percentcurved := 0\<rparr>)
     })"

definition apply_flavor :: "'w platform \<Rightarrow> byte list \<Rightarrow> (('w, 'x) ctl_scheme, unit) state" where
  "apply_flavor P rdBuf = do {
     flavor_numchans P (rdBuf ! 0);
     flavor_resolution P (rdBuf ! 1);
     flavor_bandwidth P (rdBuf ! 2);
     flavor_polarity P (rdBuf ! 3);
     flavor_modes P (rdBuf ! 4) (rdBuf ! 5);
     flavor_ramp P (rdBuf ! 6) (rdBuf ! 7)
   }"

definition ReadHardwareFlavor ::
  "'w platform \<Rightarrow> 'w i2c_driver \<Rightarrow> (('w, 'x) ctl_scheme, unit option) state" where
  "ReadHardwareFlavor P I = do {
     rdBuf \<leftarrow> stack_bytes P 8;
     and_then (i2c_eeprom_readBytes I 0x10 rdBuf 8) (\<lambda>rdBuf. ok (apply_flavor P rdBuf))
   }"

end
