(* ===== verification/Console.thy ===== *)
theory Console
  imports I2c
begin

text \<open>
  The console (\<open>console.c\<close>): a menu on the serial port with which the settings in the EEPROM are
  changed and a channel message can be given by hand. It runs in a thread of its own beside the
  network loop.

  The serial port is a parameter \<open>K\<close>: \<open>inbyte\<close> and the receive FIFO, and the conversions
  \<open>scanf\<close>, \<open>sscanf\<close>, \<open>strtof\<close> and \<open>strtoul\<close> that the handlers apply to what was typed. What the
  handlers print is not part of the model.
\<close>

record 'w console =
  con_inbyte :: "'w \<Rightarrow> byte \<times> 'w"
  con_ready :: "'w \<Rightarrow> bool \<times> 'w"
  con_fifo :: "'w \<Rightarrow> byte \<times> 'w"
  con_scan_word :: "nat \<Rightarrow> 'w \<Rightarrow> byte list \<times> 'w"
  con_sscanf :: "byte list \<Rightarrow> (u32 \<times> u32 \<times> byte list) option"
  con_strtof :: "byte list \<Rightarrow> f32"
  con_strtoul :: "byte list \<Rightarrow> u32"

definition key :: "char \<Rightarrow> byte" where
  "key c = of_char c"

definition MAX_INPUT_LEN :: nat where "MAX_INPUT_LEN = 64"

section \<open>Input\<close>

definition get_binary_input :: "'w console \<Rightarrow> (('w, 'x) core_scheme, u8) state" where
  "get_binary_input K = do {
     c \<leftarrow> call (con_inbyte K) (\<lambda>_. []);
     State_Monad.return (if c = key CHR ''0'' then 0 else if c = key CHR ''1'' then 1 else -1)
   }"

text \<open>
  \<open>get_percent_input\<close> keeps reading until the end of the line; at most 15 digits are kept. The
  library's \<open>atoi\<close> of a number that does not fit is the largest one that does.
\<close>

partial_function (option) read_digits :: "'w console \<Rightarrow> byte list \<Rightarrow> 'w \<Rightarrow> (byte list \<times> 'w) option" where
  "read_digits K buf w = (let (c, w') = con_inbyte K w in
     if c = 13 \<or> c = 10 then Some (buf, w')
     else if key CHR ''0'' \<le> c \<and> c \<le> key CHR ''9'' \<and> length buf < 15 then read_digits K (buf @ [c]) w'
     else read_digits K buf w')"

definition atoi :: "byte list \<Rightarrow> int" where
  "atoi buf = min (fold (\<lambda>c n. 10 * n + (uint c - uint (key CHR ''0''))) buf 0) 2147483647"

definition get_percent_input :: "'w console \<Rightarrow> (('w, 'x) core_scheme, int option) state" where
  "get_percent_input K = State (\<lambda>s. case read_digits K [] (world s) of
     None \<Rightarrow> (None, s) | Some (buf, w) \<Rightarrow> (Some (atoi buf), s\<lparr>world := w\<rparr>))"

definition uart_wait ::
  "'w platform \<Rightarrow> 'w i2c_driver \<Rightarrow> 'w console \<Rightarrow> u32 \<Rightarrow> (('w, 'x) core_scheme, unit option) state" where
  "uart_wait P I K ms = wait_until_idle (\<lambda>w. let (r, w') = con_ready K w in
     if r then (False, w') else (True, task_delay I (pdMS_TO_TICKS P ms) w'))"

fun uart_read_line ::
  "'w platform \<Rightarrow> 'w i2c_driver \<Rightarrow> 'w console \<Rightarrow> nat \<Rightarrow> byte list \<Rightarrow> (('w, 'x) core_scheme, byte list option) state" where
  "uart_read_line P I K 0 buffer = State_Monad.return (Some buffer)"
| "uart_read_line P I K (Suc room) buffer = and_then (uart_wait P I K 1) (\<lambda>_. do {
     c \<leftarrow> call (con_fifo K) (\<lambda>_. []);
     if c = 13 \<or> c = 10 then State_Monad.return (Some buffer)
     else uart_read_line P I K room (buffer @ [c])
   })"

section \<open>The entries of the menu\<close>

definition dump_eeprom :: "'w i2c_driver \<Rightarrow> (('w, 'x) core_scheme, unit option) state" where
  "dump_eeprom I = and_then (eeprom_dump I) (\<lambda>_. State_Monad.return (Some ()))"

definition print_snapshot_stats :: "'w platform \<Rightarrow> (('w, 'x) core_scheme, unit option) state" where
  "print_snapshot_stats P = do {
     ssbufptr \<leftarrow> grd P SNAPSHOT_ADDRPTR;
     totaltrigs \<leftarrow> grd P SNAPSHOT_TOTALTRIGS;
     State_Monad.return (Some ())
   }"

definition display_settings :: "'w platform \<Rightarrow> 'w i2c_driver \<Rightarrow> (('w, 'x) core_scheme, unit option) state" where
  "display_settings P I = do {
     rdBuf \<leftarrow> stack_bytes P 16;
     and_then (i2c_eeprom_readBytes I 0x10 rdBuf 16) (\<lambda>_. State_Monad.return (Some ()))
   }"

definition confirmed :: "'w console \<Rightarrow> (('w, 'x) core_scheme, bool) state" where
  "confirmed K = do {
     input \<leftarrow> call (con_scan_word K 9) (\<lambda>_. []);
     State_Monad.return (input = map key ''yes'')
   }"

definition clear_eeprom :: "'w i2c_driver \<Rightarrow> 'w console \<Rightarrow> (('w, 'x) core_scheme, unit option) state" where
  "clear_eeprom I K = do {
     yes \<leftarrow> confirmed K;
     if \<not> yes then State_Monad.return (Some ())
     else each_then (\<lambda>i. and_then (i2c_eeprom_writeBytes I (of_nat i) [0xFF] 1)
            (\<lambda>_. ok (silently (delay_us I 10000)))) [0..<128]
   }"

definition test_eeprom :: "'w i2c_driver \<Rightarrow> 'w console \<Rightarrow> (('w, 'x) core_scheme, unit option) state" where
  "test_eeprom I K = do {
     yes \<leftarrow> confirmed K;
     if \<not> yes then State_Monad.return (Some ())
     else each_then (\<lambda>i. and_then (i2c_eeprom_writeBytes I (of_nat (127 - i)) [of_nat i] 1)
            (\<lambda>_. ok (silently (delay_us I 10000)))) [0..<128]
   }"

text \<open>The five settings with two values differ only in the address of their byte.\<close>

definition store_setting ::
  "'w platform \<Rightarrow> 'w i2c_driver \<Rightarrow> u8 \<Rightarrow> byte \<Rightarrow> u32 \<Rightarrow> (('w, 'x) core_scheme, unit option) state" where
  "store_setting P I a val ms = and_then (i2c_eeprom_writeBytes I a [val] 1)
     (\<lambda>_. ok (silently (task_delay I (pdMS_TO_TICKS P ms))))"

definition set_binary ::
  "'w platform \<Rightarrow> 'w i2c_driver \<Rightarrow> 'w console \<Rightarrow> u8 \<Rightarrow> (('w, 'x) ctl_scheme, unit option) state" where
  "set_binary P I K a = do {
     val \<leftarrow> get_binary_input K;
     and_then (if val \<noteq> -1 then store_setting P I a val 10 else State_Monad.return (Some ()))
       (\<lambda>_. ReadHardwareFlavor P I)
   }"

definition set_numchans where "set_numchans P I K = set_binary P I K 0x10"
definition set_resolution where "set_resolution P I K = set_binary P I K 0x11"
definition set_bandwidth where "set_bandwidth P I K = set_binary P I K 0x12"
definition set_dualmode where "set_dualmode P I K = set_binary P I K 0x14"
definition set_maindipole where "set_maindipole P I K = set_binary P I K 0x15"

text \<open>The percentage is an \<open>s32\<close> that is cut to a byte before it is checked.\<close>

definition set_curved ::
  "'w platform \<Rightarrow> 'w i2c_driver \<Rightarrow> 'w console \<Rightarrow> (('w, 'x) core_scheme, unit option) state" where
  "set_curved P I K = and_then (get_percent_input K) (\<lambda>n.
     let percent_curved = of_int n :: u8 in
     if percent_curved \<ge> 5 \<and> percent_curved \<le> 50 then store_setting P I 0x17 percent_curved 10
     else State_Monad.return (Some ()))"

definition set_smoothramptype ::
  "'w platform \<Rightarrow> 'w i2c_driver \<Rightarrow> 'w console \<Rightarrow> (('w, 'x) ctl_scheme, unit option) state" where
  "set_smoothramptype P I K = do {
     val \<leftarrow> get_binary_input K;
     and_then (if val \<noteq> -1 then
         and_then (store_setting P I 0x16 val 10)
           (\<lambda>_. if val = 0 then set_curved P I K else State_Monad.return (Some ()))
       else State_Monad.return (Some ()))
       (\<lambda>_. ReadHardwareFlavor P I)
   }"

fun read_polarity :: "'w console \<Rightarrow> nat list \<Rightarrow> u8 \<Rightarrow> (('w, 'x) core_scheme, u8 option) state" where
  "read_polarity K [] polarity = State_Monad.return (Some polarity)"
| "read_polarity K (ch # chs) polarity = do {
     val \<leftarrow> get_binary_input K;
     if val = -1 then State_Monad.return None
     else read_polarity K chs (polarity OR push_bit ch (val AND 1))
   }"

definition set_polarity ::
  "'w platform \<Rightarrow> 'w i2c_driver \<Rightarrow> 'w console \<Rightarrow> (('w, 'x) ctl_scheme, unit option) state" where
  "set_polarity P I K = do {
     entered \<leftarrow> read_polarity K [0, 1, 2, 3] 0;
     case entered of
       None \<Rightarrow> State_Monad.return (Some ())
     | Some polarity \<Rightarrow>
         and_then (store_setting P I 0x13 polarity 100) (\<lambda>_. ReadHardwareFlavor P I)
   }"

text \<open>
  A message typed by hand: the channel number goes to \<open>chan_settings\<close> as it was typed.
\<close>

definition console_cmd ::
  "'w platform \<Rightarrow> 'w console \<Rightarrow> byte list \<Rightarrow> (('w, 'x) ctl_scheme, unit option) state" where
  "console_cmd P K input = (case con_sscanf K input of
       None \<Rightarrow> State_Monad.return (Some ())
     | Some (chan, addr, val_str) \<Rightarrow>
         let data = (if key CHR ''.'' \<in> set val_str then con_strtof K val_str else con_strtoul K val_str) in
         chan_settings P chan (le32 (htonl addr) @ le32 (htonl data)) 8)"

definition receive_console_cmd ::
  "'w platform \<Rightarrow> 'w i2c_driver \<Rightarrow> 'w console \<Rightarrow> (('w, 'x) ctl_scheme, unit option) state" where
  "receive_console_cmd P I K =
     and_then (uart_read_line P I K (MAX_INPUT_LEN - 1) []) (\<lambda>input. console_cmd P K input)"

definition reboot :: "'w platform \<Rightarrow> u32 \<Rightarrow> 'w console \<Rightarrow> (('w, 'x) core_scheme, unit option) state" where
  "reboot P XPS_SYS_CTRL_BASEADDR K = do {
     val \<leftarrow> get_binary_input K;
     if val = 1 then do {
       Xil_Out32 P (XPS_SYS_CTRL_BASEADDR OR 0x008) 0xDF0D;
       Xil_Out32 P (XPS_SYS_CTRL_BASEADDR OR 0x200) 0x1;
       State_Monad.return (Some ())
     }
     else State_Monad.return (Some ())
   }"

section \<open>The menu\<close>

definition menu ::
  "'w platform \<Rightarrow> 'w i2c_driver \<Rightarrow> 'w console \<Rightarrow> (byte \<times> (('w, 'x) ctl_scheme, unit option) state) list" where
  "menu P I K =
     [(key CHR ''A'', display_settings P I), (key CHR ''B'', set_numchans P I K),
      (key CHR ''C'', set_resolution P I K), (key CHR ''D'', set_bandwidth P I K),
      (key CHR ''E'', set_polarity P I K), (key CHR ''F'', set_dualmode P I K),
      (key CHR ''G'', set_maindipole P I K), (key CHR ''H'', print_snapshot_stats P),
      (key CHR ''I'', State_Monad.return (Some ())), (key CHR ''J'', dump_eeprom I),
      (key CHR ''K'', clear_eeprom I K), (key CHR ''L'', test_eeprom I K),
      (key CHR ''M'', receive_console_cmd P I K), (key CHR ''N'', set_smoothramptype P I K)]"

definition upper :: "byte \<Rightarrow> byte" where
  "upper c = (if key CHR ''a'' \<le> c \<and> c \<le> key CHR ''z'' then c - 32 else c)"

definition run_entry ::
  "(byte \<times> ('s, unit option) state) list \<Rightarrow> byte \<Rightarrow> ('s, unit option) state" where
  "run_entry m choice = (case map_of m choice of
     None \<Rightarrow> State_Monad.return (Some ()) | Some entryFunc \<Rightarrow> entryFunc)"

text \<open>One turn of the menu loop; the result tells whether \<open>Q\<close> was typed.\<close>

definition menu_turn ::
  "'w platform \<Rightarrow> 'w i2c_driver \<Rightarrow> 'w console \<Rightarrow>
     (byte \<times> (('w, 'x) ctl_scheme, unit option) state) list \<Rightarrow> (('w, 'x) ctl_scheme, bool option) state" where
  "menu_turn P I K m = do {
     silently (task_delay I (pdMS_TO_TICKS P 100));
     and_then (uart_wait P I K 10) (\<lambda>_. do {
       c \<leftarrow> call (con_fifo K) (\<lambda>_. []);
       let choice = upper c;
       and_then (run_entry m choice) (\<lambda>_. State_Monad.return (Some (choice = key CHR ''Q'')))
     })
   }"

fun exec_menu ::
  "nat \<Rightarrow> 'w platform \<Rightarrow> 'w i2c_driver \<Rightarrow> 'w console \<Rightarrow>
     (byte \<times> (('w, 'x) ctl_scheme, unit option) state) list \<Rightarrow> (('w, 'x) ctl_scheme, bool option) state" where
  "exec_menu 0 P I K m = State_Monad.return (Some False)"
| "exec_menu (Suc n) P I K m = and_then (menu_turn P I K m) (\<lambda>quit.
     if quit then State_Monad.return (Some True) else exec_menu n P I K m)"

end
