(* ===== verification/Console_Props.thy ===== *)
theory Console_Props
  imports Console
begin

text \<open>
  From the console through the EEPROM to the registers. The locale \<open>eeprom_chip\<close> states the
  documented behaviour of the chip and of the bus it is on: an address byte sets the read
  pointer, an address and a data byte store the byte in the lower half of the array and start a
  write cycle in which the chip does not answer, a delay of 5 ms outlasts that cycle, and a read
  delivers the bytes from the pointer on.
\<close>

locale eeprom_chip =
  fixes P :: "'w platform" and I :: "'w i2c_driver"
    and cells :: "'w \<Rightarrow> u8 \<Rightarrow> byte" and pointer :: "'w \<Rightarrow> u8" and in_cycle :: "'w \<Rightarrow> bool"
  assumes bus_frees: "\<exists>k. \<not> fst (i2c_busy I Iic1 (((\<lambda>w. snd (i2c_busy I Iic1 w)) ^^ k) w))"
    and busy_frame: "cells (snd (i2c_busy I Iic1 w)) = cells w \<and> pointer (snd (i2c_busy I Iic1 w)) = pointer w \<and>
      in_cycle (snd (i2c_busy I Iic1 w)) = in_cycle w"
    and set_pointer: "\<not> in_cycle w \<Longrightarrow>
      cells (snd (i2c_send I Iic1 [a] IIC_EEPROM_ADDR w)) = cells w \<and>
      pointer (snd (i2c_send I Iic1 [a] IIC_EEPROM_ADDR w)) = a \<and>
      \<not> in_cycle (snd (i2c_send I Iic1 [a] IIC_EEPROM_ADDR w))"
    and byte_write: "\<not> in_cycle w \<Longrightarrow> a < 0x80 \<Longrightarrow>
      cells (snd (i2c_send I Iic1 [a, d] IIC_EEPROM_ADDR w)) = (cells w)(a := d)"
    and sequential_read: "\<not> in_cycle w \<Longrightarrow>
      snd (fst (i2c_recv I Iic1 n IIC_EEPROM_ADDR w)) = map (\<lambda>i. cells w (pointer w + of_nat i)) [0..<n] \<and>
      cells (snd (i2c_recv I Iic1 n IIC_EEPROM_ADDR w)) = cells w \<and>
      \<not> in_cycle (snd (i2c_recv I Iic1 n IIC_EEPROM_ADDR w))"
    and delay_ends_cycle: "pdMS_TO_TICKS P 5 \<le> t \<Longrightarrow>
      cells (task_delay I t w) = cells w \<and> \<not> in_cycle (task_delay I t w)"
    and ticks_mono: "ms \<le> ms' \<Longrightarrow> pdMS_TO_TICKS P ms \<le> pdMS_TO_TICKS P ms'"
    and reg_frame: "cells (plat_Out32 P reg v w) = cells w \<and> in_cycle (plat_Out32 P reg v w) = in_cycle w"

lemma poll_until_returns:
  assumes "\<not> fst (busy (((\<lambda>w. snd (busy w)) ^^ k) w))"
  shows "\<exists>n. poll_until busy w = Some (((\<lambda>w. snd (busy w)) ^^ Suc n) w)"
  using assms
proof (induction k arbitrary: w)
  case 0
  then show ?case by (subst poll_until.simps) (auto intro: exI [of _ 0])
next
  case (Suc k)
  show ?case
  proof (cases "fst (busy w)")
    case True
    obtain n where "poll_until busy (snd (busy w)) = Some (((\<lambda>w. snd (busy w)) ^^ Suc n) (snd (busy w)))"
      using Suc.IH [of "snd (busy w)"] Suc.prems by (auto simp only: funpow_Suc_right comp_def)
    with True show ?thesis
      by (subst poll_until.simps) (auto simp only: if_True funpow_Suc_right comp_def intro: exI [of _ "Suc n"])
  next
    case False
    then show ?thesis by (subst poll_until.simps) (auto intro: exI [of _ 0])
  qed
qed

lemma exec_and_then: "exec (and_then m f) s = (case result m s of None \<Rightarrow> exec m s | Some a \<Rightarrow> exec (f a) (exec m s))"
  by (simp add: and_then_def run_simps split: option.split)

lemma result_and_then: "result (and_then m f) s = (case result m s of None \<Rightarrow> None | Some a \<Rightarrow> result (f a) (exec m s))"
  by (simp add: and_then_def run_simps split: option.split)

lemmas then_simps [run_simps] = exec_and_then result_and_then

lemma ok_simps [run_simps]: "exec (ok m) s = exec m s" "result (ok m) s = Some ()"
  by (simp_all add: ok_def run_simps)

lemma exec_of_run: "result m s = a \<Longrightarrow> exec m s = t \<Longrightarrow> run_state m s = (a, t)"
  by (auto simp: result_def exec_def)

section \<open>The EEPROM as the firmware uses it\<close>

text \<open>The eight bytes of the hardware settings, and what they make the firmware write.\<close>

definition settings_of :: "(u8 \<Rightarrow> byte) \<Rightarrow> byte list" where
  "settings_of mem = map (\<lambda>i. mem (0x10 + of_nat i)) [0..<8]"

definition level_writes :: "u32 \<Rightarrow> byte \<Rightarrow> (u32 \<times> u32) list" where
  "level_writes reg b = [(reg, if b = 0 then 0 else if b = 1 then 1 else 2)]"

definition resolution_writes :: "byte \<Rightarrow> (u32 \<times> u32) list" where
  "resolution_writes b = (RESOLUTION_REG, ucast b) # (if b = 0 \<or> b = 1 then [] else [(RESOLUTION_REG, 2)])"

definition flavor_writes :: "byte list \<Rightarrow> (u32 \<times> u32) list" where
  "flavor_writes b =
     level_writes NUMCHANS_REG (b ! 0) @ resolution_writes (b ! 1) @ level_writes BANDWIDTH_REG (b ! 2) @
     [(POLARITY_REG, ucast (b ! 3 AND 0x0F)), (CH34_DUALMODE_REG, if b ! 4 = 0 then 1 else 0),
      (MAIN_DIPOLE_MODE_REG, if b ! 5 = 0 then 1 else 0), (SMOOTHRAMP_TYPE_REG, if b ! 6 = 0 then 0 else 1)]"

text \<open>The global variables that depend on the settings: conversion factors and ramp.\<close>

definition ctl_vars :: "('w, 'x) ctl_scheme \<Rightarrow> (f32 \<times> f32) \<times> (u8 \<times> u8)" where
  "ctl_vars s = ((CONVVOLTSTODACBITS s, CONVDACBITSTOVOLTS s), (smoothramp_type s, smoothramp_percentcurved s))"

definition conversion :: "byte \<Rightarrow> f32 \<times> f32 \<Rightarrow> f32 \<times> f32" where
  "conversion b c =
     (if b = 0 then (f32_bits (fp_cast single CONVVOLTSTO18BITS), f32_bits (fp_cast single CONV18BITSTOVOLTS))
      else if b = 1 then (f32_bits (fp_cast single CONVVOLTSTO20BITS), f32_bits (fp_cast single CONV20BITSTOVOLTS))
      else c)"

text \<open>
  Between two states the firmware wrote these registers, and changed the variables so.
\<close>

definition did ::
  "'w platform \<Rightarrow> (u32 \<times> u32) list \<Rightarrow> ((f32 \<times> f32) \<times> (u8 \<times> u8) \<Rightarrow> (f32 \<times> f32) \<times> (u8 \<times> u8)) \<Rightarrow>
     ('w, 'x) ctl_scheme \<Rightarrow> ('w, 'x) ctl_scheme \<Rightarrow> bool" where
  "did P ws f s t \<longleftrightarrow> trace t = trace s @ map (\<lambda>(r, v). Wr (reg_addr P r) v) ws \<and>
     ctl_vars t = f (ctl_vars s) \<and> scalefactors t = scalefactors s"

lemma did_trans: "did P ws f s t \<Longrightarrow> did P vs g t u \<Longrightarrow> did P (ws @ vs) (g \<circ> f) s u"
  by (simp add: did_def)

lemmas did_defs = run_simps did_def ctl_vars_def

lemma did_numchans: "did P (level_writes NUMCHANS_REG b) id s (exec (flavor_numchans P b) s)"
  by (simp add: did_defs flavor_numchans_def level_writes_def)

lemma did_resolution: "did P (resolution_writes b) (map_prod (conversion b) id) s (exec (flavor_resolution P b) s)"
  by (simp add: did_defs flavor_resolution_def resolution_writes_def conversion_def)

lemma did_bandwidth: "did P (level_writes BANDWIDTH_REG b) id s (exec (flavor_bandwidth P b) s)"
  by (simp add: did_defs flavor_bandwidth_def level_writes_def)

lemma did_polarity: "did P [(POLARITY_REG, ucast (b AND 0x0F))] id s (exec (flavor_polarity P b) s)"
  by (simp add: did_defs flavor_polarity_def)

lemma did_modes:
  "did P [(CH34_DUALMODE_REG, if b = 0 then 1 else 0), (MAIN_DIPOLE_MODE_REG, if c = 0 then 1 else 0)] id s
     (exec (flavor_modes P b c) s)"
  by (simp add: did_defs flavor_modes_def)

lemma did_ramp:
  "did P [(SMOOTHRAMP_TYPE_REG, if b = 0 then 0 else 1)] (map_prod id (\<lambda>_. if b = 0 then (0, c) else (1, 0))) s
     (exec (flavor_ramp P b c) s)"
  by (simp add: did_defs flavor_ramp_def)

text \<open>What reading the settings \<open>b\<close> does.\<close>

definition flavored :: "'w platform \<Rightarrow> byte list \<Rightarrow> ('w, 'x) ctl_scheme \<Rightarrow> ('w, 'x) ctl_scheme \<Rightarrow> bool" where
  "flavored P b = did P (flavor_writes b)
     (map_prod (conversion (b ! 1)) (\<lambda>_. if b ! 6 = 0 then (0, b ! 7) else (1, 0)))"

lemma apply_flavor_flavored: "flavored P b s (exec (apply_flavor P b) s)"
proof -
  have "did P (level_writes NUMCHANS_REG (b ! 0) @ resolution_writes (b ! 1) @ level_writes BANDWIDTH_REG (b ! 2) @
      [(POLARITY_REG, ucast (b ! 3 AND 0x0F))] @
      [(CH34_DUALMODE_REG, if b ! 4 = 0 then 1 else 0), (MAIN_DIPOLE_MODE_REG, if b ! 5 = 0 then 1 else 0)] @
      [(SMOOTHRAMP_TYPE_REG, if b ! 6 = 0 then 0 else 1)])
     ((((((map_prod id (\<lambda>_. if b ! 6 = 0 then (0, b ! 7) else (1, 0))) \<circ> id) \<circ> id) \<circ> id) \<circ>
        map_prod (conversion (b ! 1)) id) \<circ> id) s (exec (apply_flavor P b) s)"
    unfolding apply_flavor_def exec_bind
    by (rule did_trans [OF did_numchans did_trans [OF did_resolution did_trans [OF did_bandwidth
        did_trans [OF did_polarity did_trans [OF did_modes did_ramp]]]]])
  moreover have "((((((map_prod id (\<lambda>_ :: u8 \<times> u8. if b ! 6 = 0 then (0 :: u8, b ! 7) else (1, 0))) \<circ> id) \<circ> id) \<circ> id) \<circ>
        map_prod (conversion (b ! 1)) id) \<circ> id) =
      map_prod (conversion (b ! 1)) (\<lambda>_. if b ! 6 = 0 then (0, b ! 7) else (1, 0))"
    by (simp add: fun_eq_iff)
  ultimately show ?thesis
    by (simp only: flavored_def flavor_writes_def append_Cons append_Nil)
qed

context eeprom_chip
begin

lemma wait_bus:
  fixes s :: "('w, 'x) core_scheme"
  shows "\<exists>w. run_state (wait_until_idle (i2c_busy I Iic1)) s = (Some (), s\<lparr>world := w\<rparr>) \<and>
    cells w = cells (world s) \<and> pointer w = pointer (world s) \<and> in_cycle w = in_cycle (world s)"
proof -
  let ?next = "\<lambda>w. snd (i2c_busy I Iic1 w)"
  have frame: "cells ((?next ^^ n) w) = cells w \<and> pointer ((?next ^^ n) w) = pointer w \<and> in_cycle ((?next ^^ n) w) = in_cycle w"
    for n w by (induction n) (simp_all add: busy_frame)
  obtain k where "\<not> fst (i2c_busy I Iic1 ((?next ^^ k) (world s)))"
    using bus_frees [of "world s"] ..
  from poll_until_returns [where busy = "i2c_busy I Iic1", OF this] obtain n where
    "poll_until (i2c_busy I Iic1) (world s) = Some ((?next ^^ Suc n) (world s))" ..
  then have "run_state (wait_until_idle (i2c_busy I Iic1)) s = (Some (), s\<lparr>world := (?next ^^ Suc n) (world s)\<rparr>)"
    by (simp only: wait_until_idle_def state.sel option.case)
  then show ?thesis using frame [of "Suc n" "world s"] by blast
qed

lemma write_run:
  fixes s :: "('w, 'x) core_scheme"
  shows "\<exists>w v st. run_state (i2c1_write I buf addr) s = (Some st, s\<lparr>world := w\<rparr>) \<and>
    w = snd (i2c_send I Iic1 buf addr v) \<and> cells v = cells (world s) \<and> in_cycle v = in_cycle (world s)"
proof -
  obtain v where v: "run_state (wait_until_idle (i2c_busy I Iic1)) s = (Some (), s\<lparr>world := v\<rparr>)"
    "cells v = cells (world s)" "in_cycle v = in_cycle (world s)"
    using wait_bus [of s] by blast
  then show ?thesis
    by (auto simp: i2c1_write_def and_then_def call_def split_beta)
qed

lemma read_run:
  fixes s :: "('w, 'x) core_scheme"
  assumes "\<not> in_cycle (world s)" and "pointer (world s) = a"
  shows "\<exists>w st. run_state (i2c1_read I n IIC_EEPROM_ADDR) s =
      (Some (st, map (\<lambda>i. cells (world s) (a + of_nat i)) [0..<n]), s\<lparr>world := w\<rparr>) \<and>
    cells w = cells (world s) \<and> \<not> in_cycle w"
proof -
  obtain v where v: "run_state (wait_until_idle (i2c_busy I Iic1)) s = (Some (), s\<lparr>world := v\<rparr>)"
    "cells v = cells (world s)" "in_cycle v = in_cycle (world s)" "pointer v = a"
    using wait_bus [of s] assms(2) by blast
  with sequential_read [of v n] assms(1) show ?thesis
    by (auto simp: i2c1_read_def and_then_def call_def split_beta prod_eq_iff)
qed

lemma read_bytes:
  fixes s :: "('w, 'x) core_scheme"
  assumes "\<not> in_cycle (world s)" and "length buf = unat n"
  shows "\<exists>w. run_state (i2c_eeprom_readBytes I a buf n) s =
      (Some (map (\<lambda>i. cells (world s) (a + of_nat i)) [0..<unat n]), s\<lparr>world := w\<rparr>) \<and>
    cells w = cells (world s) \<and> \<not> in_cycle w"
proof -
  obtain w v st where w: "run_state (i2c1_write I [a] IIC_EEPROM_ADDR) s = (Some st, s\<lparr>world := w\<rparr>)"
    "w = snd (i2c_send I Iic1 [a] IIC_EEPROM_ADDR v)" "cells v = cells (world s)" "in_cycle v = in_cycle (world s)"
    using write_run [of "[a]" IIC_EEPROM_ADDR s] by blast
  have p: "cells w = cells (world s)" "pointer w = a" "\<not> in_cycle w"
    using set_pointer [of v a] w assms(1) by simp_all
  obtain u st' where "run_state (i2c1_read I (unat n) IIC_EEPROM_ADDR) (s\<lparr>world := w\<rparr>) =
      (Some (st', map (\<lambda>i. cells (world s) (a + of_nat i)) [0..<unat n]), s\<lparr>world := u\<rparr>)"
    "cells u = cells (world s)" "\<not> in_cycle u"
    using read_run [of "s\<lparr>world := w\<rparr>" a "unat n"] p by auto
  with w(1) assms(2) show ?thesis
    by (auto simp: i2c_eeprom_readBytes_def and_then_def overwrite_def)
qed

lemma eeprom_gwr: "state_io_rel (unchanged (\<lambda>s. (cells (world s), in_cycle (world s)))) (gwr P r v)"
  by (rule io_of_exec) (simp add: run_simps unchanged_def reg_frame)

lemma eeprom_apply_flavor: "state_io_rel (unchanged (\<lambda>s. (cells (world s), in_cycle (world s)))) (apply_flavor P b)"
  unfolding apply_flavor_def flavor_numchans_def flavor_resolution_def flavor_bandwidth_def flavor_polarity_def
    flavor_modes_def flavor_ramp_def
  by (intro frame.io_structure eeprom_gwr frame_modify) simp_all

lemma flavor_run:
  fixes s :: "('w, 'x) ctl_scheme"
  assumes "\<not> in_cycle (world s)"
  shows "\<exists>t. run_state (ReadHardwareFlavor P I) s = (Some (), t) \<and> flavored P (settings_of (cells (world s))) s t \<and>
    cells (world t) = cells (world s) \<and> \<not> in_cycle (world t)"
proof -
  obtain w where w: "run_state (i2c_eeprom_readBytes I 0x10 (result (stack_bytes P 8) s) 8) s =
      (Some (settings_of (cells (world s))), s\<lparr>world := w\<rparr>)" "cells w = cells (world s)" "\<not> in_cycle w"
    using read_bytes [OF assms, of "result (stack_bytes P 8) s" 8 "0x10"]
    by (auto simp: settings_of_def stack_bytes_def run_simps)
  define b where "b = settings_of (cells (world s))"
  let ?u = "s\<lparr>world := w\<rparr>"
  let ?t = "exec (apply_flavor P b) ?u"
  have run: "run_state (ReadHardwareFlavor P I) s = (Some (), ?t)"
    using w(1) by (simp add: ReadHardwareFlavor_def and_then_def b_def ok_def stack_bytes_def run_simps exec_def split_beta)
  from unchanged_exec [OF eeprom_apply_flavor, of b ?u] w have "cells (world ?t) = cells (world s)" "\<not> in_cycle (world ?t)" by simp_all
  moreover have "flavored P b s ?t"
    using apply_flavor_flavored [of P b ?u] by (simp add: flavored_def did_def ctl_vars_def)
  ultimately show ?thesis using run b_def by blast
qed

lemma store_run:
  fixes s :: "('w, 'x) core_scheme"
  assumes "\<not> in_cycle (world s)" and "a < 0x80" and "5 \<le> ms"
  shows "\<exists>w. run_state (store_setting P I a val ms) s = (Some (), s\<lparr>world := w\<rparr>) \<and>
    cells w = (cells (world s))(a := val) \<and> \<not> in_cycle w"
proof -
  have "unat (1 + 1 :: u8) = Suc (Suc 0)" "unat (1 :: u8) = Suc 0" by simp_all
  then have buf: "take (unat (1 + 1 :: u8)) (a # take (unat (1 :: u8)) [val]) = [a, val]"
    by (simp only: take_Suc_Cons take_0 take_Nil)
  obtain w v st where w: "run_state (i2c1_write I [a, val] IIC_EEPROM_ADDR) s = (Some st, s\<lparr>world := w\<rparr>)"
    "w = snd (i2c_send I Iic1 [a, val] IIC_EEPROM_ADDR v)" "cells v = cells (world s)" "in_cycle v = in_cycle (world s)"
    using write_run [of "[a, val]" IIC_EEPROM_ADDR s] by blast
  have "cells w = (cells (world s))(a := val)"
    using byte_write [of v a val] w assms(1,2) by simp
  moreover note delay_ends_cycle [OF ticks_mono [OF assms(3)], of w]
  ultimately show ?thesis
    using w(1) by (auto simp: store_setting_def i2c_eeprom_writeBytes_def buf and_then_def ok_def silently_def)
qed

end

section \<open>Reading the settings\<close>

text \<open>
  The settings of the EEPROM take effect. \<open>ReadHardwareFlavor\<close> comes back, and what it does is
  exactly determined by the eight bytes at \<open>0x10\<close>: it writes the configuration registers in
  their order, with 2 for a setting that is neither 0 nor 1, selects the conversion factors of
  the converter (and leaves them as they are when the resolution is invalid), and sets the ramp
  type and its curved portion. The EEPROM is not changed.
\<close>

theorem ReadHardwareFlavor_applies:
  fixes s :: "('w, 'x) ctl_scheme"
  assumes "eeprom_chip P I cells pointer in_cycle" and "\<not> in_cycle (world s)"
  defines "t \<equiv> exec (ReadHardwareFlavor P I) s"
  shows "result (ReadHardwareFlavor P I) s = Some () \<and> flavored P (settings_of (cells (world s))) s t \<and>
    cells (world t) = cells (world s)"
  using eeprom_chip.flavor_run [OF assms(1,2)] by (auto simp: t_def result_def exec_def)

section \<open>Changing the settings\<close>

text \<open>The console reads keys without touching the EEPROM.\<close>

definition keys_only :: "'w console \<Rightarrow> ('w \<Rightarrow> u8 \<Rightarrow> byte) \<Rightarrow> ('w \<Rightarrow> bool) \<Rightarrow> bool" where
  "keys_only K cells in_cycle \<longleftrightarrow> (\<forall>w. cells (snd (con_inbyte K w)) = cells w \<and>
     in_cycle (snd (con_inbyte K w)) = in_cycle w)"

definition binary_of :: "byte \<Rightarrow> u8" where
  "binary_of c = (if c = key CHR ''0'' then 0 else if c = key CHR ''1'' then 1 else -1)"

lemma get_binary_run:
  "run_state (get_binary_input K) s =
     (binary_of (fst (con_inbyte K (world s))), s\<lparr>world := snd (con_inbyte K (world s))\<rparr>)"
  by (simp add: get_binary_input_def binary_of_def call_def split_beta)

text \<open>The menu entries that set a byte of the EEPROM to 0 or 1, with their addresses.\<close>

definition binary_entries ::
  "'w platform \<Rightarrow> 'w i2c_driver \<Rightarrow> 'w console \<Rightarrow> (u8 \<times> (('w, 'x) ctl_scheme, unit option) state) list" where
  "binary_entries P I K = [(0x10, set_numchans P I K), (0x11, set_resolution P I K), (0x12, set_bandwidth P I K),
     (0x14, set_dualmode P I K), (0x15, set_maindipole P I K)]"

lemma binary_entries_cases:
  "(a, entry) \<in> set (binary_entries P I K) \<Longrightarrow> entry = set_binary P I K a \<and> a < 0x80"
  by (auto simp: binary_entries_def set_numchans_def set_resolution_def set_bandwidth_def set_dualmode_def
      set_maindipole_def)

lemma flavored_world: "flavored P b (s\<lparr>world := w\<rparr>) t = flavored P b s t"
  by (simp add: flavored_def did_def ctl_vars_def)

text \<open>
  C24. What is set at the console is kept and takes effect. An entry of the menu answered with
  \<open>0\<close> or \<open>1\<close> stores that value in its byte of the EEPROM and in no other; any other key stores
  nothing. In both cases the registers and variables are then those of the settings in the
  EEPROM, the same that a restart reads.
\<close>

theorem console_setting_persists:
  fixes s :: "('w, 'x) ctl_scheme"
  assumes "eeprom_chip P I cells pointer in_cycle" and "keys_only K cells in_cycle"
    and "\<not> in_cycle (world s)" and "(a, entry) \<in> set (binary_entries P I K)"
    and "fst (con_inbyte K (world s)) = c"
  defines "mem \<equiv> if c = key CHR ''0'' then (cells (world s))(a := 0)
      else if c = key CHR ''1'' then (cells (world s))(a := 1) else cells (world s)"
    and "t \<equiv> exec entry s"
  shows "result entry s = Some () \<and> cells (world t) = mem \<and> flavored P (settings_of mem) s t"
proof -
  let ?s = "s\<lparr>world := snd (con_inbyte K (world s))\<rparr>"
  have e: "entry = set_binary P I K a" "a < 0x80" using binary_entries_cases [OF assms(4)] by auto
  have s1: "\<not> in_cycle (world ?s)" "cells (world ?s) = cells (world s)" using assms(2,3) by (simp_all add: keys_only_def)
  have val: "binary_of c = -1 \<longleftrightarrow> c \<noteq> key CHR ''0'' \<and> c \<noteq> key CHR ''1''" by (simp add: binary_of_def)
  obtain w where w: "run_state (if binary_of c \<noteq> -1 then store_setting P I a (binary_of c) 10 else State_Monad.return (Some ())) ?s =
      (Some (), s\<lparr>world := w\<rparr>)" "cells w = mem" "\<not> in_cycle w"
  proof (cases "binary_of c = -1")
    case True
    then show ?thesis using s1 val by (intro that [of "world ?s"]) (simp_all add: mem_def)
  next
    case False
    obtain v where "run_state (store_setting P I a (binary_of c) 10) ?s = (Some (), ?s\<lparr>world := v\<rparr>)"
      "cells v = (cells (world s))(a := binary_of c)" "\<not> in_cycle v"
      using eeprom_chip.store_run [OF assms(1) s1(1) e(2), of 10 "binary_of c"] s1(2) by auto
    then show ?thesis using False val by (intro that [of v]) (auto simp: mem_def binary_of_def)
  qed
  obtain t' where t': "run_state (ReadHardwareFlavor P I) (s\<lparr>world := w\<rparr>) = (Some (), t')"
    "flavored P (settings_of mem) s t'" "cells (world t') = mem"
    using eeprom_chip.flavor_run [OF assms(1), of "s\<lparr>world := w\<rparr>"] w by (auto simp: flavored_world)
  have "run_state entry s = (Some (), t')"
    using w(1) t'(1) assms(5) by (simp add: e(1) set_binary_def get_binary_run and_then_def)
  then show ?thesis using t' by (simp add: t_def result_def exec_def)
qed

section \<open>The polarity of the channels\<close>

text \<open>The keys the console will read next, and the world after them.\<close>

definition after_keys :: "'w console \<Rightarrow> nat \<Rightarrow> 'w \<Rightarrow> 'w" where
  "after_keys K n w = ((\<lambda>w. snd (con_inbyte K w)) ^^ n) w"

definition nth_key :: "'w console \<Rightarrow> nat \<Rightarrow> 'w \<Rightarrow> byte" where
  "nth_key K n w = fst (con_inbyte K (after_keys K n w))"

definition polarity_of :: "byte list \<Rightarrow> u8" where
  "polarity_of ks = fold (\<lambda>(ch, k) p. p OR push_bit ch (binary_of k AND 1)) (zip [0..<length ks] ks) 0"

lemma read_polarity_run:
  assumes "\<forall>n < length chs. binary_of (nth_key K n (world s)) \<noteq> -1"
  shows "run_state (read_polarity K chs p) s =
    (Some (fold (\<lambda>(ch, k) p. p OR push_bit ch (binary_of k AND 1))
        (zip chs (map (\<lambda>n. nth_key K n (world s)) [0..<length chs])) p),
     s\<lparr>world := after_keys K (length chs) (world s)\<rparr>)"
  using assms
proof (induction chs arbitrary: p s)
  case Nil
  then show ?case by (simp add: after_keys_def)
next
  case (Cons ch chs)
  let ?u = "s\<lparr>world := snd (con_inbyte K (world s))\<rparr>"
  have nth: "nth_key K n (snd (con_inbyte K (world s))) = nth_key K (Suc n) (world s)" for n
    using funpow_swap1 [of "\<lambda>w. snd (con_inbyte K w)" n "world s"] by (simp add: nth_key_def after_keys_def)
  have after: "after_keys K n (snd (con_inbyte K (world s))) = after_keys K (Suc n) (world s)" for n
    using funpow_swap1 [of "\<lambda>w. snd (con_inbyte K w)" n "world s"] by (simp add: after_keys_def)
  have k0: "nth_key K 0 (world s) = fst (con_inbyte K (world s))" by (simp add: nth_key_def after_keys_def)
  have "\<forall>n < length chs. binary_of (nth_key K n (world ?u)) \<noteq> -1" using Cons.prems nth by auto
  note IH = Cons.IH [OF this]
  have "binary_of (fst (con_inbyte K (world s))) \<noteq> -1" using Cons.prems k0 by force
  then show ?case
    by (simp add: get_binary_run IH nth after k0 upt_conv_Cons map_Suc_upt [symmetric] comp_def del: upt_Suc)
qed

lemma bit_binary: "binary_of k \<noteq> -1 \<Longrightarrow> m < 8 \<Longrightarrow>
  bit (push_bit m (binary_of k AND 1)) n \<longleftrightarrow> n = m \<and> k = key CHR ''1''"
  by (auto simp: binary_of_def bit_simps key_def split: if_splits)

lemma bit_polarity_fold:
  assumes "\<forall>k \<in> set ks. binary_of k \<noteq> -1" and "m + length ks \<le> 8"
  shows "bit (fold (\<lambda>(ch, k) p. p OR push_bit ch (binary_of k AND 1)) (zip [m..<m + length ks] ks) p) n \<longleftrightarrow>
    bit p n \<or> (m \<le> n \<and> n < m + length ks \<and> ks ! (n - m) = key CHR ''1'')"
  using assms
proof (induction ks arbitrary: m p)
  case Nil
  then show ?case by auto
next
  case (Cons k ks)
  have "zip [m..<m + length (k # ks)] (k # ks) = (m, k) # zip [Suc m..<Suc m + length ks] ks"
    by (simp add: upt_conv_Cons del: upt_Suc)
  then show ?case
    using Cons.IH [of "Suc m" "p OR push_bit m (binary_of k AND 1)"] Cons.prems bit_binary [of k m n]
    by (auto simp: bit_or_iff nth_Cons' Suc_le_eq simp del: upt_Suc push_bit_and)
qed

lemma bit_polarity_of:
  assumes "\<forall>k \<in> set ks. binary_of k \<noteq> -1" and "length ks \<le> 8"
  shows "bit (polarity_of ks) ch \<longleftrightarrow> ch < length ks \<and> ks ! ch = key CHR ''1''"
  using bit_polarity_fold [of ks 0 0 ch] assms by (simp add: polarity_of_def del: push_bit_and)

lemma eeprom_keys: "keys_only K cells in_cycle \<Longrightarrow>
  cells (after_keys K n w) = cells w \<and> in_cycle (after_keys K n w) = in_cycle w"
  by (induction n) (simp_all add: keys_only_def after_keys_def)

text \<open>
  C38. The polarity of the channels goes to the wrong channel. After \<open>set_polarity\<close> the bit of the
  polarity byte that belongs to the \<open>ch\<close>-th answer, counted from 0, is set exactly when that answer
  was \<open>1\<close>, and the byte is what the polarity register gets. But the bit that \<open>Set_dac\<close> looks at for
  channel 1, 2 or 3 is the answer given for the channel after it, and for channel 4 it is always
  clear: that channel can never be made unipolar.
\<close>

theorem polarity_off_by_one:
  fixes s :: "('w, 'x) ctl_scheme"
  assumes "eeprom_chip P I cells pointer in_cycle" and "keys_only K cells in_cycle" and "\<not> in_cycle (world s)"
    and "\<forall>n < 4. nth_key K n (world s) \<in> {key CHR ''0'', key CHR ''1''}"
  defines "t \<equiv> exec (set_polarity P I K) s"
  defines "polarity \<equiv> cells (world t) 0x13"
  shows "(\<forall>ch < 4. bit polarity ch = (nth_key K ch (world s) = key CHR ''1'')) \<and>
    Wr (reg_addr P POLARITY_REG) (ucast polarity) \<in> set (trace t) \<and>
    (\<forall>ch \<in> {1, 2, 3}. polarity_bit (ucast polarity) (of_nat ch) = (if nth_key K ch (world s) = key CHR ''1'' then 1 else 0)) \<and>
    polarity_bit (ucast polarity) 4 = 0"
proof -
  define ks where "ks = map (\<lambda>n. nth_key K n (world s)) [0..<4]"
  define p where "p = polarity_of ks"
  have valid: "\<forall>n < 4. binary_of (nth_key K n (world s)) \<noteq> -1"
    using assms(4) by (auto simp: binary_of_def)
  have ch: "[0, 1, 2, 3] = [0..<4]" by (simp add: upt_rec numeral_eq_Suc)
  have rd: "run_state (read_polarity K [0, 1, 2, 3] 0) s = (Some p, s\<lparr>world := after_keys K 4 (world s)\<rparr>)"
    unfolding ch p_def polarity_of_def ks_def
    using read_polarity_run [of "[0..<4]" K s 0] valid by (simp del: push_bit_and)
  let ?u = "s\<lparr>world := after_keys K 4 (world s)\<rparr>"
  have "\<not> in_cycle (world ?u)" using eeprom_keys [OF assms(2)] assms(3) by simp
  from eeprom_chip.store_run [OF assms(1) this, of "0x13" 100 p]
  obtain w where w: "run_state (store_setting P I 0x13 p 100) ?u = (Some (), s\<lparr>world := w\<rparr>)"
    "cells w 0x13 = p" "\<not> in_cycle w" by auto
  obtain t' where t': "run_state (ReadHardwareFlavor P I) (s\<lparr>world := w\<rparr>) = (Some (), t')"
    "flavored P (settings_of (cells w)) s t'" "cells (world t') = cells w"
    using eeprom_chip.flavor_run [OF assms(1), of "s\<lparr>world := w\<rparr>"] w by (auto simp: flavored_world)
  have t: "t = t'"
    using rd w(1) t'(1) by (simp add: t_def exec_def set_polarity_def and_then_def del: read_polarity.simps)
  then have pol: "polarity = p" using t'(3) w(2) by (simp add: polarity_def)
  have bits: "bit p c \<longleftrightarrow> c < 4 \<and> nth_key K c (world s) = key CHR ''1''" for c
    using bit_polarity_of [of ks c] valid by (auto simp: p_def ks_def)
  have mask: "p AND 0x0F = p"
  proof (rule bit_word_eqI)
    have m: "(0x0F :: u8) = mask 4" by (simp add: mask_eq_exp_minus_1)
    show "bit (p AND 0x0F) n = bit p n" for n
      unfolding m bit_and_iff bit_mask_iff by (auto simp: bits)
  qed
  have "settings_of (cells w) ! 3 = p" using w(2) by (simp add: settings_of_def)
  then have "Wr (reg_addr P POLARITY_REG) (ucast p) \<in> set (trace t')"
    using t'(2) mask by (simp add: flavored_def did_def flavor_writes_def)
  moreover have "polarity_bit (ucast p) (of_nat c) = (if bit p c then 1 else 0)" if "c < 8" for c
  proof -
    have "unat (of_nat c :: u32) = c" using that by (simp add: unat_of_nat take_bit_eq_mod)
    then show ?thesis
      using that by (auto simp: polarity_bit_def and_one_eq mod_2_eq_odd bit_iff_odd_drop_bit [symmetric] bit_simps)
  qed
  note this [of 1] this [of 2] this [of 3] this [of 4]
  ultimately show ?thesis using bits by (simp add: t pol)
qed

section \<open>Commands typed by hand\<close>

text \<open>
  The channel of a typed command is not checked. A scale factor command for a channel other
  than 1 to 4 accesses the array of scale factors out of bounds; the same message from the
  network cannot do that, since its channel is its message number.
\<close>

theorem console_channel_unchecked:
  fixes s :: "('w, 'x) ctl_scheme"
  assumes "con_sscanf K input = Some (chan, SF_VOUT_MSG, val)" and "sf_ok s" and "\<not> valid_chan chan"
  shows "UB \<in> set (trace (exec (console_cmd P K input) s))"
proof -
  have "\<not> unat (chan - 1) < 4"
  proof
    assume "unat (chan - 1) < 4"
    then have "chan - 1 < 4" by (simp add: word_less_nat_alt)
    moreover have "x < 4 \<Longrightarrow> x = 0 \<or> x = 1 \<or> x = 2 \<or> x = 3" for x :: u32 by unat_arith
    ultimately have "chan - 1 = 0 \<or> chan - 1 = 1 \<or> chan - 1 = 2 \<or> chan - 1 = 3" by blast
    then have "chan = 1 \<or> chan = 2 \<or> chan = 3 \<or> chan = 4" by (auto simp: algebra_simps)
    with assms(3) show False by (auto simp: valid_chan_def)
  qed
  moreover have "msg_addr (le32 (htonl SF_VOUT_MSG) @ rest) = SF_VOUT_MSG" for rest
    using load32_words [of 0 "[htonl SF_VOUT_MSG]" rest] by (simp add: msg_addr_def)
  ultimately show ?thesis
    using assms(1,2)
    by (simp add: console_cmd_def chan_settings_def Let_def dac_cases_def adc_cases_def thresh_cases_def cntlim_cases_def
        digital_cases_def scale_cases_def msg_defs run_simps sf_write_def sf_ok_def)
qed

end
