(* ===== verification/Console_Witnesses.thy ===== *)
theory Console_Witnesses
  imports Console_Props Sim
begin

text \<open>
  A simulated EEPROM and keyboard on which the laws assumed of them hold, and the console
  theorems at concrete keys.
\<close>

record eep_world =
  eep_cells :: "u8 \<Rightarrow> byte"
  eep_ptr :: u8
  eep_cycle :: bool
  eep_keys :: "byte list"

definition eep :: "eep_world platform" where
  "eep = \<lparr>XPAR_M_AXI_BASEADDR = 0x43C00000, plat_In32 = (\<lambda>a w. (0, w)), plat_Out32 = (\<lambda>a v w. w),
     plat_send = (\<lambda>c buf flags w. (Inr (length buf), w)), plat_recv = (\<lambda>c n flags w. (Inl EIO, w)),
     plat_calloc = (\<lambda>n w. (True, w)), plat_socket = (\<lambda>w. (3, w)), plat_bind = (\<lambda>c p w. (0, w)),
     plat_listen = (\<lambda>c w. (0, w)), plat_accept = (\<lambda>l w. ((-1, (0, 0)), w)),
     plat_select = (\<lambda>fds ms w. (Inr [], w)), plat_close = (\<lambda>c w. w), plat_setsockopt = (\<lambda>c opt w. (0, w)), LWIP_SO_SNDRCVTIMEO_NONSTANDARD = False,
     plat_msleep = (\<lambda>ms w. w), plat_ticks = (\<lambda>w. (0, w)), pdMS_TO_TICKS = (\<lambda>ms. ms),
     plat_mem32 = (\<lambda>a w. a), plat_stack = (\<lambda>i w. 0xA5), plat_qspi = (\<lambda>tx n w. (replicate n 0, w))\<rparr>"

fun eep_send :: "byte list \<Rightarrow> eep_world \<Rightarrow> int \<times> eep_world" where
  "eep_send [a] w = (if eep_cycle w then (1, w) else (0, w\<lparr>eep_ptr := a\<rparr>))"
| "eep_send [a, d] w = (if eep_cycle w \<or> a \<ge> 0x80 then (1, w)
     else (0, w\<lparr>eep_cells := (eep_cells w)(a := d), eep_cycle := True\<rparr>))"
| "eep_send _ w = (1, w)"

definition eep_recv :: "nat \<Rightarrow> eep_world \<Rightarrow> (int \<times> byte list) \<times> eep_world" where
  "eep_recv n w = (if eep_cycle w then ((1, []), w)
     else ((0, map (\<lambda>i. eep_cells w (eep_ptr w + of_nat i)) [0..<n]), w\<lparr>eep_ptr := eep_ptr w + of_nat n\<rparr>))"

definition eep_i2c :: "eep_world i2c_driver" where
  "eep_i2c = \<lparr>i2c_config = (\<lambda>w. w), i2c_busy = (\<lambda>b w. (False, w)), i2c_send = (\<lambda>b buf a w. if b = Iic1 then eep_send buf w else (0, w)),
     i2c_recv = (\<lambda>b n a w. if b = Iic1 then eep_recv n w else ((0, replicate n 0), w)),
     task_delay = (\<lambda>t w. if t \<ge> 5 then w\<lparr>eep_cycle := False\<rparr> else w), delay_us = (\<lambda>t w. w\<lparr>eep_cycle := False\<rparr>)\<rparr>"

definition eep_console :: "eep_world console" where
  "eep_console = \<lparr>con_inbyte = (\<lambda>w. (hd (eep_keys w @ [0]), w\<lparr>eep_keys := tl (eep_keys w)\<rparr>)),
     con_ready = (\<lambda>w. (True, w)), con_fifo = (\<lambda>w. (hd (eep_keys w @ [0]), w\<lparr>eep_keys := tl (eep_keys w)\<rparr>)),
     con_scan_word = (\<lambda>n w. ([], w)), con_sscanf = (\<lambda>bs. Some (5, SF_VOUT_MSG, [])), con_strtof = (\<lambda>bs. 0),
     con_strtoul = (\<lambda>bs. 0)\<rparr>"

interpretation eep_chip: eeprom_chip eep eep_i2c eep_cells eep_ptr eep_cycle
  by unfold_locales (auto simp: eep_i2c_def eep_def eep_recv_def intro: exI [of _ 0])

lemma eep_keys_only: "keys_only eep_console eep_cells eep_cycle"
  by (simp add: keys_only_def eep_console_def)

definition eep_start :: "byte list \<Rightarrow> eep_world ctl" where
  "eep_start ks = \<lparr>world = \<lparr>eep_cells = (\<lambda>_. 0xFF), eep_ptr = 0, eep_cycle = False, eep_keys = ks\<rparr>, trace = [],
     the_server = True, listen_sock = 3, client_sock = -1, peeraddr = (0, 0), last_rx_tick = 0, rxbuf = [],
     scalefactors = [sim_sf, sim_sf, sim_sf, sim_sf], CONVVOLTSTODACBITS = 0, CONVDACBITSTOVOLTS = 0,
     smoothramp_type = 0, smoothramp_percentcurved = 0\<rparr>"

lemma eep_start_simps:
  "eep_cycle (world (eep_start ks)) = False" "eep_cells (world (eep_start ks)) = (\<lambda>_. 0xFF)"
  "eep_keys (world (eep_start ks)) = ks" "sf_ok (eep_start ks)"
  by (simp_all add: eep_start_def sf_ok_def)

theorem ReadHardwareFlavor_applies_witness:
  "flavored eep (settings_of (\<lambda>_. 0xFF)) (eep_start []) (exec (ReadHardwareFlavor eep eep_i2c) (eep_start []))"
  using ReadHardwareFlavor_applies [OF eep_chip.eeprom_chip_axioms, of "eep_start []"] by (simp add: eep_start_simps)

theorem console_setting_persists_witness:
  "eep_cells (world (exec (set_resolution eep eep_i2c eep_console) (eep_start [key CHR ''1'']))) = (\<lambda>_. 0xFF)(0x11 := 1)"
proof -
  have "(0x11, set_resolution eep eep_i2c eep_console) \<in> set (binary_entries eep eep_i2c eep_console)"
    by (simp add: binary_entries_def)
  from console_setting_persists [OF eep_chip.eeprom_chip_axioms eep_keys_only _ this refl, of "eep_start [key CHR ''1'']"]
  show ?thesis by (simp add: eep_start_simps eep_console_def key_def)
qed

theorem polarity_off_by_one_witness:
  "polarity_bit (ucast (eep_cells (world (exec (set_polarity eep eep_i2c eep_console)
     (eep_start (replicate 4 (key CHR ''1''))))) 0x13)) 4 = 0"
proof -
  have "\<forall>n < 4. nth_key eep_console n (world (eep_start (replicate 4 (key CHR ''1'')))) \<in> {key CHR ''0'', key CHR ''1''}"
    by (simp add: nth_key_def after_keys_def eep_console_def eep_start_simps numeral_eq_Suc All_less_Suc)
  from polarity_off_by_one [OF eep_chip.eeprom_chip_axioms eep_keys_only _ this]
  show ?thesis by (simp add: eep_start_simps)
qed

theorem console_channel_unchecked_witness:
  "UB \<in> set (trace (exec (console_cmd eep eep_console []) (eep_start [])))"
  using console_channel_unchecked [of eep_console "[]" 5 "[]" "eep_start []" eep]
  by (simp add: eep_console_def eep_start_simps valid_chan_def)

end
