(* ===== verification/Sdcard.thy ===== *)
theory Sdcard
  imports Fatfs I2c
begin

text \<open>
  The SD card at start-up (\<open>sdcard.c\<close>): the network configuration is read from \<open>NET.CNF\<close>, and
  two files are compared with the EEPROM.

  The file system is the parameter \<open>F\<close>, with the calls only this component makes; lwIP's
  character class and address parser, and the constant for the length of a hardware address, are
  \<open>N\<close>. The loop over the lines of the file ends when \<open>f_gets\<close> does, which the model leaves
  open: \<open>sdcard_netconf\<close> is undefined (\<open>None\<close>) when it does not.
\<close>

record 'w fatfs_dir = "'w fatfs" +
  f_gets :: "nat \<Rightarrow> 'w \<Rightarrow> byte list option \<times> 'w"
  f_lseek :: "nat \<Rightarrow> 'w \<Rightarrow> FRESULT \<times> 'w"
  f_truncate :: "'w \<Rightarrow> FRESULT \<times> 'w"
  f_sync :: "'w \<Rightarrow> FRESULT \<times> 'w"
  f_unlink :: "byte list \<Rightarrow> 'w \<Rightarrow> FRESULT \<times> 'w"
  f_mount :: "byte list \<Rightarrow> 'w \<Rightarrow> FRESULT \<times> 'w"
  f_unmount :: "byte list \<Rightarrow> 'w \<Rightarrow> FRESULT \<times> 'w"
  f_chdir :: "byte list \<Rightarrow> 'w \<Rightarrow> FRESULT \<times> 'w"
  malloc_bytes :: "nat \<Rightarrow> 'w \<Rightarrow> byte list"

record netlib =
  lwip_isspace :: "byte \<Rightarrow> bool"
  inet_aton :: "byte list \<Rightarrow> u32 option"
  NETIF_MAX_HWADDR_LEN :: nat

record net_config =
  cfg_addr :: u32
  cfg_mask :: u32
  cfg_gw :: u32
  use_static :: u8
  cfg_hwaddr :: "byte list"

definition must :: "FRESULT \<Rightarrow> bool" where
  "must res = (res \<noteq> FR_OK)"

abbreviation on_file :: "('w \<Rightarrow> 'a \<times> 'w) \<Rightarrow> (('w, 'x) core_scheme, 'a) state" where
  "on_file f \<equiv> call f (\<lambda>_. [])"

section \<open>The network configuration\<close>

text \<open>An address that is missing or that does not parse leaves the old one.\<close>

definition sdcard_parse_inet :: "netlib \<Rightarrow> byte list option \<Rightarrow> u32 \<Rightarrow> u32" where
  "sdcard_parse_inet N arg out = (case arg of
       None \<Rightarrow> out
     | Some a \<Rightarrow> (case inet_aton N a of None \<Rightarrow> out | Some addr \<Rightarrow> addr))"

definition parse_hex :: "byte \<Rightarrow> byte \<Rightarrow> byte option" where
  "parse_hex c out =
     (if 0x30 \<le> c \<and> c \<le> 0x39 then Some (out OR (c - 0x30))
      else if 0x41 \<le> c \<and> c \<le> 0x46 then Some (out OR (c - 0x41 + 10))
      else if 0x61 \<le> c \<and> c \<le> 0x66 then Some (out OR (c - 0x61 + 10))
      else None)"

text \<open>
  The loop over the parts of a hardware address, of which \<open>left\<close> follow; it stops at the first
  part that does not fit, before it looks further. The address is taken only as a whole.
\<close>

fun hwaddr_loop :: "nat \<Rightarrow> byte list \<Rightarrow> byte list \<Rightarrow> byte list option" where
  "hwaddr_loop left (a # b # rest) hwaddr = (case parse_hex a 0 of
       None \<Rightarrow> None
     | Some hi \<Rightarrow> (case parse_hex b (push_bit 4 hi) of
         None \<Rightarrow> None
       | Some v \<Rightarrow>
           (case (left, rest) of
              (Suc m, c # part) \<Rightarrow> if c = 0x3A then hwaddr_loop m part (hwaddr @ [v]) else None
            | (0, []) \<Rightarrow> Some (hwaddr @ [v])
            | _ \<Rightarrow> None)))"
| "hwaddr_loop left _ hwaddr = None"

definition parse_hwaddr :: "nat \<Rightarrow> byte list \<Rightarrow> byte list option" where
  "parse_hwaddr n arg = (if n = 0 then None else hwaddr_loop (n - 1) arg [])"

definition set_hwaddr ::
  "netlib \<Rightarrow> 'w i2c_driver \<Rightarrow> byte list option \<Rightarrow> net_config \<Rightarrow> (('w, 'x) core_scheme, net_config option) state" where
  "set_hwaddr N I arg conf = (
     if arg = None \<or> arg = Some (ascii ''eeprom'')
     then and_then (i2c_get_mac_address I (cfg_hwaddr conf)) (\<lambda>mac. State_Monad.return (Some (conf\<lparr>cfg_hwaddr := mac\<rparr>)))
     else State_Monad.return (Some (case parse_hwaddr (NETIF_MAX_HWADDR_LEN N) (the arg) of
         None \<Rightarrow> conf | Some hwaddr \<Rightarrow> conf\<lparr>cfg_hwaddr := hwaddr\<rparr>)))"

text \<open>A line is cut into a command and an optional argument.\<close>

definition split_line :: "netlib \<Rightarrow> byte list \<Rightarrow> (byte list \<times> byte list option) option" where
  "split_line N lbuf = (let sp = lwip_isspace N; line = dropWhile sp lbuf in
     if line = [] \<or> hd line = 0x23 then None
     else let cmd = takeWhile (\<lambda>c. \<not> sp c) line; rest = dropWhile sp (dropWhile (\<lambda>c. \<not> sp c) line) in
       Some (cmd, if rest = [] then None else Some (takeWhile (\<lambda>c. \<not> sp c) rest)))"

definition netconf_line ::
  "netlib \<Rightarrow> 'w i2c_driver \<Rightarrow> net_config \<Rightarrow> byte list \<Rightarrow> (('w, 'x) core_scheme, net_config option) state" where
  "netconf_line N I conf lbuf = (case split_line N lbuf of
       None \<Rightarrow> State_Monad.return (Some conf)
     | Some (cmd, arg) \<Rightarrow>
         (if cmd = ascii ''dhcp'' then State_Monad.return (Some (
            if arg = None \<or> arg = Some (ascii ''yes'') then conf\<lparr>use_static := 0\<rparr>
            else if arg = Some (ascii ''no'') then conf\<lparr>use_static := 1\<rparr>
            else conf))
          else if cmd = ascii ''addr'' then State_Monad.return (Some (
            conf\<lparr>cfg_addr := sdcard_parse_inet N arg (cfg_addr conf), use_static := 1\<rparr>))
          else if cmd = ascii ''mask'' then State_Monad.return (Some (
            conf\<lparr>cfg_mask := sdcard_parse_inet N arg (cfg_mask conf)\<rparr>))
          else if cmd = ascii ''gw'' then State_Monad.return (Some (
            conf\<lparr>cfg_gw := sdcard_parse_inet N arg (cfg_gw conf)\<rparr>))
          else if cmd = ascii ''hwaddr'' then set_hwaddr N I arg conf
          else State_Monad.return (Some conf)))"

partial_function (option) netconf_loop ::
  "'w fatfs_dir \<Rightarrow> netlib \<Rightarrow> 'w i2c_driver \<Rightarrow> net_config \<Rightarrow> ('w, 'x) core_scheme \<Rightarrow>
     (net_config \<times> ('w, 'x) core_scheme) option" where
  "netconf_loop F N I conf s = (let (line, t) = run_state (on_file (f_gets F 64)) s in
     case line of
       None \<Rightarrow> Some (conf, t)
     | Some lbuf \<Rightarrow> (let (r, u) = run_state (netconf_line N I conf lbuf) t in
         case r of None \<Rightarrow> None | Some conf' \<Rightarrow> netconf_loop F N I conf' u))"

definition sdcard_netconf ::
  "'w fatfs_dir \<Rightarrow> netlib \<Rightarrow> 'w i2c_driver \<Rightarrow> net_config \<Rightarrow> (('w, 'x) core_scheme, net_config option) state" where
  "sdcard_netconf F N I conf = State (\<lambda>s. case netconf_loop F N I conf s of
     None \<Rightarrow> (None, s) | Some (conf', t) \<Rightarrow> (Some conf', t))"

section \<open>The EEPROM files\<close>

definition EE_SIZE :: nat where "EE_SIZE = 256"

text \<open>
  The EEPROM itself is no longer read or written here: its buffer \<open>ee\<close> is memory from \<open>malloc\<close>
  as it is.
\<close>

definition sdcard_sync_eeprom :: "'w fatfs_dir \<Rightarrow> bool \<Rightarrow> (('w, 'x) core_scheme, unit) state" where
  "sdcard_sync_eeprom F eewrite = do {
     ee \<leftarrow> gets (\<lambda>s. malloc_bytes F EE_SIZE (world s));
     (res, data) \<leftarrow> on_file (f_read F EE_SIZE);
     if must res then skip
     else if length data = EE_SIZE \<and> take EE_SIZE ee = data then skip
     else if eewrite then skip
     else do {
       r \<leftarrow> on_file (f_lseek F 0);
       if must r then skip
       else do {
         r \<leftarrow> on_file (f_truncate F);
         if must r then skip
         else do {
           (r, w) \<leftarrow> on_file (f_write F (take EE_SIZE ee));
           if must r \<or> w \<noteq> EE_SIZE then skip
           else do { r \<leftarrow> on_file (f_sync F); skip }
         }
       }
     }
   }"

definition sdcard_process ::
  "'w fatfs_dir \<Rightarrow> netlib \<Rightarrow> 'w i2c_driver \<Rightarrow> net_config \<Rightarrow> (('w, 'x) core_scheme, net_config option) state" where
  "sdcard_process F N I conf = do {
     r \<leftarrow> on_file (f_open F (ascii ''NET.CNF'') [FA_OPEN_EXISTING, FA_READ]);
     and_then (if must r then State_Monad.return (Some conf)
         else and_then (sdcard_netconf F N I conf) (\<lambda>conf. do {
           r \<leftarrow> on_file (f_close F); State_Monad.return (Some conf) }))
       (\<lambda>conf. do {
         r \<leftarrow> on_file (f_open F (ascii ''EEPROM.NEW'') [FA_OPEN_EXISTING, FA_READ]);
         (if must r then skip
          else do {
            sdcard_sync_eeprom F True;
            r \<leftarrow> on_file (f_close F);
            r \<leftarrow> on_file (f_unlink F (ascii ''EEPROM.NEW''));
            skip
          });
         r \<leftarrow> on_file (f_open F (ascii ''EEPROM.DAT'') [FA_OPEN_ALWAYS, FA_READ, FA_WRITE]);
         (if must r then skip
          else do {
            sdcard_sync_eeprom F False;
            r \<leftarrow> on_file (f_close F);
            skip
          });
         State_Monad.return (Some conf)
       })
   }"

text \<open>The result tells whether the partition could not be used, as in the C code.\<close>

definition sdcard_trypart ::
  "'w fatfs_dir \<Rightarrow> netlib \<Rightarrow> 'w i2c_driver \<Rightarrow> net_config \<Rightarrow> byte list \<Rightarrow>
     (('w, 'x) core_scheme, (bool \<times> net_config) option) state" where
  "sdcard_trypart F N I conf root = do {
     r \<leftarrow> on_file (f_mount F root);
     if must r then State_Monad.return (Some (True, conf))
     else do {
       r \<leftarrow> on_file (f_chdir F root);
       if must r then do { r \<leftarrow> on_file (f_unmount F root); State_Monad.return (Some (True, conf)) }
       else and_then (sdcard_process F N I conf) (\<lambda>conf. State_Monad.return (Some (False, conf)))
     }
   }"

definition sdcard_handle ::
  "'w fatfs_dir \<Rightarrow> netlib \<Rightarrow> 'w i2c_driver \<Rightarrow> net_config \<Rightarrow> (('w, 'x) core_scheme, net_config option) state" where
  "sdcard_handle F N I conf = and_then (sdcard_trypart F N I conf (ascii ''0:/'')) (\<lambda>(failed, conf).
     if failed then and_then (sdcard_trypart F N I conf (ascii ''1:/'')) (\<lambda>(_, conf). State_Monad.return (Some conf))
     else State_Monad.return (Some conf))"

end
