(* ===== verification/Sdcard_Props.thy ===== *)
theory Sdcard_Props
  imports Sdcard
begin

text \<open>
  Reading back a configuration: the text of a configuration, line by line, parses to the same
  configuration.
\<close>

section \<open>Hardware addresses\<close>

definition hexdigit :: "byte \<Rightarrow> byte" where
  "hexdigit d = (if d < 10 then 0x30 + d else 0x41 + (d - 10))"

definition hex2 :: "byte \<Rightarrow> byte list" where
  "hex2 b = [hexdigit (drop_bit 4 b), hexdigit (b AND 0x0F)]"

fun mac_text :: "byte list \<Rightarrow> byte list" where
  "mac_text [] = []"
| "mac_text [b] = hex2 b"
| "mac_text (b # bs) = hex2 b @ 0x3A # mac_text bs"

lemma byte_digits:
  "(d :: byte) < 16 \<Longrightarrow> d \<in> {0, 1, 2, 3, 4, 5, 6, 7, 8, 9, 10, 11, 12, 13, 14, 15}"
proof -
  assume "d < 16"
  then have "unat d < 16" by (simp add: word_less_nat_alt)
  then have "unat d \<in> {0, 1, 2, 3, 4, 5, 6, 7, 8, 9, 10, 11, 12, 13, 14, 15}" by simp presburger
  then have "(of_nat (unat d) :: byte) \<in> {0, 1, 2, 3, 4, 5, 6, 7, 8, 9, 10, 11, 12, 13, 14, 15}"
    by (elim insertE) simp_all
  then show ?thesis by simp
qed

lemma parse_hex_digit: "d < 16 \<Longrightarrow> parse_hex (hexdigit d) out = Some (out OR d)"
  by (drule byte_digits, elim insertE) (simp_all add: parse_hex_def hexdigit_def)

lemma nibbles:
  fixes b :: byte
  shows "drop_bit 4 b < 16" "b AND 0x0F < 16" "push_bit 4 (drop_bit 4 b) OR (b AND 0x0F) = b"
proof -
  have m: "(0x0F :: byte) = mask 4" by (simp add: mask_eq_exp_minus_1)
  have "unat b div 16 < 16" using unsigned_less [of b] by (simp add: div_less_iff_less_mult)
  then show "drop_bit 4 b < 16" by (simp add: word_less_nat_alt drop_bit_eq_div unat_div)
  show "b AND 0x0F < 16" unfolding m using and_mask_less' [of 4 b] by simp
  show "push_bit 4 (drop_bit 4 b) OR (b AND 0x0F) = b"
    unfolding m by (rule bit_word_eqI) (auto simp: bit_simps)
qed


lemma hwaddr_loop_hex2:
  "hwaddr_loop left (hex2 b @ rest) acc =
     (case (left, rest) of
        (Suc m, c # part) \<Rightarrow> if c = 0x3A then hwaddr_loop m part (acc @ [b]) else None
      | (0, []) \<Rightarrow> Some (acc @ [b])
      | _ \<Rightarrow> None)"
  by (simp add: hex2_def parse_hex_digit nibbles)

lemma hwaddr_loop_mac_text: "bs \<noteq> [] \<Longrightarrow> hwaddr_loop (length bs - 1) (mac_text bs) acc = Some (acc @ bs)"
proof (induction bs arbitrary: acc rule: mac_text.induct)
  case (2 b)
  show ?case using hwaddr_loop_hex2 [of 0 b "[]"] by simp
next
  case (3 b c bs)
  then show ?case by (simp add: hwaddr_loop_hex2)
qed simp

lemma parse_hwaddr_mac_text: "bs \<noteq> [] \<Longrightarrow> parse_hwaddr (length bs) (mac_text bs) = Some bs"
  by (simp add: parse_hwaddr_def hwaddr_loop_mac_text [of bs "[]", simplified])

section \<open>Lines\<close>

text \<open>
  What the parser needs of the library: blank and line end separate words, the printable
  characters of ASCII do not, and a hardware address has six bytes.
\<close>

definition graphic :: "byte \<Rightarrow> bool" where
  "graphic c = (0x20 < c \<and> c < 0x7F)"

locale net_text =
  fixes N :: netlib
  assumes blank: "lwip_isspace N 0x20" and line_end: "lwip_isspace N 0x0A"
    and graphic_word: "graphic c \<Longrightarrow> \<not> lwip_isspace N c"
    and hwaddr_len: "NETIF_MAX_HWADDR_LEN N = 6"
begin

lemma take_word: "\<forall>c \<in> set w. graphic c \<Longrightarrow> lwip_isspace N x \<Longrightarrow>
    takeWhile (\<lambda>c. \<not> lwip_isspace N c) (w @ x # rest) = w \<and>
    dropWhile (\<lambda>c. \<not> lwip_isspace N c) (w @ x # rest) = x # rest"
  by (induction w) (simp_all add: graphic_word)

lemma skip_blanks: "w \<noteq> [] \<Longrightarrow> \<forall>c \<in> set w. graphic c \<Longrightarrow> dropWhile (lwip_isspace N) (w @ rest) = w @ rest"
  by (cases w) (simp_all add: graphic_word)

lemma split_line_words:
  assumes cmd: "cmd \<noteq> []" "hd cmd \<noteq> 0x23" "\<forall>c \<in> set cmd. graphic c"
    and arg: "arg \<noteq> []" "\<forall>c \<in> set arg. graphic c"
  shows "split_line N (cmd @ 0x20 # arg @ [0x0A]) = Some (cmd, Some arg)"
proof -
  have "\<not> lwip_isspace N (hd cmd)" using cmd by (simp add: graphic_word)
  then have "\<exists>x \<in> set cmd. \<not> lwip_isspace N x" using cmd(1) by (meson hd_in_set)
  then show ?thesis
    using assms take_word [OF cmd(3) blank] take_word [OF arg(2) line_end, of "[]"]
      skip_blanks [OF cmd(1,3)] skip_blanks [OF arg]
    by (auto simp: split_line_def Let_def blank)
qed

end

definition config_line :: "string \<Rightarrow> byte list \<Rightarrow> byte list" where
  "config_line cmd arg = ascii cmd @ 0x20 # arg @ [0x0A]"

lemma graphic_hexdigit: "d < 16 \<Longrightarrow> graphic (hexdigit d)"
  by (drule byte_digits, elim insertE) (simp_all add: graphic_def hexdigit_def)

lemma graphic_mac_text: "\<forall>c \<in> set (mac_text bs). graphic c"
  by (induction bs rule: mac_text.induct) (auto simp: hex2_def graphic_hexdigit nibbles, simp_all add: graphic_def)

lemma mac_text_not_eeprom: "2 \<le> length bs \<Longrightarrow> mac_text bs \<noteq> ascii ''eeprom''"
  by (induction bs rule: mac_text.induct) (auto simp: hex2_def ascii_def)

text \<open>The text of a configuration; \<open>addr\<close> implies a static address, so \<open>dhcp\<close> comes last.\<close>

definition config_text :: "byte list \<Rightarrow> byte list \<Rightarrow> byte list \<Rightarrow> net_config \<Rightarrow> byte list list" where
  "config_text a m g conf =
     [config_line ''addr'' a, config_line ''mask'' m, config_line ''gw'' g,
      config_line ''hwaddr'' (mac_text (cfg_hwaddr conf)),
      config_line ''dhcp'' (ascii (if use_static conf = 0 then ''yes'' else ''no''))]"

text \<open>A file from which \<open>f_gets\<close> delivers these lines, then its end.\<close>

fun delivers :: "'w fatfs_dir \<Rightarrow> byte list list \<Rightarrow> 'w \<Rightarrow> bool" where
  "delivers F [] w = (fst (f_gets F 64 w) = None)"
| "delivers F (line # lines) w =
     (fst (f_gets F 64 w) = Some line \<and> delivers F lines (snd (f_gets F 64 w)))"

lemma netconf_loop_end:
  "delivers F [] (world s) \<Longrightarrow> \<exists>t. netconf_loop F N I conf s = Some (conf, t)"
  by (subst netconf_loop.simps) (auto simp: call_def split: prod.split)

text \<open>Lines that change the configuration only: each by the function beside it.\<close>

lemma netconf_loop_lines:
  fixes s :: "('w, 'x) core_scheme"
  assumes "\<And>conf (t :: ('w, 'x) core_scheme) line f.
      (line, f) \<in> set steps \<Longrightarrow> run_state (netconf_line N I conf line) t = (Some (f conf), t)"
    and "delivers F (map fst steps) (world s)"
  shows "\<exists>t. netconf_loop F N I conf s = Some (fold snd steps conf, t)"
  using assms
proof (induction steps arbitrary: conf s)
  case Nil
  then show ?case using netconf_loop_end [of F s] by simp
next
  case (Cons step steps)
  obtain line f w where step: "step = (line, f)" "f_gets F 64 (world s) = (Some line, w)"
    using Cons.prems(2) by (cases step, cases "f_gets F 64 (world s)") simp
  have "run_state (netconf_line N I conf line) (s\<lparr>world := w\<rparr>) = (Some (f conf), s\<lparr>world := w\<rparr>)"
    using step by (intro Cons.prems(1)) simp
  with step have "netconf_loop F N I conf s = netconf_loop F N I (f conf) (s\<lparr>world := w\<rparr>)"
    by (subst netconf_loop.simps) (simp add: call_def)
  then show ?case using step Cons.IH [of "s\<lparr>world := w\<rparr>" "f conf"] Cons.prems by simp
qed

context net_text
begin

lemma command_words: "ascii ''hwaddr'' \<noteq> ascii ''dhcp''" "ascii ''hwaddr'' \<noteq> ascii ''addr''"
    "ascii ''hwaddr'' \<noteq> ascii ''mask''" "ascii ''hwaddr'' \<noteq> ascii ''gw''"
  by (simp_all add: ascii_def)

lemma split_config_line:
  assumes "cmd \<in> {''addr'', ''mask'', ''gw'', ''hwaddr'', ''dhcp''}" "arg \<noteq> []" "\<forall>c \<in> set arg. graphic c"
  shows "split_line N (config_line cmd arg) = Some (ascii cmd, Some arg)"
  unfolding config_line_def
proof (rule split_line_words [OF _ _ _ assms(2,3)])
  show "ascii cmd \<noteq> []" "hd (ascii cmd) \<noteq> 0x23" "\<forall>c \<in> set (ascii cmd). graphic c"
    using assms(1) by (auto simp: ascii_def graphic_def)
qed

lemma netconf_line_addr:
  assumes "inet_aton N a = Some addr" "a \<noteq> []" "\<forall>c \<in> set a. graphic c"
  shows "run_state (netconf_line N I conf (config_line ''addr'' a)) t =
      (Some (conf\<lparr>cfg_addr := addr, use_static := 1\<rparr>), t)"
    "run_state (netconf_line N I conf (config_line ''mask'' a)) t = (Some (conf\<lparr>cfg_mask := addr\<rparr>), t)"
    "run_state (netconf_line N I conf (config_line ''gw'' a)) t = (Some (conf\<lparr>cfg_gw := addr\<rparr>), t)"
  using assms by (simp_all add: netconf_line_def split_config_line sdcard_parse_inet_def ascii_def)

lemma netconf_line_dhcp:
  "run_state (netconf_line N I conf (config_line ''dhcp'' (ascii (if st = 0 then ''yes'' else ''no'')))) t =
     (Some (conf\<lparr>use_static := if st = 0 then 0 else 1\<rparr>), t)"
proof -
  have "split_line N (config_line ''dhcp'' (ascii (if st = 0 then ''yes'' else ''no''))) =
      Some (ascii ''dhcp'', Some (ascii (if st = 0 then ''yes'' else ''no'')))"
    by (rule split_config_line) (auto simp: ascii_def graphic_def)
  then show ?thesis by (simp add: netconf_line_def) (simp add: ascii_def)
qed

lemma netconf_line_hwaddr:
  assumes "length mac = 6"
  shows "run_state (netconf_line N I conf (config_line ''hwaddr'' (mac_text mac))) t =
     (Some (conf\<lparr>cfg_hwaddr := mac\<rparr>), t)"
proof -
  have ne: "mac \<noteq> []" "mac_text mac \<noteq> []" "mac_text mac \<noteq> ascii ''eeprom''"
    using assms mac_text_not_eeprom [of mac] by (auto elim: mac_text.elims simp: hex2_def)
  then have "split_line N (config_line ''hwaddr'' (mac_text mac)) = Some (ascii ''hwaddr'', Some (mac_text mac))"
    using graphic_mac_text [of mac] by (simp add: split_config_line)
  then show ?thesis
    using parse_hwaddr_mac_text [OF ne(1)] assms ne(3)
    by (simp add: netconf_line_def set_hwaddr_def hwaddr_len command_words)
qed

end

text \<open>
  C23. Round trip of the network configuration: when \<open>f_gets\<close> delivers the lines of a
  configuration (addresses in any text the library reads as them, the hardware address as six
  hexadecimal bytes), \<open>sdcard_netconf\<close> ends and returns that configuration, whatever it was
  given to start with.
\<close>

theorem netconf_round_trip:
  fixes s :: "('w, 'x) core_scheme"
  assumes "net_text N" "delivers F (config_text a m g conf) (world s)"
    and "inet_aton N a = Some (cfg_addr conf)" "inet_aton N m = Some (cfg_mask conf)" "inet_aton N g = Some (cfg_gw conf)"
    and "a \<noteq> []" "m \<noteq> []" "g \<noteq> []" "\<forall>c \<in> set (a @ m @ g). graphic c"
    and "length (cfg_hwaddr conf) = 6" "use_static conf \<in> {0, 1}"
  shows "result (sdcard_netconf F N I old) s = Some conf"
proof -
  note net = net_text.netconf_line_addr [OF assms(1)] net_text.netconf_line_hwaddr [OF assms(1)]
    net_text.netconf_line_dhcp [OF assms(1)]
  let ?steps = "[(config_line ''addr'' a, \<lambda>c :: net_config. c\<lparr>cfg_addr := cfg_addr conf, use_static := 1\<rparr>),
    (config_line ''mask'' m, \<lambda>c. c\<lparr>cfg_mask := cfg_mask conf\<rparr>),
    (config_line ''gw'' g, \<lambda>c. c\<lparr>cfg_gw := cfg_gw conf\<rparr>),
    (config_line ''hwaddr'' (mac_text (cfg_hwaddr conf)), \<lambda>c. c\<lparr>cfg_hwaddr := cfg_hwaddr conf\<rparr>),
    (config_line ''dhcp'' (ascii (if use_static conf = 0 then ''yes'' else ''no'')),
      \<lambda>c. c\<lparr>use_static := if use_static conf = 0 then 0 else 1\<rparr>)]"
  have "\<exists>t. netconf_loop F N I old s = Some (fold snd ?steps old, t)"
  proof (rule netconf_loop_lines)
    show "delivers F (map fst ?steps) (world s)" using assms(2) by (simp add: config_text_def)
    fix c and t :: "('w, 'x) core_scheme" and line f assume "(line, f) \<in> set ?steps"
    with assms(3-10) show "run_state (netconf_line N I c line) t = (Some (f c), t)"
      by (auto simp: net simp del: if_split)
  qed
  moreover have "fold snd ?steps old = conf" using assms(11) by (cases conf) auto
  ultimately show ?thesis by (auto simp: sdcard_netconf_def result_def)
qed

end
