(* ===== verification/Sdcard_Witnesses.thy ===== *)
theory Sdcard_Witnesses
  imports Sdcard_Props
begin

text \<open>
  A card whose world is the lines of the file still to be read, and a reader of dotted
  addresses, on which the round trip of \<open>Sdcard_Props\<close> is applied.
\<close>

fun dotted :: "u32 \<Rightarrow> u32 \<Rightarrow> byte list \<Rightarrow> u32 option" where
  "dotted acc cur [] = Some (acc * 256 + cur)"
| "dotted acc cur (c # cs) =
     (if c = 0x2E then dotted (acc * 256 + cur) 0 cs
      else if 0x30 \<le> c \<and> c \<le> 0x39 then dotted acc (cur * 10 + ucast (c - 0x30)) cs
      else None)"

definition text_lib :: netlib where
  "text_lib = \<lparr>lwip_isspace = \<lambda>c. c \<in> {0x20, 0x09, 0x0A, 0x0B, 0x0C, 0x0D},
     inet_aton = dotted 0 0, NETIF_MAX_HWADDR_LEN = 6\<rparr>"

definition line_card :: "byte list list fatfs_dir" where
  "line_card = \<lparr>f_open = \<lambda>_ _ w. (FR_OK, w), f_close = \<lambda>w. (FR_OK, w), f_read = \<lambda>_ w. ((FR_OK, []), w),
     f_write = \<lambda>bs w. ((FR_OK, length bs), w),
     f_gets = \<lambda>_ w. (case w of [] \<Rightarrow> (None, []) | line # rest \<Rightarrow> (Some line, rest)),
     f_lseek = \<lambda>_ w. (FR_OK, w), f_truncate = \<lambda>w. (FR_OK, w), f_sync = \<lambda>w. (FR_OK, w),
     f_unlink = \<lambda>_ w. (FR_OK, w), f_mount = \<lambda>_ w. (FR_OK, w), f_unmount = \<lambda>_ w. (FR_OK, w),
     f_chdir = \<lambda>_ w. (FR_OK, w), malloc_bytes = \<lambda>n _. replicate n 0\<rparr>"

interpretation ascii_text: net_text text_lib
  by unfold_locales (auto simp: text_lib_def graphic_def)

definition sample_config :: net_config where
  "sample_config = \<lparr>cfg_addr = 0x0A008E64, cfg_mask = 0xFFFFFF00, cfg_gw = 0x0A008E01, use_static = 1,
     cfg_hwaddr = [0x00, 0x0A, 0x35, 0x9F, 0xC4, 0xFF]\<rparr>"

definition sample_lines :: "byte list list" where
  "sample_lines = config_text (ascii ''10.0.142.100'') (ascii ''255.255.255.0'') (ascii ''10.0.142.1'') sample_config"

lemma delivers_lines: "delivers line_card lines lines"
  by (induction lines) (simp_all add: line_card_def)

theorem netconf_round_trip_witness:
  "\<forall>I old. result (sdcard_netconf line_card text_lib I old) \<lparr>world = sample_lines, trace = []\<rparr> = Some sample_config"
proof (intro allI)
  fix I and old
  show "result (sdcard_netconf line_card text_lib I old) \<lparr>world = sample_lines, trace = []\<rparr> = Some sample_config"
  proof (rule netconf_round_trip [OF ascii_text.net_text_axioms,
        of _ "ascii ''10.0.142.100''" "ascii ''255.255.255.0''" "ascii ''10.0.142.1''"])
    show "delivers line_card (config_text (ascii ''10.0.142.100'') (ascii ''255.255.255.0'') (ascii ''10.0.142.1'') sample_config)
        (world \<lparr>world = sample_lines, trace = []\<rparr>)"
      by (simp add: sample_lines_def delivers_lines)
  qed (simp_all add: text_lib_def sample_config_def ascii_def graphic_def)
qed

end
