(* ===== verification/Discover.thy ===== *)
theory Discover
  imports Tftp_Transfer
begin

text \<open>
  The discovery service (\<open>discover.c\<close>): a UDP socket on port 3000 that answers requests with a
  fixed reply. Its static variables are the socket and the packet buffer of the reply, which is
  shared by all answers: \<open>disco_refs\<close> is the reference count of that buffer. The events are
  those of the TFTP server; a received packet buffer belongs to the callback it is handed to.
\<close>

record 'w lwip_udp = "'w lwip" +
  pbuf_alloc_reference :: "nat \<Rightarrow> 'w \<Rightarrow> bool \<times> 'w"
  udp_bind_port :: "u16 \<Rightarrow> 'w \<Rightarrow> bool \<times> 'w"
  udp_recv :: "'w \<Rightarrow> 'w"

record 'w disco =
  d_world :: 'w
  d_log :: "tftp_event list"
  disco_pcb :: bool
  disco_reply_buf :: "byte list option"
  disco_refs :: nat

definition d_emit :: "tftp_event \<Rightarrow> ('w disco, unit) state" where
  "d_emit e = modify (\<lambda>s. s\<lparr>d_log := d_log s @ [e]\<rparr>)"

definition d_call :: "('w \<Rightarrow> 'a \<times> 'w) \<Rightarrow> ('w disco, 'a) state" where
  "d_call f = State (\<lambda>s. case f (d_world s) of (r, w) \<Rightarrow> (r, s\<lparr>d_world := w\<rparr>))"

definition d_act :: "('w \<Rightarrow> 'w) \<Rightarrow> ('w disco, unit) state" where
  "d_act f = modify (\<lambda>s. s\<lparr>d_world := f (d_world s)\<rparr>)"

text \<open>
  The header and the serial number are copied to a structure of 12 bytes (two of them padding),
  so at most four bytes of the body count. The received packet buffer is not freed on any path.
\<close>

definition disco_recv :: "('w, 'z) lwip_udp_scheme \<Rightarrow> pbuf \<Rightarrow> u32 \<Rightarrow> u16 \<Rightarrow> ('w disco, unit) state" where
  "disco_recv L p a port = do {
     d_emit Palloc;
     let msg = pbuf_copy_partial L p 12 0;
     let n = length msg;
     if n < 8 \<or> msg ! 0 \<noteq> 0x50 \<or> msg ! 1 \<noteq> 0x53 then skip
     else if of_nat n - 8 < of_be32 (take 4 (drop 4 msg)) then skip
     else if of_be16 (take 2 (drop 2 msg)) \<noteq> 1234 then skip
     else do {
       ok \<leftarrow> d_call (pbuf_alloc L 0);
       if ok then do {
         d_emit Palloc;
         reply \<leftarrow> gets disco_reply_buf;
         case reply of
           None \<Rightarrow> d_emit Bad
         | Some bs \<Rightarrow> do {
             modify (\<lambda>s. s\<lparr>disco_refs := disco_refs s + 1\<rparr>);
             d_act (udp_sendto L a port bs);
             d_emit (Udp a port bs);
             d_emit Pfree;
             modify (\<lambda>s. s\<lparr>disco_refs := disco_refs s - 1\<rparr>)
           }
       } else skip
     }
   }"

definition disco_reply :: "u32 \<Rightarrow> byte list" where
  "disco_reply git_hash = [0x50, 0x53] @ be16 1234 @ be32 8 @ be32 git_hash @ [0, 0] @ [0, 0]"

text \<open>The result tells whether the callback has been installed.\<close>

definition discover_prep :: "('w, 'z) lwip_udp_scheme \<Rightarrow> u32 \<Rightarrow> ('w disco, bool) state" where
  "discover_prep L git_hash = do {
     pcb \<leftarrow> d_call (udp_new L);
     modify (\<lambda>s. s\<lparr>disco_pcb := pcb\<rparr>);
     if \<not> pcb then State_Monad.return False
     else do {
       err \<leftarrow> d_call (udp_bind_port L 3000);
       ok \<leftarrow> d_call (pbuf_alloc_reference L (length (disco_reply git_hash)));
       modify (\<lambda>s. s\<lparr>disco_reply_buf := if ok then Some (disco_reply git_hash) else None,
         disco_refs := if ok then 1 else 0\<rparr>);
       if \<not> ok then State_Monad.return False
       else do { d_act (udp_recv L); State_Monad.return True }
     }
   }"

section \<open>What the service answers\<close>

text \<open>
  The requests that are answered: a header with the message number 1234 whose length is that of
  a body of at most four bytes, all of which has arrived.
\<close>

definition disco_request :: "byte list \<Rightarrow> bool" where
  "disco_request bs \<longleftrightarrow> (\<exists>mlen rest. bs = [0x50, 0x53] @ be16 1234 @ be32 mlen @ rest \<and>
     unat mlen \<le> min 4 (length rest))"

lemma exec_d [run_simps]:
  "exec (d_emit e) s = s\<lparr>d_log := d_log s @ [e]\<rparr>"
  "exec (d_call f) s = s\<lparr>d_world := snd (f (d_world s))\<rparr>" "result (d_call f) s = fst (f (d_world s))"
  "exec (d_act g) s = s\<lparr>d_world := g (d_world s)\<rparr>"
  by (simp_all add: d_emit_def d_call_def d_act_def exec_modify) (simp_all add: exec_def result_def split_beta)

lemma be16_of_be16: "be16 (of_be16 [a, b]) = [a, b]"
proof -
  let ?w = "of_be16 [a, b]"
  have "ucast (drop_bit 8 ?w) = a" "ucast ?w = b" by (rule bit_word_eqI; auto simp: bit_simps dest: bit_imp_le_length)+
  then show ?thesis by (simp only: be16_def)
qed

lemma disco_header:
  assumes "8 \<le> length msg"
  shows "msg = [0x50, 0x53] @ be16 mid @ be32 mlen @ drop 8 msg \<longleftrightarrow>
    msg ! 0 = 0x50 \<and> msg ! 1 = 0x53 \<and> of_be16 (take 2 (drop 2 msg)) = mid \<and> of_be32 (take 4 (drop 4 msg)) = mlen"
proof -
  obtain a b c d e f g h r where m: "msg = a # b # c # d # e # f # g # h # r"
    using assms by (auto simp: numeral_eq_Suc Suc_le_length_iff)
  have "be16 mid = [c, d] \<longleftrightarrow> of_be16 [c, d] = mid"
    using be16_of_be16 [of c d] of_be16_be16 [of mid] by metis
  moreover have "be32 mlen = [e, f, g, h] \<longleftrightarrow> of_be32 [e, f, g, h] = mlen"
    using be32_of_be32 [of e f g h] of_be32_be32 [of mlen] by metis
  moreover have "[c, d, e, f, g, h] @ r = be16 mid @ be32 mlen @ r \<longleftrightarrow> be16 mid = [c, d] \<and> be32 mlen = [e, f, g, h]"
    by (auto simp: be16_def be32_def)
  ultimately show ?thesis by (simp add: m del: of_be16.simps of_be32.simps)
qed

text \<open>The checks of the code on the first twelve bytes decide exactly that.\<close>

lemma disco_request_checked:
  fixes bs msg :: "byte list"
  defines "msg \<equiv> take 12 bs"
  shows "disco_request bs \<longleftrightarrow> 8 \<le> length msg \<and> msg ! 0 = 0x50 \<and> msg ! 1 = 0x53 \<and>
    \<not> of_nat (length msg) - 8 < of_be32 (take 4 (drop 4 msg)) \<and> of_be16 (take 2 (drop 2 msg)) = 1234"
proof (cases "8 \<le> length bs")
  case True
  let ?mlen = "of_be32 (take 4 (drop 4 bs))"
  have msg: "8 \<le> length msg" "msg ! 0 = bs ! 0" "msg ! 1 = bs ! 1" "take 2 (drop 2 msg) = take 2 (drop 2 bs)"
    "take 4 (drop 4 msg) = take 4 (drop 4 bs)" "length msg - 8 = min 4 (length bs - 8)"
    using True by (simp_all add: msg_def drop_take min_def) arith
  have "(of_nat (length msg) :: u32) - 8 = of_nat (length msg - 8)" using msg(1) by (simp add: of_nat_diff)
  moreover have "unat (of_nat (length msg - 8) :: u32) = length msg - 8"
    by (simp add: unsigned_of_nat take_bit_eq_mod msg_def)
  ultimately have len: "\<not> of_nat (length msg) - 8 < ?mlen \<longleftrightarrow> unat ?mlen \<le> min 4 (length bs - 8)"
    by (simp add: word_less_nat_alt not_less msg(6) del: of_nat_diff)
  have "disco_request bs \<longleftrightarrow>
      (\<exists>mlen. bs = [0x50, 0x53] @ be16 1234 @ be32 mlen @ drop 8 bs \<and> unat mlen \<le> min 4 (length bs - 8))"
  proof
    assume "disco_request bs"
    then obtain mlen rest where "bs = [0x50, 0x53] @ be16 1234 @ be32 mlen @ rest" "unat mlen \<le> min 4 (length rest)"
      unfolding disco_request_def by blast
    then show "\<exists>mlen. bs = [0x50, 0x53] @ be16 1234 @ be32 mlen @ drop 8 bs \<and> unat mlen \<le> min 4 (length bs - 8)"
      by (intro exI [of _ mlen]) (simp add: be16_def be32_def)
  next
    assume "\<exists>mlen. bs = [0x50, 0x53] @ be16 1234 @ be32 mlen @ drop 8 bs \<and> unat mlen \<le> min 4 (length bs - 8)"
    then show "disco_request bs" unfolding disco_request_def by (metis length_drop)
  qed
  also have "\<dots> \<longleftrightarrow> bs ! 0 = 0x50 \<and> bs ! 1 = 0x53 \<and> of_be16 (take 2 (drop 2 bs)) = 1234 \<and> unat ?mlen \<le> min 4 (length bs - 8)"
    using disco_header [OF True, of 1234] by metis
  finally show ?thesis using msg(1-5) len by auto
next
  case False
  then show ?thesis by (auto simp: msg_def disco_request_def)
qed

lemma disco_recv_run:
  fixes L :: "'w lwip_udp" and p :: pbuf and a :: u32 and port :: u16
  assumes "pbuf_laws (lwip.truncate L)" and "fst (pbuf_alloc L 0 (d_world s))" and "disco_reply_buf s = Some bs"
  defines "t \<equiv> exec (disco_recv L p a port) s"
  shows "d_log t = d_log s @ (if disco_request (concat p) then [Palloc, Palloc, Udp a port bs, Pfree] else [Palloc])"
    and "disco_reply_buf t = Some bs" and "disco_refs t = disco_refs s"
proof -
  have msg: "pbuf_copy_partial L p 12 0 = take 12 (concat p)"
    using pbuf_laws.copy_partial [OF assms(1), of p 12 0] by (simp add: lwip.truncate_def)
  show "d_log t = d_log s @ (if disco_request (concat p) then [Palloc, Palloc, Udp a port bs, Pfree] else [Palloc])"
    "disco_reply_buf t = Some bs" "disco_refs t = disco_refs s"
    unfolding t_def disco_recv_def msg disco_request_checked Let_def
    using assms(2,3) by (auto simp: run_simps not_less)
qed

text \<open>The datagrams a service has sent.\<close>

definition is_udp :: "tftp_event \<Rightarrow> bool" where
  "is_udp e = (case e of Udp _ _ _ \<Rightarrow> True | _ \<Rightarrow> False)"

lemma disco_serves:
  fixes L :: "'w lwip_udp" and reqs :: "(pbuf \<times> u32 \<times> u16) list"
  assumes "pbuf_laws (lwip.truncate L)" and "\<And>w. fst (pbuf_alloc L 0 w)" and "disco_reply_buf s = Some bs"
  defines "t \<equiv> exec (for_each (\<lambda>(p, a, port). disco_recv L p a port) reqs) s"
  shows "\<exists>es. d_log t = d_log s @ es \<and> live es = int (length reqs) \<and>
      filter is_udp es = [Udp a port bs. (p, a, port) \<leftarrow> reqs, disco_request (concat p)] \<and>
      disco_reply_buf t = Some bs \<and> disco_refs t = disco_refs s"
  using assms(3) unfolding t_def
proof (induction reqs arbitrary: s)
  case Nil
  then show ?case by (simp add: run_simps)
next
  case (Cons req reqs)
  obtain p a port where req: "req = (p, a, port)" by (cases req)
  note r = disco_recv_run [OF assms(1,2) Cons.prems, of p a port]
  from Cons.IH [OF r(2)] show ?case
    by (auto simp: req run_simps r is_udp_def)
qed

text \<open>
  C25. The discovery service once it is set up: every request of a sequence of datagrams is
  answered once, in order and to its sender, with the reply of the firmware, and nothing else is
  sent; the buffer of the reply is kept. But every datagram received, answered or not, costs a
  packet buffer that is never freed.
\<close>

theorem discovery_answers_and_leaks:
  fixes L :: "'w lwip_udp" and reqs :: "(pbuf \<times> u32 \<times> u16) list"
  assumes "pbuf_laws (lwip.truncate L)" and "\<And>w. fst (pbuf_alloc L 0 w)"
    and "result (discover_prep L git_hash) s"
  defines "t \<equiv> exec (do { discover_prep L git_hash; for_each (\<lambda>(p, a, port). disco_recv L p a port) reqs }) s"
  shows "\<exists>es. d_log t = d_log s @ es \<and> live es = int (length reqs) \<and>
      filter is_udp es = [Udp a port (disco_reply git_hash). (p, a, port) \<leftarrow> reqs, disco_request (concat p)] \<and>
      disco_reply_buf t = Some (disco_reply git_hash) \<and> disco_refs t = 1"
proof -
  let ?s = "exec (discover_prep L git_hash) s"
  have "disco_reply_buf ?s = Some (disco_reply git_hash)" "disco_refs ?s = 1" "d_log ?s = d_log s"
    using assms(3) by (auto simp: discover_prep_def run_simps split: if_splits)
  with disco_serves [OF assms(1,2), of ?s "disco_reply git_hash" reqs] show ?thesis
    by (simp add: t_def run_simps)
qed

end
