(* ===== verification/Discover_Witnesses.thy ===== *)
theory Discover_Witnesses
  imports Discover Tftp_Witnesses
begin

text \<open>The discovery service over the network stack of \<open>Tftp_Witnesses\<close>.\<close>

definition mem_udp :: "mem lwip_udp" where
  "mem_udp = lwip.extend mem_lwip
     (lwip_udp.fields (\<lambda>_ w. (True, w)) (\<lambda>_ w. (True, w)) (\<lambda>w. w))"

lemma mem_udp_laws: "pbuf_laws (lwip.truncate mem_udp)"
proof -
  have "lwip.truncate mem_udp = mem_lwip"
    by (simp add: mem_udp_def lwip.truncate_def lwip.extend_def)
  then show ?thesis by (simp add: mem_net.pbuf_laws_axioms)
qed

definition disco_idle :: "mem disco" where
  "disco_idle = \<lparr>d_world = (Map.empty, None), d_log = [], disco_pcb = False, disco_reply_buf = None, disco_refs = 0\<rparr>"

text \<open>A request in two segments, and one for another message number.\<close>

definition disco_datagrams :: "(pbuf \<times> u32 \<times> u16) list" where
  "disco_datagrams = [([[0x50, 0x53, 0x04], [0xD2, 0, 0, 0, 0]], 7, 1024), ([[0x50, 0x53, 0, 1, 0, 0, 0, 0]], 8, 1025)]"

theorem discovery_answers_and_leaks_witness:
  "\<exists>es. d_log (exec (do { discover_prep mem_udp 0xABCD;
        for_each (\<lambda>(p, a, port). disco_recv mem_udp p a port) disco_datagrams }) disco_idle) = es \<and>
     live es = 2 \<and> filter is_udp es = [Udp 7 1024 (disco_reply 0xABCD)]"
proof -
  have "result (discover_prep mem_udp 0xABCD) disco_idle" "\<And>w. fst (pbuf_alloc mem_udp 0 w)"
    by (simp_all add: discover_prep_def run_simps mem_udp_def mem_lwip_def lwip.extend_def lwip_udp.fields_def)
  moreover have "disco_request [0x50, 0x53, 0x04, 0xD2, 0, 0, 0, 0]" "\<not> disco_request [0x50, 0x53, 0, 1, 0, 0, 0, 0]"
    by (simp_all add: disco_request_checked)
  ultimately show ?thesis
    using discovery_answers_and_leaks [OF mem_udp_laws, of "0xABCD" disco_idle disco_datagrams]
    by (auto simp: disco_datagrams_def disco_idle_def)
qed

end
