(* ===== verification/Startup.thy ===== *)
theory Startup
  imports PscMain Sdcard Console_Props
begin

text \<open>
  From power-up to the network loop: \<open>main\<close> and \<open>realmain\<close> of \<open>main.c\<close>, and \<open>net_setup.c\<close>.

  What the board support package and lwIP do in between is a parameter \<open>B\<close>. A new thread is a
  call with the thread's name: the threads themselves are modelled one by one (\<open>realmain\<close>,
  \<open>dhcp_client\<close>, the console), and so are the two callbacks that are queued for the thread of
  lwIP. \<open>main\<close> ends where it starts the scheduler.
\<close>

record 'w bsp =
  qspi_lookup :: "'w \<Rightarrow> bool"
  qspi_cfg_init :: "'w \<Rightarrow> int \<times> 'w"
  qspi_options :: "'w \<Rightarrow> 'w"
  qspi_prescaler :: "'w \<Rightarrow> 'w"
  qspi_select :: "'w \<Rightarrow> 'w"
  lwip_init :: "'w \<Rightarrow> 'w"
  xemac_add :: "u32 \<Rightarrow> u32 \<Rightarrow> u32 \<Rightarrow> byte list \<Rightarrow> 'w \<Rightarrow> bool \<times> 'w"
  netif_set_default :: "'w \<Rightarrow> 'w"
  netif_set_up :: "'w \<Rightarrow> 'w"
  sys_thread_new :: "string \<Rightarrow> 'w \<Rightarrow> 'w"
  tcpip_callback :: "string \<Rightarrow> 'w \<Rightarrow> int \<times> 'w"
  dhcp_start :: "'w \<Rightarrow> int \<times> 'w"
  dhcp_fine_tmr :: "'w \<Rightarrow> 'w"
  dhcp_coarse_tmr :: "'w \<Rightarrow> 'w"
  portTICK_PERIOD_MS :: u32
  DHCP_FINE_TIMER_MSECS :: int
  DHCP_COARSE_TIMER_SECS :: int

section \<open>The flash controller\<close>

text \<open>The result is that of the C function: true for \<open>XST_SUCCESS\<close>.\<close>

definition QspiFlashInit :: "'w bsp \<Rightarrow> (('w, 'x) core_scheme, bool) state" where
  "QspiFlashInit B = do {
     found \<leftarrow> gets (\<lambda>s. qspi_lookup B (world s));
     if \<not> found then State_Monad.return False
     else do {
       Status \<leftarrow> call (qspi_cfg_init B) (\<lambda>_. []);
       if Status \<noteq> 0 then State_Monad.return False
       else do {
         silently (qspi_options B);
         silently (qspi_prescaler B);
         silently (qspi_select B);
         State_Monad.return True
       }
     }
   }"

section \<open>The network\<close>

text \<open>
  A turn of the DHCP thread; \<open>mscnt\<close> counts the milliseconds since the coarse timer was last
  served. The previous address is only kept to print a new one.
\<close>

definition dhcp_turn :: "'w bsp \<Rightarrow> 'w i2c_driver \<Rightarrow> int \<Rightarrow> (('w, 'x) core_scheme, int) state" where
  "dhcp_turn B I mscnt = do {
     silently (task_delay I (word_of_int (DHCP_FINE_TIMER_MSECS B) div portTICK_PERIOD_MS B));
     silently (dhcp_fine_tmr B);
     let mscnt = mscnt + DHCP_FINE_TIMER_MSECS B;
     if mscnt \<ge> DHCP_COARSE_TIMER_SECS B * 1000
     then do { silently (dhcp_coarse_tmr B); State_Monad.return 0 }
     else State_Monad.return mscnt
   }"

fun dhcp_loop :: "'w bsp \<Rightarrow> 'w i2c_driver \<Rightarrow> nat \<Rightarrow> int \<Rightarrow> (('w, 'x) core_scheme, int) state" where
  "dhcp_loop B I 0 mscnt = State_Monad.return mscnt"
| "dhcp_loop B I (Suc n) mscnt = do { mscnt \<leftarrow> dhcp_turn B I mscnt; dhcp_loop B I n mscnt }"

text \<open>The endless loop of the thread, for \<open>n\<close> turns.\<close>

definition dhcp_client :: "'w bsp \<Rightarrow> 'w i2c_driver \<Rightarrow> nat \<Rightarrow> (('w, 'x) core_scheme, int) state" where
  "dhcp_client B I n = dhcp_loop B I n 0"

definition net_setup :: "'w bsp \<Rightarrow> net_config \<Rightarrow> (('w, 'x) core_scheme, unit) state" where
  "net_setup B conf = do {
     silently (lwip_init B);
     ok \<leftarrow> call (xemac_add B (cfg_addr conf) (cfg_mask conf) (cfg_gw conf) (cfg_hwaddr conf)) (\<lambda>_. []);
     if \<not> ok then skip
     else do {
       silently (netif_set_default B);
       silently (netif_set_up B);
       silently (sys_thread_new B ''NIC'');
       if use_static conf \<noteq> 0 then skip
       else do {
         err \<leftarrow> call (dhcp_start B) (\<lambda>_. []);
         if err = 0 then silently (sys_thread_new B ''dhcpcd'') else skip
       }
     }
   }"

definition discover_setup :: "'w bsp \<Rightarrow> (('w, 'x) core_scheme, unit) state" where
  "discover_setup B = do { err \<leftarrow> call (tcpip_callback B ''discover_prep'') (\<lambda>_. []); skip }"

definition tftp_setup :: "'w bsp \<Rightarrow> (('w, 'x) core_scheme, unit) state" where
  "tftp_setup B = do { err \<leftarrow> call (tcpip_callback B ''tftp_prepare'') (\<lambda>_. []); skip }"

section \<open>The main program\<close>

definition print_firmware_version :: "'w platform \<Rightarrow> (('w, 'x) core_scheme, unit) state" where
  "print_firmware_version P = do {
     vs \<leftarrow> map_each (grd P) [ID_REG, VERSION_REG, PRJ_ID, PRJ_VERSION, PRJ_SHASUM, PRJ_TIMESTAMP];
     skip
   }"

definition main_defaults :: "'w platform \<Rightarrow> 'w i2c_driver \<Rightarrow> (('w, 'x) core_scheme, unit) state" where
  "main_defaults P I = do {
     cwr P 1 DIGOUT_PARK_REG 1;
     cwr P 2 DIGOUT_PARK_REG 1;
     cwr P 3 DIGOUT_PARK_REG 1;
     cwr P 4 DIGOUT_PARK_REG 1;
     gwr P EVR_RESET_REG 0xFF;
     silently (delay_us I 100);
     silently (delay_us I 100);
     gwr P EVR_PM_EVENTNUM_REG 29;
     gwr P EVR_1HZ_EVENTNUM_REG 32;
     gwr P EVR_INJ_EVENTNUM_REG 32;
     gwr P FOFB_IPADDR_REG 0x0A008E64;
     silently (delay_us I 100)
   }"

definition firmware_main :: "'w platform \<Rightarrow> 'w i2c_driver \<Rightarrow> 'w bsp \<Rightarrow> (('w, 'x) ctl_scheme, unit option) state" where
  "firmware_main P I B = do {
     print_firmware_version P;
     gwr P NCO_STEPSIZE_REG 427853;
     init_i2c I;
     and_then (prog_si570 I) (\<lambda>_. do {
       st \<leftarrow> QspiFlashInit B;
       silently (delay_us I 100);
       and_then (ReadHardwareFlavor P I) (\<lambda>_. do {
         main_defaults P I;
         silently (sys_thread_new B ''main'');
         State_Monad.return (Some ())
       })
     })
   }"

definition net_config_zero :: "netlib \<Rightarrow> net_config" where
  "net_config_zero N = \<lparr>cfg_addr = 0, cfg_mask = 0, cfg_gw = 0, use_static = 0,
     cfg_hwaddr = replicate (NETIF_MAX_HWADDR_LEN N) 0\<rparr>"

text \<open>When the server loop returns the thread only prints, forever.\<close>

definition realmain ::
  "'w platform \<Rightarrow> 'w sysinfo \<Rightarrow> 'w fatfs_dir \<Rightarrow> netlib \<Rightarrow> 'w i2c_driver \<Rightarrow> 'w bsp \<Rightarrow> nat \<Rightarrow> nat \<Rightarrow>
     (('w, 'x) sched_scheme, unit option) state" where
  "realmain P S F N I B keysize turns = and_then (sdcard_handle F N I (net_config_zero N)) (\<lambda>conf. do {
     InitSettingsfromQspi P;
     net_setup B conf;
     discover_setup B;
     tftp_setup B;
     psc_run P (main_conf P S) (pscdata_poll P S (main_conf P S)) keysize turns
   })"

section \<open>The DHCP thread\<close>

text \<open>A turn of the thread on the world: the delay and the fine timer.\<close>

abbreviation dhcp_fine :: "'w bsp \<Rightarrow> 'w i2c_driver \<Rightarrow> 'w \<Rightarrow> 'w" where
  "dhcp_fine B I w \<equiv> dhcp_fine_tmr B (task_delay I (word_of_int (DHCP_FINE_TIMER_MSECS B) div portTICK_PERIOD_MS B) w)"

lemma dhcp_turn_run:
  "run_state (dhcp_turn B I m) s =
     (if m + DHCP_FINE_TIMER_MSECS B \<ge> DHCP_COARSE_TIMER_SECS B * 1000
      then (0, s\<lparr>world := dhcp_coarse_tmr B (dhcp_fine B I (world s))\<rparr>)
      else (m + DHCP_FINE_TIMER_MSECS B, s\<lparr>world := dhcp_fine B I (world s)\<rparr>))"
  by (simp add: dhcp_turn_def Let_def silently_def)

lemma dhcp_loop_add:
  "run_state (dhcp_loop B I (j + n) m) s =
     run_state (dhcp_loop B I n (fst (run_state (dhcp_loop B I j m) s))) (snd (run_state (dhcp_loop B I j m) s))"
  by (induction j arbitrary: m s) (simp_all add: split_beta)

lemma dhcp_loop_fine:
  assumes "0 < DHCP_FINE_TIMER_MSECS B" and "m + int j * DHCP_FINE_TIMER_MSECS B < DHCP_COARSE_TIMER_SECS B * 1000"
  shows "run_state (dhcp_loop B I j m) s = (m + int j * DHCP_FINE_TIMER_MSECS B, s\<lparr>world := (dhcp_fine B I ^^ j) (world s)\<rparr>)"
  using assms(2)
proof (induction j arbitrary: m s)
  case (Suc j)
  have "0 \<le> int j * DHCP_FINE_TIMER_MSECS B" using assms(1) by simp
  with Suc show ?case by (simp add: dhcp_turn_run distrib_right funpow_Suc_right del: funpow.simps(2))
qed simp

lemma dhcp_loop_period:
  assumes "0 < DHCP_FINE_TIMER_MSECS B" and "int k * DHCP_FINE_TIMER_MSECS B < DHCP_COARSE_TIMER_SECS B * 1000"
    and "DHCP_COARSE_TIMER_SECS B * 1000 \<le> int (Suc k) * DHCP_FINE_TIMER_MSECS B"
  shows "run_state (dhcp_loop B I (Suc k) 0) s =
    (0, s\<lparr>world := dhcp_coarse_tmr B ((dhcp_fine B I ^^ Suc k) (world s))\<rparr>)"
proof -
  have "run_state (dhcp_loop B I (k + 1) 0) s = run_state (dhcp_turn B I (int k * DHCP_FINE_TIMER_MSECS B))
      (s\<lparr>world := (dhcp_fine B I ^^ k) (world s)\<rparr>)"
    unfolding dhcp_loop_add using dhcp_loop_fine [OF assms(1), of 0 k I s] assms(2) by (simp add: split_beta)
  then show ?thesis using assms(3) by (simp add: dhcp_turn_run algebra_simps)
qed

text \<open>
  The DHCP thread serves both timers of lwIP at their periods: with \<open>k\<close> the number of fine
  periods that make up the coarse one, it calls the coarse timer after every \<open>k\<close> calls of the
  fine one, each call after the delay of a fine period, without drift however long it runs.
\<close>

theorem dhcp_schedule:
  fixes s :: "('w, 'x) core_scheme"
  assumes "0 < DHCP_FINE_TIMER_MSECS B" and "0 < k" and "r < k"
    and "int (k - 1) * DHCP_FINE_TIMER_MSECS B < DHCP_COARSE_TIMER_SECS B * 1000"
    and "DHCP_COARSE_TIMER_SECS B * 1000 \<le> int k * DHCP_FINE_TIMER_MSECS B"
  shows "world (exec (dhcp_client B I (q * k + r)) s) =
    (dhcp_fine B I ^^ r) (((\<lambda>w. dhcp_coarse_tmr B ((dhcp_fine B I ^^ k) w)) ^^ q) (world s))"
proof -
  obtain k' where k: "k = Suc k'" using assms(2) by (cases k) auto
  have "run_state (dhcp_loop B I (q * k) 0) s =
      (0, s\<lparr>world := ((\<lambda>w. dhcp_coarse_tmr B ((dhcp_fine B I ^^ k) w)) ^^ q) (world s)\<rparr>)"
  proof (induction q arbitrary: s)
    case (Suc q)
    have "run_state (dhcp_loop B I k 0) s = (0, s\<lparr>world := dhcp_coarse_tmr B ((dhcp_fine B I ^^ k) (world s))\<rparr>)"
      using dhcp_loop_period [OF assms(1), of k' I s] assms(4,5) by (simp only: k diff_Suc_1)
    then have "run_state (dhcp_loop B I (k + q * k) 0) s =
        run_state (dhcp_loop B I (q * k) 0) (s\<lparr>world := dhcp_coarse_tmr B ((dhcp_fine B I ^^ k) (world s))\<rparr>)"
      by (simp add: dhcp_loop_add)
    then show ?case by (simp add: Suc.IH funpow_Suc_right del: funpow.simps(2))
  qed simp
  moreover have "int r * DHCP_FINE_TIMER_MSECS B < DHCP_COARSE_TIMER_SECS B * 1000"
  proof -
    have "int r \<le> int (k - 1)" using assms(3) by simp
    then have "int r * DHCP_FINE_TIMER_MSECS B \<le> int (k - 1) * DHCP_FINE_TIMER_MSECS B"
      using assms(1) by (intro mult_right_mono) simp_all
    with assms(4) show ?thesis by linarith
  qed
  then have "run_state (dhcp_loop B I r 0) u = (int r * DHCP_FINE_TIMER_MSECS B, u\<lparr>world := (dhcp_fine B I ^^ r) (world u)\<rparr>)"
    for u :: "('w, 'x) core_scheme" using dhcp_loop_fine [OF assms(1), of 0 r I u] by simp
  ultimately show ?thesis by (simp add: dhcp_client_def exec_def dhcp_loop_add)
qed

section \<open>Power-up\<close>

definition idle :: "('w \<Rightarrow> 'c) \<Rightarrow> ('w \<Rightarrow> bool) \<Rightarrow> ('w \<Rightarrow> 'w) \<Rightarrow> bool" where
  "idle cells in_cycle f \<longleftrightarrow> (\<forall>w. cells (f w) = cells w \<and> (\<not> in_cycle w \<longrightarrow> \<not> in_cycle (f w)))"

text \<open>A computation that returns and changes the world only, by idle steps.\<close>

definition calm :: "('w \<Rightarrow> 'c) \<Rightarrow> ('w \<Rightarrow> bool) \<Rightarrow> (('w, 'x) core_scheme, 'a option) state \<Rightarrow> bool" where
  "calm cells in_cycle m \<longleftrightarrow> (\<forall>s. \<exists>r w. run_state m s = (Some r, s\<lparr>world := w\<rparr>) \<and> cells w = cells (world s) \<and>
     (\<not> in_cycle (world s) \<longrightarrow> \<not> in_cycle w))"

lemma calm_return: "calm cells in_cycle (State_Monad.return (Some r))"
  by (simp add: calm_def) (metis core.surjective core.update_convs(1))

lemma calm_then:
  fixes m :: "(('w, 'x) core_scheme, 'a option) state"
  assumes "calm cells in_cycle m" and "\<And>r. calm cells in_cycle (f r)"
  shows "calm cells in_cycle (and_then m f)"
  unfolding calm_def and_then_def
proof
  fix s :: "('w, 'x) core_scheme"
  obtain r w where r: "run_state m s = (Some r, s\<lparr>world := w\<rparr>)" "cells w = cells (world s)"
    "\<not> in_cycle (world s) \<longrightarrow> \<not> in_cycle w" using assms(1) unfolding calm_def by blast
  obtain q v where "run_state (f r) (s\<lparr>world := w\<rparr>) = (Some q, s\<lparr>world := w\<rparr>\<lparr>world := v\<rparr>)" "cells v = cells w"
    "\<not> in_cycle w \<longrightarrow> \<not> in_cycle v" using assms(2) [of r] unfolding calm_def by fastforce
  with r show "\<exists>q v. run_state (do { r \<leftarrow> m; case r of None \<Rightarrow> State_Monad.return None | Some a \<Rightarrow> f a }) s =
      (Some q, s\<lparr>world := v\<rparr>) \<and> cells v = cells (world s) \<and> (\<not> in_cycle (world s) \<longrightarrow> \<not> in_cycle v)"
    by auto
qed

lemma calm_each: "(\<And>x. calm cells in_cycle (f x)) \<Longrightarrow> calm cells in_cycle (each_then f xs)"
  by (induction xs) (simp_all add: calm_return calm_then)

lemma calm_call:
  "idle cells in_cycle (\<lambda>w. snd (g w)) \<Longrightarrow>
   calm cells in_cycle (do { r \<leftarrow> call g (\<lambda>_. []); State_Monad.return (Some r) })"
  by (auto simp: calm_def idle_def call_def split_beta)

text \<open>
  What power-up relies on beside the EEPROM: the bus of the oscillator becomes free, and nothing
  that happens on the way to the settings touches the EEPROM or starts a write cycle of it.
\<close>

locale power_up = eeprom_chip P I cells pointer in_cycle
  for P :: "'w platform" and I :: "'w i2c_driver" and cells :: "'w \<Rightarrow> u8 \<Rightarrow> byte"
    and pointer :: "'w \<Rightarrow> u8" and in_cycle :: "'w \<Rightarrow> bool" +
  fixes B :: "'w bsp"
  assumes oscillator_frees: "\<exists>n. \<not> fst (i2c_busy I Iic0 (((\<lambda>w. snd (i2c_busy I Iic0 w)) ^^ n) w))"
    and idle_bus0: "idle cells in_cycle (\<lambda>w. snd (i2c_busy I Iic0 w))" "idle cells in_cycle (\<lambda>w. snd (i2c_send I Iic0 buf a w))"
      "idle cells in_cycle (\<lambda>w. snd (i2c_recv I Iic0 n a w))"
    and idle_setup: "idle cells in_cycle (i2c_config I)" "idle cells in_cycle (delay_us I t)" "idle cells in_cycle (\<lambda>w. snd (plat_In32 P reg w))"
      "idle cells in_cycle (\<lambda>w. snd (qspi_cfg_init B w))" "idle cells in_cycle (qspi_options B)" "idle cells in_cycle (qspi_prescaler B)" "idle cells in_cycle (qspi_select B)"
begin

lemma calm_wait: "calm cells in_cycle (wait_until_idle (i2c_busy I Iic0))"
  unfolding calm_def
proof
  fix s :: "('w, 'x) core_scheme"
  let ?next = "\<lambda>w. snd (i2c_busy I Iic0 w)"
  have frame: "cells ((?next ^^ n) w) = cells w \<and> (\<not> in_cycle w \<longrightarrow> \<not> in_cycle ((?next ^^ n) w))"
    for n w using idle_bus0(1) by (induction n) (simp_all add: idle_def)
  obtain k where "\<not> fst (i2c_busy I Iic0 ((?next ^^ k) (world s)))"
    using oscillator_frees [of "world s"] ..
  from poll_until_returns [where busy = "i2c_busy I Iic0", OF this] obtain n where
    "poll_until (i2c_busy I Iic0) (world s) = Some ((?next ^^ Suc n) (world s))" ..
  then have "run_state (wait_until_idle (i2c_busy I Iic0)) s = (Some (), s\<lparr>world := (?next ^^ Suc n) (world s)\<rparr>)"
    by (simp only: wait_until_idle_def state.sel option.case)
  then show "\<exists>r w. run_state (wait_until_idle (i2c_busy I Iic0)) s = (Some r, s\<lparr>world := w\<rparr>) \<and>
      cells w = cells (world s) \<and> (\<not> in_cycle (world s) \<longrightarrow> \<not> in_cycle w)"
    using frame [of "Suc n" "world s"] by blast
qed

lemma calm_prog_si570: "calm cells in_cycle (prog_si570 I)"
  unfolding prog_si570_def read_si570_def i2c0_write_def i2c0_read_def
  by (intro calm_then calm_each calm_wait calm_call idle_bus0)

lemma version_run:
  fixes s :: "('w, 'x) core_scheme"
  shows "\<exists>w es. exec (print_firmware_version P) s = s\<lparr>world := w, trace := trace s @ es\<rparr> \<and> writes es = [] \<and>
    cells w = cells (world s) \<and> (\<not> in_cycle (world s) \<longrightarrow> \<not> in_cycle w)"
proof -
  have "\<exists>w es. exec (map_each (grd P) rs) s = s\<lparr>world := w, trace := trace s @ es\<rparr> \<and> writes es = [] \<and>
      cells w = cells (world s) \<and> (\<not> in_cycle (world s) \<longrightarrow> \<not> in_cycle w)" for rs
  proof (induction rs arbitrary: s)
    case Nil
    show ?case by (intro exI [of _ "world s"] exI [of _ "[]"]) (simp add: run_simps)
  next
    case (Cons r rs)
    let ?u = "exec (grd P r) s"
    have u: "?u = s\<lparr>world := snd (plat_In32 P (reg_addr P r) (world s)),
        trace := trace s @ [Rd (reg_addr P r) (fst (plat_In32 P (reg_addr P r) (world s)))]\<rparr>"
      by (simp add: run_simps)
    from Cons.IH [of ?u] obtain w es where w: "exec (map_each (grd P) rs) ?u = ?u\<lparr>world := w, trace := trace ?u @ es\<rparr>"
      "writes es = []" "cells w = cells (world ?u)" "\<not> in_cycle (world ?u) \<longrightarrow> \<not> in_cycle w" by blast
    then have "exec (map_each (grd P) (r # rs)) s = s\<lparr>world := w, trace := trace s @ (Rd (reg_addr P r) (fst (plat_In32 P (reg_addr P r) (world s))) # es)\<rparr>"
      by (simp add: run_simps)
    moreover have "cells w = cells (world s) \<and> (\<not> in_cycle (world s) \<longrightarrow> \<not> in_cycle w)"
      using w(3,4) idle_setup(3) [of "reg_addr P r"] by (simp add: u idle_def)
    ultimately show ?case using w(2)
      by (intro exI [of _ w] exI [of _ "Rd (reg_addr P r) (fst (plat_In32 P (reg_addr P r) (world s))) # es"]) simp
  qed
  then show ?thesis by (simp add: print_firmware_version_def exec_bind run_simps del: map_each.simps)
qed

lemma flash_init_run:
  fixes s :: "('w, 'x) core_scheme"
  shows "\<exists>w. exec (QspiFlashInit B) s = s\<lparr>world := w\<rparr> \<and> cells w = cells (world s) \<and>
    (\<not> in_cycle (world s) \<longrightarrow> \<not> in_cycle w)"
proof -
  let ?i = "qspi_cfg_init B (world s)"
  let ?w = "if \<not> qspi_lookup B (world s) then world s else if fst ?i \<noteq> 0 then snd ?i
    else qspi_select B (qspi_prescaler B (qspi_options B (snd ?i)))"
  have "exec (QspiFlashInit B) s = s\<lparr>world := ?w\<rparr>"
    by (simp add: QspiFlashInit_def run_simps)
  moreover have "cells ?w = cells (world s) \<and> (\<not> in_cycle (world s) \<longrightarrow> \<not> in_cycle ?w)"
    using idle_setup(4-7) by (simp add: idle_def)
  ultimately show ?thesis by blast
qed

lemma main_run:
  fixes s :: "('w, 'x) ctl_scheme"
  assumes "\<not> in_cycle (world s)"
  obtains u t es where "writes es = []" "flavored P (settings_of (cells (world s))) u t"
    "trace u = trace s @ es @ [Wr (reg_addr P NCO_STEPSIZE_REG) 427853]" "ctl_vars u = ctl_vars s" "scalefactors u = scalefactors s"
    "result (firmware_main P I B) s = Some ()"
    "exec (firmware_main P I B) s = exec (do { main_defaults P I; silently (sys_thread_new B ''main'') }) t"
proof -
  obtain w1 es where 1: "exec (print_firmware_version P) s = s\<lparr>world := w1, trace := trace s @ es\<rparr>" "writes es = []"
    "cells w1 = cells (world s)" "\<not> in_cycle w1" using version_run [of s] assms by blast
  define s2 where "s2 = exec (init_i2c I) (exec (gwr P NCO_STEPSIZE_REG 427853) (s\<lparr>world := w1, trace := trace s @ es\<rparr>))"
  have 2: "cells (world s2) = cells (world s)" "\<not> in_cycle (world s2)" "ctl_vars s2 = ctl_vars s" "scalefactors s2 = scalefactors s"
    "trace s2 = trace s @ es @ [Wr (reg_addr P NCO_STEPSIZE_REG) 427853]"
    using idle_setup(1) 1(3,4) reg_frame by (simp_all add: s2_def init_i2c_def run_simps idle_def ctl_vars_def)
  obtain r w3 where 3: "run_state (prog_si570 I) s2 = (Some r, s2\<lparr>world := w3\<rparr>)" "cells w3 = cells (world s)" "\<not> in_cycle w3"
    using calm_prog_si570 2(1,2) unfolding calm_def by metis
  obtain w4 where 4: "exec (QspiFlashInit B) (s2\<lparr>world := w3\<rparr>) = s2\<lparr>world := w4\<rparr>" "cells w4 = cells (world s)" "\<not> in_cycle w4"
    using flash_init_run [of "s2\<lparr>world := w3\<rparr>"] 3(2,3) by auto
  let ?u = "s2\<lparr>world := delay_us I 100 w4\<rparr>"
  have 5: "cells (world ?u) = cells (world s)" "\<not> in_cycle (world ?u)"
    using idle_setup(2) [of 100] 4(2,3) by (simp_all add: idle_def)
  obtain t where t: "run_state (ReadHardwareFlavor P I) ?u = (Some (), t)" "flavored P (settings_of (cells (world s))) ?u t"
    using flavor_run [OF 5(2)] 5(1) by auto
  have rs: "result (prog_si570 I) s2 = Some r" "exec (prog_si570 I) s2 = s2\<lparr>world := w3\<rparr>"
    "result (ReadHardwareFlavor P I) ?u = Some ()" "exec (ReadHardwareFlavor P I) ?u = t"
    using 3(1) t(1) by (simp_all add: result_def exec_def)
  have delay: "exec (silently (delay_us I 100)) (s2\<lparr>world := w4\<rparr>) = ?u" by (simp add: run_simps)
  have "result (firmware_main P I B) s = Some ()"
    "exec (firmware_main P I B) s = exec (do { main_defaults P I; silently (sys_thread_new B ''main'') }) t"
    by (simp_all only: firmware_main_def exec_bind result_bind exec_and_then result_and_then 1(1) s2_def [symmetric] rs
        option.case 4(1) delay result_return exec_return)
  with 1(2) t(2) 2 show ?thesis by (intro that [of es ?u t]) (simp_all add: ctl_vars_def)
qed

lemma main_ramp:
  fixes s :: "('w, 'x) ctl_scheme"
  assumes "\<not> in_cycle (world s)" and "cells (world s) 0x16 = 0"
  shows "result (firmware_main P I B) s = Some ()" and "smoothramp_type (exec (firmware_main P I B) s) = 0"
proof -
  from assms(1) obtain u t es where t: "flavored P (settings_of (cells (world s))) u t"
    "result (firmware_main P I B) s = Some ()"
    "exec (firmware_main P I B) s = exec (do { main_defaults P I; silently (sys_thread_new B ''main'') }) t"
    by (rule main_run)
  have "settings_of (cells (world s)) ! 6 = 0" using assms(2) by (simp add: settings_of_def)
  then have "smoothramp_type t = 0"
    using t(1) by (auto simp: flavored_def did_def ctl_vars_def map_prod_def split_beta prod_eq_iff)
  then show "smoothramp_type (exec (firmware_main P I B) s) = 0"
    by (simp add: t(3) main_defaults_def run_simps)
qed (rule main_run [OF assms(1)])

end

text \<open>
  C17. Power-up: whatever the state of the fabric, \<open>main\<close> returns from every wait and writes
  exactly these registers in this order before it starts the threads: the step of the trigger
  oscillator, the hardware settings as the EEPROM has them, a park command for each of the four
  channels, the reset of the event receiver, its default event codes and the address of the fast
  orbit feedback. The conversion factors and the ramp are those of the settings.
\<close>

theorem power_up_registers:
  fixes s :: "('w, 'x) ctl_scheme"
  assumes "power_up P I cells pointer in_cycle B" and "\<not> in_cycle (world s)"
  defines "t \<equiv> exec (firmware_main P I B) s" and "b \<equiv> settings_of (cells (world s))"
  shows "result (firmware_main P I B) s = Some () \<and>
    new_writes s t = (reg_addr P NCO_STEPSIZE_REG, 427853) # map (\<lambda>(r, v). (reg_addr P r, v)) (flavor_writes b) @
      map (\<lambda>c. (chan_addr P c DIGOUT_PARK_REG, 1)) [1, 2, 3, 4] @
      [(reg_addr P EVR_RESET_REG, 0xFF), (reg_addr P EVR_PM_EVENTNUM_REG, 29), (reg_addr P EVR_1HZ_EVENTNUM_REG, 32),
       (reg_addr P EVR_INJ_EVENTNUM_REG, 32), (reg_addr P FOFB_IPADDR_REG, 0x0A008E64)] \<and>
    ctl_vars t = map_prod (conversion (b ! 1)) (\<lambda>_. if b ! 6 = 0 then (0, b ! 7) else (1, 0)) (ctl_vars s) \<and>
    scalefactors t = scalefactors s"
proof -
  from assms(1,2) obtain u v es where r: "writes es = []" "flavored P b u v"
    "trace u = trace s @ es @ [Wr (reg_addr P NCO_STEPSIZE_REG) 427853]" "ctl_vars u = ctl_vars s" "scalefactors u = scalefactors s"
    "result (firmware_main P I B) s = Some ()"
    "t = exec (do { main_defaults P I; silently (sys_thread_new B ''main'') }) v"
    unfolding t_def b_def by (rule power_up.main_run)
  have "writes (map (\<lambda>(r, v). Wr (reg_addr P r) v) ws) = map (\<lambda>(r, v). (reg_addr P r, v)) ws" for ws
    by (induction ws) (auto simp: split_beta)
  then have "writes (trace v) = writes (trace s) @
      (reg_addr P NCO_STEPSIZE_REG, 427853) # map (\<lambda>(r, v). (reg_addr P r, v)) (flavor_writes b)"
    using r(1-3) by (simp add: flavored_def did_def)
  moreover have "ctl_vars v = map_prod (conversion (b ! 1)) (\<lambda>_. if b ! 6 = 0 then (0, b ! 7) else (1, 0)) (ctl_vars s)"
    "scalefactors v = scalefactors s"
    using r(2,4,5) by (simp_all add: flavored_def did_def)
  ultimately show ?thesis
    using r(6) by (simp add: r(7) main_defaults_def run_simps new_writes_def ctl_vars_def)
qed

end
