(* ===== verification/Devices.thy ===== *)
theory Devices
  imports Startup
begin

text \<open>
  Relations that the code around the network loop keeps: the I2C devices, the SD card, the
  start-up code and the console.

  The locale \<open>device_io\<close> is the contract for code that only calls drivers and accesses registers:
  a relation that a change of the world, a register read and a register write keep is kept by all
  of it, however long it polls. \<open>flavor_io\<close> adds the variables that the hardware settings
  determine, \<open>console_io\<close> the channel messages that the console can give.
\<close>

locale device_io = io_preorder R
  for R :: "('w, 'x) core_scheme \<Rightarrow> ('w, 'x) core_scheme \<Rightarrow> bool" +
  fixes P :: "'w platform"
  assumes world_rel: "R s (s\<lparr>world := w\<rparr>)"
    and rd: "state_io_rel R (Xil_In32 P a)"
    and wr: "state_io_rel R (Xil_Out32 P a v)"
begin

lemma silently_rel: "state_io_rel R (silently f)"
  by (rule io_of_exec) (simp add: run_simps world_rel)

lemma call_rel: "state_io_rel R (call f (\<lambda>_. []))"
  by (rule io_of_exec) (simp add: run_simps world_rel)

lemma stack_rel: "state_io_rel R (stack_bytes P n)"
  by (simp add: stack_bytes_def io_gets)

lemma wait_rel: "state_io_rel R (wait_until_idle busy)"
  by (rule io_of_exec) (simp add: wait_until_idle_def exec_def R_refl world_rel split: option.split)

lemma then_rel: "state_io_rel R m \<Longrightarrow> (\<And>a. state_io_rel R (f a)) \<Longrightarrow> state_io_rel R (and_then m f)"
  unfolding and_then_def by (intro io_structure)

lemma each_then_rel: "(\<And>x. state_io_rel R (f x)) \<Longrightarrow> state_io_rel R (each_then f xs)"
  by (induction xs) (simp_all add: io_return then_rel)

lemma ok_rel: "state_io_rel R m \<Longrightarrow> state_io_rel R (ok m)"
  by (simp add: ok_def io_bind io_return)

lemmas steps = io_structure rd wr silently_rel call_rel stack_rel wait_rel then_rel each_then_rel ok_rel

section \<open>The I2C devices\<close>

lemma i2c_rel:
  "state_io_rel R (init_i2c I)" "state_io_rel R (prog_si570 I)"
  "state_io_rel R (i2c_get_mac_address I mac)" "state_io_rel R (i2c_eeprom_writeBytes I a data len)"
  "state_io_rel R (i2c_eeprom_readBytes I a data len)" "state_io_rel R (eeprom_dump I)"
  unfolding init_i2c_def prog_si570_def read_si570_def i2c_get_mac_address_def i2c_eeprom_writeBytes_def
    eeprom_dump_def i2c_eeprom_readBytes_def i2c0_write_def i2c0_read_def i2c1_write_def i2c1_read_def
  by (intro steps)+

section \<open>The SD card\<close>

lemma netconf_line_rel: "state_io_rel R (netconf_line N I conf lbuf)"
  unfolding netconf_line_def set_hwaddr_def by (intro steps i2c_rel)

lemma netconf_loop_rel:
  assumes "netconf_loop F N I conf s = Some y"
  shows "R s (snd y)"
proof (rule netconf_loop.raw_induct [where P = "\<lambda>F N I conf s y. R s (snd y)", OF _ assms], goal_cases)
  case (1 loop F N I conf s y)
  let ?g = "run_state (on_file (f_gets F 64)) s"
  have get: "R s (snd ?g)"
    using call_rel [of "f_gets F 64"] by (simp add: state_io_rel_def)
  show ?case
  proof (cases "fst ?g")
    case None
    then have "y = (conf, snd ?g)" using 1(2) by (simp add: split_beta)
    with get show ?thesis by simp
  next
    case (Some lbuf)
    let ?l = "run_state (netconf_line N I conf lbuf) (snd ?g)"
    obtain conf' where l: "fst ?l = Some conf'" "loop F N I conf' (snd ?l) = Some y"
      using 1(2) Some by (auto simp: split_beta split: option.splits)
    have "R (snd ?g) (snd ?l)"
      using netconf_line_rel [of N I conf lbuf] by (simp add: state_io_rel_def)
    moreover have "R (snd ?l) (snd y)" using 1(1) l(2) .
    ultimately show ?thesis using get R_trans by blast
  qed
qed

lemma netconf_rel: "state_io_rel R (sdcard_netconf F N I conf)"
  by (rule io_of_exec)
     (auto simp: sdcard_netconf_def exec_def R_refl split: option.split dest!: netconf_loop_rel)

lemma sdcard_rel: "state_io_rel R (sdcard_handle F N I conf)"
  unfolding sdcard_handle_def sdcard_trypart_def sdcard_process_def sdcard_sync_eeprom_def
  by (intro steps netconf_rel)

section \<open>Starting up\<close>

lemma setup_rel:
  "state_io_rel R (QspiFlashInit B)" "state_io_rel R (net_setup B conf)" "state_io_rel R (discover_setup B)"
  "state_io_rel R (tftp_setup B)" "state_io_rel R (print_firmware_version P)" "state_io_rel R (main_defaults P I)"
  unfolding QspiFlashInit_def net_setup_def discover_setup_def tftp_setup_def print_firmware_version_def main_defaults_def
  by (intro steps)+

end

text \<open>The hardware settings also set the conversion factors and the ramp.\<close>

locale flavor_io = device_io R P
  for R :: "('w, 'x) ctl_scheme \<Rightarrow> ('w, 'x) ctl_scheme \<Rightarrow> bool" and P :: "'w platform" +
  assumes conv_rel: "state_io_rel R (modify (\<lambda>s. s\<lparr>CONVVOLTSTODACBITS := x, CONVDACBITSTOVOLTS := y\<rparr>))"
    and ramp_rel: "state_io_rel R (modify (\<lambda>s. s\<lparr>smoothramp_type := m, smoothramp_percentcurved := c\<rparr>))"
begin

lemma flavor_rel: "state_io_rel R (ReadHardwareFlavor P I)"
  unfolding ReadHardwareFlavor_def apply_flavor_def flavor_numchans_def flavor_resolution_def
    flavor_bandwidth_def flavor_polarity_def flavor_modes_def flavor_ramp_def
  by (intro steps i2c_rel conv_rel ramp_rel)

lemma main_rel: "state_io_rel R (firmware_main P I B)"
  unfolding firmware_main_def by (intro steps i2c_rel setup_rel flavor_rel)

end

text \<open>
  The start of the network thread, up to the server: it also restores the settings of the four
  channels from flash.
\<close>

definition thread_start ::
  "'w platform \<Rightarrow> 'w fatfs_dir \<Rightarrow> netlib \<Rightarrow> 'w i2c_driver \<Rightarrow> 'w bsp \<Rightarrow> (('w, 'x) ctl_scheme, unit option) state" where
  "thread_start P F N I B = and_then (sdcard_handle F N I (net_config_zero N)) (\<lambda>conf. do {
     InitSettingsfromQspi P;
     net_setup B conf;
     discover_setup B;
     tftp_setup B;
     State_Monad.return (Some ())
   })"

lemma and_then_assoc:
  "and_then (and_then m f) g = and_then m (\<lambda>a. and_then (f a) g)"
  "and_then (State_Monad.bind n h) g = State_Monad.bind n (\<lambda>a. and_then (h a) g)"
  "and_then (State_Monad.return (Some a)) g = g a"
  by (rule state.expand; auto simp: and_then_def fun_eq_iff split_beta split: option.split)+

lemma realmain_thread:
  "realmain P S F N I B ks n = and_then (thread_start P F N I B)
     (\<lambda>_. psc_run P (main_conf P S) (pscdata_poll P S (main_conf P S)) ks n)"
  by (simp add: realmain_def thread_start_def and_then_assoc)

locale restart_io = device_io R P
  for R :: "('w, 'x) ctl_scheme \<Rightarrow> ('w, 'x) ctl_scheme \<Rightarrow> bool" and P :: "'w platform" +
  assumes restore_rel: "valid_chan chan \<Longrightarrow> state_io_rel R (do {
      readbuf \<leftarrow> QspiFlashRead P (chan * FLASH_SECTOR_SIZE) FLASH_PAGE_SIZE; QspiDisperseData P chan readbuf })"
begin

lemma init_settings_rel: "state_io_rel R (InitSettingsfromQspi P)"
  unfolding InitSettingsfromQspi_def
  by (rule io_bind [OF wr io_bind [OF wr io_for_each_in]]) (rule restore_rel, auto simp: valid_chan_def)

lemma thread_start_rel: "state_io_rel R (thread_start P F N I B)"
  unfolding thread_start_def by (intro steps sdcard_rel init_settings_rel setup_rel)

end

text \<open>Channel messages for a channel number that may be none of the four.\<close>

locale any_chan_io = chan_io R P chan
  for R :: "('w, 'x) ctl_scheme \<Rightarrow> ('w, 'x) ctl_scheme \<Rightarrow> bool" and P :: "'w platform" and chan :: u32 +
  assumes wr_any: "state_io_rel R (Xil_Out32 P a v)" and undefined_rel: "state_io_rel R (emit UB)"
begin

lemma any_Set_dac: "state_io_rel R (Set_dac P chan x)"
  unfolding Set_dac_def Calc_WriteRaisedCosineSmooth_def Let_def
  by (intro steps handlers wr_any undefined_rel)

lemma any_digital: "state_io_rel R other \<Longrightarrow> state_io_rel R (digital_cases P chan addr u other)"
  unfolding digital_cases_def fault_clear_def by (intro steps wr_any)

lemma any_settings: "state_io_rel R (chan_settings P chan msg msglen)"
  unfolding chan_settings_def Let_def
  by (intro dac_rel adc_rel thresh_rel cntlim_rel scale_rel misc_rel any_digital any_Set_dac io_return)

end

text \<open>The console gives channel messages for any channel number.\<close>

locale console_io = flavor_io R P
  for R :: "('w, 'x) ctl_scheme \<Rightarrow> ('w, 'x) ctl_scheme \<Rightarrow> bool" and P :: "'w platform" +
  assumes typed_rel: "state_io_rel R (chan_settings P chan msg msglen)"
begin

lemma percent_rel: "state_io_rel R (get_percent_input K)"
  by (rule io_of_exec) (simp add: get_percent_input_def exec_def R_refl world_rel split: option.split)

lemma binary_input_rel: "state_io_rel R (get_binary_input K)"
  unfolding get_binary_input_def by (intro steps)

lemma read_line_rel: "state_io_rel R (uart_read_line P I K room buf)"
  by (induction room arbitrary: buf) (auto simp: uart_wait_def intro!: steps)

lemma read_polarity_rel: "state_io_rel R (read_polarity K chs pol)"
  by (induction chs arbitrary: pol) (auto intro!: steps binary_input_rel)

lemma store_rel: "state_io_rel R (store_setting P I a val ms)"
  unfolding store_setting_def by (intro steps i2c_rel)

lemma entry_rel:
  "state_io_rel R (display_settings P I)" "state_io_rel R (print_snapshot_stats P)" "state_io_rel R (dump_eeprom I)"
  "state_io_rel R (clear_eeprom I K)" "state_io_rel R (test_eeprom I K)" "state_io_rel R (set_binary P I K a)"
  "state_io_rel R (set_smoothramptype P I K)" "state_io_rel R (set_polarity P I K)"
  "state_io_rel R (receive_console_cmd P I K)"
  unfolding display_settings_def print_snapshot_stats_def dump_eeprom_def clear_eeprom_def test_eeprom_def
    confirmed_def set_binary_def set_smoothramptype_def set_curved_def set_polarity_def
    receive_console_cmd_def console_cmd_def Let_def
  by (intro steps i2c_rel binary_input_rel percent_rel read_line_rel read_polarity_rel store_rel
      flavor_rel typed_rel)+

lemma run_entry_rel: "state_io_rel R (run_entry (menu P I K) choice)"
proof -
  have "\<forall>(c, m) \<in> set (menu P I K). state_io_rel R m"
    by (simp add: menu_def set_numchans_def set_resolution_def set_bandwidth_def set_dualmode_def
        set_maindipole_def entry_rel io_return)
  then show ?thesis
    by (auto simp: run_entry_def io_return split: option.split dest!: map_of_SomeD)
qed

lemma menu_turn_rel: "state_io_rel R (menu_turn P I K (menu P I K))"
  unfolding menu_turn_def uart_wait_def Let_def by (intro steps run_entry_rel)

end

end
