(* ===== verification/System.thy ===== *)
theory System
  imports Devices Safety
begin

text \<open>
  The whole firmware, from the reset of the processor: \<open>main\<close>, the start of \<open>realmain\<close>, and then
  the network thread and the console thread in any order, turn by turn.
\<close>

section \<open>The state at reset\<close>

text \<open>
  All global and static variables are zero. The server record is allocated by \<open>psc_run\<close>; until
  then there is no client.
\<close>

definition TriggerInfo_zero :: TriggerInfo where
  "TriggerInfo_zero = \<lparr>trig_addr = 0, addr_last = 0, pretrigpts = 0, posttrigpts = 0, active = 0, postdlycnt = 0,
     sendbuf = 0, msgID = 0, channum = 0, trigcnt = 0\<rparr>"

definition TriggerTypes_zero :: TriggerTypes where
  "TriggerTypes_zero = (let ts = replicate 4 TriggerInfo_zero in
     \<lparr>trig_usr = ts, trig_flt = ts, trig_err = ts, trig_inj = ts, trig_evr = ts\<rparr>)"

definition reset :: "'w \<Rightarrow> 'w sched" where
  "reset w = \<lparr>world = w, trace = [], the_server = False, listen_sock = -1, client_sock = -1, peeraddr = (0, 0),
     last_rx_tick = 0, rxbuf = [], scalefactors = replicate 4 sf_zero, CONVVOLTSTODACBITS = 0,
     CONVDACBITSTOVOLTS = 0, smoothramp_type = 0, smoothramp_percentcurved = 0,
     snapshot_trig = TriggerTypes_zero,
     msgUsr_buf = replicate 4 (replicate 4000000 0), msgFlt_buf = replicate 4 (replicate 4000000 0),
     msgErr_buf = replicate 4 (replicate 4000000 0), msgInj_buf = replicate 4 (replicate 4000000 0),
     msgWfmStats_buf = replicate 500 0, sadata_msg = replicate 1400 0, bpc_msg = replicate 60 0,
     last_fast = 0, last_slow = 0, bpc_enabled = False, xmon_IsReady = False, git_hash = 0\<rparr>"

text \<open>Both parts of the program that the processor runs one after the other, with \<open>n\<close> turns of the loop.\<close>

definition firmware ::
  "'w platform \<Rightarrow> 'w sysinfo \<Rightarrow> 'w fatfs_dir \<Rightarrow> netlib \<Rightarrow> 'w i2c_driver \<Rightarrow> 'w bsp \<Rightarrow> nat \<Rightarrow> nat \<Rightarrow>
     (('w, 'x) sched_scheme, unit option) state" where
  "firmware P S F N I B keysize n = and_then (firmware_main P I B) (\<lambda>_. realmain P S F N I B keysize n)"

section \<open>The shape of the state\<close>

text \<open>The sizes of the arrays, which no statement of the program may change.\<close>

definition shape_of :: "('w, 'x) snap_scheme \<Rightarrow> nat \<times> (trig_kind \<Rightarrow> nat) \<times> (trig_kind \<Rightarrow> nat)" where
  "shape_of s = (length (scalefactors s), \<lambda>k. length (trig_array k (snapshot_trig s)), \<lambda>k. length (buf_array k s))"

lemma shape_indep [simp]: "core_indep shape_of"
  by (simp add: core_indep_def shape_of_def)

lemma shape_static: "static_part t = static_part s \<Longrightarrow> shape_of t = shape_of s"
  by (simp add: static_part_def shape_of_def fun_eq_iff)

lemma shape_client [simp]:
  "shape_of (s\<lparr>client_sock := x\<rparr>) = shape_of s" "shape_of (s\<lparr>last_rx_tick := z\<rparr>) = shape_of s"
  "shape_of (s\<lparr>rxbuf := b\<rparr>) = shape_of s"
  "shape_of (s\<lparr>client_sock := x, peeraddr := y, last_rx_tick := z\<rparr>) = shape_of s"
  by (rule shape_static, rule static_client)+

lemma shape_peer [simp]: "shape_of (s\<lparr>client_sock := x, peeraddr := y\<rparr>) = shape_of s"
  using shape_client(4) [where s = s and x = x and y = y and z = "last_rx_tick s"] by simp

lemma shape_sched [simp]:
  "shape_of (s\<lparr>sadata_msg := a\<rparr>) = shape_of s" "shape_of (s\<lparr>bpc_msg := b\<rparr>) = shape_of s"
  "shape_of (s\<lparr>last_fast := c\<rparr>) = shape_of s" "shape_of (s\<lparr>last_slow := c\<rparr>) = shape_of s"
  for s :: "('w, 'x) sched_scheme"
  by (rule shape_static, simp)+

lemma shape_ctl [simp]:
  "shape_of (s\<lparr>CONVVOLTSTODACBITS := x, CONVDACBITSTOVOLTS := y\<rparr>) = shape_of s"
  "shape_of (s\<lparr>smoothramp_type := m, smoothramp_percentcurved := c\<rparr>) = shape_of s"
  "shape_of (s\<lparr>scalefactors := (scalefactors s)[i := f]\<rparr>) = shape_of s"
proof -
  have "buf_array k (s\<lparr>CONVVOLTSTODACBITS := x, CONVDACBITSTOVOLTS := y\<rparr>) = buf_array k s"
    "buf_array k (s\<lparr>smoothramp_type := m, smoothramp_percentcurved := c\<rparr>) = buf_array k s"
    "buf_array k (s\<lparr>scalefactors := (scalefactors s)[i := f]\<rparr>) = buf_array k s" for k
    by (cases k; simp)+
  then show "shape_of (s\<lparr>CONVVOLTSTODACBITS := x, CONVDACBITSTOVOLTS := y\<rparr>) = shape_of s"
    "shape_of (s\<lparr>smoothramp_type := m, smoothramp_percentcurved := c\<rparr>) = shape_of s"
    "shape_of (s\<lparr>scalefactors := (scalefactors s)[i := f]\<rparr>) = shape_of s"
    by (simp_all add: shape_of_def)
qed

lemma length_trig_set [simp]: "length (trig_array k' (trig_set k i x t)) = length (trig_array k' t)"
  by (cases k; cases k') simp_all

lemma shape_snap [simp]:
  "shape_of (s\<lparr>snapshot_trig := trig_set k i x (snapshot_trig s)\<rparr>) = shape_of s"
  "shape_of (s\<lparr>msgWfmStats_buf := b\<rparr>) = shape_of s"
  "shape_of (buf_set k i y s) = shape_of s"
proof -
  have "buf_array k' (s\<lparr>snapshot_trig := trig_set k i x (snapshot_trig s)\<rparr>) = buf_array k' s"
    "buf_array k' (s\<lparr>msgWfmStats_buf := b\<rparr>) = buf_array k' s"
    "length (buf_array k' (buf_set k i y s)) = length (buf_array k' s)" for k'
    by (cases k'; cases k; simp)+
  moreover have "scalefactors (buf_set k i y s) = scalefactors s" "snapshot_trig (buf_set k i y s) = snapshot_trig s"
    by (cases k; simp)+
  ultimately show "shape_of (s\<lparr>snapshot_trig := trig_set k i x (snapshot_trig s)\<rparr>) = shape_of s"
    "shape_of (s\<lparr>msgWfmStats_buf := b\<rparr>) = shape_of s" "shape_of (buf_set k i y s) = shape_of s"
    by (simp_all add: shape_of_def fun_eq_iff)
qed

lemma shape_sf: "state_io_rel (unchanged shape_of) (sf_read chan)" "state_io_rel (unchanged shape_of) (sf_write chan f)"
  unfolding sf_read_def sf_write_def Let_def by (intro frame_intros; simp)+

interpretation shape: any_chan_io "unchanged shape_of" P chan for P chan
  by unfold_locales (intro frame_intros shape_sf shape_indep)+

interpretation shape_con: console_io "unchanged shape_of" P for P
  by unfold_locales
     (intro frame_intros shape.any_settings | simp add: unchanged_def core_indep_world)+

lemma shape_psc_send:
  "notify conf PSC_DIS = skip \<Longrightarrow> state_io_rel (unchanged shape_of) (psc_send P conf mid mlen msg)"
  by (rule frame_psc_send) simp_all

lemma shape_snapshot_process:
  assumes "notify conf PSC_DIS = skip"
  shows "state_io_rel (unchanged shape_of) (snapshot_process P conf)"
  unfolding snapshot_process_def CheckforTriggers_def check_trigger_def send_ready_def SendWfmData_def
    SendSnapShotStats_def set_trig_def Let_def
  by (intro frame_intros frame_stats frame_ReadDMABuf shape_psc_send assms shape_snap shape_indep)

interpretation shape_poll: periodic_io "unchanged shape_of" P "main_conf P S" for P S
  by unfold_locales
     (rule frame_In32 frame_Out32 shape_sf shape_psc_send frame_ticks frame_modify shape_snapshot_process |
      simp)+

lemma shape_client_msg: "state_io_rel (unchanged shape_of) (client_msg P mid mlen)"
  unfolding client_msg_def glob_settings_def soft_trig_def set_fpleds_def Let_def
  by (intro frame_intros shape.ok_rel shape.any_settings shape.write_ramptable_rel) simp_all

lemma shape_client_event: "state_io_rel (unchanged shape_of) (client_event P ev)"
  unfolding client_event_def psc_send_one_def by (intro frame_intros shape_psc_send) simp

interpretation shape_loop: psc_steps "unchanged shape_of" P "main_conf P S" "pscdata_poll P S (main_conf P S)" for P S
proof unfold_locales
  show "state_io_rel (unchanged shape_of) (notify (main_conf P S) ev)" for ev
    by (simp add: notify_def main_conf_def shape_client_event)
  show "state_io_rel (unchanged shape_of) (deliver (main_conf P S) mid mlen)" for mid mlen
    by (simp add: deliver_def main_conf_def shape_client_msg)
  show "state_io_rel (unchanged shape_of) (pscdata_poll P S (main_conf P S))"
    by (rule shape_poll.poll_rel)
  show "state_io_rel (unchanged shape_of) (recv_store P c)" for c
    unfolding recv_store_def by (intro frame.io_structure frame_modify frame_recvmsg) simp_all
qed (auto intro!: frame_intros frame_call simp: sk_select_def sk_accept_def set_sockopt_def)

section \<open>The sockets\<close>

interpretation leak_chan: any_chan_io "unchanged (leak c)" P chan for c P chan
proof unfold_locales
  show "state_io_rel (unchanged (leak c)) (sf_write chan f)" for c chan f
    by (rule leak_neutral) (auto intro!: emits_sf_write net_part_client net_sf_write)
  show "state_io_rel (unchanged (leak c)) (qspi_transfer P tx n)" for c P tx n
    by (simp add: qspi_transfer_def leak_call)
qed (intro leak_intros leak_sf_read leak_emit neutral_simps)+

interpretation leak_con: console_io "unchanged (leak c)" P for c P
proof unfold_locales
  show "unchanged (leak c) s (s\<lparr>world := w\<rparr>)" for c s w
    by (simp add: unchanged_def leak_def owned_def)
qed (intro leak_intros leak_chan.any_settings; simp)+

section \<open>Starting the server\<close>

text \<open>
  \<open>psc_setup\<close> either leaves the server unset and the client out, or has run the start callback
  on a fresh server record.
\<close>

definition fresh_server :: "'w \<Rightarrow> int \<Rightarrow> ('w, 'x) net_scheme \<Rightarrow> ('w, 'x) net_scheme" where
  "fresh_server w ls s = s\<lparr>client_sock := -1, peeraddr := (0, 0), last_rx_tick := 0,
     rxbuf := replicate PSC_MAX_RX_MSG_LEN 0, listen_sock := ls, world := w, the_server := True\<rparr>"

lemma psc_setup_cases:
  fixes s :: "('w, 'x) sched_scheme" and P :: "'w platform" and S :: "'w sysinfo" and ks :: nat
  assumes "\<not> the_server s" and "client_sock s = -1"
  defines "t \<equiv> exec (psc_setup P (main_conf P S) ks) s"
  obtains (fails) "result (psc_setup P (main_conf P S) ks) s = False" "\<not> the_server t"
      "trace t = trace s" "client_sock t = -1"
    | (starts) w ls where "result (psc_setup P (main_conf P S) ks) s = True"
      "t = exec (on_startup P S) (fresh_server w ls s)"
proof -
  let ?m = "psc_setup P (main_conf P S) ks"
  have "result ?m s = False \<and> \<not> the_server t \<and> trace t = trace s \<and> client_sock t = -1 \<or>
      (\<exists>w ls. result ?m s = True \<and> t = exec (on_startup P S) (fresh_server w ls s))"
    using assms(1,2)
    by (auto simp: t_def psc_setup_def run_simps main_conf_def fresh_server_def)
  then show ?thesis using that by blast
qed

lemma client_startup: "state_io_rel (unchanged net_part) (on_startup P S)"
  unfolding on_startup_def console_setup_def pscdata_init_def lstats_init_def snapshot_init_def bpc_init_def
  by (intro frame_intros frame_call core_indep_net_part) (simp_all add: net_part_def)

lemma leak_startup: "state_io_rel (unchanged (leak c)) (on_startup P S)"
proof (rule leak_neutral)
  show "state_io_rel (emits neutral) (on_startup P S)"
    unfolding on_startup_def console_setup_def pscdata_init_def lstats_init_def snapshot_init_def bpc_init_def
    by (intro emits_intros emits_call neutral_simps) simp_all
qed (rule net_part_client [OF client_startup])

section \<open>No undefined behaviour on the way to the loop\<close>

definition boot_ok :: "('w, 'x) snap_scheme \<Rightarrow> bool" where
  "boot_ok s \<longleftrightarrow> sf_ok s \<and> smoothramp_type s \<noteq> 1 \<and> trigs_ok (snapshot_trig s) \<and> bufs_inv s"

lemma boot_ok_static: "static_part t = static_part s \<Longrightarrow> boot_ok t = boot_ok s"
  by (simp add: static_part_def boot_ok_def sf_ok_def bufs_inv_def fun_eq_iff)

lemma boot_step:
  "state_io_rel (unchanged static_part) m \<Longrightarrow> state_io_rel (emits no_ub) m \<Longrightarrow>
   state_io_rel (under boot_ok no_ub) m"
  unfolding state_io_rel_def under_def unchanged_def using boot_ok_static by blast

interpretation boot: device_io "under boot_ok no_ub" P for P
proof unfold_locales
  show "under boot_ok no_ub s (s\<lparr>world := w\<rparr>)" for s :: "('w, 'x) snap_scheme" and w
    using boot_ok_static [OF core_indep_world [OF core_indep_static, where s = s and w = w]] by (simp add: under_def emits_def)
qed (intro boot_step frame_intros emits_intros core_indep_static; simp)+

definition boot_chan :: "u32 \<Rightarrow> ('w, 'x) snap_scheme \<Rightarrow> bool" where
  "boot_chan chan s \<longleftrightarrow> valid_chan chan \<and> boot_ok s"

lemma boot_chan_step:
  "(valid_chan chan \<Longrightarrow> state_io_rel (under boot_ok no_ub) m) \<Longrightarrow> state_io_rel (under (boot_chan chan) no_ub) m"
  by (auto simp: state_io_rel_def under_def boot_chan_def)

lemma boot_of_chan:
  "valid_chan chan \<Longrightarrow> state_io_rel (under (boot_chan chan) no_ub) m \<Longrightarrow> state_io_rel (under boot_ok no_ub) m"
  by (simp add: state_io_rel_def under_def boot_chan_def)

lemma boot_sf:
  assumes "valid_chan chan"
  shows "state_io_rel (under boot_ok no_ub) (sf_read chan)" "state_io_rel (under boot_ok no_ub) (sf_write chan f)"
proof -
  show "state_io_rel (under boot_ok no_ub) (sf_read chan)"
    using assms by (intro io_of_exec) (auto simp: under_def boot_ok_def run_simps em.R_refl)
  have "bufs_inv (s\<lparr>scalefactors := x\<rparr>) = bufs_inv s" for s :: "('w, 'x) snap_scheme" and x
  proof -
    have "buf_array k (s\<lparr>scalefactors := x\<rparr>) = buf_array k s" for k by (cases k) simp_all
    then show ?thesis by (simp add: bufs_inv_def)
  qed
  then show "state_io_rel (under boot_ok no_ub) (sf_write chan f)"
    using assms by (intro io_of_exec) (auto simp: under_def boot_ok_def run_simps emits_def sf_ok_def)
qed

lemma boot_flash: "state_io_rel (under boot_ok no_ub) (qspi_transfer P tx n)"
  by (intro boot_step frame_intros emits_intros core_indep_static) simp

interpretation boot_msg: chan_io "under (boot_chan chan) no_ub" P chan for P chan
  by unfold_locales (intro boot_chan_step boot.rd boot.wr boot_flash boot_sf; assumption)+

interpretation boot_start: restart_io "under boot_ok no_ub" P for P
  by unfold_locales
     (rule boot_of_chan, assumption, intro un.io_bind boot_msg.flash_read_rel boot_msg.disperse_rel)

interpretation shape_start: restart_io "unchanged shape_of" P for P
  by unfold_locales (intro frame.io_bind shape.flash_read_rel shape.disperse_rel)

interpretation leak_start: restart_io "unchanged (leak c)" P for c P
  by unfold_locales (intro frame.io_bind leak_chan.flash_read_rel leak_chan.disperse_rel)

text \<open>After the triggers are initialised.\<close>

definition init_ok :: "('w, 'x) snap_scheme \<Rightarrow> bool" where
  "init_ok s \<longleftrightarrow> boot_ok s \<and> (\<exists>ts. trigs_ok ts \<and> snapshot_trig s = InitTriggerInfo ts)"

lemma init_ok_static: "static_part t = static_part s \<Longrightarrow> init_ok t = init_ok s"
  using boot_ok_static [of t s] by (simp add: init_ok_def static_part_def)

lemma init_step:
  "state_io_rel (unchanged static_part) m \<Longrightarrow> state_io_rel (emits no_ub) m \<Longrightarrow>
   state_io_rel (under init_ok no_ub) m"
  unfolding state_io_rel_def under_def unchanged_def using init_ok_static by blast

lemma init_ok_loop: "init_ok s \<Longrightarrow> fabric_law P fired \<Longrightarrow> loop_ok P fired s"
  by (auto simp: init_ok_def boot_ok_def loop_ok_def trigs_inv_init)

lemma snapshot_init_ok:
  assumes "boot_ok s"
  shows "init_ok (exec snapshot_init s)" "trace (exec snapshot_init s) = trace s"
proof -
  let ?t = "s\<lparr>snapshot_trig := InitTriggerInfo (snapshot_trig s)\<rparr>"
  have "trigs_inv fired w (InitTriggerInfo (snapshot_trig s))" for fired :: "u32 \<Rightarrow> unit \<Rightarrow> bool" and w
    using assms by (intro trigs_inv_init) (simp add: boot_ok_def)
  then have "trigs_ok (InitTriggerInfo (snapshot_trig s))" by (simp add: trigs_inv_def)
  moreover have "buf_array k ?t = buf_array k s" for k by (cases k) simp_all
  ultimately have "init_ok ?t"
    using assms by (auto simp: init_ok_def boot_ok_def sf_ok_def bufs_inv_def)
  then show "init_ok (exec snapshot_init s)" "trace (exec snapshot_init s) = trace s"
    by (simp_all add: snapshot_init_def run_simps)
qed

lemma static_start:
  "static_part (s\<lparr>last_fast := x, last_slow := y\<rparr>) = static_part s"
  "static_part (s\<lparr>xmon_IsReady := b\<rparr>) = static_part s" "static_part (s\<lparr>bpc_enabled := b\<rparr>) = static_part s"
  for s :: "('w, 'x) sched_scheme"
proof -
  have "buf_array k (s\<lparr>last_fast := x, last_slow := y\<rparr>) = buf_array k s"
    "buf_array k (s\<lparr>xmon_IsReady := b\<rparr>) = buf_array k s" "buf_array k (s\<lparr>bpc_enabled := b\<rparr>) = buf_array k s" for k
    by (cases k; simp)+
  then show "static_part (s\<lparr>last_fast := x, last_slow := y\<rparr>) = static_part s"
    "static_part (s\<lparr>xmon_IsReady := b\<rparr>) = static_part s" "static_part (s\<lparr>bpc_enabled := b\<rparr>) = static_part s"
    by (simp_all add: static_part_def)
qed

lemma startup_ok:
  fixes s :: "('w, 'x) sched_scheme"
  assumes "boot_ok s"
  shows "init_ok (exec (on_startup P S) s) \<and> emits no_ub s (exec (on_startup P S) s)"
proof -
  let ?ticks = "do { now \<leftarrow> xTaskGetTickCount P; modify (\<lambda>s. s\<lparr>last_fast := now, last_slow := now\<rparr>); lstats_init S }
    :: (('w, 'x) sched_scheme, unit) state"
  let ?bpc = "do { polarity \<leftarrow> grd P POLARITY_REG; modify (\<lambda>s. s\<lparr>bpc_enabled := (polarity = 0)\<rparr>);
    en \<leftarrow> gets bpc_enabled; (if en then bpc_init P else skip); console_setup S }
    :: (('w, 'x) sched_scheme, unit) state"
  let ?s1 = "exec ?ticks s"
  let ?s2 = "exec snapshot_init ?s1"
  have "state_io_rel (under boot_ok no_ub) ?ticks"
    unfolding lstats_init_def
    by (intro boot_step frame_intros frame_call emits_intros emits_call core_indep_static static_start; simp)
  from under_exec [OF this] assms have 1: "boot_ok ?s1" "emits no_ub s ?s1" by blast+
  have "state_io_rel (under init_ok no_ub) ?bpc"
    unfolding bpc_init_def console_setup_def by (intro init_step frame_intros emits_intros core_indep_static static_start; simp)
  from under_exec [OF this snapshot_init_ok(1) [OF 1(1)]]
  have 2: "init_ok (exec ?bpc ?s2)" "emits no_ub ?s2 (exec ?bpc ?s2)" by blast+
  have "exec (on_startup P S) s = exec ?bpc ?s2"
    by (simp add: on_startup_def pscdata_init_def exec_bind)
  moreover have "emits no_ub s ?s2" using 1(2) snapshot_init_ok(2) [OF 1(1)] by (simp add: emits_def)
  then have "emits no_ub s (exec ?bpc ?s2)" using 2(2) by (rule em.R_trans)
  ultimately show ?thesis using 2(1) by simp
qed

section \<open>From reset to the loop\<close>

text \<open>What \<open>main\<close> leaves alone.\<close>

definition boot_part :: "('w, 'x) snap_scheme \<Rightarrow> ScaleFactorType list \<times> TriggerTypes \<times> (trig_kind \<Rightarrow> byte list list)" where
  "boot_part s = (scalefactors s, snapshot_trig s, \<lambda>k. buf_array k s)"

lemma boot_part_indep [simp]: "core_indep boot_part"
  by (simp add: core_indep_def boot_part_def)

lemma boot_part_ctl:
  "boot_part (s\<lparr>CONVVOLTSTODACBITS := x, CONVDACBITSTOVOLTS := y\<rparr>) = boot_part s"
  "boot_part (s\<lparr>smoothramp_type := m, smoothramp_percentcurved := c\<rparr>) = boot_part s"
proof -
  have "buf_array k (s\<lparr>CONVVOLTSTODACBITS := x, CONVDACBITSTOVOLTS := y\<rparr>) = buf_array k s"
    "buf_array k (s\<lparr>smoothramp_type := m, smoothramp_percentcurved := c\<rparr>) = buf_array k s" for k
    by (cases k; simp)+
  then show "boot_part (s\<lparr>CONVVOLTSTODACBITS := x, CONVDACBITSTOVOLTS := y\<rparr>) = boot_part s"
    "boot_part (s\<lparr>smoothramp_type := m, smoothramp_percentcurved := c\<rparr>) = boot_part s"
    by (simp_all add: boot_part_def)
qed

interpretation main_boot: flavor_io "unchanged boot_part" P for P
  by unfold_locales
     (intro frame_intros boot_part_indep boot_part_ctl | simp add: unchanged_def core_indep_world)+

interpretation main_ub: flavor_io "emits no_ub" P for P
  by unfold_locales (intro emits_intros; simp | simp add: emits_def)+

interpretation main_net: flavor_io "unchanged net_part" P for P
  by unfold_locales
     (intro frame_intros core_indep_net_part | simp add: unchanged_def core_indep_world net_part_def)+

interpretation net_start: restart_io "unchanged net_part" P for P
  by unfold_locales (intro frame.io_bind net.flash_read_rel net.disperse_rel)

lemma reset_simps [simp]:
  "world (reset w) = w" "trace (reset w) = []" "the_server (reset w) = False" "client_sock (reset w) = -1"
  "scalefactors (reset w) = replicate 4 sf_zero" "snapshot_trig (reset w) = TriggerTypes_zero"
  by (simp_all add: reset_def)

lemma reset_arrays:
  "length (trig_array k TriggerTypes_zero) = 4"
  "k \<noteq> Evr \<Longrightarrow> buf_array k (reset w) = replicate 4 (replicate 4000000 0)"
  by (cases k; simp add: TriggerTypes_zero_def reset_def Let_def)+

lemma reset_boot:
  "boot_part (reset w) = boot_part t \<Longrightarrow> smoothramp_type t \<noteq> 1 \<Longrightarrow> boot_ok t"
proof -
  assume t: "boot_part (reset w) = boot_part t" and ty: "smoothramp_type t \<noteq> 1"
  have "snapshot_trig t = TriggerTypes_zero" "scalefactors t = replicate 4 sf_zero"
    "\<And>k. buf_array k t = buf_array k (reset w)"
    using t by (simp_all add: boot_part_def fun_eq_iff)
  then show "boot_ok t"
    using ty by (simp add: boot_ok_def sf_ok_def trigs_ok_def bufs_inv_def reset_arrays)
qed

text \<open>
  The state in which the server starts: \<open>booted\<close> is the state after \<open>main\<close> and the start of the
  network thread.
\<close>

abbreviation booted :: "'w platform \<Rightarrow> 'w fatfs_dir \<Rightarrow> netlib \<Rightarrow> 'w i2c_driver \<Rightarrow> 'w bsp \<Rightarrow> 'w \<Rightarrow> 'w sched" where
  "booted P F N I B w \<equiv> exec (thread_start P F N I B) (exec (firmware_main P I B) (reset w))"

lemma booted_net: "net_part (booted P F N I B w) = net_part (reset w)"
  by (simp add: unchanged_exec [OF net_start.thread_start_rel] unchanged_exec [OF main_net.main_rel])

lemma exec_firmware:
  "exec (firmware P S F N I B ks n) s =
     (case result (firmware_main P I B) s of
        None \<Rightarrow> exec (firmware_main P I B) s
      | Some _ \<Rightarrow> (let t = exec (thread_start P F N I B) (exec (firmware_main P I B) s) in
          case result (thread_start P F N I B) (exec (firmware_main P I B) s) of
            None \<Rightarrow> t
          | Some _ \<Rightarrow> if result (psc_setup P (main_conf P S) ks) t
              then exec (network_loop P S n) (exec (psc_setup P (main_conf P S) ks) t)
              else exec (psc_setup P (main_conf P S) ks) t))"
  by (simp add: firmware_def realmain_thread psc_run_def network_loop_def run_simps Let_def split: option.split)

lemma booted_defined:
  assumes "power_up P I cells pointer in_cycle B" and "\<not> in_cycle w" and "cells w 0x16 = 0"
  shows "result (firmware_main P I B) (reset w) = Some ()"
    and "boot_ok (booted P F N I B w)" and "emits no_ub (reset w) (booted P F N I B w)"
proof -
  let ?u = "exec (firmware_main P I B) (reset w)"
  show "result (firmware_main P I B) (reset w) = Some ()"
    using power_up.main_ramp(1) [OF assms(1), where s = "reset w"] assms(2,3) by simp
  have "smoothramp_type ?u = 0"
    using power_up.main_ramp(2) [OF assms(1), where s = "reset w"] assms(2,3) by simp
  then have u: "boot_ok ?u"
    by (intro reset_boot [where w = w]) (simp_all add: unchanged_exec [OF main_boot.main_rel])
  have "boot_ok (booted P F N I B w) \<and> emits no_ub ?u (booted P F N I B w)"
    by (rule under_exec [OF boot_start.thread_start_rel u])
  moreover have "emits no_ub (reset w) ?u" by (rule io_exec [OF main_ub.main_rel])
  ultimately show "boot_ok (booted P F N I B w)" "emits no_ub (reset w) (booted P F N I B w)"
    using em.R_trans by blast+
qed

lemma booted_server:
  "\<not> the_server (booted P F N I B w)" "client_sock (booted P F N I B w) = -1"
  using booted_net [of P F N I B w] by (simp_all add: net_part_def)

lemma fresh_boot: "boot_ok s \<Longrightarrow> boot_ok (fresh_server w ls s)"
proof -
  have "buf_array k (fresh_server w ls s) = buf_array k s" for k
    by (cases k) (simp_all add: fresh_server_def)
  then show "boot_ok s \<Longrightarrow> boot_ok (fresh_server w ls s)"
    by (simp add: boot_ok_def sf_ok_def bufs_inv_def fresh_server_def)
qed


section \<open>All runs of the firmware\<close>

text \<open>
  The reachable states: the server has been started, and then the network thread and the console
  thread take turns in any order. A turn runs to its end.
\<close>

inductive firmware_runs ::
  "'w platform \<Rightarrow> 'w sysinfo \<Rightarrow> 'w fatfs_dir \<Rightarrow> netlib \<Rightarrow> 'w i2c_driver \<Rightarrow> 'w bsp \<Rightarrow> 'w console \<Rightarrow> nat \<Rightarrow> 'w \<Rightarrow>
     'w sched \<Rightarrow> bool" for P S F N I B K ks w where
  started: "result (firmware_main P I B) (reset w) = Some () \<Longrightarrow>
    result (thread_start P F N I B) (exec (firmware_main P I B) (reset w)) = Some () \<Longrightarrow>
    result (psc_setup P (main_conf P S) ks) (booted P F N I B w) \<Longrightarrow>
    firmware_runs P S F N I B K ks w (exec (psc_setup P (main_conf P S) ks) (booted P F N I B w))"
| network: "firmware_runs P S F N I B K ks w s \<Longrightarrow>
    result (psc_turn P (main_conf P S) (pscdata_poll P S (main_conf P S))) s = Some () \<Longrightarrow>
    firmware_runs P S F N I B K ks w (exec (psc_turn P (main_conf P S) (pscdata_poll P S (main_conf P S))) s)"
| console: "firmware_runs P S F N I B K ks w s \<Longrightarrow>
    result (menu_turn P I K (menu P I K)) s = Some leave \<Longrightarrow>
    firmware_runs P S F N I B K ks w (exec (menu_turn P I K (menu P I K)) s)"

text \<open>An invariant holds in all of them when it holds in the fresh server and the steps keep it.\<close>

lemma firmware_runs_invariant:
  assumes "firmware_runs P S F N I B K ks w s"
    and "\<And>v ls. Q (exec (on_startup P S) (fresh_server v ls (booted P F N I B w)))"
    and "state_io_rel (keeps Q) (psc_turn P (main_conf P S) (pscdata_poll P S (main_conf P S)))"
    and "state_io_rel (keeps Q) (menu_turn P I K (menu P I K))"
  shows "Q s"
  using assms(1)
proof induction
  case started
  from booted_server [of P F N I B w] show ?case
  proof (cases rule: psc_setup_cases [where P = P and S = S and ks = ks])
    case fails
    with started show ?thesis by simp
  next
    case (starts v ls)
    with assms(2) show ?thesis by simp
  qed
next
  case (network s)
  then show ?case using keeps_exec [OF assms(3)] by blast
next
  case (console s leave)
  then show ?case using keeps_exec [OF assms(4)] by blast
qed

lemma keeps_of: "state_io_rel (unchanged f) m \<Longrightarrow> state_io_rel (keeps (\<lambda>s. Q (f s))) m"
  by (simp add: state_io_rel_def unchanged_def keeps_def)

interpretation any_net: any_chan_io "unchanged net_part" P chan for P chan
  by unfold_locales (intro frame_intros core_indep_net_part)+

interpretation con_net: console_io "unchanged net_part" P for P
  by unfold_locales (rule any_net.any_settings)

lemma shape_startup: "state_io_rel (unchanged shape_of) (on_startup P S)"
proof -
  have init: "shape_of (s\<lparr>snapshot_trig := InitTriggerInfo (snapshot_trig s)\<rparr>) = shape_of s" for s :: "('w, 'x) snap_scheme"
  proof -
    have "length (trig_array k (InitTriggerInfo ts)) = length (trig_array k ts)" for k ts
      by (cases k) (simp_all add: InitTriggerInfo_def init_array_def)
    moreover have "buf_array k (s\<lparr>snapshot_trig := InitTriggerInfo (snapshot_trig s)\<rparr>) = buf_array k s" for k
      by (cases k) simp_all
    ultimately show ?thesis by (simp add: shape_of_def)
  qed
  show ?thesis
    unfolding on_startup_def console_setup_def pscdata_init_def lstats_init_def snapshot_init_def bpc_init_def
    by (intro frame_intros frame_call shape_indep init) (rule shape_static, rule static_start)+
qed

lemma shape_fresh: "shape_of (fresh_server v ls s) = shape_of s"
proof -
  have "buf_array k (fresh_server v ls s) = buf_array k s" for k
    by (cases k) (simp_all add: fresh_server_def)
  then show ?thesis by (simp add: shape_of_def fresh_server_def)
qed

lemma firmware_shape_of:
  assumes "firmware_runs P S F N I B K ks w s"
  shows "shape_of s = shape_of (reset w)"
  using assms
proof (rule firmware_runs_invariant)
  fix v ls
  show "shape_of (exec (on_startup P S) (fresh_server v ls (booted P F N I B w))) = shape_of (reset w)"
    by (simp add: unchanged_exec [OF shape_startup] shape_fresh unchanged_exec [OF shape_start.thread_start_rel]
        unchanged_exec [OF shape_con.main_rel])
qed (rule keeps_of [where Q = "\<lambda>x. x = shape_of (reset w)"], rule shape_loop.turn_rel shape_con.menu_turn_rel)+

lemma firmware_rx_ok:
  assumes "firmware_runs P S F N I B K ks w s"
  shows "rx_ok P s"
  using assms
proof (rule firmware_runs_invariant)
  fix v ls
  let ?f = "fresh_server v ls (booted P F N I B w)"
  have "net_part (exec (on_startup P S) ?f) = net_part ?f"
    by (rule unchanged_exec [OF client_startup])
  then show "rx_ok P (exec (on_startup P S) ?f)"
    by (simp add: net_part_def fresh_server_def rx_ok_def)
next
  have "state_io_rel (unchanged rxbuf) (menu_turn P I K (menu P I K))"
    using con_net.menu_turn_rel [of P I K] by (auto simp: state_io_rel_def unchanged_def net_part_def)
  then show "state_io_rel (keeps (rx_ok P)) (menu_turn P I K (menu P I K))" by (rule keeps_rx)
qed (rule rx.turn_rel)


text \<open>
  C7. In every state the firmware can reach from reset, however network and console turns follow
  each other, each socket has been closed exactly as often as it was accepted, except that of the
  current client, which is open exactly once.
\<close>

theorem firmware_owns_sockets:
  assumes "firmware_runs P S F N I B K ks w s"
  shows "open_count c (trace s) = (if client_sock s = c \<and> 0 \<le> c then 1 else 0)"
proof -
  let ?b = "booted P F N I B w"
  have "leak c s = 0"
    using assms
  proof (rule firmware_runs_invariant)
    fix v ls
    have "leak c (exec (on_startup P S) (fresh_server v ls ?b)) = leak c (fresh_server v ls ?b)"
      by (rule unchanged_exec [OF leak_startup])
    also have "\<dots> = leak c ?b"
      by (simp add: leak_def owned_def fresh_server_def booted_server)
    also have "\<dots> = leak c (reset w)"
      by (simp add: unchanged_exec [OF leak_start.thread_start_rel] unchanged_exec [OF leak_con.main_rel])
    also have "\<dots> = 0" by (simp add: leak_def owned_def open_count_def)
    finally show "leak c (exec (on_startup P S) (fresh_server v ls ?b)) = 0" .
  qed (rule keeps_of [where Q = "\<lambda>x. x = 0"], rule main.turn_leak leak_con.menu_turn_rel)+
  then show ?thesis by (simp add: leak_def owned_def)
qed

end
