(* ===== verification/Startup_Witnesses.thy ===== *)
theory Startup_Witnesses
  imports Startup Console_Witnesses
begin

text \<open>
  The board of \<open>Console_Witnesses\<close> with a board support package that does nothing, on which
  power-up is applied, and a network stack that counts its timer calls, for the DHCP thread.
\<close>

definition bsp_of :: "('w \<Rightarrow> 'w) \<Rightarrow> ('w \<Rightarrow> 'w) \<Rightarrow> 'w bsp" where
  "bsp_of fine coarse = \<lparr>qspi_lookup = \<lambda>_. True, qspi_cfg_init = \<lambda>w. (0, w), qspi_options = \<lambda>w. w,
     qspi_prescaler = \<lambda>w. w, qspi_select = \<lambda>w. w, lwip_init = \<lambda>w. w, xemac_add = \<lambda>_ _ _ _ w. (True, w),
     netif_set_default = \<lambda>w. w, netif_set_up = \<lambda>w. w, sys_thread_new = \<lambda>_ w. w, tcpip_callback = \<lambda>_ w. (0, w),
     dhcp_start = \<lambda>w. (0, w), dhcp_fine_tmr = fine, dhcp_coarse_tmr = coarse, portTICK_PERIOD_MS = 10,
     DHCP_FINE_TIMER_MSECS = 500, DHCP_COARSE_TIMER_SECS = 60\<rparr>"

interpretation eep_power: power_up eep eep_i2c eep_cells eep_ptr eep_cycle "bsp_of (\<lambda>w. w) (\<lambda>w. w)"
  by unfold_locales (simp_all add: idle_def eep_i2c_def eep_def bsp_of_def)

theorem power_up_registers_witness:
  "result (firmware_main eep eep_i2c (bsp_of (\<lambda>w. w) (\<lambda>w. w))) (eep_start []) = Some () \<and>
   last (new_writes (eep_start []) (exec (firmware_main eep eep_i2c (bsp_of (\<lambda>w. w) (\<lambda>w. w))) (eep_start []))) =
     (reg_addr eep FOFB_IPADDR_REG, 0x0A008E64)"
  using power_up_registers [OF eep_power.power_up_axioms, of "eep_start []"] by (simp add: eep_start_simps)

text \<open>A world that counts the calls of the fine and of the coarse timer.\<close>

definition count_bsp :: "(nat \<times> nat) bsp" where
  "count_bsp = bsp_of (\<lambda>(f, c). (f + 1, c)) (\<lambda>(f, c). (f, c + 1))"

definition no_i2c :: "(nat \<times> nat) i2c_driver" where
  "no_i2c = \<lparr>i2c_config = \<lambda>w. w, i2c_busy = \<lambda>_ w. (False, w), i2c_send = \<lambda>_ _ _ w. (0, w),
     i2c_recv = \<lambda>_ n _ w. ((0, replicate n 0), w), task_delay = \<lambda>_ w. w, delay_us = \<lambda>_ w. w\<rparr>"

lemma count_fine: "(dhcp_fine count_bsp no_i2c ^^ n) (f, c) = (f + n, c)"
  by (induction n) (simp_all add: count_bsp_def bsp_of_def no_i2c_def)

lemma count_periods:
  "((\<lambda>w. dhcp_coarse_tmr count_bsp ((dhcp_fine count_bsp no_i2c ^^ k) w)) ^^ q) (f, c) = (f + q * k, c + q)"
  by (induction q) (simp_all add: count_fine, simp add: count_bsp_def bsp_of_def)

text \<open>Three minutes and two and a half seconds: 365 fine calls, three coarse ones.\<close>

theorem dhcp_schedule_witness:
  "world (exec (dhcp_client count_bsp no_i2c (3 * 120 + 5)) \<lparr>world = (0, 0), trace = []\<rparr>) = (365, 3)"
proof -
  have "world (exec (dhcp_client count_bsp no_i2c (3 * 120 + 5)) \<lparr>world = (0, 0), trace = []\<rparr>) =
      (dhcp_fine count_bsp no_i2c ^^ 5)
        (((\<lambda>w. dhcp_coarse_tmr count_bsp ((dhcp_fine count_bsp no_i2c ^^ 120) w)) ^^ 3) (world \<lparr>world = (0, 0), trace = []\<rparr>))"
    by (rule dhcp_schedule) (simp_all add: count_bsp_def bsp_of_def)
  also have "\<dots> = (365, 3)" by (simp only: core.simps count_periods count_fine) simp
  finally show ?thesis .
qed

end
