(* ===== verification/Sadata_Props.thy ===== *)
theory Sadata_Props
  imports Periodic Snapshot_Props
begin

text \<open>
  The slow data message: the conversion to network byte order as the C code does it, in place, and
  the layout of the message, field by field, against the declarations of \<open>sadata.h\<close>.
\<close>

section \<open>The byte swap in place\<close>

text \<open>The loop of the C function on the buffer; \<open>None\<close> where it would leave the buffer.\<close>

function hton_swap :: "byte list \<Rightarrow> nat \<Rightarrow> nat \<Rightarrow> byte list option" where
  "hton_swap inbuf i len =
     (if i < len then
        if i + 3 < length inbuf then
          (let temp = inbuf ! i;
               inbuf = inbuf[i := inbuf ! (i + 3)];
               inbuf = inbuf[i + 3 := temp];
               temp = inbuf ! (i + 1);
               inbuf = inbuf[i + 1 := inbuf ! (i + 2)];
               inbuf = inbuf[i + 2 := temp]
           in hton_swap inbuf (i + 4) len)
        else None
      else Some inbuf)"
  by pat_completeness auto
termination by (relation "measure (\<lambda>(b, i, len). len - i)") auto

declare hton_swap.simps [simp del]

lemma hton_swap_group:
  "hton_swap (pre @ a # b # c # d # rest) (length pre) (length pre + n) =
     (if n = 0 then Some (pre @ a # b # c # d # rest)
      else hton_swap ((pre @ [d, c, b, a]) @ rest) (length (pre @ [d, c, b, a])) (length (pre @ [d, c, b, a]) + (n - 4)))"
proof (cases "n = 0")
  case False
  have upd: "(pre @ xs)[length pre + k := y] = pre @ xs[k := y]" "(pre @ xs) ! (length pre + k) = xs ! k" for xs k y
    by (simp_all add: list_update_append nth_append)
  have "hton_swap (pre @ a # b # c # d # rest) (length pre) (length pre + n) =
      hton_swap ((pre @ [d, c, b, a]) @ rest) (length pre + 4) (length pre + n)"
    using False upd [where k = 0] upd [where k = "Suc 0"] upd [where k = "Suc (Suc 0)"]
    by (subst hton_swap.simps) (simp add: Let_def upd)
  moreover have "hton_swap buf (length pre + 4) (length pre + n) = hton_swap buf (length pre + 4) (length pre + 4 + (n - 4))" for buf
    by (cases "4 \<le> n") (simp_all add: hton_swap.simps)
  moreover have "length (pre @ [d, c, b, a]) = length pre + 4" by simp
  ultimately show ?thesis using False by (simp only: if_False)
qed (simp add: hton_swap.simps)

lemma hton_swap_short:
  assumes "length rest < 4"
  shows "hton_swap (pre @ rest) (length pre) (length pre + n) = (if n = 0 then Some (pre @ rest) else None)"
  using assms by (simp add: hton_swap.simps)

lemma few_groups: "k < 4 \<Longrightarrow> 4 * ((n + 3) div 4) \<le> k \<longleftrightarrow> n = 0" for n k :: nat
  using div_le_mono [of 4 "n + 3" 4] by (cases "n = 0") auto

lemma no_group: "(n + 3) div 4 = 0 \<longleftrightarrow> n = 0" for n :: nat
  using few_groups [of 0 n] by simp

lemma hton_swap_end: "hton_swap pre (length pre) (length pre + n) = (if n = 0 then Some pre else None)"
  using hton_swap_short [of "[]" pre n] by simp

lemma next_group: "n \<noteq> 0 \<Longrightarrow> 4 * ((n + 3) div 4) = 4 + 4 * ((n - 4 + 3) div 4)" for n :: nat
proof (cases "4 \<le> n")
  case True
  then have "n + 3 = (n - 4 + 3) + 4" by simp
  then have "(n + 3) div 4 = (n - 4 + 3) div 4 + 1" by (simp only: div_add_self2)
  then show ?thesis by simp
next
  case False
  moreover assume "n \<noteq> 0"
  ultimately have "n = 1 \<or> n = 2 \<or> n = 3" by linarith
  then show ?thesis by auto
qed

lemma hton_swap_conv:
  "hton_swap (pre @ rest) (length pre) (length pre + n) =
     (if 4 * ((n + 3) div 4) \<le> length rest then Some (pre @ hton_conv rest n) else None)"
proof (induction rest n arbitrary: pre rule: hton_conv.induct)
  case (1 a b c d rest n)
  show ?case
  proof (cases "n = 0")
    case False
    with next_group [OF False] 1(1) [OF False, of "pre @ [d, c, b, a]"] show ?thesis
      by (simp only: hton_swap_group) simp
  qed (simp only: hton_swap_group, simp)
qed (simp_all add: hton_swap_short hton_swap_end few_groups no_group)

text \<open>
  C19. The in-place byte swap equals its reference: on a buffer that holds every group of four
  that the length touches, the loop terminates with the bytes of each group reversed and the rest
  unchanged; on any other buffer it accesses the byte after the end.
\<close>

theorem hton_conv_in_place:
  "hton_swap buf 0 len = (if 4 * ((len + 3) div 4) \<le> length buf then Some (hton_conv buf len) else None)"
  using hton_swap_conv [of "[]" buf len] by simp

section \<open>What a computation reads\<close>

text \<open>
  \<open>gives sfs conv rd x m\<close>: started with these scale and conversion factors, if every register
  read of \<open>m\<close> that the trace shows returned the value \<open>rd\<close> has for its address, then \<open>m\<close> returns \<open>x\<close>
  and leaves the factors as they are.
\<close>

definition agree :: "(u32 \<Rightarrow> u32) \<Rightarrow> io list \<Rightarrow> bool" where
  "agree rd es \<longleftrightarrow> (\<forall>a v. Rd a v \<in> set es \<longrightarrow> v = rd a)"

lemma agree_append [simp]: "agree rd (es @ fs) \<longleftrightarrow> agree rd es \<and> agree rd fs"
  by (auto simp: agree_def)

definition factors :: "('w, 'x) ctl_scheme \<Rightarrow> ScaleFactorType list \<times> f32" where
  "factors s = (scalefactors s, CONVDACBITSTOVOLTS s)"

lemma core_indep_factors: "core_indep factors"
  by (simp add: core_indep_def factors_def)

definition gives ::
  "ScaleFactorType list \<Rightarrow> f32 \<Rightarrow> (u32 \<Rightarrow> u32) \<Rightarrow> 'a \<Rightarrow> (('w, 'x) ctl_scheme, 'a) state \<Rightarrow> bool" where
  "gives sfs conv rd x m \<longleftrightarrow> (\<forall>s es. factors s = (sfs, conv) \<longrightarrow> trace (exec m s) = trace s @ es \<longrightarrow> agree rd es \<longrightarrow>
     result m s = x \<and> factors (exec m s) = (sfs, conv))"

lemma gives_bind:
  assumes "state_io_rel grows m" and "\<And>a. state_io_rel grows (f a)"
    and "gives sfs conv rd x m" and "gives sfs conv rd y (f x)"
  shows "gives sfs conv rd y (State_Monad.bind m f)"
  unfolding gives_def
proof (intro allI impI)
  fix s es assume s: "factors s = (sfs, conv)" "trace (exec (State_Monad.bind m f) s) = trace s @ es" "agree rd es"
  let ?u = "exec m s" and ?r = "result m s"
  obtain es1 where 1: "trace ?u = trace s @ es1"
    using io_exec [OF assms(1), of s] by (auto simp: emits_def)
  obtain es2 where 2: "trace (exec (f ?r) ?u) = trace ?u @ es2"
    using io_exec [OF assms(2) [of ?r], of ?u] by (auto simp: emits_def)
  have "es = es1 @ es2" using s(2) 1 2 by (simp add: exec_bind)
  then have r: "?r = x" "factors ?u = (sfs, conv)"
    using assms(3) s(1,3) 1 unfolding gives_def by auto
  with assms(4) s(3) 2 \<open>es = es1 @ es2\<close> show "result (State_Monad.bind m f) s = y \<and>
      factors (exec (State_Monad.bind m f) s) = (sfs, conv)"
    unfolding gives_def by (auto simp: exec_bind result_bind)
qed

lemma gives_return: "gives sfs conv rd x (State_Monad.return x)"
  by (simp add: gives_def run_simps)

lemma gives_In32: "gives sfs conv rd (rd a) (Xil_In32 P a)"
  by (auto simp: gives_def agree_def run_simps factors_def)

lemma gives_conv: "gives sfs conv rd conv (gets CONVDACBITSTOVOLTS)"
  by (simp add: gives_def run_simps factors_def)

lemma gives_sf_read:
  "valid_chan chan \<Longrightarrow> length sfs = 4 \<Longrightarrow> gives sfs conv rd (sfs ! unat (chan - 1)) (sf_read chan)"
  by (auto simp: gives_def run_simps factors_def sf_ok_def)

lemma gives_map_each:
  assumes "\<And>x. state_io_rel grows (f x)" and "\<And>x. x \<in> set xs \<Longrightarrow> gives sfs conv rd (g x) (f x)"
  shows "gives sfs conv rd (map g xs) (map_each f xs)"
  using assms(2)
proof (induction xs)
  case (Cons x xs)
  have rest: "gives sfs conv rd (map g (x # xs)) (do { ys \<leftarrow> map_each f xs; State_Monad.return (g x # ys) })"
    by (rule gives_bind [OF em.io_map_each [OF assms(1)] em.io_return Cons.IH]) (simp_all add: Cons.prems gives_return)
  show ?case
    unfolding map_each.simps
    by (rule gives_bind [where x = "g x"])
       (simp_all add: assms(1) em.io_bind em.io_map_each em.io_return Cons.prems rest [simplified])
qed (simp add: gives_return)

lemma gives_result: "x = y \<Longrightarrow> gives sfs conv rd x (State_Monad.return y)"
  by (simp add: gives_return)

lemma grows_sf_read: "state_io_rel grows (sf_read chan)"
  unfolding sf_read_def Let_def by (intro emits_intros TrueI)

lemmas grows_intros = emits_intros grows_sf_read TrueI

lemma gives_accum: "gives sfs conv rd (accum_value (rd a) ave) (ReadAccumSA P a ave)"
  unfolding ReadAccumSA_def
  by (rule gives_bind [OF _ _ gives_In32 gives_return]) (intro grows_intros)+

lemma grows_accum: "state_io_rel grows (ReadAccumSA P a ave)"
  unfolding ReadAccumSA_def by (intro grows_intros)

lemma grows_In32: "state_io_rel grows (Xil_In32 P a)"
  by (intro grows_intros)

lemma grows_reads: "state_io_rel grows (map_each (\<lambda>r. Xil_In32 P (ad r)) rs)"
  by (intro grows_intros)

lemma gives_reads: "gives sfs conv rd (map (\<lambda>r. rd (ad r)) rs) (map_each (\<lambda>r. Xil_In32 P (ad r)) rs)"
  by (rule gives_map_each [OF grows_In32 gives_In32])

text \<open>One rule for each kind of step, with the value that the rest of the computation gets.\<close>

lemmas gives_steps =
  gives_bind [OF grows_In32 _ gives_In32] gives_bind [OF em.io_gets _ gives_conv]
  gives_bind [OF grows_sf_read _ gives_sf_read] gives_bind [OF grows_accum _ gives_accum]
  gives_bind [OF grows_reads _ gives_reads]

section \<open>The layout\<close>

text \<open>
  A field of the message is the value of a register after a conversion, a scale factor, or nothing
  that the code sets. The conversions of a channel also depend on its averaging mode, on the
  conversion factor of the converters and on the scale factors of the channel.
\<close>

datatype sa_field =
    Reg u32 "u32 \<Rightarrow> f32 \<Rightarrow> ScaleFactorType \<Rightarrow> u32 \<Rightarrow> u32"
  | Factor "ScaleFactorType \<Rightarrow> f32"
  | Unset

abbreviation plain :: "u32 \<Rightarrow> sa_field" where
  "plain r \<equiv> Reg r (\<lambda>ave conv sf v. v)"

definition dac_fields :: "u32 \<Rightarrow> u32 \<Rightarrow> u32 \<Rightarrow> sa_field list" where
  "dac_fields r ro rg =
     [Reg r (\<lambda>ave conv sf v. sa_dac (accum_value v ave) conv (dac_dccts sf)),
      Reg ro (\<lambda>ave conv sf v. sa_dac (fp_of_int single (sint v)) conv (dac_dccts sf)),
      Reg rg (\<lambda>ave conv sf v. sa_gain v)]"

definition mon_fields :: "(ScaleFactorType \<Rightarrow> f32) \<Rightarrow> u32 \<Rightarrow> u32 \<Rightarrow> u32 \<Rightarrow> sa_field list" where
  "mon_fields sel r ro rg =
     [Reg r (\<lambda>ave conv sf v. sa_mon (accum_value v ave) (sel sf)),
      Reg ro (\<lambda>ave conv sf v. sa_mon (fp_of_int double (sint v)) (sel sf)),
      Reg rg (\<lambda>ave conv sf v. sa_gain v)]"

text \<open>\<open>struct SAdataMsg\<close> up to its channels, and \<open>struct SAdataChan\<close>.\<close>

definition sa_head_fields :: "sa_field list" where
  "sa_head_fields =
     [plain NUMCHANS_REG, plain EVR_TS_NS_REG, plain EVR_TS_S_REG, plain RESOLUTION_REG, plain PRJ_SHASUM,
      Unset, Unset, Unset, plain BANDWIDTH_REG, plain POLARITY_REG,
      plain FOFB_PACKETS_RCVD_REG, plain FOFB_COMMAND_REG, plain FOFB_NONCE_REG,
      Reg TENKHZ_FREQ_REG (\<lambda>ave conv sf v. sa_freq v), Reg ONEHZ_FREQ_REG (\<lambda>ave conv sf v. sa_freq v),
      plain CH34_DUALMODE_REG, plain MAIN_DIPOLE_MODE_REG] @ replicate 8 Unset"

definition sa_chan_fields :: "sa_field list" where
  "sa_chan_fields =
     dac_fields DCCT1_REG DCCT1_OFFSET_REG DCCT1_GAIN_REG @
     dac_fields DCCT2_REG DCCT2_OFFSET_REG DCCT2_GAIN_REG @
     mon_fields dac_dccts DACMON_REG DACMON_OFFSET_REG DACMON_GAIN_REG @
     mon_fields vout VOLT_REG VOLT_OFFSET_REG VOLT_GAIN_REG @
     mon_fields ignd GND_REG GND_OFFSET_REG GND_GAIN_REG @
     mon_fields spare SPARE_REG SPARE_OFFSET_REG SPARE_GAIN_REG @
     mon_fields regulator REG_REG REG_OFFSET_REG REG_GAIN_REG @
     mon_fields error_sf ERR_REG ERR_OFFSET_REG ERR_GAIN_REG @
     [Reg DAC_CURRSETPT_REG (\<lambda>ave conv sf v. sa_dac (fp_of_int single (sint v)) conv (dac_dccts sf)),
      Reg DAC_SETPT_OFFSET_REG (\<lambda>ave conv sf v. sa_dac (fp_of_int single (sint v)) conv (dac_dccts sf)),
      Reg DAC_SETPT_GAIN_REG (\<lambda>ave conv sf v. sa_gain v),
      plain DAC_RAMPACTIVE_REG,
      Reg OVC1_THRESH_REG (\<lambda>ave conv sf v. sa_dac_thresh v conv (dac_dccts sf)),
      Reg OVC2_THRESH_REG (\<lambda>ave conv sf v. sa_dac_thresh v conv (dac_dccts sf)),
      Reg OVV_THRESH_REG (\<lambda>ave conv sf v. sa_mon_thresh v (vout sf)),
      Reg ERR1_THRESH_REG (\<lambda>ave conv sf v. sa_mon_thresh v (error_sf sf)),
      Reg ERR2_THRESH_REG (\<lambda>ave conv sf v. sa_mon_thresh v (error_sf sf)),
      Reg IGND_THRESH_REG (\<lambda>ave conv sf v. sa_mon_thresh v (ignd sf))] @
     map (\<lambda>r. Reg r (\<lambda>ave conv sf v. sa_cntlim v))
       [OVC1_CNTLIM_REG, OVC2_CNTLIM_REG, OVV_CNTLIM_REG, ERR1_CNTLIM_REG, ERR2_CNTLIM_REG,
        IGND_CNTLIM_REG, DCCT_CNTLIM_REG, FLT1_CNTLIM_REG, FLT2_CNTLIM_REG, FLT3_CNTLIM_REG,
        ON_CNTLIM_REG, HEARTBEAT_CNTLIM_REG] @
     map plain
       [FAULT_CLEAR_REG, FAULT_MASK_REG, DIGOUT_ON1_REG, DIGOUT_ON1_REG, DIGOUT_ON1_REG,
        DIGOUT_RESET_REG, DIGOUT_PARK_REG, DIGIN_REG, FAULTS_LIVE_REG, FAULTS_LAT_REG] @
     [Factor ampspersec, Factor dac_dccts, Factor vout, Factor ignd, Factor spare, Factor regulator,
      Factor error_sf, plain DAC_CURRSETPT_REG, plain FOFB_DACSETPT_REG] @ replicate 10 Unset"

text \<open>
  The words of the message: \<open>rd\<close> is the value of the register at an address, \<open>stk\<close> the bytes of the
  variable before any assignment.
\<close>

fun sa_word :: "(u32 \<Rightarrow> u32) \<Rightarrow> u32 \<Rightarrow> f32 \<Rightarrow> ScaleFactorType \<Rightarrow> byte list \<Rightarrow> nat \<times> sa_field \<Rightarrow> u32" where
  "sa_word rd ave conv sf stk (i, Reg r f) = f ave conv sf (rd r)"
| "sa_word rd ave conv sf stk (i, Factor f) = f sf"
| "sa_word rd ave conv sf stk (i, Unset) = load32 stk i"

definition sa_chan_words ::
  "'w platform \<Rightarrow> (u32 \<Rightarrow> u32) \<Rightarrow> f32 \<Rightarrow> ScaleFactorType list \<Rightarrow> byte list \<Rightarrow> nat \<Rightarrow> u32 list" where
  "sa_chan_words P rd conv sfs stk n =
     map (sa_word (\<lambda>r. rd (chan_addr P (of_nat n + 1) r)) (rd (chan_addr P (of_nat n + 1) AVEMODE_REG)) conv (sfs ! n) stk)
       (enumerate (25 + 75 * n) sa_chan_fields)"

definition sa_words ::
  "'w platform \<Rightarrow> (u32 \<Rightarrow> u32) \<Rightarrow> f32 \<Rightarrow> ScaleFactorType list \<Rightarrow> byte list \<Rightarrow> u32 list" where
  "sa_words P rd conv sfs stk =
     map (sa_word (\<lambda>r. rd (reg_addr P r)) 0 0 sf_zero stk) (enumerate 0 sa_head_fields) @
     concat (map (sa_chan_words P rd conv sfs stk) [0..<4])"

lemma length_sa_words: "length (sa_words P rd conv sfs stk) = 325"
proof -
  have "length sa_chan_fields = 75" by (simp add: sa_chan_fields_def dac_fields_def mon_fields_def)
  then have "length (sa_chan_words P rd conv sfs stk n) = 75" for n by (simp add: sa_chan_words_def)
  moreover have "length sa_head_fields = 25" by (simp add: sa_head_fields_def)
  ultimately show ?thesis by (simp add: sa_words_def upt_rec)
qed

lemma gives_head:
  "gives sfs conv rd (map (sa_word (\<lambda>r. rd (reg_addr P r)) 0 0 sf_zero stk) (enumerate 0 sa_head_fields)) (sa_header P stk)"
  unfolding sa_header_def
  by (intro gives_steps grows_intros gives_result) (simp add: sa_head_fields_def numeral_eq_Suc)

lemma grows_triples:
  "state_io_rel grows (sa_dac_triple P chan ave r ro rg)" "state_io_rel grows (sa_mon_triple P chan ave sel r ro rg)"
  unfolding sa_dac_triple_def sa_mon_triple_def ReadAccumSA_def by (intro grows_intros)+

lemma gives_dac_triple:
  assumes "valid_chan chan" and "length sfs = 4"
  shows "gives sfs conv rd
    (map (sa_word (\<lambda>r. rd (chan_addr P chan r)) ave conv (sfs ! unat (chan - 1)) stk) (enumerate i (dac_fields r ro rg)))
    (sa_dac_triple P chan ave r ro rg)"
  unfolding sa_dac_triple_def
  by (intro gives_steps grows_accum grows_intros gives_result assms) (simp add: dac_fields_def)

lemma gives_mon_triple:
  assumes "valid_chan chan" and "length sfs = 4"
  shows "gives sfs conv rd
    (map (sa_word (\<lambda>r. rd (chan_addr P chan r)) ave conv (sfs ! unat (chan - 1)) stk) (enumerate i (mon_fields sel r ro rg)))
    (sa_mon_triple P chan ave sel r ro rg)"
  unfolding sa_mon_triple_def
  by (intro gives_steps grows_accum grows_intros gives_result assms) (simp add: mon_fields_def)

lemmas gives_triples =
  gives_bind [OF grows_triples(1) _ gives_dac_triple [where stk = "[]" and i = 0]]
  gives_bind [OF grows_triples(2) _ gives_mon_triple [where stk = "[]" and i = 0]]

text \<open>The first 24 fields of a channel, which are the monitored quantities.\<close>

lemma gives_monitors:
  assumes "valid_chan chan" and "length sfs = 4"
  shows "gives sfs conv rd
    (map (sa_word (\<lambda>r. rd (chan_addr P chan r)) (rd (chan_addr P chan AVEMODE_REG)) conv (sfs ! unat (chan - 1)) stk)
       (enumerate i (take 24 sa_chan_fields)))
    (sa_monitors P chan)"
  unfolding sa_monitors_def
  by (intro gives_steps gives_triples grows_triples grows_intros gives_result assms)
     (simp add: sa_chan_fields_def dac_fields_def mon_fields_def)

lemma grows_monitors: "state_io_rel grows (sa_monitors P chan)"
  unfolding sa_monitors_def by (intro grows_triples grows_intros)

lemma gives_channel:
  assumes "n < 4" and "length sfs = 4"
  shows "gives sfs conv rd (sa_chan_words P rd conv sfs stk n) (sa_channel P stk n)"
proof -
  have chan: "valid_chan (of_nat n + 1)" "unat (of_nat n :: u32) = n"
  proof -
    have "n = 0 \<or> n = 1 \<or> n = 2 \<or> n = 3" using assms(1) by linarith
    then show "valid_chan (of_nat n + 1)" "unat (of_nat n :: u32) = n" by (auto simp: valid_chan_def)
  qed
  show ?thesis
    unfolding sa_channel_def Let_def sa_chan_words_def
    by (intro gives_bind [OF grows_monitors _ gives_monitors [where i = 0 and stk = stk]] gives_steps grows_intros
          gives_result assms chan(1))
       (simp add: chan(2) sa_chan_fields_def dac_fields_def mon_fields_def numeral_eq_Suc)
qed

lemma grows_channel: "state_io_rel grows (sa_channel P stk n)"
  unfolding sa_channel_def Let_def by (intro grows_monitors grows_intros)

lemma length_words: "length (concat (map le32 ws)) = 4 * length ws"
  by (induction ws) simp_all

text \<open>What \<open>sadata_send\<close> has done before it sends.\<close>

definition sa_read :: "'w platform \<Rightarrow> byte list \<Rightarrow> (('w, 'x) sched_scheme, u32 list) state" where
  "sa_read P stk = do {
     header \<leftarrow> sa_header P stk;
     ps \<leftarrow> map_each (sa_channel P stk) [0..<4];
     State_Monad.return (header @ concat ps)
   }"

lemma gives_read: "length sfs = 4 \<Longrightarrow> gives sfs conv rd (sa_words P rd conv sfs stk) (sa_read P stk)"
  unfolding sa_read_def
  by (rule gives_bind [OF _ _ gives_head gives_bind [OF _ _ gives_map_each [OF grows_channel gives_channel]]])
     (auto simp: sa_header_def sa_words_def intro!: grows_intros grows_channel gives_result)

lemma read_emits:
  "(\<And>a v. p (Rd a v)) \<Longrightarrow> p UB \<Longrightarrow> state_io_rel (emits p) (sa_read P stk)"
  unfolding sa_read_def sa_header_def sa_channel_def sa_monitors_def sa_dac_triple_def sa_mon_triple_def
    ReadAccumSA_def sf_read_def Let_def
  by (intro emits_intros)

lemma read_frame: "core_indep f \<Longrightarrow> state_io_rel (unchanged f) (sa_read P stk)"
  unfolding sa_read_def sa_header_def sa_channel_def sa_monitors_def sa_dac_triple_def sa_mon_triple_def
    ReadAccumSA_def sf_read_def Let_def
  by (intro frame_intros)

lemma sadata_send_read:
  "exec (sadata_send P conf) s =
     (let s1 = exec (gwr P TENHZ_DATASEND_REG 0) (exec (gwr P TENHZ_DATASEND_REG 1) s);
          stk = result (stack_bytes P SADATA_SIZE) s1;
          sadata = concat (map le32 (result (sa_read P stk) s1));
          s2 = exec (sa_read P stk) s1;
          msg = hton_conv (overwrite sadata (sadata_msg s2)) (length sadata)
      in exec (psc_send P conf 31 1400 msg) (s2\<lparr>sadata_msg := msg\<rparr>))"
proof -
  have stack: "exec (stack_bytes P n) u = u" for n u by (simp add: stack_bytes_def run_simps)
  show ?thesis
    unfolding sadata_send_def sa_read_def Let_def
    by (simp only: exec_bind result_bind exec_return result_return exec_gets result_gets exec_modify stack)
       simp
qed


end
