(* ===== verification/System_Witnesses.thy ===== *)
theory System_Witnesses
  imports System Startup_Witnesses Protocol Sadata_Props
begin

text \<open>
  The board of \<open>Startup_Witnesses\<close> with a network on which a client connects at every turn, an SD
  card that cannot be mounted and an EEPROM full of zeros: the firmware from reset to its first
  turns.
\<close>

definition board :: "eep_world platform" where
  "board = eep\<lparr>plat_select := \<lambda>fds ms w. (Inr (take 1 fds), w), plat_accept := \<lambda>l w. ((4, (0x0A000001, 5000)), w)\<rparr>"

definition no_card :: "'w fatfs_dir" where
  "no_card = \<lparr>f_open = \<lambda>_ _ w. (FR_ERR 3, w), f_close = \<lambda>w. (FR_ERR 3, w), f_read = \<lambda>_ w. ((FR_ERR 3, []), w),
     f_write = \<lambda>bs w. ((FR_ERR 3, 0), w), f_gets = \<lambda>_ w. (None, w),
     f_lseek = \<lambda>_ w. (FR_ERR 3, w), f_truncate = \<lambda>w. (FR_ERR 3, w), f_sync = \<lambda>w. (FR_ERR 3, w),
     f_unlink = \<lambda>_ w. (FR_ERR 3, w), f_mount = \<lambda>_ w. (FR_ERR 3, w), f_unmount = \<lambda>_ w. (FR_ERR 3, w),
     f_chdir = \<lambda>_ w. (FR_ERR 3, w), malloc_bytes = \<lambda>n _. replicate n 0\<rparr>"

definition no_lib :: netlib where
  "no_lib = \<lparr>lwip_isspace = \<lambda>_. False, inet_aton = \<lambda>_. None, NETIF_MAX_HWADDR_LEN = 6\<rparr>"

definition no_info :: "'w sysinfo" where
  "no_info = \<lparr>uxTaskGetNumberOfTasks = (\<lambda>_. 5), lwip_link_stats = (\<lambda>_. replicate 7 0),
     lwip_mem_stats = (\<lambda>_. replicate 5 0), heap_available = (\<lambda>_. 0), heap_minimum = (\<lambda>_. 0),
     heap_largest = (\<lambda>_. 0), heap_allocations = (\<lambda>_. 0), heap_frees = (\<lambda>_. 0), XSysMon_temp = (\<lambda>_. 0),
     XSysMon_vccint = (\<lambda>_. 0), XSysMon_vccaux = (\<lambda>_. 0), XSysMon_setup = (\<lambda>w. (False, w)),
     inet_ntoa_server = (\<lambda>_. []), sys_thread_console = (\<lambda>w. w)\<rparr>"

abbreviation board_bsp :: "eep_world bsp" where
  "board_bsp \<equiv> bsp_of (\<lambda>w. w) (\<lambda>w. w)"

definition board_world :: eep_world where
  "board_world = \<lparr>eep_cells = \<lambda>_. 0, eep_ptr = 0, eep_cycle = False, eep_keys = []\<rparr>"

interpretation board_power: power_up board eep_i2c eep_cells eep_ptr eep_cycle board_bsp
  by unfold_locales
     (auto simp: idle_def eep_i2c_def board_def eep_def bsp_of_def eep_recv_def intro: exI [of _ 0])

lemma board_fabric: "fabric_law board (\<lambda>_ _. False)"
  by (simp add: fabric_law_def latched_def board_def eep_def Let_def ring_addr_zero)

lemma board_recv: "recv_bounded board"
  by (simp add: recv_bounded_def board_def eep_def)


text \<open>A run: the server starts, a client connects, and someone types a \<open>Q\<close> at the console.\<close>

definition board_console :: "eep_world console" where
  "board_console = eep_console\<lparr>con_fifo := \<lambda>w. (key CHR ''Q'', w)\<rparr>"

abbreviation board_runs :: "eep_world sched \<Rightarrow> bool" where
  "board_runs \<equiv> firmware_runs board no_info no_card no_lib eep_i2c board_bsp board_console 64 board_world"

abbreviation board_server :: "eep_world sched" where
  "board_server \<equiv> exec (psc_setup board (main_conf board no_info) 64)
     (booted board no_card no_lib eep_i2c board_bsp board_world)"

lemma board_starts: "board_runs board_server"
proof (rule firmware_runs.started)
  show "result (firmware_main board eep_i2c board_bsp) (reset board_world) = Some ()"
    by (rule booted_defined [OF board_power.power_up_axioms]) (simp_all add: board_world_def)
  show "result (thread_start board no_card no_lib eep_i2c board_bsp)
      (exec (firmware_main board eep_i2c board_bsp) (reset board_world)) = Some ()"
    by (simp add: thread_start_def run_simps sdcard_handle_def sdcard_trypart_def no_card_def must_def)
  have "result (psc_setup board (main_conf board no_info) 64) s" if "\<not> the_server s" for s :: "eep_world sched"
    using that by (simp add: psc_setup_def run_simps board_def eep_def)
  then show "result (psc_setup board (main_conf board no_info) 64) (booted board no_card no_lib eep_i2c board_bsp board_world)"
    by (simp add: booted_server)
qed

lemma board_turns:
  assumes "board_runs s"
  shows "board_runs (exec (menu_turn board eep_i2c board_console (menu board eep_i2c board_console))
     (exec (psc_turn board (main_conf board no_info) (pscdata_poll board no_info (main_conf board no_info))) s))"
proof (rule firmware_runs.console [OF firmware_runs.network [OF assms turn_returns]])
  show "chip_ready board" by (simp add: chip_ready_def board_def eep_def)
  have "poll_until (\<lambda>w. (False, w)) w = Some w" for w :: eep_world
    by (subst poll_until.simps) simp
  then have wait: "result (uart_wait board eep_i2c board_console 10) u = Some ()" for u :: "eep_world sched"
    by (simp add: uart_wait_def wait_until_idle_def result_def board_console_def eep_console_def)
  have quit: "run_entry (menu board eep_i2c board_console) (upper (key CHR ''Q'')) = (State_Monad.return (Some ()) ::
      (eep_world sched, unit option) state)"
    by (simp add: run_entry_def menu_def key_def upper_def)
  have key: "con_fifo board_console = (\<lambda>w. (key CHR ''Q'', w))" by (simp add: board_console_def)
  show "result (menu_turn board eep_i2c board_console (menu board eep_i2c board_console)) t =
      Some (upper (key CHR ''Q'') = key CHR ''Q'')" for t :: "eep_world sched"
    by (simp add: menu_turn_def run_simps wait quit key Let_def)
qed

definition board_state :: "eep_world sched" where
  "board_state = exec (menu_turn board eep_i2c board_console (menu board eep_i2c board_console))
     (exec (psc_turn board (main_conf board no_info) (pscdata_poll board no_info (main_conf board no_info))) board_server)"

lemma board_state_runs: "board_runs board_state"
  unfolding board_state_def by (rule board_turns [OF board_starts])


theorem firmware_owns_sockets_witness:
  "open_count 4 (trace board_state) = (if client_sock board_state = 4 then 1 else 0)"
  using firmware_owns_sockets [OF board_state_runs, of 4] by simp

section \<open>Slow data\<close>

text \<open>All registers of the board read as zero.\<close>

definition reads_zero :: "io \<Rightarrow> bool" where
  "reads_zero e = (case e of Rd a v \<Rightarrow> v = 0 | _ \<Rightarrow> True)"

definition client_state :: "eep_world sched" where
  "client_state = (reset board_world)\<lparr>client_sock := 4\<rparr>"

lemma reads_zero_sadata: "state_io_rel (emits reads_zero) (sadata_send board (main_conf board no_info))"
proof -
  have rd: "state_io_rel (emits reads_zero) (Xil_In32 board a)" for a
    by (rule io_of_exec) (simp add: run_simps emits_def reads_zero_def board_def eep_def)
  have send: "state_io_rel (emits reads_zero) (psc_send board (main_conf board no_info) mid mlen msg)" for mid mlen msg
    unfolding psc_send_def disconnect_client_def notify_main
    by (intro emits_intros emits_sendmsg; simp add: reads_zero_def)
  show ?thesis
    unfolding sadata_send_def sa_header_def sa_channel_def sa_monitors_def sa_dac_triple_def sa_mon_triple_def
      ReadAccumSA_def sf_read_def Let_def
    by (intro em.io_structure rd send emits_Out32 emits_emit emits_stack emits_modify; simp add: reads_zero_def)
qed


end
