(* ===== verification/Console_Input.thy ===== *)
theory Console_Input
  imports Console_Props
begin

text \<open>
  Lines typed at the console: when \<open>get_percent_input\<close> returns and what it returns, the address
  prompt \<open>menu_get_ipaddr\<close>, and the endless loop of the console thread.
\<close>

section \<open>A number\<close>

definition enter_key :: "byte \<Rightarrow> bool" where
  "enter_key c \<longleftrightarrow> c = 13 \<or> c = 10"

definition digit_key :: "byte \<Rightarrow> bool" where
  "digit_key c \<longleftrightarrow> key CHR ''0'' \<le> c \<and> c \<le> key CHR ''9''"

text \<open>The first \<open>n\<close> keys that will be read.\<close>

definition next_keys :: "'w console \<Rightarrow> nat \<Rightarrow> 'w \<Rightarrow> byte list" where
  "next_keys K n w = map (\<lambda>i. nth_key K i w) [0..<n]"

lemma nth_key_shift: "nth_key K i (snd (con_inbyte K w)) = nth_key K (Suc i) w"
  by (simp add: nth_key_def after_keys_def funpow_Suc_right del: funpow.simps(2))

lemma next_keys_Suc: "next_keys K (Suc n) w = nth_key K 0 w # next_keys K n (snd (con_inbyte K w))"
  by (simp add: next_keys_def map_upt_Suc nth_key_shift del: upt_Suc)

lemma read_digits_enter:
  assumes "enter_key (nth_key K n w)" and "\<forall>i<n. \<not> enter_key (nth_key K i w)" and "length buf \<le> 15"
  shows "read_digits K buf w = Some (take 15 (buf @ filter digit_key (next_keys K n w)), after_keys K (Suc n) w)"
  using assms
proof (induction n arbitrary: buf w)
  case 0
  then show ?case
    by (subst read_digits.simps)
       (auto simp: split_beta Let_def enter_key_def nth_key_def after_keys_def next_keys_def)
next
  case (Suc n)
  let ?w = "snd (con_inbyte K w)" and ?c = "nth_key K 0 w"
  have c: "fst (con_inbyte K w) = ?c" by (simp add: nth_key_def after_keys_def)
  have "\<not> enter_key ?c" using Suc.prems(2) by simp
  have "enter_key (nth_key K n ?w)" "\<forall>i<n. \<not> enter_key (nth_key K i ?w)"
    using Suc.prems(1,2) by (auto simp: nth_key_shift)
  note IH = Suc.IH [OF this]
  have after: "after_keys K (Suc n) ?w = after_keys K (Suc (Suc n)) w"
    by (simp add: after_keys_def funpow_Suc_right del: funpow.simps(2))
  show ?case
  proof (cases "digit_key ?c \<and> length buf < 15")
    case True
    then have "read_digits K buf w = read_digits K (buf @ [?c]) ?w"
      using \<open>\<not> enter_key ?c\<close> by (subst read_digits.simps) (simp add: split_beta Let_def c enter_key_def digit_key_def)
    with True show ?thesis using IH [of "buf @ [?c]"] by (simp add: next_keys_Suc after)
  next
    case False
    then have "read_digits K buf w = read_digits K buf ?w"
      using \<open>\<not> enter_key ?c\<close> by (subst read_digits.simps) (auto simp: split_beta Let_def c enter_key_def digit_key_def)
    moreover have "take 15 (buf @ filter digit_key (?c # ks)) = take 15 (buf @ filter digit_key ks)" for ks
      using False Suc.prems(3) by auto
    ultimately show ?thesis using IH [OF Suc.prems(3)] by (simp add: next_keys_Suc after)
  qed
qed

lemma read_digits_only_enter:
  assumes "read_digits K buf w = Some y"
  shows "\<exists>n. enter_key (nth_key K n w)"
proof (rule read_digits.raw_induct [where P = "\<lambda>K buf w y. \<exists>n. enter_key (nth_key K n w)", OF _ assms], goal_cases)
  case (1 rd K buf w y)
  let ?c = "fst (con_inbyte K w)" and ?w = "snd (con_inbyte K w)"
  show ?case
  proof (cases "enter_key ?c")
    case True
    then show ?thesis by (intro exI [of _ 0]) (simp add: nth_key_def after_keys_def)
  next
    case False
    then have "rd K buf ?w = Some y \<or> rd K (buf @ [?c]) ?w = Some y"
      using 1(2) by (auto simp: split_beta Let_def enter_key_def split: if_splits)
    then obtain n where "enter_key (nth_key K n ?w)" using 1(1) by blast
    then show ?thesis by (intro exI [of _ "Suc n"]) (simp add: nth_key_shift)
  qed
qed

text \<open>
  C18. The prompt for a number returns exactly when the end of a line is typed at some time, however
  many other keys come before it. It then returns the number that the first fifteen digits of the
  line give (other keys are ignored), and has taken exactly the keys of the line.
\<close>

theorem percent_input_returns:
  fixes s :: "('w, 'x) core_scheme" and K :: "'w console"
  defines "line \<equiv> LEAST n. enter_key (nth_key K n (world s))"
  shows "run_state (get_percent_input K) s =
    (if \<exists>n. enter_key (nth_key K n (world s))
     then (Some (atoi (take 15 (filter digit_key (next_keys K line (world s))))),
       s\<lparr>world := after_keys K (Suc line) (world s)\<rparr>)
     else (None, s))"
proof (cases "\<exists>n. enter_key (nth_key K n (world s))")
  case True
  then have "enter_key (nth_key K line (world s))" unfolding line_def by (rule LeastI_ex)
  moreover have "\<forall>i<line. \<not> enter_key (nth_key K i (world s))" unfolding line_def using not_less_Least by blast
  ultimately show ?thesis
    using True read_digits_enter [of K line "world s" "[]"] by (simp add: get_percent_input_def)
next
  case False
  then have "read_digits K [] (world s) = None"
    using read_digits_only_enter [of K "[]" "world s"] by (cases "read_digits K [] (world s)") auto
  with False show ?thesis by (simp add: get_percent_input_def)
qed

end
