(* ===== verification/Diagnostics.thy ===== *)
theory Diagnostics
  imports Sadata_Props Console_Input
begin

text \<open>
  What the firmware tells its operator: the error messages of \<open>pscmsg.c\<close>, the report of the
  settings in flash, the table of tasks, the ramp table, the uptime in the log, and the address
  prompt of the console. Printing is modelled by what is printed.
\<close>

section \<open>Error messages\<close>

text \<open>
  \<open>psc_verror\<close> sends the text in a buffer of \<open>THREAD_STACKSIZE / 32\<close> bytes on the stack.
  \<open>formatted\<close> is what the format and its arguments give; \<open>vsnprintf\<close> stores what fits of it and
  a zero, and leaves the rest of the buffer alone.
\<close>

definition THREAD_STACKSIZE :: nat where "THREAD_STACKSIZE = 1024"

definition vsnprintf :: "nat \<Rightarrow> byte list \<Rightarrow> byte list \<Rightarrow> byte list" where
  "vsnprintf n formatted buf = overwrite (take (n - 1) formatted @ [0]) buf"

definition psc_verror ::
  "'w platform \<Rightarrow> ('w, 'x) net_scheme psc_config \<Rightarrow> int \<Rightarrow> byte list \<Rightarrow> (('w, 'x) net_scheme, unit) state" where
  "psc_verror P conf code formatted = do {
     msg \<leftarrow> stack_bytes P (THREAD_STACKSIZE div 32);
     let msg = vsnprintf (length msg) formatted msg;
     let msg = msg[length msg - 1 := 0];
     psc_send P conf (word_of_int code) (of_nat (length msg)) msg
   }"

definition psc_error ::
  "'w platform \<Rightarrow> ('w, 'x) net_scheme psc_config \<Rightarrow> int \<Rightarrow> byte list \<Rightarrow> (('w, 'x) net_scheme, unit) state" where
  "psc_error P conf code formatted = psc_verror P conf code formatted"

lemma length_stack_bytes: "length (result (stack_bytes P n) s) = n"
  by (simp add: stack_bytes_def run_simps)

text \<open>
  An error message is one frame of 32 bytes whose text, up to its zero, is the formatted text cut
  after 31 bytes.
\<close>

theorem error_message:
  fixes s :: "('w, 'x) net_scheme" and P :: "'w platform"
  assumes "client_sock s = c" and "0 \<le> c" and "notify conf PSC_DIS = skip" and "0 \<notin> set formatted"
  shows "\<exists>msg. sends_frame c (psc_frame (word_of_int code) msg 32) s (exec (psc_error P conf code formatted) s) \<and>
    length msg = 32 \<and> takeWhile (\<lambda>b. b \<noteq> 0) msg = take 31 formatted"
proof -
  let ?stk = "result (stack_bytes P 32) s"
  let ?txt = "take 31 formatted @ [0]"
  define msg where "msg = (overwrite ?txt ?stk)[31 := 0]"
  have len: "length (overwrite ?txt ?stk) = 32" by (simp add: overwrite_def length_stack_bytes)
  have "exec (stack_bytes P 32) s = s" by (simp add: stack_bytes_def run_simps)
  then have run: "exec (psc_error P conf code formatted) s = exec (psc_send P conf (word_of_int code) 32 msg) s"
    using len by (simp add: psc_error_def psc_verror_def vsnprintf_def THREAD_STACKSIZE_def exec_bind Let_def
        length_stack_bytes msg_def)
  have zero: "\<exists>r'. (0 # r)[j := 0] = (0 :: byte) # r'" for r j by (cases j) auto
  have "msg = take 31 formatted @ (0 # drop (Suc (length (take 31 formatted))) ?stk)[31 - length (take 31 formatted) := 0]"
    by (simp add: msg_def overwrite_def list_update_append)
  then obtain rest where "msg = take 31 formatted @ 0 # rest" using zero by metis
  moreover have "0 \<notin> set (take 31 formatted)" using assms(4) by (meson in_set_takeD)
  ultimately have "takeWhile (\<lambda>b. b \<noteq> 0) msg = take 31 formatted"
    by (auto simp: takeWhile_append)
  moreover have "length msg = 32" by (simp add: msg_def len)
  ultimately show ?thesis
    using psc_send_frame [OF assms(1-3), of "word_of_int code" msg 32 P] run by auto
qed

section \<open>The log\<close>

text \<open>The time in a log line; \<open>configTICK_RATE_HZ\<close> belongs to the operating system.\<close>

definition net_uptime_ms :: "u32 \<Rightarrow> u32 \<Rightarrow> u32" where
  "net_uptime_ms rate ticks = ucast ((ucast ticks * 1000 :: 64 word) div ucast rate)"

lemma net_uptime_ms_value: "unat (net_uptime_ms rate ticks) = (unat ticks * 1000 div unat rate) mod 2 ^ 32"
proof -
  have "unat ticks < 2 ^ 32" using unsigned_less [of ticks] by simp
  then have "unat (ucast ticks * 1000 :: 64 word) = unat ticks * 1000"
    by (simp add: unat_word_ariths unsigned_ucast_eq take_bit_nat_eq_self)
  moreover have "unat rate < 2 ^ 32" using unsigned_less [of rate] by simp
  then have "unat rate mod 18446744073709551616 = unat rate" by simp
  ultimately show ?thesis
    by (simp add: net_uptime_ms_def unsigned_ucast_eq unat_div_distrib take_bit_eq_mod)
qed

section \<open>The settings in flash\<close>

text \<open>
  \<open>QspiPrintData\<close> prints the block of a channel, a line per field. A number is printed as the C
  expression computes it, from a field of the type that \<open>QspiData_t\<close> declares for it.
\<close>

datatype printed = Hex u32 | Num fp

definition print_dac :: "int \<Rightarrow> f32 \<Rightarrow> ScaleFactorType \<Rightarrow> printed" where
  "print_dac v conv sf = Num (fp_mul single (fp_mul single (fp_of_int single v) (f32_val conv)) (f32_val (dac_dccts sf)))"

definition print_mon :: "int \<Rightarrow> f32 \<Rightarrow> printed" where
  "print_mon v f = Num (fp_mul double (fp_mul double (fp_of_int double v) CONV16BITSTOVOLTS) (f32_val f))"

definition print_gain :: "int \<Rightarrow> printed" where
  "print_gain v = Num (fp_div double (fp_of_int double v) GAIN20BITFRACT)"

definition print_limit :: "u32 \<Rightarrow> printed" where
  "print_limit v = Num (fp_div double (fp_of_int double (uint v)) SAMPLERATE)"

definition QspiPrintData :: "u32 list \<Rightarrow> f32 \<Rightarrow> ScaleFactorType \<Rightarrow> (string \<times> printed) list" where
  "QspiPrintData d conv sf = (
     let s = (\<lambda>i. sint (d ! i)); u = (\<lambda>i. uint (d ! i)) in
     [(''header'', Hex (d ! 0)),
      (''dac_setpt_offset'', print_dac (s 1) conv sf), (''dac_setpt_gain'', print_gain (s 2)),
      (''dcct1_offset'', print_dac (u 3) conv sf), (''dcct1_gain'', print_gain (u 4)),
      (''dcct2_offset'', print_dac (u 5) conv sf), (''dcct2_gain'', print_gain (u 6)),
      (''dacmon_offset'', print_mon (s 7) (dac_dccts sf)), (''dacmon_gain'', print_gain (s 8)),
      (''volt_offset'', print_mon (s 9) (vout sf)), (''volt_gain'', print_gain (s 10)),
      (''gnd_offset'', print_mon (s 11) (ignd sf)), (''gnd_gain'', print_gain (s 12)),
      (''spare_offset'', print_mon (s 13) (spare sf)), (''spare_gain'', print_gain (s 14)),
      (''reg_offset'', print_mon (s 15) (regulator sf)), (''reg_gain'', print_gain (s 16)),
      (''error_offset'', print_mon (s 17) (error_sf sf)), (''error_gain'', print_gain (s 18)),
      (''ovc1_thresh'', print_dac (u 19) conv sf), (''ovc2_thresh'', print_dac (u 20) conv sf),
      (''ovv_thresh'', print_mon (u 21) (vout sf)), (''err1_thresh'', print_mon (u 22) (error_sf sf)),
      (''err2_thresh'', print_mon (u 23) (error_sf sf)), (''ignd_thresh'', print_mon (u 24) (ignd sf)),
      (''ovc1_cntlim'', print_limit (d ! 25)), (''ovc2_cntlim'', print_limit (d ! 26)),
      (''ovv_cntlim'', print_limit (d ! 27)), (''err1_cntlim'', print_limit (d ! 28)),
      (''err2_cntlim'', print_limit (d ! 29)), (''ignd_cntlim'', print_limit (d ! 30)),
      (''dcct_cntlim'', print_limit (d ! 31)), (''flt1_cntlim'', print_limit (d ! 32)),
      (''flt2_cntlim'', print_limit (d ! 33)), (''flt3_cntlim'', print_limit (d ! 34)),
      (''on_cntlim'', print_limit (d ! 35)), (''heartbeat_cntlim'', print_limit (d ! 36)),
      (''fault_mask'', Hex (d ! 37)),
      (''sf_ampspersec'', Num (f32_val (d ! 38))), (''sf_dac_dccts'', Num (f32_val (d ! 39))),
      (''sf_vout'', Num (f32_val (d ! 40))), (''sf_ignd'', Num (f32_val (d ! 41))),
      (''sf_spare'', Num (f32_val (d ! 42))), (''sf_regulator'', Num (f32_val (d ! 43))),
      (''sf_error'', Num (f32_val (d ! 44)))])"

text \<open>
  The fields that \<open>QspiData_t\<close> declares as the slow data reports them: their number in the block
  and the conversion of the slow data.
\<close>

definition reported_rows :: "ScaleFactorType \<Rightarrow> (string \<times> nat \<times> (u32 \<Rightarrow> f32)) list" where
  "reported_rows sf =
     [(''dac_setpt_gain'', 2, sa_gain), (''dacmon_gain'', 8, sa_gain), (''volt_gain'', 10, sa_gain),
      (''gnd_gain'', 12, sa_gain), (''spare_gain'', 14, sa_gain), (''reg_gain'', 16, sa_gain), (''error_gain'', 18, sa_gain),
      (''dacmon_offset'', 7, \<lambda>v. sa_mon (fp_of_int double (sint v)) (dac_dccts sf)),
      (''volt_offset'', 9, \<lambda>v. sa_mon (fp_of_int double (sint v)) (vout sf)),
      (''gnd_offset'', 11, \<lambda>v. sa_mon (fp_of_int double (sint v)) (ignd sf)),
      (''spare_offset'', 13, \<lambda>v. sa_mon (fp_of_int double (sint v)) (spare sf)),
      (''reg_offset'', 15, \<lambda>v. sa_mon (fp_of_int double (sint v)) (regulator sf)),
      (''error_offset'', 17, \<lambda>v. sa_mon (fp_of_int double (sint v)) (error_sf sf)),
      (''ovc1_cntlim'', 25, sa_cntlim), (''ovc2_cntlim'', 26, sa_cntlim), (''ovv_cntlim'', 27, sa_cntlim),
      (''err1_cntlim'', 28, sa_cntlim), (''err2_cntlim'', 29, sa_cntlim), (''ignd_cntlim'', 30, sa_cntlim),
      (''dcct_cntlim'', 31, sa_cntlim), (''flt1_cntlim'', 32, sa_cntlim), (''flt2_cntlim'', 33, sa_cntlim),
      (''flt3_cntlim'', 34, sa_cntlim), (''on_cntlim'', 35, sa_cntlim), (''heartbeat_cntlim'', 36, sa_cntlim)]"

lemma printed_as_reported:
  assumes "(name, i, f) \<in> set (reported_rows sf)"
  shows "\<exists>x. map_of (QspiPrintData d conv sf) name = Some (Num x) \<and> f32_bits (fp_cast single x) = f (d ! i)"
  using assms unfolding reported_rows_def set_simps insert_iff empty_iff prod.inject
  by (elim disjE conjE FalseE)
     (simp_all add: QspiPrintData_def Let_def print_gain_def print_mon_def print_limit_def sa_gain_def sa_mon_def sa_cntlim_def)

text \<open>
  The four fields of the DC current transformers are declared unsigned, unlike the others. A gain
  of -1, reported as such by the slow data, is printed as 4095.
\<close>

lemma dcct_gain_misprinted:
  "\<exists>x. map_of (QspiPrintData (replicate 4 0 @ [0xFFF00001] @ replicate 40 0) 0 sf_zero) ''dcct1_gain'' = Some (Num x) \<and>
     s32_of_fp x = 4095 \<and> s32_of_fp (f32_val (sa_gain 0xFFF00001)) = -1"
proof (intro exI conjI)
  show "map_of (QspiPrintData (replicate 4 0 @ [0xFFF00001] @ replicate 40 0) 0 sf_zero) ''dcct1_gain'' =
      Some (Num (fp_div double (fp_of_int double 4293918721) GAIN20BITFRACT))"
    by (simp add: QspiPrintData_def Let_def print_gain_def nth_append)
  show "s32_of_fp (fp_div double (fp_of_int double 4293918721) GAIN20BITFRACT) = 4095"
    by code_simp
  show "s32_of_fp (f32_val (sa_gain 0xFFF00001)) = -1"
    by code_simp
qed

section \<open>The tasks\<close>

datatype eTaskState = eRunning | eReady | eBlocked | eSuspended | eDeleted | eInvalid

record task_status =
  pcTaskName :: string
  eCurrentState :: eTaskState
  uxCurrentPriority :: u32
  usStackHighWaterMark :: u32
  ulRunTimeCounter :: u32

definition MAX_TASKS :: nat where "MAX_TASKS = 16"

fun stateChar :: "eTaskState \<Rightarrow> char" where
  "stateChar eRunning = CHR ''R''"
| "stateChar eReady = CHR ''Y''"
| "stateChar eBlocked = CHR ''B''"
| "stateChar eSuspended = CHR ''S''"
| "stateChar eDeleted = CHR ''D''"
| "stateChar eInvalid = CHR ''?''"

definition cpuPercent :: "u32 \<Rightarrow> u32 \<Rightarrow> fp" where
  "cpuPercent totalRunTime counter = (if 0 < totalRunTime
     then fp_div single (fp_mul single (fp_of_int single (uint counter)) (fp_lit single 100 1)) (fp_of_int single (uint totalRunTime))
     else fp_lit single 0 1)"

text \<open>
  The printed lines. \<open>uxTaskGetSystemState\<close> of the operating system fills an array of \<open>MAX_TASKS\<close>
  and returns how many entries it wrote and the total run time.
\<close>

definition printTaskStats ::
  "(nat \<Rightarrow> 'w \<Rightarrow> task_status list \<times> u32) \<Rightarrow> 'w \<Rightarrow> (string \<times> char \<times> u32 \<times> u32 \<times> u32 \<times> fp) list" where
  "printTaskStats uxTaskGetSystemState w = (case uxTaskGetSystemState MAX_TASKS w of (tasks, totalRunTime) \<Rightarrow>
     map (\<lambda>t. (pcTaskName t, stateChar (eCurrentState t), uxCurrentPriority t, usStackHighWaterMark t,
       ulRunTimeCounter t, cpuPercent totalRunTime (ulRunTimeCounter t))) tasks)"

section \<open>The ramp table\<close>

text \<open>The values of a ramp table message as they are printed.\<close>

definition load_ramptable :: "byte list \<Rightarrow> u32 \<Rightarrow> (nat \<times> fp) list" where
  "load_ramptable msg msglen =
     map (\<lambda>i. (i, f32_val (htonl (load32 msg i)))) [0..<unat msglen div 4]"

section \<open>The address prompt\<close>

text \<open>
  \<open>menu_get_ipaddr\<close> stores keys in an array of 40 bytes without looking at its index, which a
  backspace decrements. The inner \<open>None\<close> is a store outside the array.
\<close>

partial_function (option) read_ipaddr ::
  "'w console \<Rightarrow> byte list \<Rightarrow> u32 \<Rightarrow> 'w \<Rightarrow> (byte list option \<times> 'w) option" where
  "read_ipaddr K ip_addr index w = (let (c, w') = con_inbyte K w in
     if c = 8 then read_ipaddr K ip_addr (index - 1) w'
     else if length ip_addr \<le> unat index then Some (None, w')
     else if c = 13 then Some (Some (ip_addr[unat index := 10]), w')
     else read_ipaddr K (ip_addr[unat index := c]) (index + 1) w')"

text \<open>\<open>scan\<close> is \<open>sscanf\<close> with the format of the function, on the array and the four octets.\<close>

definition menu_get_ipaddr ::
  "'w platform \<Rightarrow> 'w console \<Rightarrow> (byte list \<Rightarrow> byte list \<Rightarrow> byte list) \<Rightarrow> byte list \<Rightarrow>
     (('w, 'x) core_scheme, byte list option) state" where
  "menu_get_ipaddr P K scan octets = do {
     ip_addr \<leftarrow> stack_bytes P 40;
     State (\<lambda>s. case read_ipaddr K ip_addr 0 (world s) of
         None \<Rightarrow> (None, s)
       | Some (None, w) \<Rightarrow> (Some octets, s\<lparr>world := w, trace := trace s @ [UB]\<rparr>)
       | Some (Some line, w) \<Rightarrow> (Some (scan line octets), s\<lparr>world := w\<rparr>))
   }"

text \<open>A backspace at the start of the line makes the next key go far outside the array.\<close>

lemma ipaddr_backspace:
  assumes "nth_key K 0 (world s) = 8" and "nth_key K 1 (world s) \<noteq> 8"
  shows "trace (exec (menu_get_ipaddr P K scan octets) s) = trace s @ [UB]"
proof -
  have stk: "length (result (stack_bytes P 40) s) = 40" "exec (stack_bytes P 40) s = s"
    by (simp_all add: length_stack_bytes, simp add: stack_bytes_def run_simps)
  have wrap: "40 \<le> unat (- 1 :: u32)" by (simp add: unsigned_minus_1_eq_mask mask_eq_exp_minus_1)
  have "read_ipaddr K buf 0 (world s) = Some (None, after_keys K 2 (world s))" if "length buf = 40" for buf
    using assms that
    by (subst read_ipaddr.simps, simp add: nth_key_def after_keys_def split_beta Let_def)
       (subst read_ipaddr.simps, simp add: split_beta Let_def numeral_2_eq_2 wrap)
  with stk show ?thesis
    unfolding menu_get_ipaddr_def by (simp only: exec_bind) (simp add: exec_def)
qed

section \<open>The console thread\<close>

text \<open>
  The endless loop around the menu: \<open>n\<close> times the menu, each time for at most \<open>k\<close> of its turns.
\<close>

fun console_menu ::
  "nat \<Rightarrow> nat \<Rightarrow> 'w platform \<Rightarrow> 'w i2c_driver \<Rightarrow> 'w console \<Rightarrow> (('w, 'x) ctl_scheme, unit option) state" where
  "console_menu 0 k P I K = State_Monad.return (Some ())"
| "console_menu (Suc n) k P I K = and_then (do {
     silently (task_delay I (pdMS_TO_TICKS P 10));
     exec_menu k P I K (menu P I K)
   }) (\<lambda>quit. if quit then console_menu n k P I K else State_Monad.return (Some ()))"

end
